(* ===== verification/Prelude.thy ===== *)
theory Prelude
  imports Main "HOL-Library.Word" "HOL-Library.Monad_Syntax"
begin

text \<open>
  What every component of the lighting-gateway firmware shares: the lemma collections, the
  types of \<^verbatim>\<open>main/include/app_common.h\<close>, the 32-bit arithmetic of C's \<open>int\<close>, and
  the functions of the C library the sources call on strings (\<^verbatim>\<open>strlen\<close>, \<^verbatim>\<open>strstr\<close>,
  \<^verbatim>\<open>strncmp\<close>, \<^verbatim>\<open>memcmp\<close>, the integer conversions of \<^verbatim>\<open>sprintf\<close> and
  \<^verbatim>\<open>sscanf\<close>). A C string is a HOL \<open>string\<close> (a \<open>char\<close> is a byte); a null pointer is
  \<open>None\<close>; a computation that dereferences a null pointer or a freed object is \<open>None\<close>.
\<close>

section \<open>Lemma collections\<close>

named_theorems op_defs \<open>definitions of operations, unfolded in case analyses\<close>
named_theorems frame \<open>what an operation leaves unchanged\<close>
named_theorems clib \<open>evaluation of the C library model\<close>

unbundle bit_operations_syntax

section \<open>Types of app\_common.h\<close>

type_synonym byte = "8 word"

datatype esp_err_t =
    ESP_OK | ESP_FAIL | ESP_ERR_INVALID_ARG | ESP_ERR_INVALID_STATE | ESP_ERR_NOT_FOUND
  | ESP_ERR_NVS_NOT_FOUND | ESP_ERR_NVS_NO_FREE_PAGES | ESP_ERR_NVS_NEW_VERSION_FOUND
  | ESP_ERR_OTHER int

record active_time_t =
  at_start_hour :: int
  at_start_minute :: int
  at_end_hour :: int
  at_end_minute :: int

record phases_data_t =
  ph_p1 :: "32 word"
  ph_p2 :: "32 word"
  ph_p3 :: "32 word"
  ph_u1 :: "32 word"
  ph_u2 :: "32 word"
  ph_u3 :: "32 word"
  ph_i1 :: "32 word"
  ph_i2 :: "32 word"
  ph_i3 :: "32 word"
  ph_phy1 :: "32 word"
  ph_phy2 :: "32 word"
  ph_phy3 :: "32 word"
  ph_power :: "32 word"

record date_time_form_t =
  dt_hour :: int
  dt_minute :: int
  dt_day :: int
  dt_month :: int
  dt_year :: int
  dt_second :: int

datatype operator_mode_t = OPERATOR_MODE_OFF | OPERATOR_MODE_AUTO | OPERATOR_MODE_MANUAL

datatype app_controller_mode_t =
    APP_CONTROLLER_INPUT_MODE_OFF | APP_CONTROLLER_INPUT_MODE_AUTO
  | APP_CONTROLLER_INPUT_MODE_MANUAL

datatype app_schedule_schedule_type_t =
    SCHEDULE_TYPE_NONE | SCHEDULE_TYPE_ACTIVE_START | SCHEDULE_TYPE_ACTIVE_END | SCHEDULE_TYPE_MAX

text \<open>
  The components report to \<^verbatim>\<open>app_main.c\<close> through one function pointer of type
  \<^verbatim>\<open>void(int event_id, void* data, int data_len)\<close>. The event identifiers are numbered per
  component from a base; \<open>data\<close> points to an object whose type depends on the identifier, so
  the pointer is an optional value of a tagged union.
\<close>

datatype cb_data =
    CbBool bool
  | CbActiveTime active_time_t
  | CbDateTime date_time_form_t
  | CbPhases phases_data_t
  | CbMode app_controller_mode_t
  | CbSchedule app_schedule_schedule_type_t

record cb_event =
  ev_id :: int
  ev_data :: "cb_data option"
  ev_len :: int

definition APP_WEBSOCKET_EVENT_BASE :: int where "APP_WEBSOCKET_EVENT_BASE = 0"
definition APP_SCHEDULE_EVENT_BASE :: int where "APP_SCHEDULE_EVENT_BASE = 100"
definition APP_NEXTION_EVENT_BASE :: int where "APP_NEXTION_EVENT_BASE = 200"
definition APP_MODBUS_EVENT_BASE :: int where "APP_MODBUS_EVENT_BASE = 300"
definition APP_CONTROLLER_EVENT_BASE :: int where "APP_CONTROLLER_EVENT_BASE = 400"
definition APP_GPS_EVENT_BASE :: int where "APP_GPS_EVENT_BASE = 500"

definition WEBSOCKET_ON_CONNECTED :: int where
  "WEBSOCKET_ON_CONNECTED = APP_WEBSOCKET_EVENT_BASE + 1"
definition WEBSOCKET_ON_DISCONNECTED :: int where
  "WEBSOCKET_ON_DISCONNECTED = APP_WEBSOCKET_EVENT_BASE + 2"
definition WEBSOCKET_ON_CONTROL :: int where
  "WEBSOCKET_ON_CONTROL = APP_WEBSOCKET_EVENT_BASE + 3"
definition WEBSOCKET_ON_ONLINE :: int where
  "WEBSOCKET_ON_ONLINE = APP_WEBSOCKET_EVENT_BASE + 4"
definition WEBSOCKET_ON_SETTING_ACTIVE_TIME :: int where
  "WEBSOCKET_ON_SETTING_ACTIVE_TIME = APP_WEBSOCKET_EVENT_BASE + 5"
definition WEBSOCKET_ON_FORCE_OTA :: int where
  "WEBSOCKET_ON_FORCE_OTA = APP_WEBSOCKET_EVENT_BASE + 6"
definition WEBSOCKET_ON_FREE :: int where
  "WEBSOCKET_ON_FREE = APP_WEBSOCKET_EVENT_BASE + 7"
definition APP_SCHEDULE_EVENT_TRIGGER :: int where
  "APP_SCHEDULE_EVENT_TRIGGER = APP_SCHEDULE_EVENT_BASE + 1"
definition APP_NEXTION_EVENT_MANUAL_ON :: int where
  "APP_NEXTION_EVENT_MANUAL_ON = APP_NEXTION_EVENT_BASE + 1"
definition APP_NEXTION_EVENT_MANUAL_OFF :: int where
  "APP_NEXTION_EVENT_MANUAL_OFF = APP_NEXTION_EVENT_BASE + 2"
definition APP_NEXTION_EVENT_SYNC_TIME :: int where
  "APP_NEXTION_EVENT_SYNC_TIME = APP_NEXTION_EVENT_BASE + 3"
definition APP_NEXTION_EVENT_SET_TIME :: int where
  "APP_NEXTION_EVENT_SET_TIME = APP_NEXTION_EVENT_BASE + 4"
definition APP_NEXTION_EVENT_SET_SCHEDULE :: int where
  "APP_NEXTION_EVENT_SET_SCHEDULE = APP_NEXTION_EVENT_BASE + 5"
definition APP_MODBUS_EVENT_DATA :: int where
  "APP_MODBUS_EVENT_DATA = APP_MODBUS_EVENT_BASE + 1"
definition APP_CONTROLLER_EVENT_CHANGE_MODE :: int where
  "APP_CONTROLLER_EVENT_CHANGE_MODE = APP_CONTROLLER_EVENT_BASE + 1"
definition APP_CONTROLLER_EVENT_CHANGE_POWER :: int where
  "APP_CONTROLLER_EVENT_CHANGE_POWER = APP_CONTROLLER_EVENT_BASE + 2"
definition APP_GPS_EVENT_SET_TIME :: int where
  "APP_GPS_EVENT_SET_TIME = APP_GPS_EVENT_BASE + 1"

lemmas event_ids =
  WEBSOCKET_ON_CONNECTED_def WEBSOCKET_ON_DISCONNECTED_def WEBSOCKET_ON_CONTROL_def
  WEBSOCKET_ON_ONLINE_def WEBSOCKET_ON_SETTING_ACTIVE_TIME_def WEBSOCKET_ON_FORCE_OTA_def
  WEBSOCKET_ON_FREE_def APP_SCHEDULE_EVENT_TRIGGER_def APP_NEXTION_EVENT_MANUAL_ON_def
  APP_NEXTION_EVENT_MANUAL_OFF_def APP_NEXTION_EVENT_SYNC_TIME_def APP_NEXTION_EVENT_SET_TIME_def
  APP_NEXTION_EVENT_SET_SCHEDULE_def APP_MODBUS_EVENT_DATA_def
  APP_CONTROLLER_EVENT_CHANGE_MODE_def APP_CONTROLLER_EVENT_CHANGE_POWER_def
  APP_GPS_EVENT_SET_TIME_def APP_WEBSOCKET_EVENT_BASE_def APP_SCHEDULE_EVENT_BASE_def
  APP_NEXTION_EVENT_BASE_def APP_MODBUS_EVENT_BASE_def APP_CONTROLLER_EVENT_BASE_def
  APP_GPS_EVENT_BASE_def

text \<open>Sizes of the objects the events carry, as the 32-bit compiler lays them out.\<close>

definition sizeof_bool :: int where "sizeof_bool = 1"
definition sizeof_int :: int where "sizeof_int = 4"
definition sizeof_active_time_t :: int where "sizeof_active_time_t = 16"
definition sizeof_date_time_form_t :: int where "sizeof_date_time_form_t = 24"
definition sizeof_phases_data_t :: int where "sizeof_phases_data_t = 52"
definition sizeof_schedule_type_t :: int where "sizeof_schedule_type_t = 4"

lemmas sizeofs = sizeof_bool_def sizeof_int_def sizeof_active_time_t_def
  sizeof_date_time_form_t_def sizeof_phases_data_t_def sizeof_schedule_type_t_def

definition FIRMWARE_VERSION :: string where "FIRMWARE_VERSION = ''1.1.0''"
definition RESTART_HOUR :: int where "RESTART_HOUR = 12"
definition RESTAR_MINUTE :: int where "RESTAR_MINUTE = 0"

definition PWR_SIM :: int where "PWR_SIM = 13"
definition NET_SIM :: int where "NET_SIM = 23"
definition LED_ACT :: int where "LED_ACT = 27"
definition S0_MUX :: int where "S0_MUX = 12"
definition S1_MUX :: int where "S1_MUX = 14"
definition GPS_ACTIVE :: int where "GPS_ACTIVE = 32"
definition GPS_RST :: int where "GPS_RST = 33"

lemmas pin_defs = PWR_SIM_def NET_SIM_def LED_ACT_def S0_MUX_def S1_MUX_def GPS_ACTIVE_def
  GPS_RST_def

section \<open>C's int\<close>

text \<open>\<open>wrap32\<close> reads an integer in 32-bit two's complement, as the target computes on \<open>int\<close>.\<close>

definition wrap32 :: "int \<Rightarrow> int" where
  "wrap32 x = (x + 2 ^ 31) mod 2 ^ 32 - 2 ^ 31"

definition int_range :: "int \<Rightarrow> bool" where
  "int_range x \<longleftrightarrow> - (2 ^ 31) \<le> x \<and> x < 2 ^ 31"

lemma wrap32_in_range: "int_range (wrap32 x)"
proof -
  have "0 \<le> (x + 2 ^ 31) mod 2 ^ 32" "(x + 2 ^ 31) mod 2 ^ 32 < 2 ^ 32" by simp_all
  then show ?thesis by (simp add: wrap32_def int_range_def)
qed

lemma wrap32_id [simp]: "int_range x \<Longrightarrow> wrap32 x = x"
  by (simp add: wrap32_def int_range_def)

text \<open>The value a C \<open>uint8_t\<close> keeps of an \<open>int\<close>.\<close>

definition u8 :: "int \<Rightarrow> byte" where
  "u8 x = word_of_int x"

lemma uint_u8: "0 \<le> x \<Longrightarrow> x < 256 \<Longrightarrow> uint (u8 x) = x"
  by (simp add: u8_def uint_word_of_int)

text \<open>An \<open>int\<close> in memory: four bytes, the low one first.\<close>

definition le32 :: "int \<Rightarrow> byte list" where
  "le32 x = [u8 x, u8 (x div 2 ^ 8), u8 (x div 2 ^ 16), u8 (x div 2 ^ 24)]"

definition of_le32 :: "byte list \<Rightarrow> int" where
  "of_le32 bs = wrap32 (uint (bs ! 0) + 2 ^ 8 * uint (bs ! 1) + 2 ^ 16 * uint (bs ! 2)
     + 2 ^ 24 * uint (bs ! 3))"

lemma length_le32 [simp]: "length (le32 x) = 4"
  by (simp add: le32_def)

lemma mod_bytes:
  fixes x :: int
  shows "x mod 2 ^ 8 + 2 ^ 8 * (x div 2 ^ 8 mod 2 ^ 8) + 2 ^ 16 * (x div 2 ^ 16 mod 2 ^ 8)
    + 2 ^ 24 * (x div 2 ^ 24 mod 2 ^ 8) = x mod 2 ^ 32"
proof -
  have "x mod 2 ^ 16 = 2 ^ 8 * (x div 2 ^ 8 mod 2 ^ 8) + x mod 2 ^ 8"
    using zmod_zmult2_eq [of "2 ^ 8" x "2 ^ 8"] by simp
  moreover have "x mod 2 ^ 24 = 2 ^ 16 * (x div 2 ^ 16 mod 2 ^ 8) + x mod 2 ^ 16"
    using zmod_zmult2_eq [of "2 ^ 8" x "2 ^ 16"] by simp
  moreover have "x mod 2 ^ 32 = 2 ^ 24 * (x div 2 ^ 24 mod 2 ^ 8) + x mod 2 ^ 24"
    using zmod_zmult2_eq [of "2 ^ 8" x "2 ^ 24"] by simp
  ultimately show ?thesis by simp
qed

lemma wrap32_mod [simp]: "wrap32 (x mod 2 ^ 32) = wrap32 x"
  by (simp add: wrap32_def mod_add_left_eq)

lemma uint_u8_mod: "uint (u8 x) = x mod 2 ^ 8"
  by (simp add: u8_def uint_word_of_int)

lemma of_le32_le32: "of_le32 (le32 x @ r) = wrap32 x"
proof -
  have "of_le32 (le32 x @ r) = wrap32 (x mod 2 ^ 32)"
    unfolding mod_bytes [symmetric] by (simp add: of_le32_def le32_def uint_u8_mod)
  then show ?thesis by (simp only: wrap32_mod)
qed

lemma of_le32_range: "int_range (of_le32 bs)"
  by (simp add: of_le32_def wrap32_in_range)

end
