(* ===== verification/C_Lib.thy ===== *)
theory C_Lib
  imports Prelude
begin

text \<open>
  The C library functions on strings and numbers that the firmware calls, and their lemmas:
  searching (\<^verbatim>\<open>strstr\<close>, \<^verbatim>\<open>strncmp\<close>, \<^verbatim>\<open>memcmp\<close>), tokenising
  (\<^verbatim>\<open>strtok\<close>), bounded printing (\<^verbatim>\<open>snprintf\<close> with \<^verbatim>\<open>%s\<close>), the integer
  conversions of \<^verbatim>\<open>sprintf\<close> and \<^verbatim>\<open>sscanf\<close>, and the round trip between
  the two. None of these is code of the repository: they are the model of the library.
\<close>

section \<open>Strings\<close>

text \<open>The string a \<^verbatim>\<open>char\<close> buffer holds ends at its first NUL byte.\<close>

definition c_str :: "string \<Rightarrow> string" where
  "c_str buf = takeWhile (\<lambda>c. c \<noteq> CHR 0x00) buf"

definition starts_with :: "string \<Rightarrow> string \<Rightarrow> bool" where
  "starts_with s p \<longleftrightarrow> take (length p) s = p"

text \<open>\<^verbatim>\<open>strstr\<close> returns the rest of the string from the first occurrence on.\<close>

fun strstr :: "string \<Rightarrow> string \<Rightarrow> string option" where
  "strstr [] p = (if p = [] then Some [] else None)"
| "strstr (c # s) p = (if starts_with (c # s) p then Some (c # s) else strstr s p)"

text \<open>\<^verbatim>\<open>strtok\<close>: skip delimiters, return the token and what the next call continues from.\<close>

definition strtok :: "string \<Rightarrow> string \<Rightarrow> (string \<times> string) option" where
  "strtok s delims =
     (let t = dropWhile (\<lambda>c. c \<in> set delims) s
      in if t = [] then None
         else Some (takeWhile (\<lambda>c. c \<notin> set delims) t,
                    tl (dropWhile (\<lambda>c. c \<notin> set delims) t)))"

text \<open>
  \<^verbatim>\<open>snprintf(buf, n, "%s", s)\<close> stores at most \<open>n - 1\<close> characters and a NUL, and
  returns the length the whole string has.
\<close>

definition snprintf_s :: "nat \<Rightarrow> string \<Rightarrow> string \<times> nat" where
  "snprintf_s n s = (take (n - 1) s, length s)"

lemma starts_with_iff: "starts_with s p \<longleftrightarrow> (\<exists>t. s = p @ t)"
  unfolding starts_with_def by (metis append_eq_conv_conj append_take_drop_id)

lemma starts_with_append [simp]: "starts_with (p @ t) p"
  by (simp add: starts_with_def)

lemma strstr_iff: "strstr s p \<noteq> None \<longleftrightarrow> (\<exists>a b. s = a @ p @ b)"
proof (induction s)
  case Nil
  then show ?case by simp
next
  case (Cons c s)
  show ?case
  proof (cases "starts_with (c # s) p")
    case True
    then obtain t where "c # s = [] @ p @ t" by (auto simp: starts_with_iff)
    then have "\<exists>a b. c # s = a @ p @ b" by blast
    then show ?thesis using True by simp
  next
    case False
    have "(\<exists>a b. c # s = a @ p @ b) \<longleftrightarrow> (\<exists>a b. s = a @ p @ b)"
    proof
      assume "\<exists>a b. c # s = a @ p @ b"
      then obtain a b where ab: "c # s = a @ p @ b" by blast
      with False have "a \<noteq> []" by (auto simp: starts_with_iff)
      then obtain a' where "a = c # a'" using ab by (cases a) auto
      then show "\<exists>a b. s = a @ p @ b" using ab by auto
    next
      assume "\<exists>a b. s = a @ p @ b"
      then show "\<exists>a b. c # s = a @ p @ b" by (metis append_Cons)
    qed
    then show ?thesis using Cons.IH False by simp
  qed
qed

lemma strtok_shorter: "strtok s d = Some (t, r) \<Longrightarrow> length r < length s"
proof -
  assume a: "strtok s d = Some (t, r)"
  let ?t = "dropWhile (\<lambda>c. c \<in> set d) s"
  from a have ne: "?t \<noteq> []" and r: "r = tl (dropWhile (\<lambda>c. c \<notin> set d) ?t)"
    by (auto simp: strtok_def Let_def split: if_splits)
  from ne obtain h u where hu: "?t = h # u" by (cases ?t) auto
  then have h: "h \<notin> set d" by (metis hd_dropWhile list.sel(1) ne)
  have "length r \<le> length u"
    using r h hu by (simp add: length_dropWhile_le le_diff_conv le_SucI)
  moreover have "length ?t \<le> length s" by (simp add: length_dropWhile_le)
  ultimately show ?thesis using hu by simp
qed

lemma strtok_token_nonempty: "strtok s d = Some (t, r) \<Longrightarrow> t \<noteq> []"
  unfolding strtok_def Let_def
  by (metis (no_types, lifting) Pair_inject hd_dropWhile list.collapse list.discI option.discI
      option.inject takeWhile.simps(2))

section \<open>Integer conversions\<close>

definition is_digit :: "char \<Rightarrow> bool" where
  "is_digit c \<longleftrightarrow> 48 \<le> (of_char c :: nat) \<and> (of_char c :: nat) \<le> 57"

definition digit_val :: "char \<Rightarrow> nat" where
  "digit_val c = (of_char c :: nat) - 48"

definition digit_char :: "nat \<Rightarrow> char" where
  "digit_char d = char_of (48 + d)"

definition isspace :: "char \<Rightarrow> bool" where
  "isspace c \<longleftrightarrow> (of_char c :: nat) = 32 \<or> (9 \<le> (of_char c :: nat) \<and> (of_char c :: nat) \<le> 13)"

text \<open>\<^verbatim>\<open>%d\<close> of \<^verbatim>\<open>sprintf\<close>, and with a minimum width padded by \<open>0\<close> or by spaces.\<close>

fun dec :: "nat \<Rightarrow> string" where
  "dec n = (if n < 10 then [digit_char n] else dec (n div 10) @ [digit_char (n mod 10)])"

declare dec.simps [simp del]

definition fmt_d :: "int \<Rightarrow> string" where
  "fmt_d i = (if i < 0 then ''-'' @ dec (nat (- i)) else dec (nat i))"

definition fmt_0d :: "nat \<Rightarrow> int \<Rightarrow> string" where
  "fmt_0d w i =
     (if i < 0 then let s = dec (nat (- i)) in ''-'' @ replicate (w - 1 - length s) CHR ''0'' @ s
      else let s = dec (nat i) in replicate (w - length s) CHR ''0'' @ s)"

definition fmt_wd :: "nat \<Rightarrow> int \<Rightarrow> string" where
  "fmt_wd w i = replicate (w - length (fmt_d i)) CHR '' '' @ fmt_d i"

text \<open>
  \<^verbatim>\<open>%d\<close> of \<^verbatim>\<open>sscanf\<close>: white space, an optional sign, digits. The library converts
  through a 32-bit \<^verbatim>\<open>long\<close>, which saturates.
\<close>

fun scan_nat :: "nat \<Rightarrow> string \<Rightarrow> nat \<times> string" where
  "scan_nat acc [] = (acc, [])"
| "scan_nat acc (c # s) =
     (if is_digit c then scan_nat (10 * acc + digit_val c) s else (acc, c # s))"

definition saturate :: "int \<Rightarrow> int" where
  "saturate x = max (- (2 ^ 31)) (min (2 ^ 31 - 1) x)"

definition scan_unsigned :: "string \<Rightarrow> (nat \<times> string) option" where
  "scan_unsigned s = (case s of [] \<Rightarrow> None | c # _ \<Rightarrow> if is_digit c then Some (scan_nat 0 s) else None)"

definition scan_int :: "string \<Rightarrow> (int \<times> string) option" where
  "scan_int s =
     (let t = dropWhile isspace s
      in case t of
           [] \<Rightarrow> None
         | c # u \<Rightarrow>
             if c = CHR ''-'' then map_option (\<lambda>(n, r). (saturate (- int n), r)) (scan_unsigned u)
             else if c = CHR ''+'' then map_option (\<lambda>(n, r). (saturate (int n), r)) (scan_unsigned u)
             else map_option (\<lambda>(n, r). (saturate (int n), r)) (scan_unsigned t))"

datatype scan_item = SLit char | SSpace | SInt | SSkipStr

text \<open>The values \<^verbatim>\<open>sscanf\<close> stores, in order; it stops at the first directive that fails.\<close>

fun sscanf :: "scan_item list \<Rightarrow> string \<Rightarrow> int list" where
  "sscanf [] s = []"
| "sscanf (SLit c # f) s = (case s of [] \<Rightarrow> [] | d # r \<Rightarrow> if d = c then sscanf f r else [])"
| "sscanf (SSpace # f) s = sscanf f (dropWhile isspace s)"
| "sscanf (SInt # f) s = (case scan_int s of None \<Rightarrow> [] | Some (v, r) \<Rightarrow> v # sscanf f r)"
| "sscanf (SSkipStr # f) s =
     (let t = dropWhile isspace s
      in if t = [] then [] else sscanf f (dropWhile (\<lambda>c. \<not> isspace c) t))"

text \<open>
  The values a list of \<open>int\<close> variables has after \<^verbatim>\<open>sscanf\<close>: a prefix is overwritten,
  the others keep what they held.
\<close>

definition assign_vars :: "int list \<Rightarrow> int list \<Rightarrow> int list" where
  "assign_vars vals vars = take (length vars) vals @ drop (length vals) vars"

lemma length_assign_vars [simp]: "length (assign_vars vals vars) = length vars"
  by (simp add: assign_vars_def)

lemma of_char_digit_char: "d < 10 \<Longrightarrow> (of_char (digit_char d) :: nat) = 48 + d"
  by (simp add: digit_char_def)

lemma is_digit_digit_char [simp]: "d < 10 \<Longrightarrow> is_digit (digit_char d)"
  by (simp add: is_digit_def of_char_digit_char)

lemma digit_val_digit_char [simp]: "d < 10 \<Longrightarrow> digit_val (digit_char d) = d"
  by (simp add: digit_val_def of_char_digit_char)

lemma digit_not_space: "is_digit c \<Longrightarrow> \<not> isspace c"
  by (auto simp: is_digit_def isspace_def)

lemma digit_not_sign: "is_digit c \<Longrightarrow> c \<noteq> CHR ''-'' \<and> c \<noteq> CHR ''+''"
  by (auto simp: is_digit_def)

lemma set_dec: "c \<in> set (dec n) \<Longrightarrow> is_digit c"
proof (induction n rule: dec.induct)
  case (1 n)
  then show ?case
    by (cases "n < 10") (auto simp: dec.simps [of n])
qed

lemma dec_not_Nil [simp]: "dec n \<noteq> []"
  by (simp add: dec.simps [of n])

lemma scan_nat_append:
  "\<forall>c \<in> set ds. is_digit c \<Longrightarrow>
   scan_nat acc (ds @ r) = scan_nat (fold (\<lambda>c a. 10 * a + digit_val c) ds acc) r"
  by (induction ds arbitrary: acc) auto

lemma fold_dec: "fold (\<lambda>c a. 10 * a + digit_val c) (dec n) 0 = n"
proof (induction n rule: dec.induct)
  case (1 n)
  show ?case
  proof (cases "n < 10")
    case True
    then show ?thesis by (simp add: dec.simps [of n])
  next
    case False
    with 1 have "fold (\<lambda>c a. 10 * a + digit_val c) (dec (n div 10)) 0 = n div 10" by simp
    with False show ?thesis by (simp add: dec.simps [of n])
  qed
qed

definition no_digit_next :: "string \<Rightarrow> bool" where
  "no_digit_next s \<longleftrightarrow> (case s of [] \<Rightarrow> True | c # _ \<Rightarrow> \<not> is_digit c)"

lemma scan_nat_stop: "no_digit_next r \<Longrightarrow> scan_nat a r = (a, r)"
  by (auto simp: no_digit_next_def split: list.splits)

lemma scan_nat_zeros: "scan_nat 0 (replicate k CHR ''0'' @ s) = scan_nat 0 s"
  by (induction k) (auto simp: is_digit_def digit_val_def)

lemma scan_nat_dec: "no_digit_next r \<Longrightarrow> scan_nat 0 (dec n @ r) = (n, r)"
  by (simp add: scan_nat_append [OF ballI [OF set_dec]] fold_dec scan_nat_stop)

lemma scan_unsigned_digits:
  "s \<noteq> [] \<Longrightarrow> \<forall>c \<in> set s. is_digit c \<Longrightarrow> scan_unsigned (s @ r) = Some (scan_nat 0 (s @ r))"
  by (cases s) (auto simp: scan_unsigned_def)

lemma scan_int_digits:
  assumes "s \<noteq> []" "\<forall>c \<in> set s. is_digit c"
  shows "scan_int (s @ r) = (case scan_nat 0 (s @ r) of (n, t) \<Rightarrow> Some (saturate (int n), t))"
proof -
  obtain c u where s: "s = c # u" using assms(1) by (cases s) auto
  then have "is_digit c" using assms(2) by simp
  then have "\<not> isspace c" "c \<noteq> CHR ''-''" "c \<noteq> CHR ''+''"
    using digit_not_space digit_not_sign by auto
  then show ?thesis
    using scan_unsigned_digits [OF assms, of r] s
    by (simp add: scan_int_def split: prod.split)
qed

lemma saturate_id [simp]: "int_range x \<Longrightarrow> saturate x = x"
  by (simp add: saturate_def int_range_def)

lemma saturate_in_range: "int_range (saturate x)"
  by (simp add: saturate_def int_range_def)

text \<open>Scanning what \<^verbatim>\<open>%d\<close> and \<^verbatim>\<open>%02d\<close> print gives the number back.\<close>

lemma scan_int_fmt_d:
  assumes "int_range i" "no_digit_next r"
  shows "scan_int (fmt_d i @ r) = Some (i, r)"
proof (cases "i < 0")
  case True
  have "scan_unsigned (dec (nat (- i)) @ r) = Some (nat (- i), r)"
    using scan_unsigned_digits [of "dec (nat (- i))" r] set_dec
    by (simp add: scan_nat_dec assms(2))
  then show ?thesis using True assms(1)
    by (simp add: fmt_d_def scan_int_def isspace_def)
next
  case False
  then show ?thesis
    using scan_int_digits [of "dec (nat i)" r] set_dec assms
    by (simp add: fmt_d_def scan_nat_dec)
qed

lemma scan_int_fmt_0d:
  assumes "0 \<le> i" "int_range i" "no_digit_next r"
  shows "scan_int (fmt_0d w i @ r) = Some (i, r)"
proof -
  let ?s = "replicate (w - length (dec (nat i))) CHR ''0'' @ dec (nat i)"
  have d: "\<forall>c \<in> set ?s. is_digit c" using set_dec by (auto simp: is_digit_def)
  have "scan_int (?s @ r) = Some (i, r)"
    using scan_int_digits [OF _ d, of r] assms
    by (simp add: scan_nat_zeros scan_nat_dec)
  then show ?thesis using assms(1) by (simp add: fmt_0d_def Let_def)
qed

lemma sscanf_int_step:
  "int_range i \<Longrightarrow> no_digit_next r \<Longrightarrow> sscanf (SInt # f) (fmt_d i @ r) = i # sscanf f r"
  by (simp add: scan_int_fmt_d)

lemma no_digit_next_Cons [simp]: "no_digit_next (c # s) \<longleftrightarrow> \<not> is_digit c"
  by (simp add: no_digit_next_def)

lemma no_digit_next_Nil [simp]: "no_digit_next []"
  by (simp add: no_digit_next_def)

lemma sscanf_lits: "sscanf (map SLit p @ f) (p @ s) = sscanf f s"
  by (induction p) auto

section \<open>Printing of floats\<close>

text \<open>
  \<^verbatim>\<open>%0w.pf\<close> of \<^verbatim>\<open>sprintf\<close> on a \<open>float\<close>, kept as its IEEE bit pattern: the exact
  value rounded to \<open>p\<close> decimals, a tie to the even digit, padded with zeros to the width;
  infinities and NaNs are padded with spaces.
\<close>

definition float_sign :: "32 word \<Rightarrow> bool" where "float_sign x = bit x 31"
definition float_exp :: "32 word \<Rightarrow> int" where "float_exp x = uint (drop_bit 23 x AND 0xFF)"
definition float_man :: "32 word \<Rightarrow> int" where "float_man x = uint (x AND 0x7FFFFF)"

definition round_half_even :: "int \<Rightarrow> int \<Rightarrow> int" where
  "round_half_even n d =
     (let q = n div d; r = n mod d
      in if 2 * r < d \<or> (2 * r = d \<and> even q) then q else q + 1)"

definition float_scaled :: "nat \<Rightarrow> 32 word \<Rightarrow> int" where
  "float_scaled p x =
     (let e = float_exp x;
          man = (if e = 0 then float_man x else float_man x + 2 ^ 23);
          ex = (if e = 0 then 1 else e)
      in round_half_even (man * 2 ^ nat (ex - 150) * 10 ^ p) (2 ^ nat (150 - ex)))"

definition fmt_0f :: "nat \<Rightarrow> nat \<Rightarrow> 32 word \<Rightarrow> string" where
  "fmt_0f w p x =
     (let sign = (if float_sign x then ''-'' else [])
      in if float_exp x = 255 then
           (let s = sign @ (if float_man x = 0 then ''inf'' else ''nan'')
            in replicate (w - length s) CHR '' '' @ s)
         else
           (let q = float_scaled p x;
                s = fmt_d (q div 10 ^ p) @ ''.'' @ fmt_0d p (q mod 10 ^ p)
            in sign @ replicate (w - length sign - length s) CHR ''0'' @ s))"

lemmas clib_defs [clib] = starts_with_def strtok_def snprintf_s_def is_digit_def digit_val_def
  digit_char_def isspace_def scan_unsigned_def scan_int_def saturate_def

end
