(* ===== verification/Platform.thy ===== *)
theory Platform
  imports C_Lib
begin

text \<open>
  The environment of the firmware: clocks, pins, serial ports, the I2C bus with the DS3231 clock
  chip on it, and the non-volatile key-value store. What the program stores there is state; what
  the outside decides (an input level, the outcome of a bus transaction or of a flash access) is
  an oracle of the state: \<open>i2c_res n\<close> and \<open>nvs_res n\<close> are the outcomes of the
  \<open>n\<close>-th transaction and of the \<open>n\<close>-th access. The record is extended by each
  component with the handle \<^verbatim>\<open>app_main.c\<close> keeps for it, so that an operation of a
  component is a function on every extension of its own record.
\<close>

section \<open>Broken-down time\<close>

record tm =
  tm_sec :: int
  tm_min :: int
  tm_hour :: int
  tm_mday :: int
  tm_mon :: int
  tm_year :: int
  tm_wday :: int
  tm_isdst :: int

definition leaps :: "int \<Rightarrow> int" where
  "leaps y = y div 4 - y div 100 + y div 400"

definition is_leap :: "int \<Rightarrow> bool" where
  "is_leap y \<longleftrightarrow> y mod 4 = 0 \<and> (y mod 100 \<noteq> 0 \<or> y mod 400 = 0)"

definition days_to_year :: "int \<Rightarrow> int" where
  "days_to_year y = 365 * (y - 1970) + leaps (y - 1) - leaps 1969"

definition days_to_month :: "int \<Rightarrow> int \<Rightarrow> int" where
  "days_to_month y m =
     [0, 31, 59, 90, 120, 151, 181, 212, 243, 273, 304, 334] ! nat m
     + (if 2 \<le> m \<and> is_leap y then 1 else 0)"

text \<open>\<^verbatim>\<open>mktime\<close>: local broken-down time to seconds since the epoch, any field out of range carried.\<close>

definition mktime :: "int \<Rightarrow> tm \<Rightarrow> int" where
  "mktime utc_off t =
     (let y = 1900 + tm_year t + tm_mon t div 12; m = tm_mon t mod 12
      in (days_to_year y + days_to_month y m + tm_mday t - 1) * 86400
         + tm_hour t * 3600 + tm_min t * 60 + tm_sec t - utc_off)"

text \<open>\<^verbatim>\<open>localtime_r\<close>, with the calendar by eras of 400 years as the target's library computes it.\<close>

definition civil_date :: "int \<Rightarrow> int \<times> int \<times> int" where
  "civil_date days =
     (let z = days + 719468; era = z div 146097; doe = z mod 146097;
          yoe = (doe - doe div 1460 + doe div 36524 - doe div 146096) div 365;
          doy = doe - (365 * yoe + yoe div 4 - yoe div 100);
          mp = (5 * doy + 2) div 153;
          m = (if mp < 10 then mp + 2 else mp - 10)
      in (yoe + era * 400 + (if m < 2 then 1 else 0), m, doy - (153 * mp + 2) div 5 + 1))"

definition localtime :: "int \<Rightarrow> int \<Rightarrow> tm" where
  "localtime utc_off now =
     (let days = (now + utc_off) div 86400; rem = (now + utc_off) mod 86400
      in case civil_date days of (y, m, d) \<Rightarrow>
         \<lparr>tm_sec = rem mod 60, tm_min = rem div 60 mod 60, tm_hour = rem div 3600,
          tm_mday = d, tm_mon = m, tm_year = y - 1900,
          tm_wday = (days + 4) mod 7, tm_isdst = 0\<rparr>)"

lemma localtime_clock:
  "tm_sec (localtime u now) = (now + u) mod 86400 mod 60"
  "tm_min (localtime u now) = (now + u) mod 86400 div 60 mod 60"
  "tm_hour (localtime u now) = (now + u) mod 86400 div 3600"
  unfolding localtime_def Let_def by (simp_all only: split: prod.split) simp_all

definition tm_time_valid :: "tm \<Rightarrow> bool" where
  "tm_time_valid t \<longleftrightarrow> 0 \<le> tm_sec t \<and> tm_sec t < 60 \<and> 0 \<le> tm_min t \<and> tm_min t < 60
     \<and> 0 \<le> tm_hour t \<and> tm_hour t < 24"

lemma day_seconds:
  fixes h m s d :: int
  assumes "0 \<le> h" "h < 24" "0 \<le> m" "m < 60" "0 \<le> s" "s < 60"
  shows "(d * 86400 + h * 3600 + m * 60 + s) mod 86400 = h * 3600 + m * 60 + s"
    and "(h * 3600 + m * 60 + s) div 3600 = h"
    and "(h * 3600 + m * 60 + s) div 60 mod 60 = m"
    and "(h * 3600 + m * 60 + s) mod 60 = s"
proof -
  show "(d * 86400 + h * 3600 + m * 60 + s) mod 86400 = h * 3600 + m * 60 + s"
    by (rule int_mod_pos_eq [where q = d]) (use assms in linarith)+
  show "(h * 3600 + m * 60 + s) div 3600 = h"
    by (rule int_div_pos_eq [where r = "m * 60 + s"]) (use assms in linarith)+
  have "(h * 3600 + m * 60 + s) div 60 = h * 60 + m"
    by (rule int_div_pos_eq [where r = s]) (use assms in \<open>simp_all add: algebra_simps\<close>)
  moreover have "(h * 60 + m) mod 60 = m"
    by (rule int_mod_pos_eq [where q = h]) (use assms in linarith)+
  ultimately show "(h * 3600 + m * 60 + s) div 60 mod 60 = m" by simp
  show "(h * 3600 + m * 60 + s) mod 60 = s"
    by (rule int_mod_pos_eq [where q = "h * 60 + m"]) (use assms in \<open>simp_all add: algebra_simps\<close>)
qed

text \<open>The clock time \<^verbatim>\<open>localtime_r\<close> reads back is the one \<^verbatim>\<open>mktime\<close> was given.\<close>

lemma localtime_mktime_clock:
  assumes "tm_time_valid t"
  shows "tm_hour (localtime u (mktime u t)) = tm_hour t"
    and "tm_min (localtime u (mktime u t)) = tm_min t"
    and "tm_sec (localtime u (mktime u t)) = tm_sec t"
proof -
  let ?y = "1900 + tm_year t + tm_mon t div 12"
  let ?d = "days_to_year ?y + days_to_month ?y (tm_mon t mod 12) + tm_mday t - 1"
  have l: "mktime u t + u = ?d * 86400 + tm_hour t * 3600 + tm_min t * 60 + tm_sec t"
    by (simp add: mktime_def Let_def)
  note v = assms [unfolded tm_time_valid_def]
  note ds = day_seconds [where h = "tm_hour t" and m = "tm_min t" and s = "tm_sec t"]
  have m: "(mktime u t + u) mod 86400 = tm_hour t * 3600 + tm_min t * 60 + tm_sec t"
    unfolding l using ds(1) v by blast
  show "tm_hour (localtime u (mktime u t)) = tm_hour t"
    using ds(2) v by (simp add: localtime_clock m)
  show "tm_min (localtime u (mktime u t)) = tm_min t"
    using ds(3) v by (simp add: localtime_clock m)
  show "tm_sec (localtime u (mktime u t)) = tm_sec t"
    using ds(4) v by (simp add: localtime_clock m)
qed

lemma localtime_clock_valid: "tm_time_valid (localtime u now)"
proof -
  let ?r = "(now + u) mod 86400"
  have r: "0 \<le> ?r" "?r \<le> 86399" using pos_mod_bound [of 86400 "now + u"] by simp_all
  then have "?r div 3600 \<le> 86399 div 3600" by (intro zdiv_mono1) simp_all
  then have "?r div 3600 < 24" by simp
  moreover have "0 \<le> ?r div 3600" using r by (simp add: pos_imp_zdiv_nonneg_iff)
  ultimately have "0 \<le> ?r div 3600 \<and> ?r div 3600 < 24" by simp
  then show ?thesis by (simp add: tm_time_valid_def localtime_clock)
qed

section \<open>The I2C bus and the clock chip\<close>

datatype i2c_cmd = I2cStart | I2cWrite "byte list" | I2cRead nat | I2cStop

text \<open>
  The DS3231: a file of registers behind a register pointer. After a start condition the first
  byte is the address with the direction bit; in a write, the next byte sets the pointer and
  every further byte is stored where it points; in a read, bytes are taken from it. The pointer
  moves on by one each time. A transfer to another address is not answered: its bytes are lost and
  a read sees the idle bus, all ones.
\<close>

definition DS3231_chip_addr :: byte where "DS3231_chip_addr = 0x68"

record chip =
  regs :: "byte \<Rightarrow> byte"
  ptr :: byte

datatype bus_phase = PhIdle | PhAddr | PhReg | PhData | PhRead

fun chip_write :: "bus_phase \<Rightarrow> byte list \<Rightarrow> chip \<Rightarrow> bus_phase \<times> chip" where
  "chip_write ph [] c = (ph, c)"
| "chip_write PhAddr (b # bs) c = 
     chip_write (if drop_bit 1 b \<noteq> DS3231_chip_addr then PhIdle
                 else if b AND 1 = 1 then PhRead else PhReg) bs c"
| "chip_write PhReg (b # bs) c = chip_write PhData bs (c\<lparr>ptr := b\<rparr>)"
| "chip_write PhData (b # bs) c =
     chip_write PhData bs (c\<lparr>regs := (regs c)(ptr c := b), ptr := ptr c + 1\<rparr>)"
| "chip_write ph (b # bs) c = chip_write ph bs c"

fun chip_read :: "nat \<Rightarrow> chip \<Rightarrow> byte list \<times> chip" where
  "chip_read 0 c = ([], c)"
| "chip_read (Suc n) c =
     (case chip_read n (c\<lparr>ptr := ptr c + 1\<rparr>) of (bs, c') \<Rightarrow> (regs c (ptr c) # bs, c'))"

fun chip_exec :: "bus_phase \<Rightarrow> i2c_cmd list \<Rightarrow> chip \<Rightarrow> byte list \<times> chip" where
  "chip_exec ph [] c = ([], c)"
| "chip_exec ph (I2cStart # cs) c = chip_exec PhAddr cs c"
| "chip_exec ph (I2cWrite bs # cs) c = (case chip_write ph bs c of (ph', c') \<Rightarrow> chip_exec ph' cs c')"
| "chip_exec ph (I2cRead n # cs) c =
     (case (if ph = PhRead then chip_read n c else (replicate n 0xFF, c)) of
        (bs, c') \<Rightarrow> (case chip_exec ph cs c' of (bs', c'') \<Rightarrow> (bs @ bs', c'')))"
| "chip_exec ph (I2cStop # cs) c = chip_exec PhIdle cs c"

lemma chip_write_data_phase: "fst (chip_write PhData bs c) = PhData"
  by (induction bs arbitrary: c) auto

lemma chip_write_data_regs:
  "length bs < 256 \<Longrightarrow> regs (snd (chip_write PhData bs c)) a =
     (if unat (a - ptr c) < length bs then bs ! unat (a - ptr c) else regs c a)"
proof (induction bs arbitrary: c)
  case Nil
  then show ?case by simp
next
  case (Cons b bs)
  let ?c = "c\<lparr>regs := (regs c)(ptr c := b), ptr := ptr c + 1\<rparr>"
  have IH: "regs (snd (chip_write PhData bs ?c)) a = (if unat (a - ptr ?c) < length bs
       then bs ! unat (a - ptr ?c) else regs ?c a)"
    using Cons by simp
  show ?case
  proof (cases "a = ptr c")
    case True
    have "unat (- 1 :: byte) = 255"
      by (simp add: unsigned_minus_1_eq_mask mask_eq_exp_minus_1)
    then show ?thesis using IH True Cons.prems by simp
  next
    case False
    then have "a - ptr c \<noteq> 0" by simp
    then have s: "unat (a - ptr c) = Suc (unat (a - (ptr c + 1)))"
      by (metis Suc_pred' unat_gt_0 unat_minus_one diff_diff_eq)
    show ?thesis using IH False by (simp add: s)
  qed
qed

lemma chip_read_nth:
  "length (fst (chip_read n c)) = n \<and> regs (snd (chip_read n c)) = regs c \<and>
   (\<forall>i<n. fst (chip_read n c) ! i = regs c (ptr c + of_nat i))"
proof (induction n arbitrary: c)
  case 0
  then show ?case by simp
next
  case (Suc n)
  let ?c = "c\<lparr>ptr := ptr c + 1\<rparr>"
  obtain bs c' where r: "chip_read n ?c = (bs, c')" by fastforce
  have IH: "length bs = n" "regs c' = regs c" "\<forall>i<n. bs ! i = regs c (ptr c + 1 + of_nat i)"
    using Suc.IH [of ?c] r by auto
  have "(regs c (ptr c) # bs) ! i = regs c (ptr c + of_nat i)" if "i < Suc n" for i
    using that IH(3) by (cases i) (auto simp: add_ac)
  then show ?case using r IH by simp
qed

section \<open>The state outside the components\<close>

record platform =
  tick_ms :: int
  sys_time :: int
  utc_offset :: int
  gpio_in :: "int \<Rightarrow> int"
  gpio_out :: "int \<Rightarrow> int"
  gpio_outputs :: "int \<Rightarrow> bool"
  uart_out :: "int \<Rightarrow> string"
  rtc_chip :: chip
  i2c_res :: "nat \<Rightarrow> esp_err_t"
  i2c_count :: nat
  nvs :: "string \<times> string \<Rightarrow> byte list option"
  nvs_res :: "nat \<Rightarrow> esp_err_t"
  nvs_count :: nat
  restarted :: bool

text \<open>What the drivers do to that state.\<close>

definition gpio_set_level :: "int \<Rightarrow> int \<Rightarrow> 'a platform_scheme \<Rightarrow> 'a platform_scheme" where
  "gpio_set_level pin level w = w\<lparr>gpio_out := (gpio_out w)(pin := level)\<rparr>"

definition gpio_set_output :: "int \<Rightarrow> bool \<Rightarrow> 'a platform_scheme \<Rightarrow> 'a platform_scheme" where
  "gpio_set_output pin b w = w\<lparr>gpio_outputs := (gpio_outputs w)(pin := b)\<rparr>"

definition uart_write_bytes :: "int \<Rightarrow> string \<Rightarrow> 'a platform_scheme \<Rightarrow> 'a platform_scheme" where
  "uart_write_bytes port s w = w\<lparr>uart_out := (uart_out w)(port := uart_out w port @ s)\<rparr>"

definition settimeofday :: "int \<Rightarrow> 'a platform_scheme \<Rightarrow> 'a platform_scheme" where
  "settimeofday t w = w\<lparr>sys_time := t\<rparr>"

definition esp_restart :: "'a platform_scheme \<Rightarrow> 'a platform_scheme" where
  "esp_restart w = w\<lparr>restarted := True\<rparr>"

definition i2c_master_cmd_begin ::
    "i2c_cmd list \<Rightarrow> 'a platform_scheme \<Rightarrow> esp_err_t \<times> byte list \<times> 'a platform_scheme" where
  "i2c_master_cmd_begin cs w =
     (let r = i2c_res w (i2c_count w); w1 = w\<lparr>i2c_count := Suc (i2c_count w)\<rparr>
      in if r \<noteq> ESP_OK then (r, [], w1)
         else case chip_exec PhIdle cs (rtc_chip w) of
                (bs, c) \<Rightarrow> (ESP_OK, bs, w1\<lparr>rtc_chip := c\<rparr>))"

text \<open>Each access to the key-value store consumes one outcome; a failed one changes nothing.\<close>

definition nvs_next :: "'a platform_scheme \<Rightarrow> esp_err_t \<times> 'a platform_scheme" where
  "nvs_next w = (nvs_res w (nvs_count w), w\<lparr>nvs_count := Suc (nvs_count w)\<rparr>)"

definition nvs_set_blob ::
    "string \<Rightarrow> string \<Rightarrow> byte list \<Rightarrow> 'a platform_scheme \<Rightarrow> esp_err_t \<times> 'a platform_scheme" where
  "nvs_set_blob ns key v w =
     (case nvs_next w of (r, w1) \<Rightarrow>
        if r \<noteq> ESP_OK then (r, w1) else (ESP_OK, w1\<lparr>nvs := (nvs w1)((ns, key) \<mapsto> v)\<rparr>))"

definition nvs_get_blob ::
    "string \<Rightarrow> string \<Rightarrow> 'a platform_scheme \<Rightarrow> (esp_err_t \<times> byte list) \<times> 'a platform_scheme" where
  "nvs_get_blob ns key w =
     (case nvs_next w of (r, w1) \<Rightarrow>
        if r \<noteq> ESP_OK then ((r, []), w1)
        else case nvs w1 (ns, key) of
               None \<Rightarrow> ((ESP_ERR_NVS_NOT_FOUND, []), w1)
             | Some v \<Rightarrow> ((ESP_OK, v), w1))"

definition nvs_flash_erase :: "'a platform_scheme \<Rightarrow> esp_err_t \<times> 'a platform_scheme" where
  "nvs_flash_erase w =
     (case nvs_next w of (r, w1) \<Rightarrow> if r \<noteq> ESP_OK then (r, w1) else (ESP_OK, w1\<lparr>nvs := Map.empty\<rparr>))"

definition nvs_ok :: "'a platform_scheme \<Rightarrow> bool" where
  "nvs_ok w \<longleftrightarrow> (\<forall>n. nvs_res w n = ESP_OK)"

text \<open>A platform at rest, for concrete runs: the bus and the store answer every request.\<close>

definition idle_platform :: platform where
  "idle_platform = \<lparr>tick_ms = 0, sys_time = 0, utc_offset = 0, gpio_in = (\<lambda>_. 1), gpio_out = (\<lambda>_. 0),
     gpio_outputs = (\<lambda>_. False), uart_out = (\<lambda>_. []), rtc_chip = \<lparr>regs = (\<lambda>_. 0), ptr = 0\<rparr>,
     i2c_res = (\<lambda>_. ESP_OK), i2c_count = 0, nvs = Map.empty, nvs_res = (\<lambda>_. ESP_OK),
     nvs_count = 0, restarted = False\<rparr>"

lemmas platform_defs [op_defs] = gpio_set_level_def gpio_set_output_def uart_write_bytes_def
  settimeofday_def esp_restart_def

lemmas nvs_defs = nvs_next_def nvs_set_blob_def nvs_get_blob_def nvs_flash_erase_def

end
