(* ===== verification/App_Storage.thy ===== *)
theory App_Storage
  imports Platform
begin

text \<open>
  \<^verbatim>\<open>main/app_storage.c\<close>: the active time of the lamp kept in flash. The handle is the
  component's data; the flash is the key-value store of the platform, whose every access may
  fail. The blob is the C object as the target lays it out: two \<open>int\<close>s, a \<open>bool\<close>
  padded to four bytes, and the same again. Padding bytes are not observed by the code; they are
  written as zeros here.
\<close>

record app_storage_data_t =
  start_hour :: int
  start_minute :: int
  enable_start :: bool
  end_hour :: int
  end_minute :: int
  enable_end :: bool

definition sizeof_app_storage_data_t :: nat where
  "sizeof_app_storage_data_t = 24"

definition STORAGE_NAMESPACE :: string where "STORAGE_NAMESPACE = ''app''"
definition DATA_KEY :: string where "DATA_KEY = ''COMMON_KEY''"

record app_storage_t =
  stored_data :: app_storage_data_t

record storage_world = platform +
  storage_handle :: "app_storage_t option"

section \<open>The object in memory\<close>

definition bool_bytes :: "bool \<Rightarrow> byte list" where
  "bool_bytes b = [if b then 1 else 0, 0, 0, 0]"

definition encode_data :: "app_storage_data_t \<Rightarrow> byte list" where
  "encode_data d =
     le32 (start_hour d) @ le32 (start_minute d) @ bool_bytes (enable_start d) @
     le32 (end_hour d) @ le32 (end_minute d) @ bool_bytes (enable_end d)"

definition decode_data :: "byte list \<Rightarrow> app_storage_data_t" where
  "decode_data bs =
     \<lparr>start_hour = of_le32 bs, start_minute = of_le32 (drop 4 bs), enable_start = (bs ! 8 \<noteq> 0),
      end_hour = of_le32 (drop 12 bs), end_minute = of_le32 (drop 16 bs),
      enable_end = (bs ! 20 \<noteq> 0)\<rparr>"

text \<open>What \<^verbatim>\<open>memset(handle->data, 0, ...)\<close> leaves.\<close>

definition zero_data :: app_storage_data_t where
  "zero_data = \<lparr>start_hour = 0, start_minute = 0, enable_start = False,
                end_hour = 0, end_minute = 0, enable_end = False\<rparr>"

definition data_in_range :: "app_storage_data_t \<Rightarrow> bool" where
  "data_in_range d \<longleftrightarrow> int_range (start_hour d) \<and> int_range (start_minute d)
     \<and> int_range (end_hour d) \<and> int_range (end_minute d)"

section \<open>Operations\<close>

text \<open>
  \<open>junk\<close> is what the fresh block of \<^verbatim>\<open>malloc\<close> happens to contain. The first
  result of \<^verbatim>\<open>nvs_flash_init\<close> is returned to no one unless it is one of the two errors
  the code handles.
\<close>

definition app_storage_init ::
    "app_storage_data_t \<Rightarrow> 'a storage_world_scheme \<Rightarrow> app_storage_t option \<times> 'a storage_world_scheme" where
  "app_storage_init junk w =
     (case nvs_next w of (err, w) \<Rightarrow>
        if err = ESP_ERR_NVS_NO_FREE_PAGES \<or> err = ESP_ERR_NVS_NEW_VERSION_FOUND then
          (case nvs_flash_erase w of (err, w) \<Rightarrow>
             if err \<noteq> ESP_OK then (None, w)
             else (case nvs_next w of (err, w) \<Rightarrow>
                     if err \<noteq> ESP_OK then (None, w)
                     else (Some \<lparr>stored_data = junk\<rparr>, w)))
        else (Some \<lparr>stored_data = junk\<rparr>, w))"

definition set_stored :: "app_storage_data_t \<Rightarrow> 'a storage_world_scheme \<Rightarrow> 'a storage_world_scheme" where
  "set_stored d w = w\<lparr>storage_handle := Some \<lparr>stored_data = d\<rparr>\<rparr>"

text \<open>The part of \<^verbatim>\<open>app_storage_load_data\<close> after the first \<^verbatim>\<open>nvs_get_blob\<close>.\<close>

definition load_blob ::
    "nat \<Rightarrow> 'a storage_world_scheme \<Rightarrow> esp_err_t \<times> 'a storage_world_scheme" where
  "load_blob required_size w =
     (if required_size = 0 \<or> required_size \<noteq> sizeof_app_storage_data_t then
        (case nvs_set_blob STORAGE_NAMESPACE DATA_KEY (encode_data zero_data) w of
           (_, w) \<Rightarrow> (ESP_OK, w))
      else
        (case nvs_get_blob STORAGE_NAMESPACE DATA_KEY w of
           ((err, bs), w) \<Rightarrow>
             if err \<noteq> ESP_OK then (err, w)
             else (ESP_OK, set_stored (decode_data bs) w)))"

definition app_storage_load_data :: "'a storage_world_scheme \<Rightarrow> esp_err_t \<times> 'a storage_world_scheme" where
  "app_storage_load_data w =
     (case storage_handle w of
        None \<Rightarrow> (ESP_FAIL, w)
      | Some handle \<Rightarrow>
          (case nvs_next w of (err, w) \<Rightarrow>
             if err \<noteq> ESP_OK then (err, w)
             else
               (case nvs_get_blob STORAGE_NAMESPACE DATA_KEY (set_stored zero_data w) of
                  ((err, bs), w) \<Rightarrow>
                    if err \<noteq> ESP_OK \<and> err \<noteq> ESP_ERR_NVS_NOT_FOUND then (err, w)
                    else load_blob (length bs) w)))"

text \<open>\<^verbatim>\<open>app_storage_get_data\<close> returns the pointer without a test: no result for a null handle.\<close>

definition app_storage_get_data :: "'a storage_world_scheme \<Rightarrow> app_storage_data_t option" where
  "app_storage_get_data w = map_option stored_data (storage_handle w)"

definition app_storage_set_data ::
    "app_storage_data_t \<Rightarrow> 'a storage_world_scheme \<Rightarrow> esp_err_t \<times> 'a storage_world_scheme" where
  "app_storage_set_data d w =
     (case storage_handle w of None \<Rightarrow> (ESP_FAIL, w) | Some handle \<Rightarrow> (ESP_OK, set_stored d w))"

definition app_storage_save_data :: "'a storage_world_scheme \<Rightarrow> esp_err_t \<times> 'a storage_world_scheme" where
  "app_storage_save_data w =
     (case storage_handle w of
        None \<Rightarrow> (ESP_FAIL, w)
      | Some handle \<Rightarrow>
          (case nvs_next w of (err, w) \<Rightarrow>
             if err \<noteq> ESP_OK then (err, w)
             else (case nvs_set_blob STORAGE_NAMESPACE DATA_KEY (encode_data (stored_data handle)) w of
                     (_, w) \<Rightarrow> (ESP_OK, w))))"

text \<open>The line \<^verbatim>\<open>app_storage_print_data\<close> logs; it changes nothing.\<close>

definition app_storage_print_data :: "'a storage_world_scheme \<Rightarrow> string option" where
  "app_storage_print_data w =
     (case storage_handle w of
        None \<Rightarrow> None
      | Some handle \<Rightarrow> (let d = stored_data handle in
          Some (''active time: '' @ fmt_0d 2 (start_hour d) @ '':'' @ fmt_0d 2 (start_minute d) @
            '' - '' @ fmt_0d 2 (end_hour d) @ '':'' @ fmt_0d 2 (end_minute d) @
            '', enable: start['' @ fmt_d (of_bool (enable_start d)) @ ''] - end['' @
            fmt_d (of_bool (enable_end d)) @ '']'')))"

lemmas storage_defs = app_storage_init_def app_storage_load_data_def load_blob_def
  app_storage_get_data_def app_storage_set_data_def app_storage_save_data_def set_stored_def

section \<open>The layout loses nothing\<close>

lemma length_bool_bytes [simp]: "length (bool_bytes b) = 4"
  by (simp add: bool_bytes_def)

lemma length_encode_data [simp]: "length (encode_data d) = sizeof_app_storage_data_t"
  by (simp add: encode_data_def sizeof_app_storage_data_t_def)

lemma drop_le32 [simp]: "4 \<le> n \<Longrightarrow> drop n (le32 x @ r) = drop (n - 4) r"
  by simp

lemma nth_le32 [simp]: "4 \<le> n \<Longrightarrow> (le32 x @ r) ! n = r ! (n - 4)"
  by (simp add: nth_append)

lemma drop_bool_bytes [simp]: "4 \<le> n \<Longrightarrow> drop n (bool_bytes b @ r) = drop (n - 4) r"
  by simp

lemma nth_bool_bytes [simp]: "4 \<le> n \<Longrightarrow> (bool_bytes b @ r) ! n = r ! (n - 4)"
  by (simp add: nth_append)

lemma bool_bytes_0 [simp]: "((bool_bytes b @ r) ! 0 \<noteq> 0) = b" "(bool_bytes b ! 0 \<noteq> 0) = b"
  by (simp_all add: bool_bytes_def)

lemma decode_encode_data: "data_in_range d \<Longrightarrow> decode_data (encode_data d) = d"
  by (simp add: decode_data_def encode_data_def data_in_range_def of_le32_le32 del: drop_append)

lemma decode_data_in_range: "data_in_range (decode_data bs)"
  by (simp add: data_in_range_def decode_data_def of_le32_range)

lemma zero_data_in_range: "data_in_range zero_data"
  by (simp add: data_in_range_def zero_data_def int_range_def)

section \<open>Load, save and restart\<close>

text \<open>What the flash holds for the component: the object, or nothing of the right size.\<close>

definition flash_data :: "'a storage_world_scheme \<Rightarrow> app_storage_data_t option" where
  "flash_data w = (case nvs w (STORAGE_NAMESPACE, DATA_KEY) of
     None \<Rightarrow> None
   | Some bs \<Rightarrow> if length bs = sizeof_app_storage_data_t then Some (decode_data bs) else None)"

lemma save_data_flash:
  "storage_handle w = Some h \<Longrightarrow> nvs_ok w \<Longrightarrow> data_in_range (stored_data h) \<Longrightarrow>
   fst (app_storage_save_data w) = ESP_OK \<and>
   flash_data (snd (app_storage_save_data w)) = Some (stored_data h)"
  by (simp add: app_storage_save_data_def nvs_defs nvs_ok_def flash_data_def decode_encode_data)

lemma load_data_flash:
  assumes "storage_handle w = Some h" "nvs_ok w"
  shows "fst (app_storage_load_data w) = ESP_OK"
    and "app_storage_get_data (snd (app_storage_load_data w)) =
           Some (case flash_data w of None \<Rightarrow> zero_data | Some d \<Rightarrow> d)"
    and "flash_data w = None \<Longrightarrow> flash_data (snd (app_storage_load_data w)) = Some zero_data"
  using assms
  by (auto simp: storage_defs nvs_defs nvs_ok_def flash_data_def decode_encode_data zero_data_in_range
      sizeof_app_storage_data_t_def split: option.splits if_splits)

lemma load_data_any:
  assumes "storage_handle w = Some h" "nvs_res w (nvs_count w) = ESP_OK"
  shows "app_storage_get_data (snd (app_storage_load_data w)) = Some zero_data \<or>
         app_storage_get_data (snd (app_storage_load_data w)) = flash_data w"
  using assms
  by (auto simp: storage_defs nvs_defs flash_data_def sizeof_app_storage_data_t_def
      split: option.splits if_splits)

lemma init_flash:
  assumes "nvs_ok w"
  shows "fst (app_storage_init junk w) = Some \<lparr>stored_data = junk\<rparr>"
    and "flash_data (snd (app_storage_init junk w)) = flash_data w"
    and "nvs_ok (snd (app_storage_init junk w))"
  using assms by (simp_all add: app_storage_init_def nvs_defs nvs_ok_def flash_data_def)

text \<open>The boot sequence of \<^verbatim>\<open>app_main\<close> on this component: initialise, keep the handle, load.\<close>

definition storage_boot ::
    "app_storage_data_t \<Rightarrow> 'a storage_world_scheme \<Rightarrow> esp_err_t \<times> 'a storage_world_scheme" where
  "storage_boot junk w =
     (case app_storage_init junk w of (h, w) \<Rightarrow> app_storage_load_data (w\<lparr>storage_handle := h\<rparr>))"

lemma storage_boot_flash:
  assumes "nvs_ok w"
  shows "fst (storage_boot junk w) = ESP_OK"
    and "app_storage_get_data (snd (storage_boot junk w)) =
           Some (case flash_data w of None \<Rightarrow> zero_data | Some d \<Rightarrow> d)"
    and "flash_data w = None \<Longrightarrow> flash_data (snd (storage_boot junk w)) = Some zero_data"
proof -
  obtain h w1 where i: "app_storage_init junk w = (h, w1)" by fastforce
  let ?w = "w1\<lparr>storage_handle := h\<rparr>"
  have h: "storage_handle ?w = Some \<lparr>stored_data = junk\<rparr>" "nvs_ok ?w" "flash_data ?w = flash_data w"
    using init_flash [OF assms, of junk] i by (simp_all add: nvs_ok_def flash_data_def)
  note l = load_data_flash [OF h(1,2), unfolded h(3)]
  show "fst (storage_boot junk w) = ESP_OK" using l(1) i by (simp add: storage_boot_def)
  show "app_storage_get_data (snd (storage_boot junk w)) =
          Some (case flash_data w of None \<Rightarrow> zero_data | Some d \<Rightarrow> d)"
    using l(2) i by (simp add: storage_boot_def)
  show "flash_data w = None \<Longrightarrow> flash_data (snd (storage_boot junk w)) = Some zero_data"
    using l(3) i by (simp add: storage_boot_def)
qed


definition sample_storage :: storage_world where
  "sample_storage = platform.extend idle_platform \<lparr>storage_handle = Some \<lparr>stored_data = zero_data\<rparr>\<rparr>"

definition evening :: app_storage_data_t where
  "evening = \<lparr>start_hour = 18, start_minute = 30, enable_start = True,
              end_hour = 5, end_minute = 15, enable_end = True\<rparr>"

lemmas sample_storage_defs = sample_storage_def idle_platform_def platform.defs

lemma sample_storage_ok:
  "storage_handle sample_storage = Some \<lparr>stored_data = zero_data\<rparr>" "nvs_ok sample_storage"
  by (simp_all add: sample_storage_defs nvs_ok_def)




text \<open>Whatever the flash answers, a load that opened the store never leaves the junk of the
  allocated block in the handle: the data is all zero (both alarms disabled) or the object of the
  flash. If the store cannot be opened the load returns that error and changes no data.\<close>

theorem storage_load_never_junk:
  assumes "storage_handle w = Some h"
  shows "(if nvs_res w (nvs_count w) = ESP_OK
          then app_storage_get_data (snd (app_storage_load_data w)) \<in> {Some zero_data, flash_data w}
          else fst (app_storage_load_data w) = nvs_res w (nvs_count w) \<and>
               app_storage_get_data (snd (app_storage_load_data w)) = Some (stored_data h))"
  using load_data_any [OF assms] assms
  by (auto simp: app_storage_load_data_def nvs_next_def app_storage_get_data_def)

theorem storage_load_never_junk_witness:
  "app_storage_get_data (snd (app_storage_load_data sample_storage)) \<in> {Some zero_data, flash_data sample_storage}"
proof -
  have "nvs_res sample_storage (nvs_count sample_storage) = ESP_OK" by (simp add: sample_storage_defs)
  with storage_load_never_junk [OF sample_storage_ok(1)] show ?thesis by simp
qed

end
