(* ===== verification/App_Controller.thy ===== *)
theory App_Controller
  imports App_Storage
begin

text \<open>
  \<^verbatim>\<open>main/app_controller.c\<close>: the two relays of the lamp, the three-position switch read
  from two pins, and the task that polls it. Every operation works on the handle
  \<^verbatim>\<open>controller_handle\<close> of \<^verbatim>\<open>app_main.c\<close>, a null pointer before
  \<^verbatim>\<open>app_controller_init\<close> has returned. The function pointer \<^verbatim>\<open>handle->callback\<close>
  is the argument \<open>cb\<close>; whether the pointer is null is the field \<open>ctl_callback\<close>.
  What the controller needs of the function behind it is the locale \<open>power_listener\<close>.
\<close>

record app_controller_config_t =
  cc_relay_1_pin :: int
  cc_relay_2_pin :: int
  cc_switcher_auto_pin :: int
  cc_switcher_manual_pin :: int
  cc_callback :: bool
  cc_status_pin :: int

record app_controller_t =
  relay_1_pin :: int
  relay_2_pin :: int
  switcher_auto_pin :: int
  switcher_manual_pin :: int
  status_pin :: int
  ctl_callback :: bool
  switcher_state :: int
  ctl_mode :: app_controller_mode_t
  relay_state :: int

record controller_world = storage_world +
  controller_handle :: "app_controller_t option"

type_synonym 'w callback = "'w \<Rightarrow> cb_event \<Rightarrow> 'w option"

definition change_mode_event :: "app_controller_mode_t \<Rightarrow> cb_event" where
  "change_mode_event m =
     \<lparr>ev_id = APP_CONTROLLER_EVENT_CHANGE_MODE, ev_data = Some (CbMode m), ev_len = sizeof_int\<rparr>"

definition change_power_event :: "bool \<Rightarrow> cb_event" where
  "change_power_event b =
     \<lparr>ev_id = APP_CONTROLLER_EVENT_CHANGE_POWER, ev_data = Some (CbBool b), ev_len = sizeof_int\<rparr>"

section \<open>Operations\<close>

text \<open>\<open>junk\<close> is the content of the block \<^verbatim>\<open>malloc\<close> returns: the mode is not set.\<close>

definition app_controller_init ::
    "app_controller_t \<Rightarrow> app_controller_config_t \<Rightarrow> 'a controller_world_scheme
     \<Rightarrow> app_controller_t \<times> 'a controller_world_scheme" where
  "app_controller_init junk config w =
     (let handle = junk\<lparr>ctl_callback := cc_callback config,
            relay_1_pin := cc_relay_1_pin config, relay_2_pin := cc_relay_2_pin config,
            switcher_manual_pin := cc_switcher_manual_pin config,
            switcher_auto_pin := cc_switcher_auto_pin config,
            switcher_state := 0, status_pin := cc_status_pin config, relay_state := 0\<rparr>;
          w = gpio_set_output (relay_1_pin handle) True w;
          w = gpio_set_output (relay_2_pin handle) True w;
          w = gpio_set_output (status_pin handle) True w;
          w = gpio_set_output (switcher_auto_pin handle) False w;
          w = gpio_set_output (switcher_manual_pin handle) False w
      in (handle, w))"

definition app_controller_control_relay ::
    "'a controller_world_scheme callback \<Rightarrow> bool \<Rightarrow> 'a controller_world_scheme
     \<Rightarrow> (esp_err_t \<times> 'a controller_world_scheme) option" where
  "app_controller_control_relay cb is_active w =
     (case controller_handle w of
        None \<Rightarrow> Some (ESP_FAIL, w)
      | Some handle \<Rightarrow>
          if (relay_state handle > 0 \<and> is_active) \<or> (relay_state handle = 0 \<and> \<not> is_active)
          then Some (ESP_OK, w)
          else do {
            let level = (if is_active then 1 else 0);
            let w = w\<lparr>controller_handle := Some (handle\<lparr>relay_state := level\<rparr>)\<rparr>;
            let w = gpio_set_level (relay_1_pin handle) level w;
            let w = gpio_set_level (relay_2_pin handle) level w;
            w \<leftarrow> (if ctl_callback handle then cb w (change_power_event is_active) else Some w);
            Some (ESP_OK, w)
          })"

definition app_controller_force_manual ::
    "'a controller_world_scheme callback \<Rightarrow> bool \<Rightarrow> 'a controller_world_scheme
     \<Rightarrow> (esp_err_t \<times> 'a controller_world_scheme) option" where
  "app_controller_force_manual cb is_release w =
     (case controller_handle w of
        None \<Rightarrow> Some (ESP_FAIL, w)
      | Some handle \<Rightarrow> do {
          let mode = (if is_release = False then APP_CONTROLLER_INPUT_MODE_MANUAL else ctl_mode handle);
          w \<leftarrow> (if ctl_callback handle then cb w (change_mode_event mode) else Some w);
          Some (ESP_OK, w)
        })"

definition app_controller_get_mode :: "'a controller_world_scheme \<Rightarrow> app_controller_mode_t" where
  "app_controller_get_mode w =
     (case controller_handle w of
        None \<Rightarrow> APP_CONTROLLER_INPUT_MODE_OFF
      | Some handle \<Rightarrow> ctl_mode handle)"

section \<open>The polling task\<close>

record gpio_locals =
  gl_mode :: app_controller_mode_t
  gl_status_state :: int
  gl_log_heap_tick :: int

definition gpio_locals_init :: gpio_locals where
  "gpio_locals_init = \<lparr>gl_mode = APP_CONTROLLER_INPUT_MODE_OFF, gl_status_state = 0, gl_log_heap_tick = 0\<rparr>"

definition decode_switch :: "int \<Rightarrow> int \<Rightarrow> app_controller_mode_t" where
  "decode_switch auto_state manual_state =
     (if auto_state = 0 \<and> manual_state = 1 then APP_CONTROLLER_INPUT_MODE_AUTO
      else if auto_state = 1 \<and> manual_state = 0 then APP_CONTROLLER_INPUT_MODE_MANUAL
      else APP_CONTROLLER_INPUT_MODE_OFF)"

text \<open>The mode part of one iteration: what happens when the switch has moved.\<close>

definition gpio_mode_change ::
    "'a controller_world_scheme callback \<Rightarrow> app_controller_t \<Rightarrow> app_controller_mode_t
     \<Rightarrow> gpio_locals \<Rightarrow> 'a controller_world_scheme \<Rightarrow> (gpio_locals \<times> 'a controller_world_scheme) option" where
  "gpio_mode_change cb handle cur_mode l w =
     (if cur_mode \<noteq> gl_mode l then do {
        let w = w\<lparr>controller_handle := Some (handle\<lparr>ctl_mode := cur_mode\<rparr>)\<rparr>;
        w \<leftarrow> (if ctl_callback handle then cb w (change_mode_event cur_mode) else Some w);
        Some (l\<lparr>gl_mode := cur_mode\<rparr>, w)
      } else Some (l, w))"

definition gpio_task_step ::
    "'a controller_world_scheme callback \<Rightarrow> gpio_locals \<times> 'a controller_world_scheme
     \<Rightarrow> (gpio_locals \<times> 'a controller_world_scheme) option" where
  "gpio_task_step cb s = (case s of (l, w) \<Rightarrow> do {
     handle \<leftarrow> controller_handle w;
     let manual_state = gpio_in w (switcher_manual_pin handle);
     let auto_state = gpio_in w (switcher_auto_pin handle);
     (l, w) \<leftarrow> gpio_mode_change cb handle (decode_switch auto_state manual_state) l w;
     let w = gpio_set_level (status_pin handle) (gl_status_state l) w;
     let tick = gl_log_heap_tick l + 1;
     Some (l\<lparr>gl_status_state := (if gl_status_state l = 0 then 1 else 0),
             gl_log_heap_tick := (if tick > 20 then 0 else tick)\<rparr>, w)
   })"

lemmas controller_defs = app_controller_control_relay_def app_controller_force_manual_def
  app_controller_get_mode_def gpio_mode_change_def gpio_task_step_def

section \<open>Invariants\<close>

text \<open>The output pins of the relays show the recorded state, and that state is 0 or 1.\<close>

definition pins_distinct :: "app_controller_t \<Rightarrow> bool" where
  "pins_distinct c \<longleftrightarrow> status_pin c \<noteq> relay_1_pin c \<and> status_pin c \<noteq> relay_2_pin c"

definition relays_follow :: "'a controller_world_scheme \<Rightarrow> bool" where
  "relays_follow w \<longleftrightarrow>
     (case controller_handle w of
        None \<Rightarrow> True
      | Some c \<Rightarrow> relay_state c \<in> {0, 1} \<and> gpio_out w (relay_1_pin c) = relay_state c
                 \<and> gpio_out w (relay_2_pin c) = relay_state c)"

definition lamp_on :: "'a controller_world_scheme \<Rightarrow> bool" where
  "lamp_on w \<longleftrightarrow> (case controller_handle w of None \<Rightarrow> False | Some c \<Rightarrow> relay_state c > 0)"

lemma init_relays_follow:
  "gpio_out w (cc_relay_1_pin config) = 0 \<Longrightarrow> gpio_out w (cc_relay_2_pin config) = 0 \<Longrightarrow>
   case app_controller_init junk config w of
     (h, w') \<Rightarrow> relays_follow (w'\<lparr>controller_handle := Some h\<rparr>)"
  by (simp add: app_controller_init_def relays_follow_def gpio_set_output_def Let_def)

lemma decode_switch_cases:
  "decode_switch a m = APP_CONTROLLER_INPUT_MODE_AUTO \<longleftrightarrow> a = 0 \<and> m = 1"
  "decode_switch a m = APP_CONTROLLER_INPUT_MODE_MANUAL \<longleftrightarrow> a = 1 \<and> m = 0"
  by (auto simp: decode_switch_def)

section \<open>The contract with the listener\<close>

text \<open>
  \<open>power_listener cb\<close>: the function called on a change of power returns, and touches neither the
  controller nor an output pin. Under this contract the operations below are characterised once
  for any listener; the function of \<^verbatim>\<open>app_main.c\<close> is shown to fulfil it.
\<close>

locale power_listener =
  fixes cb :: "'a controller_world_scheme callback"
  assumes power_returns: "\<exists>w'. cb w (change_power_event b) = Some w'"
    and power_controller: "cb w (change_power_event b) = Some w' \<Longrightarrow>
          controller_handle w' = controller_handle w"
    and power_pins: "cb w (change_power_event b) = Some w' \<Longrightarrow> gpio_out w' = gpio_out w"
begin

lemma control_relay_spec:
  assumes "controller_handle w = Some c" "relay_state c \<in> {0, 1}"
    and "relays_follow w"
  shows "\<exists>w'. app_controller_control_relay cb b w = Some (ESP_OK, w')
     \<and> controller_handle w' = Some (c\<lparr>relay_state := of_bool b\<rparr>) \<and> relays_follow w'
     \<and> (relay_state c = of_bool b \<longrightarrow> w' = w)"
proof (cases "relay_state c = of_bool b")
  case True
  then have "app_controller_control_relay cb b w = Some (ESP_OK, w)"
    using assms(1) by (auto simp: app_controller_control_relay_def)
  moreover have "c\<lparr>relay_state := of_bool b\<rparr> = c" using True by simp
  ultimately show ?thesis using assms by auto
next
  case False
  let ?l = "of_bool b :: int"
  let ?w = "gpio_set_level (relay_2_pin c) ?l (gpio_set_level (relay_1_pin c) ?l
      (w\<lparr>controller_handle := Some (c\<lparr>relay_state := ?l\<rparr>)\<rparr>))"
  have eq: "app_controller_control_relay cb b w =
      (if ctl_callback c then cb ?w (change_power_event b) else Some ?w) \<bind> (\<lambda>w. Some (ESP_OK, w))"
    using False assms(1,2) by (auto simp: app_controller_control_relay_def)
  obtain w' where w': "(if ctl_callback c then cb ?w (change_power_event b) else Some ?w) = Some w'"
    using power_returns [of ?w b] by (cases "ctl_callback c") auto
  have "controller_handle w' = controller_handle ?w" "gpio_out w' = gpio_out ?w"
    using w' power_controller [of ?w b w'] power_pins [of ?w b w'] by (auto split: if_splits)
  then have "controller_handle w' = Some (c\<lparr>relay_state := ?l\<rparr>)" "relays_follow w'"
    by (simp_all add: gpio_set_level_def relays_follow_def)
  then show ?thesis using eq w' False by simp
qed

lemma control_relay_null:
  "controller_handle w = None \<Longrightarrow> app_controller_control_relay cb b w = Some (ESP_FAIL, w)"
  by (simp add: app_controller_control_relay_def)

lemma control_relay_total: "\<exists>r. app_controller_control_relay cb b w = Some r"
proof (cases "controller_handle w")
  case None
  then show ?thesis by (simp add: control_relay_null)
next
  case (Some c)
  show ?thesis
    using power_returns unfolding app_controller_control_relay_def Let_def Some
    by (auto split: bind_splits; metis option.distinct(1))
qed

lemma control_relay_relays:
  "app_controller_control_relay cb b w = Some (e, w') \<Longrightarrow> relays_follow w \<Longrightarrow> relays_follow w'"
proof (cases "controller_handle w")
  case (Some c)
  assume a: "app_controller_control_relay cb b w = Some (e, w')" "relays_follow w"
  then have "relay_state c \<in> {0, 1}" using Some by (simp add: relays_follow_def)
  from control_relay_spec [OF Some this a(2), of b] a(1) show ?thesis by auto
qed (simp add: control_relay_null)

end

end
