(* ===== verification/App_Network.thy ===== *)
theory App_Network
  imports App_Controller
begin

text \<open>
  \<^verbatim>\<open>main/app_network.c\<close> and the part of \<^verbatim>\<open>main/app_pppos.c\<close> the other components
  see: the network handle, the Wi-Fi station with its bounded retries, and the PPP link over the
  modem whose state follows the IP events. The driver's answers to the calls wrapped in
  \<^verbatim>\<open>ESP_ERROR_CHECK\<close> are the argument \<open>api\<close>, by call site; a failed check aborts,
  which is \<open>None\<close>. The events a task blocks on are an argument as well.
\<close>

section \<open>State\<close>

record app_ppp_t =
  ppp_run :: bool
  ppp_is_connected :: bool

record app_network_t =
  is_using_wifi :: bool
  net_is_connected :: bool
  ppp_handle :: "app_ppp_t option"

text \<open>Beside the handle: the statics of the two files and the requests made to the Wi-Fi driver.\<close>

record network_world = controller_world +
  network_handle :: "app_network_t option"
  s_retry_num :: int
  wifi_connected_bit :: bool
  wifi_fail_bit :: bool
  wifi_connects :: nat
  ppp_connect_bit :: bool
  ppp_stop_bit :: bool

definition EXAMPLE_ESP_MAXIMUM_RETRY :: int where "EXAMPLE_ESP_MAXIMUM_RETRY = 10"

section \<open>The PPP link\<close>

definition app_ppp_init :: "app_ppp_t \<Rightarrow> bool \<Rightarrow> app_ppp_t option" where
  "app_ppp_init junk task_created =
     (if task_created then Some (junk\<lparr>ppp_is_connected := False\<rparr>) else None)"

text \<open>Without a test: a null handle has no result.\<close>

definition app_ppp_is_connected :: "app_ppp_t option \<Rightarrow> bool option" where
  "app_ppp_is_connected h = map_option ppp_is_connected h"

definition set_ppp :: "app_ppp_t \<Rightarrow> 'a network_world_scheme \<Rightarrow> 'a network_world_scheme" where
  "set_ppp p w = w\<lparr>network_handle := map_option (\<lambda>n. n\<lparr>ppp_handle := Some p\<rparr>) (network_handle w)\<rparr>"

datatype ip_event = IP_EVENT_PPP_GOT_IP | IP_EVENT_PPP_LOST_IP | IP_EVENT_GOT_IP6 | IP_EVENT_OTHER

text \<open>The handler runs with the handle \<^verbatim>\<open>_ppp_task\<close> registered.\<close>

definition on_ip_event :: "ip_event \<Rightarrow> 'a network_world_scheme \<Rightarrow> 'a network_world_scheme option" where
  "on_ip_event e w = do {
     n \<leftarrow> network_handle w;
     handle \<leftarrow> ppp_handle n;
     case e of
       IP_EVENT_PPP_GOT_IP \<Rightarrow>
         Some ((set_ppp (handle\<lparr>ppp_is_connected := True\<rparr>) w)\<lparr>ppp_connect_bit := True\<rparr>)
     | IP_EVENT_PPP_LOST_IP \<Rightarrow> Some (set_ppp (handle\<lparr>ppp_is_connected := False\<rparr>) w)
     | IP_EVENT_GOT_IP6 \<Rightarrow> Some w
     | IP_EVENT_OTHER \<Rightarrow> Some w
   }"

datatype esp_modem_event = ESP_MODEM_EVENT_PPP_START | ESP_MODEM_EVENT_PPP_STOP | ESP_MODEM_EVENT_UNKNOWN

definition modem_event_handler :: "esp_modem_event \<Rightarrow> 'a network_world_scheme \<Rightarrow> 'a network_world_scheme" where
  "modem_event_handler e w =
     (case e of
        ESP_MODEM_EVENT_PPP_START \<Rightarrow> w
      | ESP_MODEM_EVENT_PPP_STOP \<Rightarrow> w\<lparr>ppp_stop_bit := True\<rparr>
      | ESP_MODEM_EVENT_UNKNOWN \<Rightarrow> w)"

text \<open>The levels the SIM's supply, key and multiplexer pins are driven to, with the delays between.\<close>

definition vTaskDelay_ms :: "int \<Rightarrow> 'a platform_scheme \<Rightarrow> 'a platform_scheme" where
  "vTaskDelay_ms ms w = w\<lparr>tick_ms := tick_ms w + ms\<rparr>"

definition Power_On_Sim :: "'a platform_scheme \<Rightarrow> 'a platform_scheme" where
  "Power_On_Sim w =
     (let w = gpio_set_output S0_MUX True w;
          w = gpio_set_output S1_MUX True w;
          w = gpio_set_output PWR_SIM True w;
          w = gpio_set_output NET_SIM True w;
          w = gpio_set_output LED_ACT True w;
          w = gpio_set_level PWR_SIM 0 w;
          w = gpio_set_level S0_MUX 1 w;
          w = gpio_set_level S1_MUX 0 w;
          w = gpio_set_level NET_SIM 1 w;
          w = vTaskDelay_ms 2500 w;
          w = gpio_set_level NET_SIM 0 w;
          w = vTaskDelay_ms 26000 w;
          w = gpio_set_level NET_SIM 1 w;
          w = vTaskDelay_ms 500 w;
          w = gpio_set_level NET_SIM 0 w;
          w = vTaskDelay_ms 25000 w
      in w)"

section \<open>The Wi-Fi station\<close>

datatype wifi_event = WIFI_EVENT_STA_START | WIFI_EVENT_STA_DISCONNECTED | IP_EVENT_STA_GOT_IP

definition esp_wifi_connect :: "'a network_world_scheme \<Rightarrow> 'a network_world_scheme" where
  "esp_wifi_connect w = w\<lparr>wifi_connects := Suc (wifi_connects w)\<rparr>"

definition set_net_connected :: "bool \<Rightarrow> 'a network_world_scheme \<Rightarrow> 'a network_world_scheme option" where
  "set_net_connected b w = do {
     handle \<leftarrow> network_handle w;
     Some (w\<lparr>network_handle := Some (handle\<lparr>net_is_connected := b\<rparr>)\<rparr>)
   }"

definition event_handler :: "wifi_event \<Rightarrow> 'a network_world_scheme \<Rightarrow> 'a network_world_scheme option" where
  "event_handler e w =
     (case e of
        WIFI_EVENT_STA_START \<Rightarrow> Some (esp_wifi_connect w)
      | WIFI_EVENT_STA_DISCONNECTED \<Rightarrow> do {
          w \<leftarrow> set_net_connected False w;
          if s_retry_num w < EXAMPLE_ESP_MAXIMUM_RETRY then do {
            let w = esp_wifi_connect w;
            Some (w\<lparr>s_retry_num := s_retry_num w + 1\<rparr>)
          } else Some (w\<lparr>wifi_fail_bit := True\<rparr>)
        }
      | IP_EVENT_STA_GOT_IP \<Rightarrow> do {
          w \<leftarrow> set_net_connected True w;
          Some (w\<lparr>s_retry_num := 0, wifi_connected_bit := True\<rparr>)
        })"

text \<open>
  \<^verbatim>\<open>xEventGroupWaitBits\<close> with no time limit, while the driver delivers \<open>es\<close>: the
  handler runs on each event until a bit is set. If no event sets one the task stays blocked,
  \<open>None\<close>; the events left over are returned.
\<close>

fun wait_wifi_bits ::
    "wifi_event list \<Rightarrow> 'a network_world_scheme \<Rightarrow> (wifi_event list \<times> 'a network_world_scheme) option" where
  "wait_wifi_bits es w =
     (if wifi_connected_bit w \<or> wifi_fail_bit w then Some (es, w)
      else case es of
             [] \<Rightarrow> None
           | e # es \<Rightarrow> do { w \<leftarrow> event_handler e w; wait_wifi_bits es w })"

definition esp_error_check :: "esp_err_t \<Rightarrow> unit option" where
  "esp_error_check r = (if r = ESP_OK then Some () else None)"

definition wifi_init_sta ::
    "(string \<Rightarrow> esp_err_t) \<Rightarrow> wifi_event list \<Rightarrow> 'a network_world_scheme
     \<Rightarrow> (wifi_event list \<times> 'a network_world_scheme) option" where
  "wifi_init_sta api es w = do {
     let w = w\<lparr>wifi_connected_bit := False, wifi_fail_bit := False\<rparr>;
     esp_error_check (api ''esp_netif_init in wifi_init_sta'');
     esp_error_check (api ''esp_wifi_init'');
     esp_error_check (api ''register WIFI_EVENT'');
     esp_error_check (api ''register IP_EVENT'');
     esp_error_check (api ''esp_wifi_set_mode'');
     esp_error_check (api ''esp_wifi_set_config'');
     esp_error_check (api ''esp_wifi_start'');
     (es, w) \<leftarrow> wait_wifi_bits es w;
     esp_error_check (api ''unregister IP_EVENT'');
     esp_error_check (api ''unregister WIFI_EVENT'');
     Some (es, w)
   }"

section \<open>The network handle\<close>

definition app_network_init :: "app_network_t \<Rightarrow> bool \<Rightarrow> app_network_t" where
  "app_network_init junk use_wifi = junk\<lparr>is_using_wifi := use_wifi\<rparr>"

definition app_network_start ::
    "(string \<Rightarrow> esp_err_t) \<Rightarrow> wifi_event list \<Rightarrow> app_ppp_t \<Rightarrow> bool \<Rightarrow> 'a network_world_scheme
     \<Rightarrow> (wifi_event list \<times> 'a network_world_scheme) option" where
  "app_network_start api es ppp_junk task_created w = do {
     handle \<leftarrow> network_handle w;
     if is_using_wifi handle then do {
       esp_error_check (api ''nvs_flash_init'');
       esp_error_check (api ''esp_netif_init'');
       esp_error_check (api ''esp_event_loop_create_default'');
       wifi_init_sta api es w
     } else
       Some (es, w\<lparr>network_handle := Some (handle\<lparr>ppp_handle := app_ppp_init ppp_junk task_created\<rparr>)\<rparr>)
   }"

definition app_network_is_connected :: "'a network_world_scheme \<Rightarrow> bool option" where
  "app_network_is_connected w =
     (case network_handle w of
        None \<Rightarrow> Some False
      | Some handle \<Rightarrow>
          if is_using_wifi handle then Some (net_is_connected handle)
          else app_ppp_is_connected (ppp_handle handle))"

lemmas network_defs = on_ip_event_def modem_event_handler_def event_handler_def
  set_net_connected_def esp_wifi_connect_def set_ppp_def app_network_is_connected_def
  app_ppp_is_connected_def

text \<open>The handle answers without a crash: it is null, on Wi-Fi, or has a PPP link.\<close>

definition network_ready :: "'a network_world_scheme \<Rightarrow> bool" where
  "network_ready w \<longleftrightarrow>
     (case network_handle w of
        None \<Rightarrow> True
      | Some n \<Rightarrow> is_using_wifi n \<or> ppp_handle n \<noteq> None)"

lemma is_connected_total: "network_ready w \<longleftrightarrow> (\<exists>b. app_network_is_connected w = Some b)"
  by (auto simp: network_ready_def network_defs split: option.splits)

section \<open>Properties\<close>

lemma wait_wifi_bits_retries:
  assumes "network_handle w = Some h" "\<not> wifi_connected_bit w" "\<not> wifi_fail_bit w"
    and "s_retry_num w + int k = EXAMPLE_ESP_MAXIMUM_RETRY"
  shows "\<exists>w'. wait_wifi_bits (replicate (Suc k) WIFI_EVENT_STA_DISCONNECTED @ es) w = Some (es, w')
    \<and> wifi_fail_bit w' \<and> \<not> wifi_connected_bit w' \<and> wifi_connects w' = wifi_connects w + k
    \<and> network_handle w' = Some (h\<lparr>net_is_connected := False\<rparr>)"
  using assms
proof (induction k arbitrary: w h)
  case 0
  then show ?case
    by (simp add: network_defs EXAMPLE_ESP_MAXIMUM_RETRY_def)
next
  case (Suc k)
  let ?w = "w\<lparr>network_handle := Some (h\<lparr>net_is_connected := False\<rparr>),
      wifi_connects := Suc (wifi_connects w), s_retry_num := s_retry_num w + 1\<rparr>"
  have e: "event_handler WIFI_EVENT_STA_DISCONNECTED w = Some ?w"
    using Suc.prems by (simp add: network_defs)
  have n: "wait_wifi_bits (WIFI_EVENT_STA_DISCONNECTED # es') w = wait_wifi_bits es' ?w" for es'
    using Suc.prems e by simp
  have "\<exists>w'. wait_wifi_bits (replicate (Suc k) WIFI_EVENT_STA_DISCONNECTED @ es) ?w = Some (es, w')
    \<and> wifi_fail_bit w' \<and> \<not> wifi_connected_bit w' \<and> wifi_connects w' = wifi_connects ?w + k
    \<and> network_handle w' = Some ((h\<lparr>net_is_connected := False\<rparr>)\<lparr>net_is_connected := False\<rparr>)"
    by (rule Suc.IH) (use Suc.prems in simp_all)
  then show ?case
    unfolding replicate_Suc [of "Suc k"] append_Cons n by simp
qed

text \<open>C26. The Wi-Fi station gives up after a bounded number of attempts: if every attempt ends in a
  disconnection, the wait of \<open>wifi_init_sta\<close> ends after exactly eleven of them, having asked the
  driver to reconnect \<open>EXAMPLE_ESP_MAXIMUM_RETRY\<close> times, with the failure bit set and the handle
  not connected; it does not stay blocked.\<close>

theorem wifi_gives_up:
  assumes "network_handle w = Some h" "s_retry_num w = 0" "\<forall>call. api call = ESP_OK"
  shows "\<exists>w'. wifi_init_sta api (replicate 11 WIFI_EVENT_STA_DISCONNECTED @ es) w = Some (es, w')
    \<and> wifi_fail_bit w' \<and> \<not> wifi_connected_bit w' \<and> wifi_connects w' = wifi_connects w + 10
    \<and> network_handle w' = Some (h\<lparr>net_is_connected := False\<rparr>)"
proof -
  let ?w = "w\<lparr>wifi_connected_bit := False, wifi_fail_bit := False\<rparr>"
  have "\<exists>w'. wait_wifi_bits (replicate (Suc 10) WIFI_EVENT_STA_DISCONNECTED @ es) ?w = Some (es, w')
    \<and> wifi_fail_bit w' \<and> \<not> wifi_connected_bit w' \<and> wifi_connects w' = wifi_connects ?w + 10
    \<and> network_handle w' = Some (h\<lparr>net_is_connected := False\<rparr>)"
    by (rule wait_wifi_bits_retries) (use assms in \<open>simp_all add: EXAMPLE_ESP_MAXIMUM_RETRY_def\<close>)
  then show ?thesis
    using assms(3) by (auto simp: wifi_init_sta_def esp_error_check_def simp del: wait_wifi_bits.simps)
qed

definition sample_network :: network_world where
  "sample_network = storage_world.extend sample_storage
     \<lparr>controller_handle = None,
      network_handle = Some \<lparr>is_using_wifi = True, net_is_connected = True, ppp_handle = None\<rparr>,
      s_retry_num = 0, wifi_connected_bit = False, wifi_fail_bit = False, wifi_connects = 0,
      ppp_connect_bit = False, ppp_stop_bit = False\<rparr>"

lemmas sample_network_defs = sample_network_def sample_storage_defs storage_world.defs

theorem wifi_gives_up_witness:
  "\<exists>w'. wifi_init_sta (\<lambda>_. ESP_OK) (replicate 11 WIFI_EVENT_STA_DISCONNECTED) sample_network = Some ([], w')
    \<and> wifi_fail_bit w' \<and> wifi_connects w' = 10"
  using wifi_gives_up [of sample_network "\<lparr>is_using_wifi = True, net_is_connected = True, ppp_handle = None\<rparr>" "\<lambda>_. ESP_OK" "[]"]
  by (auto simp: sample_network_defs)

fun ip_events :: "ip_event list \<Rightarrow> 'a network_world_scheme \<Rightarrow> 'a network_world_scheme option" where
  "ip_events [] w = Some w"
| "ip_events (e # es) w = on_ip_event e w \<bind> ip_events es"

definition link_up :: "bool \<Rightarrow> ip_event list \<Rightarrow> bool" where
  "link_up start es = fold (\<lambda>e b. e = IP_EVENT_PPP_GOT_IP \<or> b \<and> e \<noteq> IP_EVENT_PPP_LOST_IP) es start"

lemma ip_events_link:
  "network_handle w = Some n \<Longrightarrow> \<not> is_using_wifi n \<Longrightarrow> ppp_handle n = Some p \<Longrightarrow>
   \<exists>w'. ip_events es w = Some w' \<and> app_network_is_connected w' = Some (link_up (ppp_is_connected p) es)"
proof (induction es arbitrary: w n p)
  case Nil
  then show ?case by (simp add: network_defs link_up_def)
next
  case (Cons e es)
  let ?b = "e = IP_EVENT_PPP_GOT_IP \<or> ppp_is_connected p \<and> e \<noteq> IP_EVENT_PPP_LOST_IP"
  obtain w1 where w1: "on_ip_event e w = Some w1"
    "network_handle w1 = Some (n\<lparr>ppp_handle := Some (p\<lparr>ppp_is_connected := ?b\<rparr>)\<rparr>)"
    using Cons.prems by (cases e) (auto simp: network_defs)
  with Cons.IH [OF w1(2)] Cons.prems show ?case by (simp add: link_up_def)
qed

text \<open>The PPP link is reported as connected exactly while the last of the IP events that
  concern it was \<open>IP_EVENT_PPP_GOT_IP\<close>.\<close>

theorem ppp_connection_follows_ip_events:
  assumes "network_handle w = Some n" "\<not> is_using_wifi n" "ppp_handle n = Some p"
  shows "\<exists>w'. ip_events (es @ e # replicate k IP_EVENT_GOT_IP6) w = Some w' \<and>
    (e = IP_EVENT_PPP_GOT_IP \<longrightarrow> app_network_is_connected w' = Some True) \<and>
    (e = IP_EVENT_PPP_LOST_IP \<longrightarrow> app_network_is_connected w' = Some False)"
proof -
  have "link_up b (es @ e # replicate k IP_EVENT_GOT_IP6) =
      (e = IP_EVENT_PPP_GOT_IP \<or> link_up b es \<and> e \<noteq> IP_EVENT_PPP_LOST_IP)" for b
  proof -
    have "fold (\<lambda>e b. e = IP_EVENT_PPP_GOT_IP \<or> b \<and> e \<noteq> IP_EVENT_PPP_LOST_IP)
        (replicate k IP_EVENT_GOT_IP6) c = c" for c
      by (induction k) auto
    then show ?thesis by (simp add: link_up_def)
  qed
  with ip_events_link [OF assms(1-3), of "es @ e # replicate k IP_EVENT_GOT_IP6"] show ?thesis
    by auto
qed

definition sample_ppp :: network_world where
  "sample_ppp = sample_network\<lparr>network_handle := Some \<lparr>is_using_wifi = False, net_is_connected = False,
     ppp_handle = Some \<lparr>ppp_run = False, ppp_is_connected = False\<rparr>\<rparr>\<rparr>"

theorem ppp_connection_follows_ip_events_witness:
  "\<exists>w'. ip_events [IP_EVENT_PPP_LOST_IP, IP_EVENT_PPP_GOT_IP, IP_EVENT_GOT_IP6] sample_ppp = Some w'
     \<and> app_network_is_connected w' = Some True"
  using ppp_connection_follows_ip_events [of sample_ppp "\<lparr>is_using_wifi = False, net_is_connected = False,
      ppp_handle = Some \<lparr>ppp_run = False, ppp_is_connected = False\<rparr>\<rparr>"
      "\<lparr>ppp_run = False, ppp_is_connected = False\<rparr>" "[IP_EVENT_PPP_LOST_IP]" IP_EVENT_PPP_GOT_IP 1]
  by (auto simp: sample_ppp_def)

end
