(* ===== verification/App_Nextion.thy ===== *)
theory App_Nextion
  imports App_Network
begin

text \<open>
  \<^verbatim>\<open>main/app_nextion.c\<close>: the serial touch screen. Commands to the screen are texts closed by
  three bytes 0xFF; messages from the screen are texts that start with \<open>@\<close>. The texts are
  byte strings: the Vietnamese messages are written as their UTF-8 bytes. The transmit buffer of
  the handle holds nothing between two calls and is not part of the state; \<^verbatim>\<open>mode_txt\<close>
  points to one of two constant texts and is that text.
\<close>

section \<open>Constants\<close>

definition MANUAL_ON_KEY :: string where "MANUAL_ON_KEY = ''@manual_on$''"
definition MANUAL_OFF_KEY :: string where "MANUAL_OFF_KEY = ''@manual_off$''"
definition UP_TIME :: string where "UP_TIME = ''@up_time''"
definition PAGE_PREFIX :: string where "PAGE_PREFIX = ''@page_''"
definition RTC_PREFIX :: string where "RTC_PREFIX = ''@rtc''"
definition SYNC_TIME :: string where "SYNC_TIME = ''@time_syn_datetime$''"
definition SLEEP :: string where "SLEEP = [CHR 0x86, CHR 0xFF, CHR 0xFF, CHR 0xFF]"

definition OFF_TEXT :: string where
  "OFF_TEXT = ''T'' @ [CHR 0xE1, CHR 0xBA, CHR 0xAE] @ ''T''"
definition AUTO_TEXT :: string where
  "AUTO_TEXT = ''T'' @ [CHR 0xE1, CHR 0xBB, CHR 0xB0] @ '' '' @ [CHR 0xC4, CHR 0x90, CHR 0xE1, CHR 0xBB, CHR 0x98] @ ''NG''"

definition PAGE_LOCK_INDEX :: int where "PAGE_LOCK_INDEX = 0"
definition PAGE_HOME_INDEX :: int where "PAGE_HOME_INDEX = 1"
definition PAGE_MANUAL_INDEX :: int where "PAGE_MANUAL_INDEX = 2"
definition PAGE_TIME_INDEX :: int where "PAGE_TIME_INDEX = 4"
definition PAGE_SCHEDULE_INDEX :: int where "PAGE_SCHEDULE_INDEX = 5"
definition PAGE_CONNECT_INDEX :: int where "PAGE_CONNECT_INDEX = 6"
definition PAGE_LOADING_INDEX :: int where "PAGE_LOADING_INDEX = 9"

definition BUF_SIZE :: nat where "BUF_SIZE = 1024"

lemmas key_defs = MANUAL_ON_KEY_def MANUAL_OFF_KEY_def UP_TIME_def PAGE_PREFIX_def
  RTC_PREFIX_def SYNC_TIME_def SLEEP_def
lemmas page_defs = PAGE_LOCK_INDEX_def PAGE_HOME_INDEX_def PAGE_MANUAL_INDEX_def
  PAGE_TIME_INDEX_def PAGE_SCHEDULE_INDEX_def PAGE_CONNECT_INDEX_def PAGE_LOADING_INDEX_def

definition txt_invalid_time :: string where
  "txt_invalid_time = ''Th'' @ [CHR 0xE1, CHR 0xBB, CHR 0x9D] @ ''i gian kh'' @ [CHR 0xC3, CHR 0xB4] @ ''ng h'' @ [CHR 0xE1, CHR 0xBB, CHR 0xA3] @ ''p l'' @ [CHR 0xE1, CHR 0xBB, CHR 0x87]"
definition txt_starting :: string where
  "txt_starting = [CHR 0xC4, CHR 0x90] @ ''ang kh'' @ [CHR 0xE1, CHR 0xBB, CHR 0x9F] @ ''i '' @ [CHR 0xC4, CHR 0x91, CHR 0xE1, CHR 0xBB, CHR 0x99] @ ''ng''"
definition txt_online :: string where
  "txt_online = [CHR 0xC4, CHR 0x90] @ ''ang k'' @ [CHR 0xE1, CHR 0xBA, CHR 0xBF] @ ''t n'' @ [CHR 0xE1, CHR 0xBB, CHR 0x91] @ ''i''"
definition txt_offline :: string where
  "txt_offline = ''M'' @ [CHR 0xE1, CHR 0xBA, CHR 0xA5] @ ''t k'' @ [CHR 0xE1, CHR 0xBA, CHR 0xBF] @ ''t n'' @ [CHR 0xE1, CHR 0xBB, CHR 0x91] @ ''i''"
definition txt_active :: string where
  "txt_active = ''Ho'' @ [CHR 0xE1, CHR 0xBA, CHR 0xA1] @ ''t '' @ [CHR 0xC4, CHR 0x90, CHR 0xE1, CHR 0xBB, CHR 0x99] @ ''ng: ''"
definition txt_phases_updated :: string where
  "txt_phases_updated = ''C'' @ [CHR 0xE1, CHR 0xBA, CHR 0xAD] @ ''p nh'' @ [CHR 0xE1, CHR 0xBA, CHR 0xAD] @ ''t th'' @ [CHR 0xC3, CHR 0xB4] @ ''ng s'' @ [CHR 0xE1, CHR 0xBB, CHR 0x91] @ '' '' @ [CHR 0xC4, CHR 0x91] @ ''i'' @ [CHR 0xE1, CHR 0xBB, CHR 0x87] @ ''n th'' @ [CHR 0xC3, CHR 0xA0] @ ''nh c'' @ [CHR 0xC3, CHR 0xB4] @ ''ng''"

section \<open>State\<close>

record app_nextion_config_t =
  nc_tx_pin :: int
  nc_rx_pin :: int
  nc_baudrate :: int
  nc_port_num :: int
  nc_callback :: bool
  nc_init_active_time :: active_time_t
  nc_hardware_id :: string

record app_nextion_t =
  nx_port_num :: int
  nx_tx_pin :: int
  nx_rx_pin :: int
  nx_baudrate :: int
  nx_callback :: bool
  current_page :: int
  nx_is_connected :: bool
  nx_is_on :: bool
  nx_active_time :: active_time_t
  nx_phases_data :: phases_data_t
  nx_mode :: app_controller_mode_t
  mode_txt :: string
  is_sleeping :: bool
  nx_hardware_id :: string

record nextion_world = network_world +
  nextion_handle :: "app_nextion_t option"

definition zero_phases :: phases_data_t where
  "zero_phases = \<lparr>ph_p1 = 0, ph_p2 = 0, ph_p3 = 0, ph_u1 = 0, ph_u2 = 0, ph_u3 = 0, ph_i1 = 0,
     ph_i2 = 0, ph_i3 = 0, ph_phy1 = 0, ph_phy2 = 0, ph_phy3 = 0, ph_power = 0\<rparr>"

definition app_nextion_init :: "app_nextion_t \<Rightarrow> app_nextion_config_t \<Rightarrow> app_nextion_t" where
  "app_nextion_init junk config = junk\<lparr>
     nx_baudrate := nc_baudrate config, nx_tx_pin := nc_tx_pin config, nx_rx_pin := nc_rx_pin config,
     nx_port_num := nc_port_num config, nx_callback := nc_callback config,
     nx_is_connected := False, nx_is_on := False, nx_mode := APP_CONTROLLER_INPUT_MODE_OFF,
     mode_txt := OFF_TEXT, is_sleeping := False, nx_hardware_id := nc_hardware_id config,
     nx_phases_data := zero_phases, nx_active_time := nc_init_active_time config\<rparr>"

definition set_nextion :: "app_nextion_t \<Rightarrow> 'a nextion_world_scheme \<Rightarrow> 'a nextion_world_scheme" where
  "set_nextion h w = w\<lparr>nextion_handle := Some h\<rparr>"

section \<open>Commands to the screen\<close>

definition send_command :: "int \<Rightarrow> string \<Rightarrow> 'a platform_scheme \<Rightarrow> 'a platform_scheme" where
  "send_command port data w =
     (let w = uart_write_bytes port data w;
          end_byte = [CHR 0xFF];
          w = uart_write_bytes port end_byte w;
          w = uart_write_bytes port end_byte w;
          w = uart_write_bytes port end_byte w
      in w)"

definition quoted :: "string \<Rightarrow> string" where
  "quoted s = [CHR 0x22] @ s @ [CHR 0x22]"

definition app_nextion_set_page :: "int \<Rightarrow> 'a nextion_world_scheme \<Rightarrow> 'a nextion_world_scheme" where
  "app_nextion_set_page page_num w =
     (case nextion_handle w of
        None \<Rightarrow> w
      | Some handle \<Rightarrow> send_command (nx_port_num handle) (''page page'' @ fmt_d page_num) w)"

text \<open>The next two do not test the handle: there is no result when it is null.\<close>

definition app_nextion_set_console :: "string \<Rightarrow> 'a nextion_world_scheme \<Rightarrow> 'a nextion_world_scheme option" where
  "app_nextion_set_console message w = do {
     handle \<leftarrow> nextion_handle w;
     Some (send_command (nx_port_num handle) (''console.txt='' @ quoted message) w)
   }"

definition app_nextion_set_button :: "bool \<Rightarrow> 'a nextion_world_scheme \<Rightarrow> 'a nextion_world_scheme option" where
  "app_nextion_set_button is_on w = do {
     handle \<leftarrow> nextion_handle w;
     Some (send_command (nx_port_num handle) (''bt0.val='' @ fmt_d (if is_on then 1 else 0)) w)
   }"

definition app_nextion_set_conection_state ::
    "bool \<Rightarrow> 'a nextion_world_scheme \<Rightarrow> esp_err_t \<times> 'a nextion_world_scheme" where
  "app_nextion_set_conection_state b w =
     (case nextion_handle w of
        None \<Rightarrow> (ESP_FAIL, w)
      | Some handle \<Rightarrow> (ESP_OK, set_nextion (handle\<lparr>nx_is_connected := b\<rparr>) w))"

definition app_nextion_set_power_state ::
    "bool \<Rightarrow> 'a nextion_world_scheme \<Rightarrow> esp_err_t \<times> 'a nextion_world_scheme" where
  "app_nextion_set_power_state b w =
     (case nextion_handle w of
        None \<Rightarrow> (ESP_FAIL, w)
      | Some handle \<Rightarrow> (ESP_OK, set_nextion (handle\<lparr>nx_is_on := b\<rparr>) w))"

definition app_nextion_set_phase_data ::
    "phases_data_t option \<Rightarrow> 'a nextion_world_scheme \<Rightarrow> (esp_err_t \<times> 'a nextion_world_scheme) option" where
  "app_nextion_set_phase_data phase_data w =
     (case (nextion_handle w, phase_data) of
        (Some handle, Some d) \<Rightarrow> do {
          w \<leftarrow> app_nextion_set_console txt_phases_updated (set_nextion (handle\<lparr>nx_phases_data := d\<rparr>) w);
          Some (ESP_OK, w)
        }
      | _ \<Rightarrow> Some (ESP_FAIL, w))"

definition app_nextion_set_active_time ::
    "active_time_t option \<Rightarrow> 'a nextion_world_scheme \<Rightarrow> esp_err_t \<times> 'a nextion_world_scheme" where
  "app_nextion_set_active_time active_time w =
     (case (nextion_handle w, active_time) of
        (Some handle, Some t) \<Rightarrow> (ESP_OK, set_nextion (handle\<lparr>nx_active_time := t\<rparr>) w)
      | _ \<Rightarrow> (ESP_FAIL, w))"

definition app_nextion_set_mode ::
    "app_controller_mode_t \<Rightarrow> 'a nextion_world_scheme \<Rightarrow> esp_err_t \<times> 'a nextion_world_scheme" where
  "app_nextion_set_mode mode w =
     (case nextion_handle w of
        None \<Rightarrow> (ESP_FAIL, w)
      | Some handle \<Rightarrow>
          (ESP_OK,
           (case mode of
              APP_CONTROLLER_INPUT_MODE_OFF \<Rightarrow>
                (let w = set_nextion (handle\<lparr>nx_mode := mode, mode_txt := OFF_TEXT\<rparr>) w
                 in if current_page handle = PAGE_MANUAL_INDEX
                    then app_nextion_set_page PAGE_HOME_INDEX w else w)
            | APP_CONTROLLER_INPUT_MODE_AUTO \<Rightarrow>
                (let w = set_nextion (handle\<lparr>nx_mode := mode, mode_txt := AUTO_TEXT\<rparr>) w
                 in if current_page handle = PAGE_MANUAL_INDEX
                    then app_nextion_set_page PAGE_HOME_INDEX w else w)
            | APP_CONTROLLER_INPUT_MODE_MANUAL \<Rightarrow>
                (let w = set_nextion (handle\<lparr>nx_mode := mode\<rparr>) w
                 in if current_page handle \<noteq> PAGE_LOCK_INDEX \<and> current_page handle \<noteq> PAGE_LOADING_INDEX
                    then app_nextion_set_page PAGE_MANUAL_INDEX w else w))))"

definition app_nextion_set_loading ::
    "int \<Rightarrow> string option \<Rightarrow> 'a nextion_world_scheme \<Rightarrow> esp_err_t \<times> 'a nextion_world_scheme" where
  "app_nextion_set_loading percent console w =
     (case nextion_handle w of
        None \<Rightarrow> (ESP_FAIL, w)
      | Some handle \<Rightarrow>
          (let w = send_command (nx_port_num handle) (''j0.val='' @ fmt_d percent) w
           in (ESP_OK,
               (case console of
                  None \<Rightarrow> w
                | Some c \<Rightarrow> send_command (nx_port_num handle) (''t2.txt='' @ quoted c) w))))"

definition app_nextion_start :: "'a nextion_world_scheme \<Rightarrow> esp_err_t \<times> 'a nextion_world_scheme" where
  "app_nextion_start w =
     (case nextion_handle w of
        None \<Rightarrow> (ESP_FAIL, w)
      | Some handle \<Rightarrow> (ESP_OK, vTaskDelay_ms 1000 w))"

section \<open>Messages from the screen\<close>

definition nextion_callback ::
    "'a nextion_world_scheme callback \<Rightarrow> int \<Rightarrow> cb_data option \<Rightarrow> int \<Rightarrow> 'a nextion_world_scheme
     \<Rightarrow> 'a nextion_world_scheme option" where
  "nextion_callback cb event_id data len w = do {
     handle \<leftarrow> nextion_handle w;
     if nx_callback handle then cb w \<lparr>ev_id = event_id, ev_data = data, ev_len = len\<rparr> else Some w
   }"

definition up_time_format :: "scan_item list" where
  "up_time_format = map SLit ''@up_time,'' @ [SInt, SLit CHR '','', SInt, SLit CHR '','', SInt,
     SLit CHR '','', SInt, SLit CHR '','', SLit CHR ''$'']"

text \<open>\<open>vars\<close>: what the four variables hold before \<^verbatim>\<open>sscanf\<close>, which the code does not set.\<close>

definition handle_up_time ::
    "'a nextion_world_scheme callback \<Rightarrow> int list \<Rightarrow> string \<Rightarrow> 'a nextion_world_scheme
     \<Rightarrow> 'a nextion_world_scheme option" where
  "handle_up_time cb vars data w = do {
     handle \<leftarrow> nextion_handle w;
     let v = assign_vars (sscanf up_time_format (c_str data)) vars;
     if v ! 0 > 23 \<or> v ! 1 > 59 \<or> v ! 2 > 23 \<or> v ! 3 > 59
     then app_nextion_set_console txt_invalid_time w
     else do {
       let t = \<lparr>at_start_hour = v ! 0, at_start_minute = v ! 1, at_end_hour = v ! 2, at_end_minute = v ! 3\<rparr>;
       let w = set_nextion (handle\<lparr>nx_active_time := t\<rparr>) w;
       nextion_callback cb APP_NEXTION_EVENT_SET_SCHEDULE (Some (CbActiveTime t)) sizeof_active_time_t w
     }
   }"

definition handle_page :: "string \<Rightarrow> 'a nextion_world_scheme \<Rightarrow> 'a nextion_world_scheme option" where
  "handle_page data w = do {
     handle \<leftarrow> nextion_handle w;
     let page = assign_vars (sscanf (map SLit ''@page_'' @ [SInt]) (c_str data)) [0] ! 0;
     if page = PAGE_HOME_INDEX \<and> is_sleeping handle then
       Some (let w = set_nextion (handle\<lparr>current_page := PAGE_LOCK_INDEX\<rparr>) w;
                 w = app_nextion_set_page PAGE_LOCK_INDEX w
             in set_nextion (handle\<lparr>current_page := PAGE_LOCK_INDEX, is_sleeping := False\<rparr>) w)
     else if page = PAGE_HOME_INDEX \<and> nx_mode handle = APP_CONTROLLER_INPUT_MODE_MANUAL then
       Some (app_nextion_set_page PAGE_MANUAL_INDEX
               (set_nextion (handle\<lparr>current_page := PAGE_MANUAL_INDEX\<rparr>) w))
     else Some (set_nextion (handle\<lparr>current_page := page\<rparr>) w)
   }"

definition rtc_format :: "scan_item list" where
  "rtc_format = map SLit ''@rtc,'' @ [SInt, SLit CHR '','', SInt, SLit CHR '','', SInt,
     SLit CHR '','', SInt, SLit CHR '','', SInt, SLit CHR '','', SLit CHR ''$'']"

definition handle_rtc ::
    "'a nextion_world_scheme callback \<Rightarrow> string \<Rightarrow> 'a nextion_world_scheme \<Rightarrow> 'a nextion_world_scheme option" where
  "handle_rtc cb data w =
     (let v = assign_vars (sscanf rtc_format (c_str data)) [0, 0, 0, 0, 0];
          form = \<lparr>dt_hour = v ! 0, dt_minute = v ! 1, dt_day = v ! 2, dt_month = v ! 3,
                  dt_year = v ! 4, dt_second = 0\<rparr>
      in nextion_callback cb APP_NEXTION_EVENT_SET_TIME (Some (CbDateTime form)) sizeof_date_time_form_t w)"

definition handle_message ::
    "'a nextion_world_scheme callback \<Rightarrow> int list \<Rightarrow> string \<Rightarrow> 'a nextion_world_scheme
     \<Rightarrow> 'a nextion_world_scheme option" where
  "handle_message cb vars data w =
     (if starts_with data MANUAL_ON_KEY then
        nextion_callback cb APP_NEXTION_EVENT_MANUAL_ON None 0 w
      else if starts_with data MANUAL_OFF_KEY then
        nextion_callback cb APP_NEXTION_EVENT_MANUAL_OFF None 0 w
      else if starts_with data UP_TIME then handle_up_time cb vars data w
      else if starts_with data PAGE_PREFIX then handle_page data w
      else if starts_with data RTC_PREFIX then handle_rtc cb data w
      else if starts_with data SYNC_TIME then
        nextion_callback cb APP_NEXTION_EVENT_SYNC_TIME None 0 w
      else if starts_with data SLEEP then do {
        handle \<leftarrow> nextion_handle w;
        Some (set_nextion (handle\<lparr>is_sleeping := True\<rparr>) w)
      }
      else Some w)"

text \<open>
  One round of \<^verbatim>\<open>_nextion_read_task\<close>. The buffer is allocated once: the bytes \<open>rx\<close>
  read from the port overwrite its beginning and the comparisons and scans see the old bytes
  behind them.
\<close>

definition nextion_read_step ::
    "'a nextion_world_scheme callback \<Rightarrow> int list \<Rightarrow> string \<Rightarrow> string \<times> 'a nextion_world_scheme
     \<Rightarrow> (string \<times> 'a nextion_world_scheme) option" where
  "nextion_read_step cb vars rx s = (case s of (buf, w) \<Rightarrow>
     (if rx = [] then Some (buf, w)
      else do {
        let data = take BUF_SIZE (take BUF_SIZE rx @ drop (length (take BUF_SIZE rx)) buf);
        w \<leftarrow> handle_message cb vars data w;
        Some (data, w)
      }))"

section \<open>The refresh task\<close>

text \<open>\<^verbatim>\<open>data < 0 ? -data : data\<close> on the bit pattern: minus zero and NaN do not compare below zero.\<close>

definition f_abs :: "32 word \<Rightarrow> 32 word" where
  "f_abs x =
     (if float_sign x \<and> \<not> (float_exp x = 0 \<and> float_man x = 0) \<and> \<not> (float_exp x = 255 \<and> float_man x \<noteq> 0)
      then unset_bit 31 x else x)"

record write_locals =
  page_time_flag :: bool
  page_schedule_flag :: bool

definition write_locals_init :: write_locals where
  "write_locals_init = \<lparr>page_time_flag = False, page_schedule_flag = False\<rparr>"

definition send_commands :: "int \<Rightarrow> string list \<Rightarrow> 'a platform_scheme \<Rightarrow> 'a platform_scheme" where
  "send_commands port cmds w = fold (send_command port) cmds w"

definition time_text :: "tm \<Rightarrow> string" where
  "time_text t = fmt_0d 2 (tm_hour t) @ '':'' @ fmt_0d 2 (tm_min t) @ '':'' @ fmt_0d 2 (tm_sec t)"

definition date_text :: "tm \<Rightarrow> string" where
  "date_text t = fmt_0d 2 (tm_mday t) @ ''/'' @ fmt_0d 2 (tm_mon t + 1) @ ''/'' @ fmt_wd 4 (tm_year t + 1900)"

definition phase_text :: "string \<Rightarrow> int \<Rightarrow> 32 word \<Rightarrow> 32 word \<Rightarrow> 32 word \<Rightarrow> 32 word \<Rightarrow> string" where
  "phase_text field n p u i phy =
     field @ ''='' @ quoted (''Pha '' @ fmt_d n @ '': '' @ fmt_0f 6 2 p @ ''KW '' @ fmt_0f 5 2 u @ ''V '' @
       fmt_0f 5 1 i @ ''A '' @ fmt_0f 4 2 (f_abs phy))"

definition lock_page :: "tm \<Rightarrow> string list" where
  "lock_page t = [''rtcTime.txt='' @ quoted (time_text t), ''t4.txt='' @ quoted (date_text t)]"

definition home_page :: "app_nextion_t \<Rightarrow> tm \<Rightarrow> string list" where
  "home_page h t =
     (let a = nx_active_time h; d = nx_phases_data h in
      [''t1.txt='' @ quoted (mode_txt h),
       ''rtcTime.txt='' @ quoted (time_text t),
       ''t4.txt='' @ quoted (date_text t),
       ''t2.txt='' @ quoted (if nx_is_connected h then txt_online else txt_offline),
       ''t3.txt='' @ quoted (txt_active @ fmt_0d 2 (at_start_hour a) @ '':'' @ fmt_0d 2 (at_start_minute a) @
         '' - '' @ fmt_0d 2 (at_end_hour a) @ '':'' @ fmt_0d 2 (at_end_minute a)),
       phase_text ''t6.txt'' 1 (ph_p1 d) (ph_u1 d) (ph_i1 d) (ph_phy1 d),
       phase_text ''t7.txt'' 2 (ph_p2 d) (ph_u2 d) (ph_i2 d) (ph_phy2 d),
       phase_text ''t8.txt'' 3 (ph_p3 d) (ph_u3 d) (ph_i3 d) (ph_phy3 d)])"

definition connect_page :: "app_nextion_t \<Rightarrow> string list" where
  "connect_page h = [''t2.txt='' @ quoted (nx_hardware_id h), ''t4.txt='' @ quoted FIRMWARE_VERSION,
     ''t6.txt='' @ quoted ''112233445'']"

definition schedule_page :: "app_nextion_t \<Rightarrow> string list" where
  "schedule_page h = (let a = nx_active_time h in
     [''n0.val='' @ fmt_d (at_start_hour a), ''n1.val='' @ fmt_d (at_start_minute a),
      ''n2.val='' @ fmt_d (at_end_hour a), ''n3.val='' @ fmt_d (at_end_minute a)])"

definition time_page :: "tm \<Rightarrow> string list" where
  "time_page t = [''n0.val='' @ fmt_d (tm_hour t), ''n1.val='' @ fmt_d (tm_min t),
     ''n2.val='' @ fmt_d (tm_mday t), ''n3.val='' @ fmt_d (tm_mon t + 1),
     ''n4.val='' @ fmt_d (tm_year t + 1900)]"

text \<open>The commands one round sends and the flags it leaves, by the page that is shown.\<close>

definition refresh :: "app_nextion_t \<Rightarrow> tm \<Rightarrow> write_locals \<Rightarrow> write_locals \<times> string list" where
  "refresh h t l =
     (if current_page h = PAGE_LOCK_INDEX then
        (l\<lparr>page_time_flag := False, page_schedule_flag := False\<rparr>, lock_page t)
      else if current_page h = PAGE_HOME_INDEX then
        (l\<lparr>page_time_flag := False, page_schedule_flag := False\<rparr>, home_page h t)
      else if current_page h = PAGE_CONNECT_INDEX then
        (l\<lparr>page_time_flag := False, page_schedule_flag := False\<rparr>, connect_page h)
      else if current_page h = PAGE_SCHEDULE_INDEX then
        (l\<lparr>page_time_flag := True, page_schedule_flag := False\<rparr>,
         if \<not> page_time_flag l then schedule_page h else [])
      else if current_page h = PAGE_TIME_INDEX then
        (l\<lparr>page_time_flag := False, page_schedule_flag := True\<rparr>,
         if \<not> page_schedule_flag l then time_page t else [])
      else (l\<lparr>page_time_flag := False, page_schedule_flag := False\<rparr>, []))"

definition nextion_write_step ::
    "write_locals \<times> 'a nextion_world_scheme \<Rightarrow> (write_locals \<times> 'a nextion_world_scheme) option" where
  "nextion_write_step s = (case s of (l, w) \<Rightarrow> do {
     handle \<leftarrow> nextion_handle w;
     let timeinfo = localtime (utc_offset w) (sys_time w);
     let (l, cmds) = refresh handle timeinfo l;
     Some (l, send_commands (nx_port_num handle) cmds w)
   })"

text \<open>What \<^verbatim>\<open>_nextion_write_task\<close> does before its loop.\<close>

definition nextion_write_start ::
    "'a nextion_world_scheme \<Rightarrow> (write_locals \<times> 'a nextion_world_scheme) option" where
  "nextion_write_start w = do {
     handle \<leftarrow> nextion_handle w;
     let w = send_command (nx_port_num handle) ''sleep=0'' w;
     let w = app_nextion_set_page PAGE_LOADING_INDEX w;
     let w = set_nextion (handle\<lparr>is_sleeping := False, current_page := PAGE_LOADING_INDEX\<rparr>) w;
     let w = snd (app_nextion_set_loading 25 (Some txt_starting) w);
     Some (write_locals_init, w)
   }"

lemmas nextion_defs = app_nextion_set_page_def app_nextion_set_console_def app_nextion_set_button_def
  app_nextion_set_conection_state_def app_nextion_set_power_state_def app_nextion_set_phase_data_def
  app_nextion_set_active_time_def app_nextion_set_mode_def app_nextion_set_loading_def
  set_nextion_def

section \<open>What the screen receives\<close>

definition frame_cmd :: "string \<Rightarrow> string" where
  "frame_cmd s = s @ [CHR 0xFF, CHR 0xFF, CHR 0xFF]"

definition no_ff :: "string \<Rightarrow> bool" where
  "no_ff s \<longleftrightarrow> CHR 0xFF \<notin> set s"

text \<open>The screen's view of the line: commands end at a byte 0xFF, three of which are skipped.\<close>

function unframe :: "string \<Rightarrow> string list" where
  "unframe [] = []"
| "unframe (c # s) = takeWhile (\<lambda>c. c \<noteq> CHR 0xFF) (c # s) #
     unframe (drop 3 (dropWhile (\<lambda>c. c \<noteq> CHR 0xFF) (c # s)))"
  by pat_completeness simp_all
termination
proof (relation "measure length")
  fix c and s :: string
  have "length (dropWhile (\<lambda>c. c \<noteq> CHR 0xFF) (c # s)) \<le> length (c # s)" by (rule length_dropWhile_le)
  then have "length (drop 3 (dropWhile (\<lambda>c. c \<noteq> CHR 0xFF) (c # s))) < length (c # s)"
    by (simp only: length_drop) simp
  then show "(drop 3 (dropWhile (\<lambda>c. c \<noteq> CHR 0xFF) (c # s)), c # s) \<in> measure length"
    by (simp only: in_measure)
qed simp

declare unframe.simps [simp del]

lemma send_command_frame:
  "send_command port s w = w\<lparr>uart_out := (uart_out w)(port := uart_out w port @ frame_cmd s)\<rparr>"
  by (simp add: send_command_def uart_write_bytes_def frame_cmd_def)

lemma send_commands_frames:
  "send_commands port cmds w =
     w\<lparr>uart_out := (uart_out w)(port := uart_out w port @ concat (map frame_cmd cmds))\<rparr>"
  by (induction cmds arbitrary: w) (simp_all add: send_commands_def send_command_frame)

lemma unframe_frames: "\<forall>c \<in> set cmds. no_ff c \<Longrightarrow> unframe (concat (map frame_cmd cmds)) = cmds"
proof (induction cmds)
  case Nil
  then show ?case by (simp add: unframe.simps(1))
next
  case (Cons c cmds)
  let ?r = "concat (map frame_cmd cmds)"
  have c: "CHR 0xFF \<notin> set c" using Cons.prems by (simp add: no_ff_def)
  then have "takeWhile (\<lambda>c. c \<noteq> CHR 0xFF) (frame_cmd c @ ?r) = c"
    "dropWhile (\<lambda>c. c \<noteq> CHR 0xFF) (frame_cmd c @ ?r) = [CHR 0xFF, CHR 0xFF, CHR 0xFF] @ ?r"
    by (auto simp: frame_cmd_def takeWhile_append dropWhile_append)
  moreover obtain d u where "frame_cmd c @ ?r = d # u"
    by (metis append_is_Nil_conv frame_cmd_def list.exhaust not_Cons_self2)
  ultimately show ?case using Cons by (simp add: unframe.simps(2))
qed

lemma no_ff_append [simp]: "no_ff (a @ b) \<longleftrightarrow> no_ff a \<and> no_ff b"
  by (auto simp: no_ff_def)

lemma no_ff_Nil [simp]: "no_ff []"
  by (simp add: no_ff_def)

lemma no_ff_Cons [simp]: "no_ff (c # s) \<longleftrightarrow> c \<noteq> CHR 0xFF \<and> no_ff s"
  by (auto simp: no_ff_def)

lemma no_ff_replicate [simp]: "no_ff (replicate n c) \<longleftrightarrow> n = 0 \<or> c \<noteq> CHR 0xFF"
  by (auto simp: no_ff_def)

lemma no_ff_dec [simp]: "no_ff (dec n)"
  using set_dec [of "CHR 0xFF" n] by (auto simp: no_ff_def is_digit_def)

lemma no_ff_fmt_d [simp]: "no_ff (fmt_d i)"
  by (simp add: fmt_d_def)

lemma no_ff_fmt_0d [simp]: "no_ff (fmt_0d n i)"
  by (simp add: fmt_0d_def Let_def)

lemma no_ff_fmt_wd [simp]: "no_ff (fmt_wd n i)"
  by (simp add: fmt_wd_def)

lemma no_ff_fmt_0f [simp]: "no_ff (fmt_0f n p x)"
  by (simp add: fmt_0f_def Let_def)

lemma no_ff_quoted [simp]: "no_ff (quoted s) \<longleftrightarrow> no_ff s"
  by (simp add: quoted_def)

lemmas text_defs = txt_invalid_time_def txt_starting_def txt_online_def txt_offline_def
  txt_active_def txt_phases_updated_def OFF_TEXT_def AUTO_TEXT_def

text \<open>The texts the handle keeps are printable on the line.\<close>

definition nextion_texts_ok :: "app_nextion_t \<Rightarrow> bool" where
  "nextion_texts_ok h \<longleftrightarrow> no_ff (nx_hardware_id h) \<and> mode_txt h \<in> {OFF_TEXT, AUTO_TEXT}"

lemma refresh_no_ff:
  assumes "nextion_texts_ok h"
  shows "\<forall>c \<in> set (snd (refresh h t l)). no_ff c"
proof -
  have m: "no_ff (mode_txt h)" "no_ff (nx_hardware_id h)"
    using assms by (auto simp: nextion_texts_ok_def text_defs)
  have "\<forall>c \<in> set (lock_page t). no_ff c" "\<forall>c \<in> set (connect_page h). no_ff c"
    "\<forall>c \<in> set (schedule_page h). no_ff c" "\<forall>c \<in> set (time_page t). no_ff c"
    using m by (simp_all add: lock_page_def connect_page_def schedule_page_def time_page_def
        time_text_def date_text_def FIRMWARE_VERSION_def Let_def)
  moreover have "no_ff (phase_text f n p u i phy) = no_ff f" for f n p u i phy
    by (simp add: phase_text_def)
  then have "\<forall>c \<in> set (home_page h t). no_ff c"
    using m by (simp add: home_page_def time_text_def date_text_def text_defs Let_def)
  ultimately show ?thesis by (auto simp: refresh_def)
qed

text \<open>C20. Every refresh round reaches the screen as whole commands: what the round adds to the
  serial line, split the way the screen splits it at the bytes 0xFF, is exactly the list of
  commands for the page that is shown, and nothing else of the state changes but the two flags.\<close>

theorem nextion_refresh_framed:
  assumes "nextion_handle w = Some h" "nextion_texts_ok h"
  shows "\<exists>out. nextion_write_step (l, w) =
      Some (fst (refresh h (localtime (utc_offset w) (sys_time w)) l),
            w\<lparr>uart_out := (uart_out w)(nx_port_num h := uart_out w (nx_port_num h) @ out)\<rparr>)
    \<and> unframe out = snd (refresh h (localtime (utc_offset w) (sys_time w)) l)"
proof -
  let ?r = "refresh h (localtime (utc_offset w) (sys_time w)) l"
  have "nextion_write_step (l, w) = Some (fst ?r, send_commands (nx_port_num h) (snd ?r) w)"
    using assms(1) by (simp add: nextion_write_step_def split: prod.split)
  then show ?thesis
    using unframe_frames [OF refresh_no_ff [OF assms(2)]] by (auto simp: send_commands_frames)
qed

definition sample_screen :: app_nextion_t where
  "sample_screen = \<lparr>nx_port_num = 2, nx_tx_pin = 4, nx_rx_pin = 5, nx_baudrate = 115200,
     nx_callback = True, current_page = PAGE_CONNECT_INDEX, nx_is_connected = False, nx_is_on = False,
     nx_active_time = \<lparr>at_start_hour = 18, at_start_minute = 0, at_end_hour = 5, at_end_minute = 30\<rparr>,
     nx_phases_data = zero_phases, nx_mode = APP_CONTROLLER_INPUT_MODE_OFF, mode_txt = OFF_TEXT,
     is_sleeping = False, nx_hardware_id = ''GW-A1B2C3''\<rparr>"

definition sample_nextion :: nextion_world where
  "sample_nextion = network_world.extend sample_ppp \<lparr>nextion_handle = Some sample_screen\<rparr>"

lemma sample_nextion_handle: "nextion_handle sample_nextion = Some sample_screen"
  by (simp add: sample_nextion_def network_world.defs)

theorem nextion_refresh_framed_witness:
  "\<exists>out l w'. nextion_write_step (write_locals_init, sample_nextion) = Some (l, w') \<and>
     uart_out w' 2 = uart_out sample_nextion 2 @ out \<and>
     unframe out = [''t2.txt='' @ quoted ''GW-A1B2C3'', ''t4.txt='' @ quoted ''1.1.0'', ''t6.txt='' @ quoted ''112233445'']"
proof -
  have "nextion_texts_ok sample_screen" by (simp add: nextion_texts_ok_def sample_screen_def)
  from nextion_refresh_framed [OF sample_nextion_handle this, of write_locals_init] obtain out where
    o: "nextion_write_step (write_locals_init, sample_nextion) =
        Some (fst (refresh sample_screen (localtime (utc_offset sample_nextion) (sys_time sample_nextion)) write_locals_init),
          sample_nextion\<lparr>uart_out := (uart_out sample_nextion)(nx_port_num sample_screen :=
            uart_out sample_nextion (nx_port_num sample_screen) @ out)\<rparr>)"
      "unframe out = snd (refresh sample_screen (localtime (utc_offset sample_nextion) (sys_time sample_nextion)) write_locals_init)"
    by blast
  have "snd (refresh sample_screen t write_locals_init) = connect_page sample_screen" for t
    by (simp add: refresh_def sample_screen_def page_defs)
  with o show ?thesis
    by (auto simp: connect_page_def sample_screen_def FIRMWARE_VERSION_def)
qed

section \<open>What the screen sends\<close>

definition up_time_message :: "active_time_t \<Rightarrow> string" where
  "up_time_message t = ''@up_time,'' @ fmt_d (at_start_hour t) @ '','' @ fmt_d (at_start_minute t) @ '','' @
     fmt_d (at_end_hour t) @ '','' @ fmt_d (at_end_minute t) @ '',$''"

definition rtc_message :: "date_time_form_t \<Rightarrow> string" where
  "rtc_message d = ''@rtc,'' @ fmt_d (dt_hour d) @ '','' @ fmt_d (dt_minute d) @ '','' @ fmt_d (dt_day d) @ '','' @
     fmt_d (dt_month d) @ '','' @ fmt_d (dt_year d) @ '',$''"

definition active_time_in_range :: "active_time_t \<Rightarrow> bool" where
  "active_time_in_range t \<longleftrightarrow> int_range (at_start_hour t) \<and> int_range (at_start_minute t)
     \<and> int_range (at_end_hour t) \<and> int_range (at_end_minute t)"

definition active_time_accepted :: "active_time_t \<Rightarrow> bool" where
  "active_time_accepted t \<longleftrightarrow> at_start_hour t \<le> 23 \<and> at_start_minute t \<le> 59
     \<and> at_end_hour t \<le> 23 \<and> at_end_minute t \<le> 59"

lemma no_nul_fmt_d [simp]: "CHR 0x00 \<notin> set (fmt_d i)"
  using set_dec [of "CHR 0x00"] by (auto simp: fmt_d_def is_digit_def)

lemma c_str_append: "CHR 0x00 \<notin> set a \<Longrightarrow> c_str (a @ b) = a @ c_str b"
  unfolding c_str_def by (rule takeWhile_append2) auto

lemma comma_not_digit [simp]: "\<not> is_digit CHR '',''"
  by (simp add: is_digit_def)

lemma sscanf_int_comma:
  "int_range i \<Longrightarrow> sscanf (SInt # SLit CHR '','' # f) (fmt_d i @ CHR '','' # r) = i # sscanf f r"
  by (subst sscanf_int_step) simp_all

lemma sscanf_up_time:
  assumes "active_time_in_range t"
  shows "sscanf up_time_format (c_str (up_time_message t @ tail)) =
    [at_start_hour t, at_start_minute t, at_end_hour t, at_end_minute t]"
proof -
  have c: "c_str (up_time_message t @ tail) = up_time_message t @ c_str tail"
    by (rule c_str_append) (simp add: up_time_message_def)
  show ?thesis
    using assms unfolding c unfolding up_time_format_def up_time_message_def append_assoc sscanf_lits
    by (simp add: active_time_in_range_def sscanf_int_comma del: sscanf.simps(4)) 
qed

lemma sscanf_rtc:
  assumes "\<forall>i \<in> {dt_hour d, dt_minute d, dt_day d, dt_month d, dt_year d}. int_range i"
  shows "sscanf rtc_format (c_str (rtc_message d @ tail)) =
    [dt_hour d, dt_minute d, dt_day d, dt_month d, dt_year d]"
proof -
  have c: "c_str (rtc_message d @ tail) = rtc_message d @ c_str tail"
    by (rule c_str_append) (simp add: rtc_message_def)
  show ?thesis
    using assms unfolding c unfolding rtc_format_def rtc_message_def append_assoc sscanf_lits
    by (simp add: sscanf_int_comma del: sscanf.simps(4))
qed

lemma up_time_is_up_time:
  "handle_message cb vars (up_time_message t @ tail) w = handle_up_time cb vars (up_time_message t @ tail) w"
  by (simp add: handle_message_def starts_with_def key_defs up_time_message_def)

lemma rtc_is_rtc:
  "handle_message cb vars (rtc_message d @ tail) w = handle_rtc cb (rtc_message d @ tail) w"
  by (simp add: handle_message_def starts_with_def key_defs rtc_message_def)



text \<open>C22. Setting the clock on the screen: the message for five numbers is reported with exactly
  these numbers and second 0, whatever follows it in the buffer.\<close>

theorem nextion_set_time:
  assumes "\<forall>i \<in> {dt_hour d, dt_minute d, dt_day d, dt_month d, dt_year d}. int_range i"
  shows "handle_message cb vars (rtc_message d @ tail) w =
    nextion_callback cb APP_NEXTION_EVENT_SET_TIME (Some (CbDateTime (d\<lparr>dt_second := 0\<rparr>)))
      sizeof_date_time_form_t w"
  using sscanf_rtc [OF assms, of tail]
  by (cases d) (simp add: rtc_is_rtc handle_rtc_def assign_vars_def numeral_nat)

theorem nextion_set_time_witness:
  "handle_message (\<lambda>w e. if e = \<lparr>ev_id = 204, ev_data = Some (CbDateTime \<lparr>dt_hour = 6, dt_minute = 5,
       dt_day = 1, dt_month = 12, dt_year = 2024, dt_second = 0\<rparr>), ev_len = 24\<rparr> then Some w else None)
     [] (rtc_message \<lparr>dt_hour = 6, dt_minute = 5, dt_day = 1, dt_month = 12, dt_year = 2024, dt_second = 9\<rparr>)
     sample_nextion = Some sample_nextion"
  using nextion_set_time [of "\<lparr>dt_hour = 6, dt_minute = 5, dt_day = 1, dt_month = 12, dt_year = 2024,
      dt_second = 9\<rparr>" "\<lambda>w e. if e = \<lparr>ev_id = 204, ev_data = Some (CbDateTime \<lparr>dt_hour = 6, dt_minute = 5,
      dt_day = 1, dt_month = 12, dt_year = 2024, dt_second = 0\<rparr>), ev_len = 24\<rparr> then Some w else None"
      "[]" "[]" sample_nextion]
  by (simp add: int_range_def nextion_callback_def sample_nextion_handle sample_screen_def event_ids sizeofs)

text \<open>Page messages: the page recorded is the page the screen shows afterwards. On a request
  for the home page a sleeping screen is woken on the lock page and a screen in manual mode is
  sent to the manual page; every other request just records the page.\<close>

theorem nextion_page_message:
  assumes "nextion_handle w = Some h" "int_range n" "no_digit_next tail"
  shows "handle_message cb vars (''@page_'' @ fmt_d n @ tail) w = Some (
    if n = PAGE_HOME_INDEX \<and> is_sleeping h
    then set_nextion (h\<lparr>current_page := PAGE_LOCK_INDEX, is_sleeping := False\<rparr>)
           (send_command (nx_port_num h) ''page page0'' w)
    else if n = PAGE_HOME_INDEX \<and> nx_mode h = APP_CONTROLLER_INPUT_MODE_MANUAL
    then set_nextion (h\<lparr>current_page := PAGE_MANUAL_INDEX\<rparr>)
           (send_command (nx_port_num h) ''page page2'' w)
    else set_nextion (h\<lparr>current_page := n\<rparr>) w)"
proof -
  have "c_str (''@page_'' @ fmt_d n @ tail) = ''@page_'' @ fmt_d n @ c_str tail"
    using c_str_append [of "''@page_'' @ fmt_d n" tail] by simp
  moreover have "no_digit_next (c_str tail)"
    using assms(3) by (cases tail) (auto simp: c_str_def no_digit_next_def)
  ultimately have "sscanf (map SLit ''@page_'' @ [SInt]) (c_str (''@page_'' @ fmt_d n @ tail)) = [n]"
    unfolding sscanf_lits using sscanf_lits [of "''@page_''" "[SInt]" "fmt_d n @ c_str tail"]
    by (simp only: sscanf_int_step [OF assms(2)] sscanf.simps(1))
  moreover have "handle_message cb vars (''@page_'' @ fmt_d n @ tail) w = handle_page (''@page_'' @ fmt_d n @ tail) w"
    by (simp add: handle_message_def starts_with_def key_defs)
  moreover have "fmt_d 0 = ''0''" "fmt_d 2 = ''2''"
    by code_simp+
  ultimately show ?thesis
    using assms(1)
    by (simp add: handle_page_def assign_vars_def nextion_defs send_command_frame Let_def page_defs)
qed

lemma fmt_d_5: "fmt_d 5 = ''5''"
  by code_simp

theorem nextion_page_message_witness:
  "handle_message (\<lambda>w e. None) [] ''@page_5'' sample_nextion =
     Some (set_nextion (sample_screen\<lparr>current_page := 5\<rparr>) sample_nextion)"
  using nextion_page_message [OF sample_nextion_handle, of 5 "[]" "\<lambda>w e. None" "[]"]
  by (simp add: int_range_def page_defs fmt_d_5)

end
