(* ===== verification/Ds3231.thy ===== *)
theory Ds3231
  imports Complex_Main Platform
begin

text \<open>
  The real-time clock: \<^verbatim>\<open>main/i2cdev.c\<close>, \<^verbatim>\<open>main/include/i2cdev.h\<close> (register
  access over the I2C bus) and \<^verbatim>\<open>main/ds3231.c\<close> (date, time and temperature of the
  DS3231). The drivers build the same command sequences as the code; the bus executes them on
  the chip. The lemmas show the binary-coded-decimal conversions inverse to each other, that a
  block of registers written is the block read back, and that a time set is the time read.
\<close>

section \<open>i2cdev.c\<close>

record i2c_dev_t =
  dev_port :: int
  dev_addr :: byte
  sda_io_num :: int
  scl_io_num :: int
  clk_speed :: int

definition I2C_FREQ_HZ :: int where "I2C_FREQ_HZ = 100000"

definition i2c_driver_install :: "'a platform_scheme \<Rightarrow> esp_err_t \<times> 'a platform_scheme" where
  "i2c_driver_install w = (i2c_res w (i2c_count w), w\<lparr>i2c_count := Suc (i2c_count w)\<rparr>)"

definition i2c_master_init ::
    "int \<Rightarrow> int \<Rightarrow> int \<Rightarrow> 'a platform_scheme \<Rightarrow> esp_err_t \<times> 'a platform_scheme" where
  "i2c_master_init port sda scl w = i2c_driver_install w"

definition addr_byte :: "byte \<Rightarrow> byte \<Rightarrow> byte" where
  "addr_byte a rw = push_bit 1 a OR rw"

definition i2c_dev_read ::
    "i2c_dev_t option \<Rightarrow> byte list \<Rightarrow> nat \<Rightarrow> 'a platform_scheme \<Rightarrow>
     esp_err_t \<times> byte list \<times> 'a platform_scheme" where
  "i2c_dev_read dev out_data in_size w =
     (case dev of
        None \<Rightarrow> (ESP_ERR_INVALID_ARG, [], w)
      | Some d \<Rightarrow>
          if in_size = 0 then (ESP_ERR_INVALID_ARG, [], w)
          else i2c_master_cmd_begin
            ((if out_data \<noteq> [] then [I2cStart, I2cWrite [addr_byte (dev_addr d) 0], I2cWrite out_data]
              else [])
             @ [I2cStart, I2cWrite [addr_byte (dev_addr d) 1], I2cRead in_size, I2cStop]) w)"

definition i2c_dev_write ::
    "i2c_dev_t option \<Rightarrow> byte list \<Rightarrow> byte list \<Rightarrow> 'a platform_scheme \<Rightarrow>
     esp_err_t \<times> 'a platform_scheme" where
  "i2c_dev_write dev out_reg out_data w =
     (case dev of
        None \<Rightarrow> (ESP_ERR_INVALID_ARG, w)
      | Some d \<Rightarrow>
          if out_data = [] then (ESP_ERR_INVALID_ARG, w)
          else case i2c_master_cmd_begin
            ([I2cStart, I2cWrite [addr_byte (dev_addr d) 0]]
             @ (if out_reg \<noteq> [] then [I2cWrite out_reg] else [])
             @ [I2cWrite out_data, I2cStop]) w of (res, _, w') \<Rightarrow> (res, w'))"

definition i2c_dev_read_reg ::
    "i2c_dev_t option \<Rightarrow> byte \<Rightarrow> nat \<Rightarrow> 'a platform_scheme \<Rightarrow>
     esp_err_t \<times> byte list \<times> 'a platform_scheme" where
  "i2c_dev_read_reg dev reg in_size w = i2c_dev_read dev [reg] in_size w"

definition i2c_dev_write_reg ::
    "i2c_dev_t option \<Rightarrow> byte \<Rightarrow> byte list \<Rightarrow> 'a platform_scheme \<Rightarrow>
     esp_err_t \<times> 'a platform_scheme" where
  "i2c_dev_write_reg dev reg out_data w = i2c_dev_write dev [reg] out_data w"

section \<open>ds3231.c\<close>

definition DS3231_ADDR :: byte where "DS3231_ADDR = 0x68"
definition DS3231_ADDR_TIME :: byte where "DS3231_ADDR_TIME = 0x00"
definition DS3231_ADDR_TEMP :: byte where "DS3231_ADDR_TEMP = 0x11"
definition DS3231_12HOUR_FLAG :: byte where "DS3231_12HOUR_FLAG = 0x40"
definition DS3231_12HOUR_MASK :: byte where "DS3231_12HOUR_MASK = 0x1f"
definition DS3231_PM_FLAG :: byte where "DS3231_PM_FLAG = 0x20"
definition DS3231_MONTH_MASK :: byte where "DS3231_MONTH_MASK = 0x1f"

lemmas ds3231_consts = DS3231_ADDR_def DS3231_ADDR_TIME_def DS3231_ADDR_TEMP_def
  DS3231_12HOUR_FLAG_def DS3231_12HOUR_MASK_def DS3231_PM_FLAG_def DS3231_MONTH_MASK_def

definition bcd2dec :: "byte \<Rightarrow> byte" where
  "bcd2dec val = drop_bit 4 val * 10 + (val AND 0x0f)"

definition dec2bcd :: "byte \<Rightarrow> byte" where
  "dec2bcd val = push_bit 4 (val div 10) + val mod 10"

definition ds3231_init_desc ::
    "i2c_dev_t option \<Rightarrow> int \<Rightarrow> int \<Rightarrow> int \<Rightarrow> 'a platform_scheme \<Rightarrow>
     esp_err_t \<times> i2c_dev_t option \<times> 'a platform_scheme" where
  "ds3231_init_desc dev port sda_gpio scl_gpio w =
     (case dev of
        None \<Rightarrow> (ESP_ERR_INVALID_ARG, None, w)
      | Some d \<Rightarrow>
          let d' = d\<lparr>dev_port := port, dev_addr := DS3231_ADDR, sda_io_num := sda_gpio,
                     scl_io_num := scl_gpio, clk_speed := I2C_FREQ_HZ\<rparr>
          in case i2c_master_init port sda_gpio scl_gpio w of (res, w') \<Rightarrow> (res, Some d', w'))"

definition time_regs :: "tm \<Rightarrow> byte list" where
  "time_regs t =
     [dec2bcd (u8 (tm_sec t)), dec2bcd (u8 (tm_min t)), dec2bcd (u8 (tm_hour t)),
      dec2bcd (u8 (tm_wday t + 1)), dec2bcd (u8 (tm_mday t)), dec2bcd (u8 (tm_mon t + 1)),
      dec2bcd (u8 (tm_year t))]"

definition ds3231_set_time ::
    "i2c_dev_t option \<Rightarrow> tm option \<Rightarrow> 'a platform_scheme \<Rightarrow> esp_err_t \<times> 'a platform_scheme" where
  "ds3231_set_time dev time w =
     (case (dev, time) of
        (Some d, Some t) \<Rightarrow> i2c_dev_write_reg dev DS3231_ADDR_TIME (time_regs t) w
      | _ \<Rightarrow> (ESP_ERR_INVALID_ARG, w))"

definition decode_hour :: "byte \<Rightarrow> int" where
  "decode_hour b =
     (if b AND DS3231_12HOUR_FLAG \<noteq> 0
      then uint (bcd2dec (b AND DS3231_12HOUR_MASK)) - 1 + (if b AND DS3231_PM_FLAG \<noteq> 0 then 12 else 0)
      else uint (bcd2dec b))"

definition decode_time :: "byte list \<Rightarrow> tm \<Rightarrow> tm" where
  "decode_time data t =
     t\<lparr>tm_sec := uint (bcd2dec (data ! 0)), tm_min := uint (bcd2dec (data ! 1)),
       tm_hour := decode_hour (data ! 2), tm_wday := uint (bcd2dec (data ! 3)) - 1,
       tm_mday := uint (bcd2dec (data ! 4)),
       tm_mon := uint (bcd2dec (data ! 5 AND DS3231_MONTH_MASK)) - 1,
       tm_year := uint (bcd2dec (data ! 6)), tm_isdst := 0\<rparr>"

definition ds3231_get_time ::
    "i2c_dev_t option \<Rightarrow> tm option \<Rightarrow> 'a platform_scheme \<Rightarrow>
     esp_err_t \<times> tm option \<times> 'a platform_scheme" where
  "ds3231_get_time dev time w =
     (case (dev, time) of
        (Some d, Some t) \<Rightarrow>
          (case i2c_dev_read_reg dev DS3231_ADDR_TIME 7 w of (res, data, w') \<Rightarrow>
             if res \<noteq> ESP_OK then (res, Some t, w') else (ESP_OK, Some (decode_time data t), w'))
      | _ \<Rightarrow> (ESP_ERR_INVALID_ARG, time, w))"

definition ds3231_get_raw_temp ::
    "i2c_dev_t option \<Rightarrow> int \<Rightarrow> 'a platform_scheme \<Rightarrow> esp_err_t \<times> int \<times> 'a platform_scheme" where
  "ds3231_get_raw_temp dev temp w =
     (case dev of
        None \<Rightarrow> (ESP_ERR_INVALID_ARG, temp, w)
      | Some d \<Rightarrow>
          (case i2c_dev_read_reg dev DS3231_ADDR_TEMP 2 w of (res, data, w') \<Rightarrow>
             if res = ESP_OK
             then (res, push_bit 2 (sint (data ! 0)) OR uint (drop_bit 6 (data ! 1)), w')
             else (res, temp, w')))"

definition ds3231_get_temp_integer ::
    "i2c_dev_t option \<Rightarrow> int \<Rightarrow> 'a platform_scheme \<Rightarrow> esp_err_t \<times> int \<times> 'a platform_scheme" where
  "ds3231_get_temp_integer dev temp w =
     (case ds3231_get_raw_temp dev 0 w of (res, t_int, w') \<Rightarrow>
        (res, if res = ESP_OK then drop_bit 2 t_int else temp, w'))"

definition ds3231_get_temp_float ::
    "i2c_dev_t option \<Rightarrow> rat \<Rightarrow> 'a platform_scheme \<Rightarrow> esp_err_t \<times> rat \<times> 'a platform_scheme" where
  "ds3231_get_temp_float dev temp w =
     (case ds3231_get_raw_temp dev 0 w of (res, t_int, w') \<Rightarrow>
        (res, if res = ESP_OK then of_int t_int / 4 else temp, w'))"

lemmas ds3231_ops [op_defs] = i2c_master_init_def i2c_driver_install_def i2c_dev_read_reg_def
  i2c_dev_write_reg_def ds3231_init_desc_def ds3231_set_time_def ds3231_get_time_def

section \<open>Binary-coded decimal\<close>

lemma bcd_table:
  "list_all (\<lambda>n. bcd2dec (dec2bcd (word_of_nat n)) = word_of_nat n) [0..<160]"
  by code_simp

lemma bcd2dec_dec2bcd: "unat v < 160 \<Longrightarrow> bcd2dec (dec2bcd v) = v"
proof -
  assume "unat v < 160"
  then have "unat v \<in> set [0..<160]" by simp
  with bcd_table have "bcd2dec (dec2bcd (word_of_nat (unat v))) = word_of_nat (unat v)"
    unfolding list_all_iff by blast
  then show ?thesis by simp
qed

lemma bcd_int: "0 \<le> x \<Longrightarrow> x < 160 \<Longrightarrow> uint (bcd2dec (dec2bcd (u8 x))) = x"
proof -
  assume x: "0 \<le> x" "x < 160"
  then have u: "uint (u8 x) = x" by (simp add: uint_u8)
  then have "unat (u8 x) < 160" using x by (simp add: unat_eq_nat_uint nat_less_iff)
  then show ?thesis using u by (simp add: bcd2dec_dec2bcd)
qed

lemma hour_table:
  "list_all (\<lambda>n. dec2bcd (word_of_nat n) AND DS3231_12HOUR_FLAG = 0) [0..<24]"
  "list_all (\<lambda>n. dec2bcd (word_of_nat n) AND DS3231_MONTH_MASK = dec2bcd (word_of_nat n)) [0..<13]"
  by code_simp+

lemma hour_flag_clear: "0 \<le> h \<Longrightarrow> h < 24 \<Longrightarrow> dec2bcd (u8 h) AND DS3231_12HOUR_FLAG = 0"
proof -
  assume h: "0 \<le> h" "h < 24"
  then have "nat h \<in> set [0..<24]" by simp
  with hour_table(1) have "dec2bcd (word_of_nat (nat h)) AND DS3231_12HOUR_FLAG = 0"
    unfolding list_all_iff by blast
  moreover have "word_of_nat (nat h) = u8 h" using h by (simp add: u8_def of_nat_nat)
  ultimately show ?thesis by simp
qed

lemma month_masked: "0 \<le> m \<Longrightarrow> m < 13 \<Longrightarrow> dec2bcd (u8 m) AND DS3231_MONTH_MASK = dec2bcd (u8 m)"
proof -
  assume m: "0 \<le> m" "m < 13"
  then have "nat m \<in> set [0..<13]" by simp
  with hour_table(2) have "dec2bcd (word_of_nat (nat m)) AND DS3231_MONTH_MASK = dec2bcd (word_of_nat (nat m))"
    unfolding list_all_iff by blast
  moreover have "word_of_nat (nat m) = u8 m" using m by (simp add: u8_def of_nat_nat)
  ultimately show ?thesis by simp
qed

section \<open>Register blocks over the bus\<close>

lemma chip_exec_write_block:
  "chip_exec PhIdle [I2cStart, I2cWrite [addr_byte 0x68 0], I2cWrite [reg], I2cWrite bs, I2cStop] c =
     ([], snd (chip_write PhData bs (c\<lparr>ptr := reg\<rparr>)))"
  using chip_write_data_phase [of bs "c\<lparr>ptr := reg\<rparr>"]
  by (simp add: addr_byte_def DS3231_chip_addr_def split: prod.split)

lemma chip_exec_read_block:
  "chip_exec PhIdle [I2cStart, I2cWrite [addr_byte 0x68 0], I2cWrite [reg], I2cStart,
       I2cWrite [addr_byte 0x68 1], I2cRead n, I2cStop] c = chip_read n (c\<lparr>ptr := reg\<rparr>)"
  by (simp add: addr_byte_def DS3231_chip_addr_def split: prod.split)

lemma write_reg_regs:
  assumes "dev_addr d = DS3231_ADDR" "bs \<noteq> []" "length bs < 256" "i2c_res w (i2c_count w) = ESP_OK"
    and "i2c_dev_write_reg (Some d) reg bs w = (res, w')"
  shows "res = ESP_OK"
    and "regs (rtc_chip w') a =
      (if unat (a - reg) < length bs then bs ! unat (a - reg) else regs (rtc_chip w) a)"
    and "i2c_count w' = Suc (i2c_count w)" "i2c_res w' = i2c_res w"
  using assms chip_exec_write_block [of reg bs "rtc_chip w"]
  by (auto simp: i2c_dev_write_reg_def i2c_dev_write_def i2c_master_cmd_begin_def Let_def
      DS3231_ADDR_def chip_write_data_regs)

lemma read_reg_bytes:
  assumes "dev_addr d = DS3231_ADDR" "0 < n" "i2c_res w (i2c_count w) = ESP_OK"
    and "i2c_dev_read_reg (Some d) reg n w = (res, bs, w')"
  shows "res = ESP_OK" and "length bs = n"
    and "i < n \<Longrightarrow> bs ! i = regs (rtc_chip w) (reg + of_nat i)"
    and "regs (rtc_chip w') = regs (rtc_chip w)"
  using assms chip_exec_read_block [of reg n "rtc_chip w"] chip_read_nth [of n "rtc_chip w\<lparr>ptr := reg\<rparr>"]
  by (auto simp: i2c_dev_read_reg_def i2c_dev_read_def i2c_master_cmd_begin_def Let_def
      DS3231_ADDR_def split: prod.splits)

lemma read_reg_error:
  assumes "i2c_res w (i2c_count w) \<noteq> ESP_OK" "0 < n"
  shows "i2c_dev_read_reg (Some d) reg n w =
     (i2c_res w (i2c_count w), [], w\<lparr>i2c_count := Suc (i2c_count w)\<rparr>)"
  using assms by (simp add: i2c_dev_read_reg_def i2c_dev_read_def i2c_master_cmd_begin_def Let_def)

definition tm_valid :: "tm \<Rightarrow> bool" where
  "tm_valid t \<longleftrightarrow> tm_time_valid t \<and> 0 \<le> tm_wday t \<and> tm_wday t < 7 \<and> 1 \<le> tm_mday t \<and> tm_mday t \<le> 31
     \<and> 0 \<le> tm_mon t \<and> tm_mon t < 12 \<and> 0 \<le> tm_year t \<and> tm_year t < 160"

lemma decode_time_regs:
  "tm_valid t \<Longrightarrow> decode_time (time_regs t) t0 = t\<lparr>tm_isdst := 0\<rparr>"
  by (simp add: decode_time_def time_regs_def tm_valid_def tm_time_valid_def decode_hour_def
      hour_flag_clear month_masked bcd_int)

lemma time_regs_length [simp]: "length (time_regs t) = 7" "time_regs t \<noteq> []"
  by (simp_all add: time_regs_def)

section \<open>Properties\<close>

text \<open>
  C30. A date and time written to the clock chip with \<^verbatim>\<open>ds3231_set_time\<close> is the date and time
  \<^verbatim>\<open>ds3231_get_time\<close> reads back, field by field, for every valid broken-down time up to the
  year 2059 (\<open>tm_year < 160\<close>), whenever the two bus transactions succeed.
\<close>

theorem ds3231_set_get_time:
  assumes d: "dev_addr d = DS3231_ADDR" and v: "tm_valid t"
    and ok: "i2c_res w (i2c_count w) = ESP_OK" "i2c_res w (Suc (i2c_count w)) = ESP_OK"
    and set: "ds3231_set_time (Some d) (Some t) w = (r1, w1)"
    and get: "ds3231_get_time (Some d) (Some t0) w1 = (r2, t2, w2)"
  shows "r1 = ESP_OK \<and> r2 = ESP_OK \<and> t2 = Some (t\<lparr>tm_isdst := 0\<rparr>)"
proof -
  have s: "i2c_dev_write_reg (Some d) DS3231_ADDR_TIME (time_regs t) w = (r1, w1)"
    using set by (simp add: ds3231_set_time_def)
  note ws = write_reg_regs [OF d time_regs_length(2) _ ok(1) s]
  have w1: "i2c_res w1 (i2c_count w1) = ESP_OK" using ws(3,4) ok(2) by simp
  obtain data where r: "i2c_dev_read_reg (Some d) DS3231_ADDR_TIME 7 w1 = (r2, data, w2)"
    using get by (auto simp: ds3231_get_time_def split: prod.splits if_splits)
  note rs = read_reg_bytes [OF d _ w1 r]
  have "data ! i = time_regs t ! i" if "i < 7" for i
  proof -
    have "unat (of_nat i :: byte) = i" using that by (simp add: unat_of_nat)
    then show ?thesis
      using rs(3) [of i] ws(2) [of "of_nat i"] that by (simp add: DS3231_ADDR_TIME_def)
  qed
  then have "data = time_regs t" using rs(2) by (intro nth_equalityI) auto
  then show ?thesis
    using get ws(1) rs(1) r v by (simp add: ds3231_get_time_def decode_time_regs)
qed

definition sample_dev :: i2c_dev_t where
  "sample_dev = \<lparr>dev_port = 0, dev_addr = 0x68, sda_io_num = 21, scl_io_num = 22, clk_speed = 100000\<rparr>"

definition sample_tm :: tm where
  "sample_tm = \<lparr>tm_sec = 30, tm_min = 59, tm_hour = 23, tm_mday = 31, tm_mon = 11, tm_year = 123,
     tm_wday = 0, tm_isdst = 0\<rparr>"

theorem ds3231_set_get_time_witness:
  "case ds3231_set_time (Some sample_dev) (Some sample_tm) idle_platform of (r1, w1) \<Rightarrow>
   case ds3231_get_time (Some sample_dev) (Some (sample_tm\<lparr>tm_year := 0\<rparr>)) w1 of (r2, t2, w2) \<Rightarrow>
     r1 = ESP_OK \<and> r2 = ESP_OK \<and> t2 = Some (sample_tm\<lparr>tm_isdst := 0\<rparr>)"
proof -
  have h: "dev_addr sample_dev = DS3231_ADDR" "tm_valid sample_tm"
    by (simp_all add: sample_dev_def DS3231_ADDR_def sample_tm_def tm_valid_def tm_time_valid_def)
  show ?thesis
    using ds3231_set_get_time [OF h, of idle_platform]
    by (auto simp: idle_platform_def split: prod.splits)
qed



lemma or_low_bits: "0 \<le> y \<Longrightarrow> y < 4 \<Longrightarrow> push_bit 2 x OR y = 4 * x + (y :: int)"
proof -
  assume "0 \<le> y" "y < 4"
  then have t: "take_bit 2 y = y" by (simp add: take_bit_eq_mod)
  have "push_bit 2 x AND take_bit 2 y = 0"
    by (rule bit_eqI) (auto simp: bit_simps)
  then have "push_bit 2 x + y = push_bit 2 x OR y" using t by (simp add: disjunctive_add_eq_or)
  then show ?thesis by (simp add: push_bit_eq_mult)
qed

lemma byte_top_two: "0 \<le> uint (b :: byte) div 64" "uint b div 64 < 4"
proof -
  have "uint b \<le> 255" using uint_lt2p [of b] by simp
  then have "uint b div 64 \<le> 255 div 64" by (intro zdiv_mono1) simp_all
  then show "uint b div 64 < 4" by simp
  show "0 \<le> uint b div 64" by (simp add: pos_imp_zdiv_nonneg_iff)
qed

text \<open>
  The temperature registers are read as a signed quarter-degree count: the raw value is four
  times the signed upper register plus the top two bits of the lower one, it fits the ten bits of
  the sensor, and the integer temperature is the signed upper register itself.
\<close>

theorem ds3231_temperature:
  assumes d: "dev_addr d = DS3231_ADDR" and ok: "i2c_res w (i2c_count w) = ESP_OK"
    and hi: "hi = sint (regs (rtc_chip w) 0x11)" and lo: "lo = uint (regs (rtc_chip w) 0x12) div 64"
  shows "\<exists>w'. ds3231_get_raw_temp (Some d) v w = (ESP_OK, 4 * hi + lo, w')
           \<and> ds3231_get_temp_integer (Some d) v w = (ESP_OK, hi, w')
           \<and> - 512 \<le> 4 * hi + lo \<and> 4 * hi + lo \<le> 511"
proof -
  obtain res bs w' where r: "i2c_dev_read_reg (Some d) DS3231_ADDR_TEMP 2 w = (res, bs, w')"
    by (metis prod_cases3)
  note rs = read_reg_bytes [OF d _ ok r]
  have b: "bs ! 0 = regs (rtc_chip w) 0x11" "bs ! 1 = regs (rtc_chip w) 0x12"
    using rs(3) [of 0] rs(3) [of 1] by (simp_all add: DS3231_ADDR_TEMP_def)
  have l: "0 \<le> lo" "lo < 4" using byte_top_two [of "regs (rtc_chip w) 0x12"] lo by auto
  have u: "uint (drop_bit 6 (regs (rtc_chip w) 0x12)) = lo"
    by (simp add: lo drop_bit_eq_div uint_div)
  have raw: "ds3231_get_raw_temp (Some d) v' w = (ESP_OK, 4 * hi + lo, w')" for v'
    using rs(1) r b u l hi by (simp add: ds3231_get_raw_temp_def or_low_bits)
  have "drop_bit 2 (4 * hi + lo) = hi" using l by (simp add: drop_bit_eq_div)
  then have int: "ds3231_get_temp_integer (Some d) v w = (ESP_OK, hi, w')"
    by (simp add: ds3231_get_temp_integer_def raw)
  have "- 128 \<le> hi" "hi \<le> 127"
    using sint_ge [of "regs (rtc_chip w) 0x11"] sint_lt [of "regs (rtc_chip w) 0x11"] hi by simp_all
  then show ?thesis using raw int l by auto
qed

theorem ds3231_temperature_witness:
  "\<exists>w'. ds3231_get_raw_temp (Some sample_dev) 0
          (idle_platform\<lparr>rtc_chip := \<lparr>regs = (\<lambda>_. 0)(0x11 := 0xF6, 0x12 := 0x40), ptr = 0\<rparr>\<rparr>)
        = (ESP_OK, 4 * - 10 + 1, w')"
  using ds3231_temperature [of sample_dev
      "idle_platform\<lparr>rtc_chip := \<lparr>regs = (\<lambda>_. 0)(0x11 := 0xF6, 0x12 := 0x40), ptr = 0\<rparr>\<rparr>" "- 10" 1 0]
  by (auto simp: sample_dev_def DS3231_ADDR_def idle_platform_def)

end
