(* ===== verification/App_Schedule.thy ===== *)
theory App_Schedule
  imports App_Nextion Ds3231
begin

text \<open>
  \<^verbatim>\<open>main/app_schedule.c\<close>: the daily schedule of the lamp and the clock it depends on. The
  system clock is set from the DS3231, from SNTP, from the screen or from the GPS receiver. SNTP is
  not code of the repository: its answers are an argument, \<open>sntp i\<close> being what the
  \<open>i\<close>-th poll of its status finds, \<open>None\<close> while it has not completed and \<open>Some t\<close>
  once it has set the system clock to \<open>t\<close>. The network handle of the configuration is the one
  of \<^verbatim>\<open>app_main.c\<close>.
\<close>

section \<open>State\<close>

record app_schedule_job_t =
  job_type :: app_schedule_schedule_type_t
  job_index :: int
  job_start_hour :: int
  job_start_minute :: int
  job_start_sec :: int
  job_enable :: bool

record app_schedule_t =
  sch_callback :: bool
  job_list :: "app_schedule_job_t list"
  sda_pin :: int
  scl_pin :: int
  is_sync :: bool
  is_init_sntp :: bool
  sch_dev :: i2c_dev_t
  risk_offset :: int
  is_force_sync :: bool
  n_sync_time :: int
  sch_start :: app_schedule_job_t
  sch_end :: app_schedule_job_t
  sch_mode :: operator_mode_t

record app_schedule_config_t =
  sc_callback :: bool
  sc_sda_pin :: int
  sc_scl_pin :: int
  sc_risk_offset :: int

record schedule_world = nextion_world +
  schedule_handle :: "app_schedule_t option"

definition schedule_type_index :: "app_schedule_schedule_type_t \<Rightarrow> nat" where
  "schedule_type_index t =
     (case t of SCHEDULE_TYPE_NONE \<Rightarrow> 0 | SCHEDULE_TYPE_ACTIVE_START \<Rightarrow> 1
      | SCHEDULE_TYPE_ACTIVE_END \<Rightarrow> 2 | SCHEDULE_TYPE_MAX \<Rightarrow> 3)"

definition set_schedule :: "app_schedule_t \<Rightarrow> 'a schedule_world_scheme \<Rightarrow> 'a schedule_world_scheme" where
  "set_schedule h w = w\<lparr>schedule_handle := Some h\<rparr>"

section \<open>Operations\<close>

text \<open>The two jobs \<open>start\<close> and \<open>end\<close> and the fields of \<open>job_list\<close> other than \<open>enable\<close> keep the junk.\<close>

definition app_schedule_init :: "app_schedule_t \<Rightarrow> app_schedule_config_t \<Rightarrow> app_schedule_t" where
  "app_schedule_init junk config = junk\<lparr>
     sch_callback := sc_callback config,
     job_list := map (\<lambda>j. j\<lparr>job_enable := False\<rparr>) (job_list junk),
     scl_pin := sc_scl_pin config, sda_pin := sc_sda_pin config,
     is_sync := False, is_init_sntp := False, is_force_sync := True,
     risk_offset := sc_risk_offset config, n_sync_time := 0, sch_mode := OPERATOR_MODE_OFF\<rparr>"

definition app_schedule_start :: "bool \<Rightarrow> 'a schedule_world_scheme \<Rightarrow> esp_err_t" where
  "app_schedule_start task_created w =
     (case schedule_handle w of
        None \<Rightarrow> ESP_FAIL
      | Some handle \<Rightarrow> if \<not> task_created then ESP_FAIL else ESP_OK)"

text \<open>A type out of the list's bounds would be written past its end: no result.\<close>

definition app_schedule_add_alarm ::
    "int \<Rightarrow> int \<Rightarrow> app_schedule_schedule_type_t \<Rightarrow> 'a schedule_world_scheme
     \<Rightarrow> (esp_err_t \<times> 'a schedule_world_scheme) option" where
  "app_schedule_add_alarm hour minute type w =
     (case schedule_handle w of
        None \<Rightarrow> Some (ESP_FAIL, w)
      | Some handle \<Rightarrow>
          (let i = schedule_type_index type in
           if \<not> i < length (job_list handle) then None
           else
             (let job = (job_list handle ! i)\<lparr>job_type := type, job_enable := True,
                    job_start_hour := hour, job_start_minute := minute, job_start_sec := 0\<rparr>;
                  h = handle\<lparr>job_list := (job_list handle)[i := job]\<rparr>;
                  h = (if type = SCHEDULE_TYPE_ACTIVE_START then
                         h\<lparr>sch_start := (sch_start h)\<lparr>job_start_hour := hour, job_start_minute := minute,
                             job_enable := True, job_type := SCHEDULE_TYPE_ACTIVE_START\<rparr>\<rparr>
                       else if type = SCHEDULE_TYPE_ACTIVE_END then
                         h\<lparr>sch_end := (sch_end h)\<lparr>job_start_hour := hour, job_start_minute := minute,
                             job_enable := True, job_type := SCHEDULE_TYPE_ACTIVE_END\<rparr>\<rparr>
                       else h)
              in Some (ESP_OK, set_schedule h w))))"

text \<open>The \<open>struct tm\<close> of an initialiser: the fields it does not name are zero.\<close>

definition form_tm :: "date_time_form_t \<Rightarrow> int \<Rightarrow> tm" where
  "form_tm f sec = \<lparr>tm_sec = sec, tm_min = dt_minute f, tm_hour = dt_hour f, tm_mday = dt_day f,
     tm_mon = dt_month f - 1, tm_year = dt_year f - 1900, tm_wday = 0, tm_isdst = 0\<rparr>"

definition app_gps_set_time ::
    "date_time_form_t \<Rightarrow> 'a schedule_world_scheme \<Rightarrow> esp_err_t \<times> 'a schedule_world_scheme" where
  "app_gps_set_time time_form w =
     (case schedule_handle w of
        None \<Rightarrow> (ESP_FAIL, w)
      | Some handle \<Rightarrow>
          (let time = form_tm time_form (dt_second time_form) in
           (case ds3231_set_time (Some (sch_dev handle)) (Some time) w of (res, w) \<Rightarrow>
              if res \<noteq> ESP_OK then (ESP_FAIL, w)
              else (let w = settimeofday (mktime (utc_offset w) time) w
                    in (ESP_OK, set_schedule (handle\<lparr>is_sync := False, is_force_sync := False\<rparr>) w)))))"

definition app_schedule_set_time ::
    "date_time_form_t \<Rightarrow> 'a schedule_world_scheme \<Rightarrow> esp_err_t \<times> 'a schedule_world_scheme" where
  "app_schedule_set_time time_form w =
     (case schedule_handle w of
        None \<Rightarrow> (ESP_FAIL, w)
      | Some handle \<Rightarrow>
          (let time = form_tm time_form 0 in
           (case ds3231_set_time (Some (sch_dev handle)) (Some time) w of (res, w) \<Rightarrow>
              if res \<noteq> ESP_OK then (ESP_FAIL, w)
              else (let w = settimeofday (mktime (utc_offset w) time) w
                    in (ESP_OK, set_schedule (handle\<lparr>is_sync := False\<rparr>) w)))))"

definition app_schedule_sync_time :: "'a schedule_world_scheme \<Rightarrow> esp_err_t \<times> 'a schedule_world_scheme" where
  "app_schedule_sync_time w =
     (case schedule_handle w of
        None \<Rightarrow> (ESP_FAIL, w)
      | Some handle \<Rightarrow>
          (ESP_OK, set_schedule (handle\<lparr>is_force_sync := True, n_sync_time := 0, is_sync := False\<rparr>) w))"

definition app_schedule_set_mode ::
    "operator_mode_t \<Rightarrow> 'a schedule_world_scheme \<Rightarrow> esp_err_t \<times> 'a schedule_world_scheme" where
  "app_schedule_set_mode mode w =
     (case schedule_handle w of
        None \<Rightarrow> (ESP_FAIL, w)
      | Some handle \<Rightarrow> (ESP_OK, set_schedule (handle\<lparr>sch_mode := mode\<rparr>) w))"

section \<open>Time zone\<close>

text \<open>
  \<^verbatim>\<open>tzset\<close> reads the POSIX form: a three-letter name and the hours to add to local time to
  get universal time.
\<close>

definition tz_text :: "int \<Rightarrow> string" where
  "tz_text off = ''GMT'' @ (if off < 0 then ''+'' else ''-'') @ fmt_d \<bar>off\<bar>"

definition tzset :: "string \<Rightarrow> 'a platform_scheme \<Rightarrow> 'a platform_scheme" where
  "tzset tz w =
     (case scan_int (drop 3 tz) of
        None \<Rightarrow> w\<lparr>utc_offset := 0\<rparr>
      | Some (h, r) \<Rightarrow> w\<lparr>utc_offset := - h * 3600\<rparr>)"

definition set_timezone_by_utc :: "int \<Rightarrow> 'a platform_scheme \<Rightarrow> 'a platform_scheme" where
  "set_timezone_by_utc off w = tzset (tz_text off) w"

section \<open>Synchronisation of the clock\<close>

text \<open>The branch of \<^verbatim>\<open>_sync_time\<close> that finds SNTP completed: \<open>t\<close> is the time it has set.\<close>

definition sntp_complete :: "int \<Rightarrow> app_schedule_t \<Rightarrow> 'a schedule_world_scheme \<Rightarrow> 'a schedule_world_scheme" where
  "sntp_complete t handle w =
     (let w = set_schedule (handle\<lparr>is_sync := True, is_init_sntp := False, is_force_sync := False\<rparr>)
                (settimeofday t w);
          timeinfo = localtime (utc_offset w) (sys_time w)
      in snd (ds3231_set_time (Some (sch_dev handle)) (Some (timeinfo\<lparr>tm_wday := 0, tm_isdst := 0\<rparr>)) w))"

lemma ds3231_set_time_more:
  "snd (ds3231_set_time d t w) = w\<lparr>rtc_chip := rtc_chip (snd (ds3231_set_time d t w)),
     i2c_count := i2c_count (snd (ds3231_set_time d t w))\<rparr>"
  by (simp add: ds3231_set_time_def i2c_dev_write_reg_def i2c_dev_write_def i2c_master_cmd_begin_def
      Let_def split: option.split prod.split)

lemma schedule_handle_ds3231 [simp]:
  "schedule_handle (snd (ds3231_set_time d t w)) = schedule_handle (w :: 'a schedule_world_scheme)"
  by (subst ds3231_set_time_more) simp

lemma sntp_complete_handle [simp]:
  "schedule_handle (sntp_complete t h w) =
     Some (h\<lparr>is_sync := True, is_init_sntp := False, is_force_sync := False\<rparr>)"
  by (simp add: sntp_complete_def set_schedule_def Let_def)

definition sync_work :: "'a schedule_world_scheme \<Rightarrow> nat" where
  "sync_work w = (case schedule_handle w of None \<Rightarrow> 0
     | Some h \<Rightarrow> if is_sync h then 0 else Suc (nat (61 - n_sync_time h)))"

text \<open>
  The polling loop. Sixty unanswered polls are waited for, one second each; the next one gives up.
\<close>

function sync_loop ::
    "(nat \<Rightarrow> int option) \<Rightarrow> nat \<Rightarrow> 'a schedule_world_scheme \<Rightarrow> (esp_err_t \<times> 'a schedule_world_scheme) option" where
  "sync_loop sntp i w =
     (case schedule_handle w of
        None \<Rightarrow> None
      | Some handle \<Rightarrow>
          if is_sync handle then Some (ESP_OK, w)
          else (case sntp i of
                  None \<Rightarrow>
                    if n_sync_time handle + 1 > 60
                    then Some (ESP_FAIL, set_schedule (handle\<lparr>n_sync_time := 0\<rparr>) w)
                    else sync_loop sntp (Suc i) (vTaskDelay_ms 1000
                           (set_schedule (handle\<lparr>n_sync_time := n_sync_time handle + 1\<rparr>) w))
                | Some t \<Rightarrow> sync_loop sntp (Suc i) (sntp_complete t handle w)))"
  by pat_completeness simp_all

termination
  by (relation "measure (\<lambda>(sntp, i, w). sync_work w)")
    (auto simp: sync_work_def set_schedule_def vTaskDelay_ms_def)

declare sync_loop.simps [simp del]

text \<open>The part of \<^verbatim>\<open>_sync_time\<close> that tries the system clock and the DS3231; \<open>None\<close>: fall through.\<close>

definition sync_local ::
    "tm \<Rightarrow> app_schedule_t \<Rightarrow> 'a schedule_world_scheme \<Rightarrow> esp_err_t option \<times> 'a schedule_world_scheme" where
  "sync_local rtcinfo handle w =
     (if tm_year (localtime (utc_offset w) (sys_time w)) > 2021 - 1900 then
        (Some ESP_OK, vTaskDelay_ms 1000 (set_schedule (handle\<lparr>is_sync := True\<rparr>) w))
      else
        (case ds3231_get_time (Some (sch_dev handle)) (Some rtcinfo) w of
           (res, None, w) \<Rightarrow> (Some ESP_FAIL, w)
         | (res, Some rtcinfo, w) \<Rightarrow>
             if res \<noteq> ESP_OK then (Some ESP_FAIL, w)
             else if tm_year rtcinfo > 2021 - 1900 then
               (Some ESP_OK,
                set_schedule (handle\<lparr>is_sync := True\<rparr>) (settimeofday (mktime (utc_offset w) rtcinfo) w))
             else (None, w)))"

text \<open>The part that goes to the network.\<close>

definition sync_network ::
    "(nat \<Rightarrow> int option) \<Rightarrow> app_schedule_t \<Rightarrow> 'a schedule_world_scheme
     \<Rightarrow> (esp_err_t \<times> 'a schedule_world_scheme) option" where
  "sync_network sntp handle w = do {
     connected \<leftarrow> app_network_is_connected w;
     if \<not> connected then do {
       let w = vTaskDelay_ms 10000 w;
       let n = n_sync_time handle + 1;
       Some (ESP_FAIL,
         if n > 6 then set_schedule (handle\<lparr>n_sync_time := 0, is_force_sync := False\<rparr>) w
         else set_schedule (handle\<lparr>n_sync_time := n\<rparr>) w)
     } else
       sync_loop sntp 0 (set_schedule (handle\<lparr>is_init_sntp := True, n_sync_time := 0\<rparr>) w)
   }"

definition sync_time ::
    "(nat \<Rightarrow> int option) \<Rightarrow> tm \<Rightarrow> 'a schedule_world_scheme \<Rightarrow> (esp_err_t \<times> 'a schedule_world_scheme) option" where
  "sync_time sntp rtc_junk w = do {
     handle \<leftarrow> schedule_handle w;
     if is_sync handle \<and> \<not> is_force_sync handle then Some (ESP_OK, w)
     else if \<not> is_force_sync handle then
       (case sync_local rtc_junk handle w of
          (Some res, w) \<Rightarrow> Some (res, w)
        | (None, w) \<Rightarrow> sync_network sntp handle w)
     else sync_network sntp handle w
   }"

section \<open>The schedule task\<close>

text \<open>
  Before its loop: the time zone, the clock chip and a first setting of the clock. \<open>(False, w)\<close>:
  the task waits for ever because the chip's driver could not be installed. A failed first read
  returns from the task function, on which the operating system aborts the program: no result.
\<close>

definition schedule_task_start ::
    "tm \<Rightarrow> 'a schedule_world_scheme \<Rightarrow> (bool \<times> 'a schedule_world_scheme) option" where
  "schedule_task_start rtc_junk w = do {
     handle \<leftarrow> schedule_handle w;
     let w = set_timezone_by_utc 7 w;
     (case ds3231_init_desc (Some (sch_dev handle)) 0 (sda_pin handle) (scl_pin handle) w of
        (res, None, w) \<Rightarrow> Some (False, w)
      | (res, Some d, w) \<Rightarrow>
          (let handle = handle\<lparr>sch_dev := d\<rparr>; w = set_schedule handle w in
           if res \<noteq> ESP_OK then Some (False, w)
           else
             (case ds3231_get_time (Some (sch_dev handle)) (Some rtc_junk) w of
                (res, None, w) \<Rightarrow> None
              | (res, Some rtcinfo, w) \<Rightarrow>
                  if res \<noteq> ESP_OK then None
                  else if tm_year rtcinfo > 2021 - 1900
                  then Some (True, settimeofday (mktime (utc_offset w) rtcinfo) w)
                  else Some (True, w))))
   }"

definition minutes_of :: "int \<Rightarrow> int \<Rightarrow> int" where
  "minutes_of hour minute = wrap32 (hour * 60 + minute)"

definition schedule_decision :: "int \<Rightarrow> int \<Rightarrow> int \<Rightarrow> app_schedule_schedule_type_t" where
  "schedule_decision c_start_time c_end_time c_check_time =
     (if c_start_time \<le> c_end_time then
        (if c_check_time \<ge> c_start_time \<and> c_check_time \<le> c_end_time
         then SCHEDULE_TYPE_ACTIVE_START else SCHEDULE_TYPE_ACTIVE_END)
      else
        (if c_check_time \<ge> c_start_time \<or> c_check_time \<le> c_end_time
         then SCHEDULE_TYPE_ACTIVE_START else SCHEDULE_TYPE_ACTIVE_END))"

definition trigger_event :: "app_schedule_schedule_type_t \<Rightarrow> cb_event" where
  "trigger_event type =
     \<lparr>ev_id = APP_SCHEDULE_EVENT_TRIGGER, ev_data = Some (CbSchedule type), ev_len = sizeof_schedule_type_t\<rparr>"

definition in_restart_window :: "int \<Rightarrow> int \<Rightarrow> bool" where
  "in_restart_window c_check_time sec \<longleftrightarrow>
     c_check_time * 60 + sec \<ge> (RESTART_HOUR * 60 + RESTAR_MINUTE) * 60 \<and>
     c_check_time * 60 + sec \<le> (RESTART_HOUR * 60 + RESTAR_MINUTE) * 60 + 2"

text \<open>The rest of one round, once the clock is in order: \<open>timeinfo\<close> is the local time.\<close>

definition schedule_apply ::
    "'a schedule_world_scheme callback \<Rightarrow> tm \<Rightarrow> app_schedule_t \<Rightarrow> 'a schedule_world_scheme
     \<Rightarrow> 'a schedule_world_scheme option" where
  "schedule_apply cb timeinfo handle w =
     (if sch_mode handle \<noteq> OPERATOR_MODE_AUTO then Some w
      else if \<not> sch_callback handle then Some w
      else if \<not> job_enable (sch_start handle) \<or> \<not> job_enable (sch_end handle) then Some w
      else do {
        let c_start_time = minutes_of (job_start_hour (sch_start handle)) (job_start_minute (sch_start handle));
        let c_end_time = minutes_of (job_start_hour (sch_end handle)) (job_start_minute (sch_end handle));
        let c_check_time = tm_hour timeinfo * 60 + tm_min timeinfo;
        w \<leftarrow> cb w (trigger_event (schedule_decision c_start_time c_end_time c_check_time));
        Some (if in_restart_window c_check_time (tm_sec timeinfo) then esp_restart w else w)
      })"

text \<open>One round of \<^verbatim>\<open>_schedule_task\<close>; the delay of a second at its end is left to the scheduler.\<close>

definition schedule_task_step ::
    "'a schedule_world_scheme callback \<Rightarrow> (nat \<Rightarrow> int option) \<Rightarrow> tm \<Rightarrow> 'a schedule_world_scheme
     \<Rightarrow> 'a schedule_world_scheme option" where
  "schedule_task_step cb sntp rtc_junk w = do {
     (res, w) \<leftarrow> sync_time sntp rtc_junk w;
     if res \<noteq> ESP_OK then Some w
     else do {
       handle \<leftarrow> schedule_handle w;
       let timeinfo = localtime (utc_offset w) (sys_time w);
       if tm_year timeinfo < 2021 - 1900
       then Some (set_schedule (handle\<lparr>is_sync := False\<rparr>) w)
       else schedule_apply cb timeinfo handle w
     }
   }"

lemmas schedule_defs = app_schedule_add_alarm_def app_gps_set_time_def app_schedule_set_time_def
  app_schedule_sync_time_def app_schedule_set_mode_def set_schedule_def

section \<open>The decision\<close>

lemma decision_cyclic:
  assumes "0 \<le> s" "s < 1440" "0 \<le> e" "e < 1440" "0 \<le> c" "c < 1440"
  shows "schedule_decision s e c =
    (if (c - s) mod 1440 \<le> (e - s) mod 1440 then SCHEDULE_TYPE_ACTIVE_START else SCHEDULE_TYPE_ACTIVE_END)"
proof -
  have m: "(x - s) mod 1440 = (if s \<le> x then x - s else x - s + 1440)" if "0 \<le> x" "x < 1440" for x
  proof (cases "s \<le> x")
    case True
    then show ?thesis using that assms(1) by (simp add: mod_pos_pos_trivial)
  next
    case False
    then have "(x - s) mod 1440 = x - s + 1440"
      by (intro int_mod_pos_eq [where q = "- 1"]) (use that assms(2) in linarith)+
    then show ?thesis using False by simp
  qed
  show ?thesis using assms m [of c] m [of e] by (simp add: schedule_decision_def)
qed

text \<open>The lamp is on from the start minute to the end minute, both included, around the clock:
  the case distinction of the code decides \<open>SCHEDULE_TYPE_ACTIVE_START\<close> exactly when the current
  minute is no further after the start than the end is, counted modulo one day. An interval over
  midnight and one of a single minute are included.\<close>

theorem schedule_decision_cyclic:
  assumes "0 \<le> s" "s < 1440" "0 \<le> e" "e < 1440" "0 \<le> c" "c < 1440"
  shows "schedule_decision s e c =
    (if (c - s) mod 1440 \<le> (e - s) mod 1440 then SCHEDULE_TYPE_ACTIVE_START else SCHEDULE_TYPE_ACTIVE_END)"
  using assms by (rule decision_cyclic)

theorem schedule_decision_cyclic_witness:
  "schedule_decision 1080 330 15 = SCHEDULE_TYPE_ACTIVE_START \<and>
   schedule_decision 1080 330 331 = SCHEDULE_TYPE_ACTIVE_END"
  using schedule_decision_cyclic [of 1080 330 15] schedule_decision_cyclic [of 1080 330 331] by simp

section \<open>The time zone and setting the clock\<close>

lemma set_timezone_offset:
  assumes "- 24 < off" "off < 24"
  shows "set_timezone_by_utc off w = w\<lparr>utc_offset := off * 3600\<rparr>"
proof (cases "off < 0")
  case True
  have r: "int_range (- off)" using assms by (simp add: int_range_def)
  have "scan_unsigned (dec (nat (- off)) @ []) = Some (nat (- off), [])"
    using scan_unsigned_digits [of "dec (nat (- off))" "[]"] set_dec
    by (simp add: scan_nat_dec [of "[]", simplified])
  then have "scan_int (CHR ''+'' # fmt_d (- off)) = Some (- off, [])"
    using True r by (simp add: fmt_d_def scan_int_def isspace_def)
  then show ?thesis
    using True by (simp add: set_timezone_by_utc_def tzset_def tz_text_def)
next
  case False
  then have "fmt_d (- off) = CHR ''-'' # fmt_d off \<or> off = 0" by (auto simp: fmt_d_def)
  moreover have "int_range (- off)" using assms by (simp add: int_range_def)
  then have "scan_int (fmt_d (- off) @ []) = Some (- off, [])" by (rule scan_int_fmt_d) simp
  moreover have "scan_int ''-0'' = Some (0, [])" by code_simp
  moreover have "fmt_d 0 = ''0''" by code_simp
  ultimately have "scan_int (CHR ''-'' # fmt_d off) = Some (- off, [])" by auto
  then show ?thesis
    using False by (simp add: set_timezone_by_utc_def tzset_def tz_text_def)
qed

definition form_clock_valid :: "date_time_form_t \<Rightarrow> bool" where
  "form_clock_valid f \<longleftrightarrow> 0 \<le> dt_hour f \<and> dt_hour f < 24 \<and> 0 \<le> dt_minute f \<and> dt_minute f < 60
     \<and> 1 \<le> dt_day f \<and> dt_day f \<le> 31 \<and> 1 \<le> dt_month f \<and> dt_month f \<le> 12
     \<and> 1900 \<le> dt_year f \<and> dt_year f < 2060 \<and> 0 \<le> dt_second f \<and> dt_second f < 60"

lemma form_tm_valid:
  "form_clock_valid f \<Longrightarrow> 0 \<le> s \<Longrightarrow> s < 60 \<Longrightarrow> tm_valid (form_tm f s) \<and> tm_time_valid (form_tm f s)"
  by (simp add: form_clock_valid_def tm_valid_def tm_time_valid_def form_tm_def)


definition sample_job :: app_schedule_job_t where
  "sample_job = \<lparr>job_type = SCHEDULE_TYPE_NONE, job_index = 0, job_start_hour = 0, job_start_minute = 0,
     job_start_sec = 0, job_enable = False\<rparr>"

definition sample_scheduler :: app_schedule_t where
  "sample_scheduler = \<lparr>sch_callback = True, job_list = replicate 3 sample_job, sda_pin = 21, scl_pin = 22,
     is_sync = False, is_init_sntp = False, sch_dev = sample_dev, risk_offset = 5, is_force_sync = True,
     n_sync_time = 0, sch_start = sample_job, sch_end = sample_job, sch_mode = OPERATOR_MODE_OFF\<rparr>"

definition sample_schedule :: schedule_world where
  "sample_schedule = nextion_world.extend sample_nextion \<lparr>schedule_handle = Some sample_scheduler\<rparr>"

lemmas sample_schedule_defs = sample_schedule_def nextion_world.defs sample_nextion_def network_world.defs
  sample_ppp_def sample_network_defs

lemma sample_schedule_handle: "schedule_handle sample_schedule = Some sample_scheduler"
  by (simp add: sample_schedule_def nextion_world.defs)

lemma sample_schedule_i2c: "i2c_res sample_schedule n = ESP_OK"
  by (simp add: sample_schedule_defs)

definition sample_form :: date_time_form_t where
  "sample_form = \<lparr>dt_hour = 18, dt_minute = 45, dt_day = 28, dt_month = 2, dt_year = 2024, dt_second = 7\<rparr>"


section \<open>Waiting for the network time\<close>

lemma same_schedule_handle: "schedule_handle w = Some h \<Longrightarrow> w\<lparr>schedule_handle := Some h\<rparr> = w"
  by (cases w) simp

lemma tick_schedule_commute:
  "w\<lparr>schedule_handle := a, tick_ms := b\<rparr> = w\<lparr>tick_ms := b, schedule_handle := a\<rparr>"
  by (cases w) simp

lemma sync_loop_unanswered:
  assumes "schedule_handle w = Some h" "\<not> is_sync h" "n_sync_time h + int k \<le> 60" "\<forall>j<k. sntp (i + j) = None"
  shows "sync_loop sntp i w = sync_loop sntp (i + k)
    (w\<lparr>tick_ms := tick_ms w + 1000 * int k, schedule_handle := Some (h\<lparr>n_sync_time := n_sync_time h + int k\<rparr>)\<rparr>)"
  using assms
proof (induction k arbitrary: i w h)
  case 0
  then show ?case by (simp add: same_schedule_handle)
next
  case (Suc k)
  let ?h = "h\<lparr>n_sync_time := n_sync_time h + 1\<rparr>"
  let ?w = "w\<lparr>tick_ms := tick_ms w + 1000, schedule_handle := Some ?h\<rparr>"
  have "sntp i = None" using Suc.prems(4) by fastforce
  then have "sync_loop sntp i w = sync_loop sntp (Suc i) ?w"
    using Suc.prems by (subst sync_loop.simps) (simp add: set_schedule_def vTaskDelay_ms_def tick_schedule_commute)
  also have "\<dots> = sync_loop sntp (Suc i + k) (?w\<lparr>tick_ms := tick_ms ?w + 1000 * int k,
      schedule_handle := Some (?h\<lparr>n_sync_time := n_sync_time ?h + int k\<rparr>)\<rparr>)"
    by (rule Suc.IH) (use Suc.prems in \<open>auto simp: less_Suc_eq_0_disj add.commute\<close>)
  finally show ?case by (simp add: algebra_simps)
qed

lemma sntp_complete_frame:
  "sys_time (sntp_complete t h w) = t" "tick_ms (sntp_complete t h w) = tick_ms w"
  by (simp_all add: sntp_complete_def set_schedule_def settimeofday_def Let_def)
    (subst ds3231_set_time_more, simp)+

lemma sync_loop_answered:
  assumes "schedule_handle w = Some h" "\<not> is_sync h" "sntp i = Some t"
  shows "sync_loop sntp i w = Some (ESP_OK, sntp_complete t h w)"
  using assms by (subst sync_loop.simps, simp) (subst sync_loop.simps, simp)

text \<open>C24. Waiting for SNTP is bounded and succeeds if the answer comes within a minute: on a
  connected device that has to synchronise, if the first answer is found by poll \<open>k\<close> with
  \<open>k \<le> 60\<close>, the call returns \<open>ESP_OK\<close> after \<open>k\<close> seconds with the clock set, the
  synchronised flag set and the request cleared; with no answer in 61 polls it returns
  \<open>ESP_FAIL\<close> after 60 seconds with its counter reset and the request still pending.\<close>

theorem sntp_wait_bounded:
  assumes h: "schedule_handle w = Some h" "is_force_sync h" "\<not> is_sync h"
    and c: "app_network_is_connected w = Some True"
    and u: "k \<le> 61" "\<forall>j<k. sntp j = None" "k \<le> 60 \<Longrightarrow> sntp k = Some t"
  shows "\<exists>w'. (if k \<le> 60 then
      sync_time sntp junk w = Some (ESP_OK, w') \<and> sys_time w' = t \<and> tick_ms w' = tick_ms w + 1000 * int k \<and>
      schedule_handle w' = Some (h\<lparr>n_sync_time := int k, is_sync := True, is_init_sntp := False, is_force_sync := False\<rparr>)
    else sync_time sntp junk w = Some (ESP_FAIL, w') \<and> tick_ms w' = tick_ms w + 60000 \<and>
      schedule_handle w' = Some (h\<lparr>n_sync_time := 0, is_init_sntp := True\<rparr>))"
proof -
  let ?h = "h\<lparr>is_init_sntp := True, n_sync_time := 0\<rparr>"
  let ?w = "w\<lparr>schedule_handle := Some ?h\<rparr>"
  have s: "sync_time sntp junk w = sync_loop sntp 0 ?w"
    using h c by (simp add: sync_time_def sync_network_def set_schedule_def)
  note l = sync_loop_unanswered [of ?w ?h, where i = 0 and sntp = sntp]
  show ?thesis
  proof (cases "k \<le> 60")
    case True
    let ?h' = "?h\<lparr>n_sync_time := int k\<rparr>"
    let ?w' = "?w\<lparr>tick_ms := tick_ms w + 1000 * int k, schedule_handle := Some ?h'\<rparr>"
    have "sync_loop sntp 0 ?w = sync_loop sntp k ?w'" using l [of k] u True h by simp
    also have "\<dots> = Some (ESP_OK, sntp_complete t ?h' ?w')"
      by (rule sync_loop_answered) (use u(3) True h in simp_all)
    finally show ?thesis using True s by (simp add: sntp_complete_frame)
  next
    case False
    then have k: "k = 61" using u(1) by simp
    let ?h' = "?h\<lparr>n_sync_time := 60\<rparr>"
    let ?w' = "?w\<lparr>tick_ms := tick_ms w + 60000, schedule_handle := Some ?h'\<rparr>"
    have "sync_loop sntp 0 ?w = sync_loop sntp 60 ?w'" using l [of 60] u k h by simp
    also have "\<dots> = Some (ESP_FAIL, set_schedule (?h'\<lparr>n_sync_time := 0\<rparr>) ?w')"
      using u(2) k h by (subst sync_loop.simps) simp
    finally show ?thesis using False s by (simp add: set_schedule_def)
  qed
qed

definition sample_online :: schedule_world where
  "sample_online = sample_schedule\<lparr>network_handle := Some \<lparr>is_using_wifi = True, net_is_connected = True,
     ppp_handle = None\<rparr>\<rparr>"

theorem sntp_wait_bounded_witness:
  "\<exists>w'. sync_time (\<lambda>i. if i < 5 then None else Some 1700000000) sample_tm sample_online = Some (ESP_OK, w') \<and>
     sys_time w' = 1700000000 \<and> tick_ms w' = 5000"
proof -
  have "schedule_handle sample_online = Some sample_scheduler" "is_force_sync sample_scheduler"
    "\<not> is_sync sample_scheduler" "app_network_is_connected sample_online = Some True" "tick_ms sample_online = 0"
    by (simp_all add: sample_online_def sample_schedule_handle sample_scheduler_def
        app_network_is_connected_def sample_schedule_defs)
  then show ?thesis
    using sntp_wait_bounded [of sample_online sample_scheduler 5
        "\<lambda>i. if i < 5 then None else Some 1700000000" 1700000000 sample_tm] by auto
qed

section \<open>Without a network\<close>

fun sync_rounds ::
    "nat \<Rightarrow> (nat \<Rightarrow> int option) \<Rightarrow> tm \<Rightarrow> 'a schedule_world_scheme \<Rightarrow> 'a schedule_world_scheme option" where
  "sync_rounds 0 sntp junk w = Some w"
| "sync_rounds (Suc n) sntp junk w = sync_time sntp junk w \<bind> (\<lambda>(res, w). sync_rounds n sntp junk w)"

lemma sync_offline:
  assumes "schedule_handle w = Some h" "is_force_sync h" "app_network_is_connected w = Some False"
  shows "sync_time sntp junk w = Some (ESP_FAIL, w\<lparr>tick_ms := tick_ms w + 10000, schedule_handle :=
    Some (if n_sync_time h + 1 > 6 then h\<lparr>n_sync_time := 0, is_force_sync := False\<rparr>
          else h\<lparr>n_sync_time := n_sync_time h + 1\<rparr>)\<rparr>)"
  using assms by (simp add: sync_time_def sync_network_def set_schedule_def vTaskDelay_ms_def)

lemma sync_rounds_offline:
  assumes "schedule_handle w = Some h" "is_force_sync h" "app_network_is_connected w = Some False"
    and "n_sync_time h + int k = 6"
  shows "sync_rounds (Suc k) sntp junk w = Some (w\<lparr>tick_ms := tick_ms w + 10000 * int (Suc k),
    schedule_handle := Some (h\<lparr>n_sync_time := 0, is_force_sync := False\<rparr>)\<rparr>)"
  using assms
proof (induction k arbitrary: w h)
  case 0
  then show ?case by (simp add: sync_offline)
next
  case (Suc k)
  let ?h = "h\<lparr>n_sync_time := n_sync_time h + 1\<rparr>"
  let ?w = "w\<lparr>tick_ms := tick_ms w + 10000, schedule_handle := Some ?h\<rparr>"
  have e: "sync_time sntp junk w = Some (ESP_FAIL, ?w)" using Suc.prems by (simp add: sync_offline)
  have "sync_rounds (Suc k) sntp junk ?w = Some (?w\<lparr>tick_ms := tick_ms ?w + 10000 * int (Suc k),
      schedule_handle := Some (?h\<lparr>n_sync_time := 0, is_force_sync := False\<rparr>)\<rparr>)"
    by (rule Suc.IH) (use Suc.prems in \<open>simp_all add: app_network_is_connected_def\<close>)
  then show ?case using e by (simp add: sync_rounds.simps(2) [of "Suc k"] algebra_simps)
qed


lemma is_connected_false_sample: "app_network_is_connected sample_schedule = Some False"
  by (simp add: app_network_is_connected_def app_ppp_is_connected_def sample_schedule_defs)

definition sample_offline :: schedule_world where
  "sample_offline = sample_schedule\<lparr>rtc_chip := \<lparr>regs = (\<lambda>a. if a = 6 then dec2bcd 124 else 1), ptr = 0\<rparr>\<rparr>"

lemma sample_offline_rtc:
  assumes "rtc_chip w = rtc_chip sample_offline" "i2c_res w = i2c_res sample_offline"
  shows "\<exists>t w'. ds3231_get_time (Some sample_dev) (Some sample_tm) w = (ESP_OK, Some t, w') \<and> tm_year t > 121"
proof -
  have ok: "i2c_res w (i2c_count w) = ESP_OK" and r: "regs (rtc_chip w) 6 = dec2bcd 124"
    using assms by (simp_all add: sample_offline_def sample_schedule_i2c)
  obtain res bs w' where b: "i2c_dev_read_reg (Some sample_dev) DS3231_ADDR_TIME 7 w = (res, bs, w')"
    by (metis prod_cases3)
  have "dev_addr sample_dev = DS3231_ADDR" by (simp add: sample_dev_def DS3231_ADDR_def)
  note rb = read_reg_bytes [OF this _ ok b]
  have "res = ESP_OK" "bs ! 6 = dec2bcd 124"
    using rb(1) rb(3) [of 6] r by (simp_all add: DS3231_ADDR_TIME_def)
  moreover have "uint (bcd2dec (dec2bcd 124)) = 124" by code_simp
  ultimately show ?thesis using b by (simp add: ds3231_get_time_def decode_time_def)
qed


section \<open>The contract with the listener of the trigger\<close>

text \<open>The minute of the day of an alarm, and what makes one valid.\<close>

definition job_minute :: "app_schedule_job_t \<Rightarrow> int" where
  "job_minute j = job_start_hour j * 60 + job_start_minute j"

definition job_valid :: "app_schedule_job_t \<Rightarrow> bool" where
  "job_valid j \<longleftrightarrow> job_enable j \<and> 0 \<le> job_start_hour j \<and> job_start_hour j < 24 \<and>
     0 \<le> job_start_minute j \<and> job_start_minute j < 60"

lemma job_minutes_of:
  assumes "job_valid j"
  shows "minutes_of (job_start_hour j) (job_start_minute j) = job_minute j" "0 \<le> job_minute j" "job_minute j < 1440"
proof -
  have h: "0 \<le> job_start_hour j" "job_start_hour j \<le> 23" "0 \<le> job_start_minute j" "job_start_minute j \<le> 59"
    using assms by (simp_all add: job_valid_def)
  then show "0 \<le> job_minute j" "job_minute j < 1440" by (simp_all add: job_minute_def)
  with h show "minutes_of (job_start_hour j) (job_start_minute j) = job_minute j"
    by (simp add: minutes_of_def wrap32_def job_minute_def)
qed

text \<open>
  \<open>trigger_listener cb\<close>: the function called with a schedule trigger returns, switches the lamp to
  what the trigger says (on a device whose controller is initialised), and does not restart the
  device. Under this contract one round of the task is characterised for any listener.
\<close>

definition schedule_active :: "app_schedule_t \<Rightarrow> bool" where
  "schedule_active h \<longleftrightarrow> sch_mode h = OPERATOR_MODE_AUTO \<and> sch_callback h
     \<and> job_enable (sch_start h) \<and> job_enable (sch_end h)"

definition wanted :: "app_schedule_t \<Rightarrow> tm \<Rightarrow> app_schedule_schedule_type_t" where
  "wanted h t = schedule_decision
     (minutes_of (job_start_hour (sch_start h)) (job_start_minute (sch_start h)))
     (minutes_of (job_start_hour (sch_end h)) (job_start_minute (sch_end h)))
     (tm_hour t * 60 + tm_min t)"

locale trigger_listener =
  fixes cb :: "'a schedule_world_scheme callback"
  assumes trigger_returns: "\<exists>w'. cb w (trigger_event type) = Some w'"
    and trigger_lamp: "cb w (trigger_event type) = Some w' \<Longrightarrow> controller_handle w \<noteq> None \<Longrightarrow>
          relays_follow w \<Longrightarrow> lamp_on w' \<longleftrightarrow> type = SCHEDULE_TYPE_ACTIVE_START"
    and trigger_restart: "cb w (trigger_event type) = Some w' \<Longrightarrow> restarted w' = restarted w"
begin

lemma apply_active:
  assumes "schedule_active h" "controller_handle w \<noteq> None" "relays_follow w"
  shows "\<exists>w'. schedule_apply cb t h w = Some w' \<and>
    (lamp_on w' \<longleftrightarrow> wanted h t = SCHEDULE_TYPE_ACTIVE_START) \<and>
    (restarted w' \<longleftrightarrow> restarted w \<or> in_restart_window (tm_hour t * 60 + tm_min t) (tm_sec t))"
proof -
  obtain w1 where w1: "cb w (trigger_event (wanted h t)) = Some w1" using trigger_returns by blast
  have "lamp_on w1 \<longleftrightarrow> wanted h t = SCHEDULE_TYPE_ACTIVE_START" "restarted w1 = restarted w"
    using trigger_lamp [OF w1 assms(2,3)] trigger_restart [OF w1] by simp_all
  then show ?thesis
    using assms(1) w1
    by (simp add: schedule_apply_def schedule_active_def wanted_def esp_restart_def lamp_on_def)
qed

lemma apply_idle: "\<not> schedule_active h \<Longrightarrow> schedule_apply cb t h w = Some w"
  by (auto simp: schedule_apply_def schedule_active_def)

lemma apply_total: "\<exists>w'. schedule_apply cb t h w = Some w'"
proof (cases "schedule_active h")
  case True
  obtain w1 where "cb w (trigger_event (wanted h t)) = Some w1" using trigger_returns by blast
  then show ?thesis using True by (simp add: schedule_apply_def schedule_active_def wanted_def)
qed (simp add: apply_idle)

end

end
