(* ===== verification/Protobuf.thy ===== *)
theory Protobuf
  imports C_Lib "HOL-Library.AList"
begin

text \<open>
  \<^verbatim>\<open>protobuf-c.c\<close>, the library that packs and unpacks the messages of the cloud protocol, for
  the field types and labels the generated descriptors use. A descriptor is the list of its fields
  with number, label and type, in the order of the generated table. A message in memory is the
  list of the fields that are set, by number: a field that is not in the list has its default
  value (zero, the empty string, a null pointer). Unknown fields are skipped: the firmware never
  looks at them. The memory allocator is taken to succeed.

  Sizes are 32-bit on the target, and the length of a length-prefixed field is added to the length
  of its prefix without a check for overflow, so a hostile length makes the parser subtract a
  prefix longer than the field: this is the outcome \<open>Corrupted\<close>, beside \<open>Malformed\<close> (the
  parser returns a null pointer) and \<open>Unpacked\<close>.
\<close>

section \<open>Descriptors and messages\<close>

datatype plabel = LABEL_NONE | LABEL_REPEATED bool

datatype ptype =
    TYPE_INT32 | TYPE_ENUM | TYPE_UINT32 | TYPE_BOOL | TYPE_FLOAT | TYPE_DOUBLE | TYPE_STRING
  | TYPE_MESSAGE "(nat \<times> plabel \<times> ptype) list"

type_synonym descriptor = "(nat \<times> plabel \<times> ptype) list"

datatype pval =
    P32 "32 word" | P64 "64 word" | PBool bool | PStr string | PMsg "(nat \<times> pval) list" | PRep "pval list"

type_synonym message = "(nat \<times> pval) list"

definition bytes_of :: "string \<Rightarrow> byte list" where
  "bytes_of s = map (\<lambda>c. of_nat (of_char c)) s"

definition string_of :: "byte list \<Rightarrow> string" where
  "string_of bs = map (\<lambda>b. char_of (unat b)) bs"

lemma string_of_bytes_of [simp]: "string_of (bytes_of s) = s"
proof -
  have "unat (of_nat (of_char c) :: byte) = of_char c" for c
  proof -
    have "(of_char c :: nat) mod 256 = of_char c" by (rule of_char_mod_256)
    then show ?thesis by (simp add: unat_of_nat)
  qed
  then show ?thesis by (simp add: bytes_of_def string_of_def comp_def)
qed

lemma length_bytes_of [simp]: "length (bytes_of s) = length s"
  by (simp add: bytes_of_def)

section \<open>Packing\<close>

definition WIRE_VARINT :: byte where "WIRE_VARINT = 0"
definition WIRE_64BIT :: byte where "WIRE_64BIT = 1"
definition WIRE_LENGTH_PREFIXED :: byte where "WIRE_LENGTH_PREFIXED = 2"
definition WIRE_32BIT :: byte where "WIRE_32BIT = 5"

lemmas wire_defs = WIRE_VARINT_def WIRE_64BIT_def WIRE_LENGTH_PREFIXED_def WIRE_32BIT_def

text \<open>The four nested tests of \<^verbatim>\<open>uint32_pack\<close>, as a recursion that is at most four deep.\<close>

fun varint_pack :: "nat \<Rightarrow> 32 word \<Rightarrow> byte list" where
  "varint_pack 0 v = [ucast v]"
| "varint_pack (Suc n) v =
     (if v \<ge> 0x80 then ucast (v OR 0x80) # varint_pack n (drop_bit 7 v) else [ucast v])"

definition uint32_pack :: "32 word \<Rightarrow> byte list" where
  "uint32_pack v = varint_pack 4 v"

definition int32_pack :: "32 word \<Rightarrow> byte list" where
  "int32_pack v =
     (if sint v < 0 then
        [ucast (v OR 0x80), ucast (signed_drop_bit 7 v OR 0x80), ucast (signed_drop_bit 14 v OR 0x80),
         ucast (signed_drop_bit 21 v OR 0x80), ucast (signed_drop_bit 28 v OR 0x80),
         0xFF, 0xFF, 0xFF, 0xFF, 0x01]
      else uint32_pack v)"

definition fixed32_pack :: "32 word \<Rightarrow> byte list" where
  "fixed32_pack v = map (\<lambda>i. ucast (drop_bit (8 * i) v)) [0, 1, 2, 3]"

definition fixed64_pack :: "64 word \<Rightarrow> byte list" where
  "fixed64_pack v = map (\<lambda>i. ucast (drop_bit (8 * i) v)) [0, 1, 2, 3, 4, 5, 6, 7]"

definition boolean_pack :: "bool \<Rightarrow> byte list" where
  "boolean_pack b = [if b then 1 else 0]"

definition string_pack :: "string \<Rightarrow> byte list" where
  "string_pack s = uint32_pack (of_nat (length (c_str s))) @ bytes_of (c_str s)"

text \<open>\<^verbatim>\<open>tag_pack\<close>, with the wire type put into the low bits of its first byte.\<close>

definition tag_pack :: "nat \<Rightarrow> byte \<Rightarrow> byte list" where
  "tag_pack i wire =
     (case uint32_pack (push_bit 3 (of_nat i)) of [] \<Rightarrow> [] | b # bs \<Rightarrow> (b OR wire) # bs)"

definition float_is_zero :: "32 word \<Rightarrow> bool" where
  "float_is_zero v \<longleftrightarrow> v = 0 \<or> v = push_bit 31 1"

definition double_is_zero :: "64 word \<Rightarrow> bool" where
  "double_is_zero v \<longleftrightarrow> v = 0 \<or> v = push_bit 63 1"

definition field_is_zeroish :: "ptype \<Rightarrow> pval \<Rightarrow> bool" where
  "field_is_zeroish ty v =
     (case (ty, v) of
        (TYPE_BOOL, PBool b) \<Rightarrow> \<not> b
      | (TYPE_ENUM, P32 x) \<Rightarrow> x = 0
      | (TYPE_INT32, P32 x) \<Rightarrow> x = 0
      | (TYPE_UINT32, P32 x) \<Rightarrow> x = 0
      | (TYPE_FLOAT, P32 x) \<Rightarrow> float_is_zero x
      | (TYPE_DOUBLE, P64 x) \<Rightarrow> double_is_zero x
      | (TYPE_STRING, PStr s) \<Rightarrow> c_str s = []
      | (TYPE_MESSAGE d, PMsg m) \<Rightarrow> False
      | _ \<Rightarrow> True)"

text \<open>
  \<open>message_pack ty m\<close> is \<^verbatim>\<open>protobuf_c_message_pack\<close> for a message of type \<open>ty\<close>;
  \<open>required_field_pack\<close> is given the packer of the submessage.
\<close>

definition prefixed :: "byte list \<Rightarrow> byte list" where
  "prefixed bs = uint32_pack (of_nat (length bs)) @ bs"

definition required_field_pack :: "(message \<Rightarrow> byte list) \<Rightarrow> nat \<Rightarrow> ptype \<Rightarrow> pval \<Rightarrow> byte list" where
  "required_field_pack sub i ty v =
     (case (ty, v) of
        (TYPE_ENUM, P32 x) \<Rightarrow> tag_pack i WIRE_VARINT @ int32_pack x
      | (TYPE_INT32, P32 x) \<Rightarrow> tag_pack i WIRE_VARINT @ int32_pack x
      | (TYPE_UINT32, P32 x) \<Rightarrow> tag_pack i WIRE_VARINT @ uint32_pack x
      | (TYPE_FLOAT, P32 x) \<Rightarrow> tag_pack i WIRE_32BIT @ fixed32_pack x
      | (TYPE_DOUBLE, P64 x) \<Rightarrow> tag_pack i WIRE_64BIT @ fixed64_pack x
      | (TYPE_BOOL, PBool b) \<Rightarrow> tag_pack i WIRE_VARINT @ boolean_pack b
      | (TYPE_STRING, PStr s) \<Rightarrow> tag_pack i WIRE_LENGTH_PREFIXED @ string_pack s
      | (TYPE_MESSAGE d, PMsg m) \<Rightarrow> tag_pack i WIRE_LENGTH_PREFIXED @ prefixed (sub m)
      | _ \<Rightarrow> [])"

definition packed_element :: "ptype \<Rightarrow> pval \<Rightarrow> byte list" where
  "packed_element ty v =
     (case (ty, v) of
        (TYPE_FLOAT, P32 x) \<Rightarrow> fixed32_pack x
      | (TYPE_DOUBLE, P64 x) \<Rightarrow> fixed64_pack x
      | (TYPE_ENUM, P32 x) \<Rightarrow> int32_pack x
      | (TYPE_INT32, P32 x) \<Rightarrow> int32_pack x
      | (TYPE_UINT32, P32 x) \<Rightarrow> uint32_pack x
      | (TYPE_BOOL, PBool b) \<Rightarrow> boolean_pack b
      | _ \<Rightarrow> [])"

definition unlabeled_field_pack :: "(message \<Rightarrow> byte list) \<Rightarrow> nat \<Rightarrow> ptype \<Rightarrow> pval \<Rightarrow> byte list" where
  "unlabeled_field_pack sub i ty v = (if field_is_zeroish ty v then [] else required_field_pack sub i ty v)"

definition repeated_field_pack :: "(message \<Rightarrow> byte list) \<Rightarrow> nat \<Rightarrow> bool \<Rightarrow> ptype \<Rightarrow> pval list \<Rightarrow> byte list" where
  "repeated_field_pack sub i packed ty vs =
     (if packed then
        (if vs = [] then []
         else tag_pack i WIRE_LENGTH_PREFIXED @ prefixed (concat (map (packed_element ty) vs)))
      else concat (map (required_field_pack sub i ty) vs))"

definition field_pack :: "(message \<Rightarrow> byte list) \<Rightarrow> nat \<Rightarrow> plabel \<Rightarrow> ptype \<Rightarrow> message \<Rightarrow> byte list" where
  "field_pack sub i lab ty m =
     (case (lab, map_of m i) of
        (LABEL_NONE, Some v) \<Rightarrow> unlabeled_field_pack sub i ty v
      | (LABEL_REPEATED packed, Some (PRep vs)) \<Rightarrow> repeated_field_pack sub i packed ty vs
      | _ \<Rightarrow> [])"

fun message_pack :: "ptype \<Rightarrow> message \<Rightarrow> byte list" where
  "message_pack (TYPE_MESSAGE d) m =
     concat (map (\<lambda>(i, lab, ty). field_pack (message_pack ty) i lab ty m) d)"
| "message_pack ty m = []"

definition protobuf_c_message_pack :: "descriptor \<Rightarrow> message \<Rightarrow> byte list" where
  "protobuf_c_message_pack d m = message_pack (TYPE_MESSAGE d) m"

section \<open>Scanning\<close>

datatype 'a unpacked = Unpacked 'a | Malformed | Corrupted

fun ubind :: "'a unpacked \<Rightarrow> ('a \<Rightarrow> 'b unpacked) \<Rightarrow> 'b unpacked" where
  "ubind (Unpacked x) f = f x"
| "ubind Malformed f = Malformed"
| "ubind Corrupted f = Corrupted"

record scanned_member =
  sm_tag :: "32 word"
  sm_wire_type :: byte
  sm_prefix_len :: nat
  sm_data :: "byte list"

text \<open>The bytes of the tag after the first, at most four of them.\<close>

fun tag_rest :: "nat \<Rightarrow> nat \<Rightarrow> 32 word \<Rightarrow> byte list \<Rightarrow> (32 word \<times> byte list) option" where
  "tag_rest 0 shift tag bs = None"
| "tag_rest (Suc n) shift tag [] = None"
| "tag_rest (Suc n) shift tag (b # bs) =
     (if b AND 0x80 \<noteq> 0 then tag_rest n (shift + 7) (tag OR push_bit shift (ucast (b AND 0x7F))) bs
      else Some (tag OR push_bit shift (ucast b), bs))"

definition parse_tag_and_wiretype :: "byte list \<Rightarrow> (32 word \<times> byte \<times> byte list) option" where
  "parse_tag_and_wiretype bs =
     (case bs of
        [] \<Rightarrow> None
      | b # r \<Rightarrow>
          (let tag = drop_bit 3 (ucast (b AND 0x7F)); wire = b AND 7 in
           if b AND 0x80 = 0 then Some (tag, wire, r)
           else map_option (\<lambda>(t, r). (t, wire, r)) (tag_rest 4 4 tag r)))"

text \<open>Length of the varint at the start, if it ends within ten bytes.\<close>

definition scan_varint :: "byte list \<Rightarrow> nat option" where
  "scan_varint bs =
     (let n = length (takeWhile (\<lambda>b. b AND 0x80 \<noteq> 0) (take 10 bs))
      in if n = length (take 10 bs) then None else Some (n + 1))"

text \<open>The value of at most \<open>k\<close> bytes of a varint, and how many there are.\<close>

fun length_value :: "nat \<Rightarrow> nat \<Rightarrow> byte list \<Rightarrow> (32 word \<times> nat) option" where
  "length_value 0 shift bs = None"
| "length_value (Suc k) shift [] = None"
| "length_value (Suc k) shift (b # bs) =
     (let v = push_bit shift (ucast (b AND 0x7F))
      in if b AND 0x80 = 0 then Some (v, 1)
         else map_option (\<lambda>(w, n). (v OR w, n + 1)) (length_value k (shift + 7) bs))"

text \<open>Total length and length of the prefix; the addition is that of 32-bit unsigned integers.\<close>

definition scan_length_prefixed_data :: "byte list \<Rightarrow> (nat \<times> nat) option" where
  "scan_length_prefixed_data bs =
     (case length_value 5 0 bs of
        None \<Rightarrow> None
      | Some (val, hdr_len) \<Rightarrow>
          (let total = unat (of_nat hdr_len + val :: 32 word)
           in if total > length bs \<or> total = 0 then None else Some (total, hdr_len)))"

definition scan_data :: "byte \<Rightarrow> byte list \<Rightarrow> (nat \<times> nat) option" where
  "scan_data wire bs =
     (if wire = WIRE_VARINT then map_option (\<lambda>n. (n, 0)) (scan_varint bs)
      else if wire = WIRE_64BIT then (if length bs < 8 then None else Some (8, 0))
      else if wire = WIRE_LENGTH_PREFIXED then scan_length_prefixed_data bs
      else if wire = WIRE_32BIT then (if length bs < 4 then None else Some (4, 0))
      else None)"

lemma tag_rest_shorter: "tag_rest n s t bs = Some (t', r) \<Longrightarrow> length r < length bs"
  by (induction n s t bs rule: tag_rest.induct) (auto split: if_splits)

lemma parse_tag_shorter: "parse_tag_and_wiretype bs = Some (t, w, r) \<Longrightarrow> length r < length bs"
  using tag_rest_shorter
  by (fastforce simp: parse_tag_and_wiretype_def Let_def split: list.splits if_splits)

function scan_members :: "byte list \<Rightarrow> scanned_member list option" where
  "scan_members [] = Some []"
| "scan_members (b # bs) =
     (case parse_tag_and_wiretype (b # bs) of
        None \<Rightarrow> None
      | Some (tag, wire, r) \<Rightarrow>
          (case scan_data wire r of
             None \<Rightarrow> None
           | Some (len, pref_len) \<Rightarrow>
               (case scan_members (drop len r) of
                  None \<Rightarrow> None
                | Some ms \<Rightarrow> Some (\<lparr>sm_tag = tag, sm_wire_type = wire, sm_prefix_len = pref_len,
                                  sm_data = take len r\<rparr> # ms))))"
  by pat_completeness simp_all

termination
  by (relation "measure length") (use parse_tag_shorter in fastforce)+

section \<open>Parsing\<close>

definition parse_uint32 :: "byte list \<Rightarrow> 32 word" where
  "parse_uint32 bs =
     fold (\<lambda>(i, b) acc. acc OR push_bit (7 * i) (if i = 4 then ucast b else ucast (b AND 0x7F)))
       (zip [0, 1, 2, 3, 4] bs) 0"

definition parse_boolean :: "byte list \<Rightarrow> bool" where
  "parse_boolean bs = list_ex (\<lambda>b. b AND 0x7F \<noteq> 0) bs"

definition parse_fixed_uint32 :: "byte list \<Rightarrow> 32 word" where
  "parse_fixed_uint32 bs = fold (\<lambda>(i, b) acc. acc OR push_bit (8 * i) (ucast b)) (zip [0, 1, 2, 3] bs) 0"

definition parse_fixed_uint64 :: "byte list \<Rightarrow> 64 word" where
  "parse_fixed_uint64 bs =
     fold (\<lambda>(i, b) acc. acc OR push_bit (8 * i) (ucast b)) (zip [0, 1, 2, 3, 4, 5, 6, 7] bs) 0"

text \<open>The payload behind the prefix; the prefix may be longer than the field only after an overflow.\<close>

definition payload :: "scanned_member \<Rightarrow> byte list unpacked" where
  "payload sm =
     (if length (sm_data sm) < sm_prefix_len sm then Corrupted
      else Unpacked (drop (sm_prefix_len sm) (sm_data sm)))"

text \<open>
  \<^verbatim>\<open>merge_messages\<close>: repeated fields are concatenated and submessages merged; a string of the
  earlier message survives if the latter has none; a number of the earlier message does not, because
  the member that would say whether it was set is not there for a field without a label.
\<close>

definition merge_field ::
    "(message \<Rightarrow> message \<Rightarrow> message) \<Rightarrow> plabel \<Rightarrow> ptype \<Rightarrow> pval option \<Rightarrow> pval option \<Rightarrow> pval option" where
  "merge_field sub lab ty earlier latter =
     (case lab of
        LABEL_REPEATED p \<Rightarrow>
          (case (earlier, latter) of
             (Some (PRep xs), Some (PRep ys)) \<Rightarrow> Some (PRep (xs @ ys))
           | (Some x, None) \<Rightarrow> Some x
           | _ \<Rightarrow> latter)
      | LABEL_NONE \<Rightarrow>
          (case (ty, earlier, latter) of
             (TYPE_MESSAGE d, Some (PMsg em), Some (PMsg lm)) \<Rightarrow> Some (PMsg (sub em lm))
           | (TYPE_MESSAGE d, Some em, None) \<Rightarrow> Some em
           | (TYPE_STRING, Some e, None) \<Rightarrow> Some e
           | _ \<Rightarrow> latter))"

fun merge_messages :: "ptype \<Rightarrow> message \<Rightarrow> message \<Rightarrow> message" where
  "merge_messages (TYPE_MESSAGE d) em lm =
     concat (map (\<lambda>(i, lab, ty).
       case merge_field (merge_messages ty) lab ty (map_of em i) (map_of lm i) of
         None \<Rightarrow> [] | Some v \<Rightarrow> [(i, v)]) d)"
| "merge_messages ty em lm = lm"

text \<open>
  \<open>parse_required_member\<close> gets the parser of the submessage and, for a field that may already be
  set, the old value.
\<close>

definition parse_required_member ::
    "(byte list \<Rightarrow> message unpacked) \<Rightarrow> ptype \<Rightarrow> scanned_member \<Rightarrow> pval option \<Rightarrow> pval unpacked" where
  "parse_required_member sub ty sm old =
     (let wire = sm_wire_type sm; data = sm_data sm in
      case ty of
        TYPE_ENUM \<Rightarrow> if wire \<noteq> WIRE_VARINT then Malformed else Unpacked (P32 (parse_uint32 data))
      | TYPE_INT32 \<Rightarrow> if wire \<noteq> WIRE_VARINT then Malformed else Unpacked (P32 (parse_uint32 data))
      | TYPE_UINT32 \<Rightarrow> if wire \<noteq> WIRE_VARINT then Malformed else Unpacked (P32 (parse_uint32 data))
      | TYPE_FLOAT \<Rightarrow> if wire \<noteq> WIRE_32BIT then Malformed else Unpacked (P32 (parse_fixed_uint32 data))
      | TYPE_DOUBLE \<Rightarrow> if wire \<noteq> WIRE_64BIT then Malformed else Unpacked (P64 (parse_fixed_uint64 data))
      | TYPE_BOOL \<Rightarrow> Unpacked (PBool (parse_boolean data))
      | TYPE_STRING \<Rightarrow>
          if wire \<noteq> WIRE_LENGTH_PREFIXED then Malformed
          else ubind (payload sm) (\<lambda>bs. Unpacked (PStr (string_of bs)))
      | TYPE_MESSAGE d \<Rightarrow>
          if wire \<noteq> WIRE_LENGTH_PREFIXED then Malformed
          else ubind (payload sm) (\<lambda>bs. ubind (sub bs) (\<lambda>m.
                 case old of
                   Some (PMsg em) \<Rightarrow> Unpacked (PMsg (merge_messages ty em m))
                 | _ \<Rightarrow> Unpacked (PMsg m))))"

text \<open>The elements of a packed field.\<close>

function packed_varints :: "byte list \<Rightarrow> 32 word list option" where
  "packed_varints [] = Some []"
| "packed_varints (b # bs) =
     (case scan_varint (b # bs) of
        None \<Rightarrow> None
      | Some n \<Rightarrow> map_option (Cons (parse_uint32 (take n (b # bs)))) (packed_varints (drop n (b # bs))))"
  by pat_completeness simp_all

termination
  by (relation "measure length") (auto simp: scan_varint_def Let_def split: if_splits)

fun chunks :: "nat \<Rightarrow> nat \<Rightarrow> byte list \<Rightarrow> byte list list" where
  "chunks 0 k bs = []"
| "chunks (Suc n) k bs = take k bs # chunks n k (drop k bs)"

definition is_packable_type :: "ptype \<Rightarrow> bool" where
  "is_packable_type ty \<longleftrightarrow> (case ty of TYPE_STRING \<Rightarrow> False | TYPE_MESSAGE d \<Rightarrow> False | _ \<Rightarrow> True)"

definition parse_packed_repeated_member :: "ptype \<Rightarrow> byte list \<Rightarrow> pval list unpacked" where
  "parse_packed_repeated_member ty bs =
     (case ty of
        TYPE_FLOAT \<Rightarrow> if length bs mod 4 \<noteq> 0 then Malformed
          else Unpacked (map (\<lambda>c. P32 (parse_fixed_uint32 c)) (chunks (length bs div 4) 4 bs))
      | TYPE_DOUBLE \<Rightarrow> if length bs mod 8 \<noteq> 0 then Malformed
          else Unpacked (map (\<lambda>c. P64 (parse_fixed_uint64 c)) (chunks (length bs div 8) 8 bs))
      | TYPE_BOOL \<Rightarrow> if list_ex (\<lambda>b. b > 1) bs then Malformed
          else Unpacked (map (\<lambda>b. PBool (b \<noteq> 0)) bs)
      | _ \<Rightarrow> (case packed_varints bs of None \<Rightarrow> Malformed | Some vs \<Rightarrow> Unpacked (map P32 vs)))"

definition add_elements :: "nat \<Rightarrow> pval list \<Rightarrow> message \<Rightarrow> message" where
  "add_elements i vs m =
     (case map_of m i of
        Some (PRep xs) \<Rightarrow> AList.update i (PRep (xs @ vs)) m
      | _ \<Rightarrow> if vs = [] then m else AList.update i (PRep vs) m)"

text \<open>The field with the number of the tag. The code finds it by a binary search over ranges; that it is this field is
  shown in \<open>Protobuf_Lookup\<close>.\<close>

definition find_field ::
    "(nat \<times> plabel \<times> ptype \<times> 's) list \<Rightarrow> 32 word \<Rightarrow> (nat \<times> plabel \<times> ptype \<times> 's) option" where
  "find_field d tag = find (\<lambda>(i, _). i = unat tag) d"

definition parse_member ::
    "(nat \<times> plabel \<times> ptype \<times> (byte list \<Rightarrow> message unpacked)) list \<Rightarrow> scanned_member \<Rightarrow> message
     \<Rightarrow> message unpacked" where
  "parse_member fds sm m =
     (case find_field fds (sm_tag sm) of
        None \<Rightarrow> Unpacked m
      | Some (i, LABEL_NONE, ty, sub) \<Rightarrow>
          ubind (parse_required_member sub ty sm (map_of m i)) (\<lambda>v. Unpacked (AList.update i v m))
      | Some (i, LABEL_REPEATED packed, ty, sub) \<Rightarrow>
          if sm_wire_type sm = WIRE_LENGTH_PREFIXED \<and> (packed \<or> is_packable_type ty)
          then ubind (payload sm) (\<lambda>bs. ubind (parse_packed_repeated_member ty bs)
                 (\<lambda>vs. Unpacked (add_elements i vs m)))
          else ubind (parse_required_member sub ty sm None) (\<lambda>v. Unpacked (add_elements i [v] m)))"

fun parse_members ::
    "(nat \<times> plabel \<times> ptype \<times> (byte list \<Rightarrow> message unpacked)) list \<Rightarrow> scanned_member list \<Rightarrow> message
     \<Rightarrow> message unpacked" where
  "parse_members fds [] m = Unpacked m"
| "parse_members fds (sm # sms) m = ubind (parse_member fds sm m) (parse_members fds sms)"

text \<open>\<open>message_unpack ty\<close> is \<^verbatim>\<open>protobuf_c_message_unpack\<close> for a message of type \<open>ty\<close>.\<close>

fun message_unpack :: "ptype \<Rightarrow> byte list \<Rightarrow> message unpacked" where
  "message_unpack (TYPE_MESSAGE d) = (\<lambda>bs.
     (case scan_members bs of
        None \<Rightarrow> Malformed
      | Some sms \<Rightarrow> parse_members (map (\<lambda>(i, lab, ty). (i, lab, ty, message_unpack ty)) d) sms []))"
| "message_unpack ty = (\<lambda>bs. Malformed)"

definition protobuf_c_message_unpack :: "descriptor \<Rightarrow> byte list \<Rightarrow> message unpacked" where
  "protobuf_c_message_unpack d bs = message_unpack (TYPE_MESSAGE d) bs"

section \<open>Access to members\<close>

definition msg_sub :: "nat \<Rightarrow> message \<Rightarrow> message option" where
  "msg_sub i m = (case map_of m i of Some (PMsg x) \<Rightarrow> Some x | _ \<Rightarrow> None)"

definition msg_u32 :: "nat \<Rightarrow> message \<Rightarrow> 32 word" where
  "msg_u32 i m = (case map_of m i of Some (P32 x) \<Rightarrow> x | _ \<Rightarrow> 0)"

definition msg_bool :: "nat \<Rightarrow> message \<Rightarrow> bool" where
  "msg_bool i m = (case map_of m i of Some (PBool b) \<Rightarrow> b | _ \<Rightarrow> False)"

definition msg_str :: "nat \<Rightarrow> message \<Rightarrow> string" where
  "msg_str i m = (case map_of m i of Some (PStr s) \<Rightarrow> c_str s | _ \<Rightarrow> [])"

definition msg_rep :: "nat \<Rightarrow> message \<Rightarrow> pval list" where
  "msg_rep i m = (case map_of m i of Some (PRep vs) \<Rightarrow> vs | _ \<Rightarrow> [])"

section \<open>The unchecked addition does no harm\<close>

lemma bit_7F: "bit (0x7F :: byte) i \<longleftrightarrow> i < 7" "bit (0x7F :: 32 word) i \<longleftrightarrow> i < 7"
proof -
  have "(0x7F :: byte) = mask 7" "(0x7F :: 32 word) = mask 7" by (simp_all add: mask_eq_exp_minus_1)
  then show "bit (0x7F :: byte) i \<longleftrightarrow> i < 7" "bit (0x7F :: 32 word) i \<longleftrightarrow> i < 7"
    by (simp_all only: bit_mask_iff) (auto simp: possible_bit_def)
qed

text \<open>The prefix of length \<open>n\<close> has \<open>7 * n\<close> value bits.\<close>

lemma length_value_bits:
  "length_value k s bs = Some (v, n) \<Longrightarrow> 0 < n \<and> n \<le> k \<and> n \<le> length bs \<and>
   (\<forall>j. bit v j \<longleftrightarrow> j < 32 \<and> s \<le> j \<and> j < s + 7 * n \<and> bit (bs ! ((j - s) div 7)) ((j - s) mod 7))"
proof (induction k s bs arbitrary: v n rule: length_value.induct)
  case (3 k s b bs)
  let ?v = "push_bit s (ucast (b AND 0x7F)) :: 32 word"
  have v: "bit ?v j \<longleftrightarrow> j < 32 \<and> s \<le> j \<and> j < s + 7 \<and> bit b (j - s)" for j
    unfolding bit_push_bit_iff bit_unsigned_iff bit_and_iff bit_7F
    by (auto simp: possible_bit_def)
  show ?case
  proof (cases "b AND 0x80 = 0")
    case True
    then have "v = ?v" "n = 1" using 3(2) by (simp_all add: Let_def)
    moreover have "bit ?v j \<longleftrightarrow> j < 32 \<and> s \<le> j \<and> j < s + 7 \<and> bit ((b # bs) ! ((j - s) div 7)) ((j - s) mod 7)" for j
      using v [of j] by (cases "s \<le> j \<and> j < s + 7") auto
    ultimately show ?thesis by simp
  next
    case False
    then obtain w m where wm: "length_value k (s + 7) bs = Some (w, m)" "v = ?v OR w" "n = m + 1"
      using 3(2) by (auto simp: Let_def)
    note IH = 3(1) [OF refl False wm(1)]
    have bw: "bit w j \<longleftrightarrow> j < 32 \<and> s + 7 \<le> j \<and> j < s + 7 + 7 * m \<and>
        bit (bs ! ((j - (s + 7)) div 7)) ((j - (s + 7)) mod 7)" for j
      using IH by blast
    have "bit v j \<longleftrightarrow> j < 32 \<and> s \<le> j \<and> j < s + 7 * n \<and> bit ((b # bs) ! ((j - s) div 7)) ((j - s) mod 7)" for j
    proof (cases "j < s + 7")
      case True
      then show ?thesis using bw [of j] v [of j] wm(2,3) by (cases "s \<le> j") (auto simp: bit_or_iff)
    next
      case F: False
      then have d: "(j - s) div 7 = Suc ((j - (s + 7)) div 7)" "(j - s) mod 7 = (j - (s + 7)) mod 7"
        using div_add_self2 [of 7 "j - (s + 7)"] mod_add_self2 [of "j - (s + 7)" 7] by simp_all
      show ?thesis unfolding d wm(2,3) bit_or_iff using bw [of j] v [of j] F by auto
    qed
    then show ?thesis using IH wm by simp
  qed
qed simp_all


lemma large_bits:
  fixes v :: "32 word"
  assumes "2 ^ 32 \<le> unat v + 5" "3 \<le> j" "j < 32"
  shows "bit v j"
proof (rule ccontr)
  assume n: "\<not> bit v j"
  then have "uint v AND 2 ^ j = 0" using assms(3) by (simp add: and_exp_eq_0_iff_not_bit bit_uint_iff)
  then have "uint v OR 2 ^ j = uint v + 2 ^ j" by (simp add: disjunctive_add_eq_or)
  moreover have "(2 :: int) ^ j < 2 ^ 32" by (rule power_strict_increasing) (use assms(3) in simp_all)
  then have "uint v OR 2 ^ j < 2 ^ 32"
    by (intro OR_upper) (use uint_lt2p [of v] in simp_all)
  moreover have "(2 :: int) ^ 3 \<le> 2 ^ j" using assms(2) by (intro power_increasing) simp_all
  ultimately have "uint v + 2 ^ 3 < 2 ^ 32" by linarith
  moreover have "int (2 ^ 32) \<le> int (unat v + 5)" using assms(1) by (simp only: of_nat_le_iff)
  ultimately show False by simp
qed

lemma low_three: "bit b 0 \<Longrightarrow> bit b 1 \<Longrightarrow> bit b 2 \<Longrightarrow> b AND 7 = (7 :: byte)"
proof -
  assume a: "bit b 0" "bit b 1" "bit b 2"
  have m: "(7 :: byte) = mask 3" by (simp add: mask_eq_exp_minus_1)
  have "bit (b AND mask 3) i = bit (mask 3 :: byte) i" for i
  proof -
    have "i < 3 \<Longrightarrow> i = 0 \<or> i = 1 \<or> i = 2" by auto
    then show ?thesis using a by (auto simp: bit_and_iff bit_mask_iff)
  qed
  then have "b AND mask 3 = mask 3" by (intro bit_eqI) simp
  then show ?thesis using m by simp
qed

lemma scan_length_prefix:
  assumes "scan_length_prefixed_data bs = Some (tot, hdr)"
  shows "hdr \<le> tot \<or> (\<exists>b r. drop tot bs = b # r \<and> b AND 7 = 7)"
proof -
  obtain val where lv: "length_value 5 0 bs = Some (val, hdr)"
    and t: "tot = unat (of_nat hdr + val)" "tot \<le> length bs" "0 < tot"
    using assms by (auto simp: scan_length_prefixed_data_def Let_def split: option.splits if_splits)
  note b = length_value_bits [OF lv]
  have h: "unat (of_nat hdr :: 32 word) = hdr" using b by (simp add: unat_of_nat)
  show ?thesis
  proof (cases "hdr + unat val < 2 ^ 32")
    case True
    then have "tot = hdr + unat val" using t(1) h by (simp add: unat_word_ariths)
    then show ?thesis by simp
  next
    case False
    have lt: "unat val < 2 ^ 32" using unsigned_less [of val] by simp
    have w: "bit val j" if "3 \<le> j" "j < 32" for j
      by (rule large_bits [OF _ that]) (use False b in simp)
    have "31 < 7 * hdr" using w [of 31] b by auto
    then have hdr: "hdr = 5" using b by simp
    have "tot = hdr + unat val - 2 ^ 32"
      using t(1) h False lt hdr by (simp add: unat_word_ariths mod_if)
    then have tlt: "tot < 5" using hdr lt by simp
    have "bit (bs ! tot) i" if "i < 3" for i
    proof -
      have "bit val (7 * tot + i)" by (rule w) (use that tlt t(3) in simp_all)
      moreover have "(7 * tot + i) div 7 = tot" "(7 * tot + i) mod 7 = i" using that by simp_all
      ultimately show ?thesis using b by auto
    qed
    then have "(bs ! tot) AND 7 = 7" using low_three by simp
    moreover have "tot < length bs" using tlt hdr b by simp
    ultimately show ?thesis by (metis Cons_nth_drop_Suc)
  qed
qed

lemma bad_wire_type:
  assumes "b AND 7 = 7"
  shows "scan_members (b # r) = None"
proof -
  have "w = 7" if "parse_tag_and_wiretype (b # r) = Some (t, w, r')" for t w r'
    using that assms by (auto simp: parse_tag_and_wiretype_def Let_def split: if_splits)
  then show ?thesis by (auto simp: scan_data_def wire_defs split: option.splits)
qed

lemma scan_members_prefix:
  "scan_members bs = Some sms \<Longrightarrow> sm \<in> set sms \<Longrightarrow> sm_prefix_len sm \<le> length (sm_data sm)"
proof (induction bs arbitrary: sms rule: scan_members.induct)
  case (2 b bs)
  obtain tag wire r len pl ms where d: "parse_tag_and_wiretype (b # bs) = Some (tag, wire, r)"
    "scan_data wire r = Some (len, pl)" "scan_members (drop len r) = Some ms"
    "sms = \<lparr>sm_tag = tag, sm_wire_type = wire, sm_prefix_len = pl, sm_data = take len r\<rparr> # ms"
    using 2(2) by (auto split: option.splits)
  have "pl \<le> length (take len r)"
  proof (cases "wire = WIRE_LENGTH_PREFIXED")
    case True
    then have s: "scan_length_prefixed_data r = Some (len, pl)"
      using d(2) by (simp add: scan_data_def wire_defs)
    then have "len \<le> length r"
      by (auto simp: scan_length_prefixed_data_def Let_def split: option.splits if_splits)
    moreover have "pl \<le> len"
      using scan_length_prefix [OF s] d(3) bad_wire_type by fastforce
    ultimately show ?thesis by simp
  next
    case False
    then have "pl = 0" using d(2) by (auto simp: scan_data_def split: if_splits)
    then show ?thesis by simp
  qed
  then show ?case using 2 d by (auto split: option.splits)
qed simp

lemma ubind_not_Corrupted:
  "x \<noteq> Corrupted \<Longrightarrow> (\<And>y. f y \<noteq> Corrupted) \<Longrightarrow> ubind x f \<noteq> Corrupted"
  by (cases x) auto

lemma parse_required_not_Corrupted:
  "(\<And>bs. sub bs \<noteq> Corrupted) \<Longrightarrow> sm_prefix_len sm \<le> length (sm_data sm) \<Longrightarrow>
   parse_required_member sub ty sm old \<noteq> Corrupted"
  by (cases ty) (auto simp: parse_required_member_def Let_def payload_def ubind_not_Corrupted
      split: option.splits pval.splits)

lemma parse_packed_not_Corrupted: "parse_packed_repeated_member ty bs \<noteq> Corrupted"
  by (auto simp: parse_packed_repeated_member_def split: ptype.splits option.splits)

lemma find_field_in: "find_field fds t = Some (i, lab, ty, sub) \<Longrightarrow> (i, lab, ty, sub) \<in> set fds"
  by (auto simp: find_field_def find_Some_iff) (metis nth_mem)

lemma parse_member_not_Corrupted:
  assumes "\<And>i lab ty sub bs. (i, lab, ty, sub) \<in> set fds \<Longrightarrow> sub bs \<noteq> Corrupted"
    and "sm_prefix_len sm \<le> length (sm_data sm)"
  shows "parse_member fds sm m \<noteq> Corrupted"
proof (cases "find_field fds (sm_tag sm)")
  case (Some f)
  obtain i lab ty sub where f: "f = (i, lab, ty, sub)" by (cases f) auto
  have "(i, lab, ty, sub) \<in> set fds" using Some by (simp only: f find_field_in)
  then have sub: "\<And>bs. sub bs \<noteq> Corrupted" by (rule assms(1))
  have p: "payload sm \<noteq> Corrupted" using assms(2) by (simp add: payload_def)
  have r: "parse_required_member sub ty sm old \<noteq> Corrupted" for old
    by (rule parse_required_not_Corrupted [OF sub assms(2)])
  have q: "ubind (payload sm) (\<lambda>bs. ubind (parse_packed_repeated_member ty bs) (\<lambda>vs. Unpacked (g vs))) \<noteq> Corrupted"
    for g :: "pval list \<Rightarrow> message"
    by (intro ubind_not_Corrupted p parse_packed_not_Corrupted) simp
  show ?thesis
    using q [of "\<lambda>vs. add_elements i vs m"]
    by (cases lab) (simp_all add: parse_member_def Some f ubind_not_Corrupted [OF r])
qed (simp add: parse_member_def)

lemma parse_members_not_Corrupted:
  assumes "\<And>i lab ty sub bs. (i, lab, ty, sub) \<in> set fds \<Longrightarrow> sub bs \<noteq> Corrupted"
    and "\<And>sm. sm \<in> set sms \<Longrightarrow> sm_prefix_len sm \<le> length (sm_data sm)"
  shows "parse_members fds sms m \<noteq> Corrupted"
  using assms(2)
proof (induction sms arbitrary: m)
  case (Cons sm sms)
  then show ?case
    using parse_member_not_Corrupted [of fds sm] assms(1)
    by (simp add: ubind_not_Corrupted)
qed simp

lemma message_unpack_not_Corrupted: "message_unpack ty bs \<noteq> Corrupted"
proof (induction ty arbitrary: bs)
  case (TYPE_MESSAGE d)
  show ?case
  proof (cases "scan_members bs")
    case (Some sms)
    have "parse_members (map (\<lambda>(i, lab, ty). (i, lab, ty, message_unpack ty)) d) sms [] \<noteq> Corrupted"
      by (rule parse_members_not_Corrupted)
        (use TYPE_MESSAGE.IH scan_members_prefix [OF Some] in \<open>fastforce\<close>)+
    then show ?thesis using Some by simp
  qed simp
qed simp_all


end
