(* ===== verification/Device_Proto.thy ===== *)
theory Device_Proto
  imports Protobuf
begin

text \<open>
  The descriptors of the messages exchanged with the cloud about the device: the tables of
  \<^verbatim>\<open>main/protobuf/device_proto.pb-c.c\<close> and, of \<^verbatim>\<open>main/protobuf/common_proto.pb-c.c\<close>, those
  they refer to. A field is its number, its label (with the flag of a packed repeated field) and
  its type, in the order of the table. Every message type here is built from others without a
  cycle, so the table is a finite tree.
\<close>

section \<open>Messages of common\_proto\<close>

definition status_code_descriptor :: descriptor where
  "status_code_descriptor =
     [(1, LABEL_NONE, TYPE_STRING), (2, LABEL_NONE, TYPE_UINT32)]"

definition lane_state_descriptor :: descriptor where
  "lane_state_descriptor =
     [(1, LABEL_NONE, TYPE_ENUM), (2, LABEL_NONE, TYPE_ENUM), (3, LABEL_NONE, TYPE_UINT32)]"

definition device_state_descriptor :: descriptor where
  "device_state_descriptor =
     [(1, LABEL_NONE, TYPE_ENUM), (2, LABEL_NONE, TYPE_UINT32),
      (3, LABEL_REPEATED True, TYPE_UINT32), (4, LABEL_REPEATED True, TYPE_UINT32),
      (5, LABEL_REPEATED True, TYPE_UINT32), (6, LABEL_NONE, TYPE_UINT32),
      (7, LABEL_REPEATED True, TYPE_UINT32), (8, LABEL_NONE, TYPE_UINT32),
      (9, LABEL_NONE, TYPE_UINT32), (10, LABEL_NONE, TYPE_ENUM), (11, LABEL_NONE, TYPE_UINT32),
      (12, LABEL_NONE, TYPE_UINT32), (13, LABEL_NONE, TYPE_UINT32), (14, LABEL_NONE, TYPE_UINT32),
      (15, LABEL_NONE, TYPE_UINT32), (16, LABEL_REPEATED False, TYPE_MESSAGE lane_state_descriptor)]"

definition card_config_descriptor :: descriptor where
  "card_config_descriptor =
     [(1, LABEL_NONE, TYPE_STRING), (2, LABEL_NONE, TYPE_UINT32), (3, LABEL_NONE, TYPE_UINT32),
      (4, LABEL_NONE, TYPE_UINT32)]"

definition mtfcphase_gate_config_descriptor :: descriptor where
  "mtfcphase_gate_config_descriptor =
     [(1, LABEL_REPEATED True, TYPE_UINT32)]"

definition hmtime_descriptor :: descriptor where
  "hmtime_descriptor =
     [(1, LABEL_NONE, TYPE_UINT32), (2, LABEL_NONE, TYPE_UINT32)]"

definition active_lamp_descriptor :: descriptor where
  "active_lamp_descriptor =
     [(1, LABEL_NONE, TYPE_MESSAGE hmtime_descriptor),
      (2, LABEL_NONE, TYPE_MESSAGE hmtime_descriptor)]"

definition one_side_lamp_time_descriptor :: descriptor where
  "one_side_lamp_time_descriptor =
     [(1, LABEL_NONE, TYPE_UINT32), (2, LABEL_NONE, TYPE_UINT32), (3, LABEL_NONE, TYPE_UINT32),
      (4, LABEL_NONE, TYPE_UINT32), (5, LABEL_NONE, TYPE_UINT32), (6, LABEL_NONE, TYPE_UINT32),
      (7, LABEL_NONE, TYPE_UINT32)]"

definition one_cycle_lamp_time_descriptor :: descriptor where
  "one_cycle_lamp_time_descriptor =
     [(1, LABEL_NONE, TYPE_UINT32), (2, LABEL_NONE, TYPE_UINT32),
      (3, LABEL_REPEATED False, TYPE_MESSAGE one_side_lamp_time_descriptor),
      (4, LABEL_NONE, TYPE_UINT32), (5, LABEL_NONE, TYPE_BOOL)]"

definition cycle_lamp_form_descriptor :: descriptor where
  "cycle_lamp_form_descriptor =
     [(1, LABEL_REPEATED False, TYPE_MESSAGE one_cycle_lamp_time_descriptor)]"

definition one_timeline_descriptor :: descriptor where
  "one_timeline_descriptor =
     [(1, LABEL_NONE, TYPE_MESSAGE hmtime_descriptor), (2, LABEL_NONE, TYPE_UINT32)]"

definition day_time_line_descriptor :: descriptor where
  "day_time_line_descriptor =
     [(1, LABEL_REPEATED False, TYPE_MESSAGE one_timeline_descriptor)]"

definition time_lamp_form_descriptor :: descriptor where
  "time_lamp_form_descriptor =
     [(1, LABEL_REPEATED False, TYPE_MESSAGE day_time_line_descriptor)]"

definition day_lamp_form_descriptor :: descriptor where
  "day_lamp_form_descriptor =
     [(1, LABEL_REPEATED True, TYPE_UINT32)]"

section \<open>Messages of device\_proto\<close>

definition device_register_request_descriptor :: descriptor where
  "device_register_request_descriptor =
     [(1, LABEL_NONE, TYPE_STRING), (2, LABEL_NONE, TYPE_STRING), (3, LABEL_NONE, TYPE_ENUM),
      (4, LABEL_NONE, TYPE_UINT32), (5, LABEL_NONE, TYPE_STRING), (6, LABEL_NONE, TYPE_STRING),
      (7, LABEL_NONE, TYPE_FLOAT), (8, LABEL_NONE, TYPE_FLOAT), (9, LABEL_NONE, TYPE_STRING)]"

definition device_register_response_descriptor :: descriptor where
  "device_register_response_descriptor =
     [(1, LABEL_NONE, TYPE_STRING), (1000, LABEL_NONE, TYPE_MESSAGE status_code_descriptor)]"

definition device_login_request_descriptor :: descriptor where
  "device_login_request_descriptor =
     [(1, LABEL_NONE, TYPE_STRING), (2, LABEL_NONE, TYPE_STRING)]"

definition device_login_response_descriptor :: descriptor where
  "device_login_response_descriptor =
     [(1000, LABEL_NONE, TYPE_MESSAGE status_code_descriptor)]"

definition device_auth_message_descriptor :: descriptor where
  "device_auth_message_descriptor =
     [(1, LABEL_NONE, TYPE_MESSAGE device_register_request_descriptor),
      (2, LABEL_NONE, TYPE_MESSAGE device_register_response_descriptor),
      (3, LABEL_NONE, TYPE_MESSAGE device_login_request_descriptor),
      (4, LABEL_NONE, TYPE_MESSAGE device_login_response_descriptor)]"

definition device_log_update_descriptor :: descriptor where
  "device_log_update_descriptor =
     [(1, LABEL_NONE, TYPE_STRING), (2, LABEL_NONE, TYPE_STRING)]"

definition state_on_change_device_message_descriptor :: descriptor where
  "state_on_change_device_message_descriptor =
     [(1, LABEL_NONE, TYPE_STRING), (2, LABEL_NONE, TYPE_MESSAGE device_state_descriptor)]"

definition device_update_configure_request_descriptor :: descriptor where
  "device_update_configure_request_descriptor =
     [(1, LABEL_NONE, TYPE_STRING), (2, LABEL_NONE, TYPE_ENUM), (3, LABEL_NONE, TYPE_BOOL),
      (4, LABEL_NONE, TYPE_BOOL), (5, LABEL_NONE, TYPE_BOOL), (6, LABEL_NONE, TYPE_BOOL),
      (7, LABEL_NONE, TYPE_BOOL), (8, LABEL_NONE, TYPE_BOOL), (9, LABEL_NONE, TYPE_UINT32),
      (10, LABEL_NONE, TYPE_UINT32), (11, LABEL_NONE, TYPE_UINT32), (12, LABEL_NONE, TYPE_DOUBLE),
      (13, LABEL_NONE, TYPE_DOUBLE),
      (14, LABEL_REPEATED False, TYPE_MESSAGE card_config_descriptor),
      (15, LABEL_REPEATED False, TYPE_MESSAGE mtfcphase_gate_config_descriptor)]"

definition device_update_configure_response_descriptor :: descriptor where
  "device_update_configure_response_descriptor =
     [(1000, LABEL_NONE, TYPE_MESSAGE status_code_descriptor)]"

definition ping_websocket_device_request_descriptor :: descriptor where
  "ping_websocket_device_request_descriptor =
     [(1, LABEL_NONE, TYPE_STRING)]"

definition ping_websocket_device_response_descriptor :: descriptor where
  "ping_websocket_device_response_descriptor =
     [(1000, LABEL_NONE, TYPE_MESSAGE status_code_descriptor)]"

definition device_update_schedule_request_descriptor :: descriptor where
  "device_update_schedule_request_descriptor =
     [(1, LABEL_NONE, TYPE_STRING), (2, LABEL_NONE, TYPE_UINT32),
      (3, LABEL_NONE, TYPE_MESSAGE active_lamp_descriptor),
      (4, LABEL_NONE, TYPE_MESSAGE cycle_lamp_form_descriptor),
      (5, LABEL_NONE, TYPE_MESSAGE time_lamp_form_descriptor),
      (6, LABEL_NONE, TYPE_MESSAGE day_lamp_form_descriptor)]"

definition device_update_schedule_response_descriptor :: descriptor where
  "device_update_schedule_response_descriptor =
     [(1000, LABEL_NONE, TYPE_MESSAGE status_code_descriptor)]"

definition update_coordinate_device_request_descriptor :: descriptor where
  "update_coordinate_device_request_descriptor =
     [(1, LABEL_NONE, TYPE_STRING), (2, LABEL_NONE, TYPE_FLOAT), (3, LABEL_NONE, TYPE_FLOAT)]"

definition update_coordinate_device_response_descriptor :: descriptor where
  "update_coordinate_device_response_descriptor =
     [(1000, LABEL_NONE, TYPE_MESSAGE status_code_descriptor)]"

definition announce_error_device_request_descriptor :: descriptor where
  "announce_error_device_request_descriptor =
     [(1, LABEL_NONE, TYPE_STRING), (2, LABEL_NONE, TYPE_STRING), (3, LABEL_NONE, TYPE_STRING),
      (4, LABEL_NONE, TYPE_STRING)]"

definition update_power_state_device_request_descriptor :: descriptor where
  "update_power_state_device_request_descriptor =
     [(1, LABEL_NONE, TYPE_STRING), (2, LABEL_NONE, TYPE_BOOL)]"

definition update_mode_device_request_descriptor :: descriptor where
  "update_mode_device_request_descriptor =
     [(1, LABEL_NONE, TYPE_STRING), (2, LABEL_NONE, TYPE_ENUM)]"

definition update_meter_data_device_request_descriptor :: descriptor where
  "update_meter_data_device_request_descriptor =
     [(1, LABEL_NONE, TYPE_STRING), (2, LABEL_NONE, TYPE_DOUBLE), (3, LABEL_NONE, TYPE_DOUBLE),
      (4, LABEL_NONE, TYPE_DOUBLE), (5, LABEL_NONE, TYPE_DOUBLE), (6, LABEL_NONE, TYPE_DOUBLE),
      (7, LABEL_NONE, TYPE_DOUBLE), (8, LABEL_NONE, TYPE_DOUBLE), (9, LABEL_NONE, TYPE_DOUBLE),
      (10, LABEL_NONE, TYPE_DOUBLE), (11, LABEL_NONE, TYPE_DOUBLE), (12, LABEL_NONE, TYPE_DOUBLE),
      (13, LABEL_NONE, TYPE_DOUBLE), (14, LABEL_NONE, TYPE_DOUBLE)]"

definition device_update_message_descriptor :: descriptor where
  "device_update_message_descriptor =
     [(1, LABEL_NONE, TYPE_MESSAGE device_log_update_descriptor),
      (2, LABEL_NONE, TYPE_MESSAGE state_on_change_device_message_descriptor),
      (3, LABEL_NONE, TYPE_MESSAGE device_update_configure_request_descriptor),
      (4, LABEL_NONE, TYPE_MESSAGE device_update_configure_response_descriptor),
      (5, LABEL_NONE, TYPE_MESSAGE ping_websocket_device_request_descriptor),
      (6, LABEL_NONE, TYPE_MESSAGE ping_websocket_device_response_descriptor),
      (7, LABEL_NONE, TYPE_MESSAGE device_update_schedule_request_descriptor),
      (8, LABEL_NONE, TYPE_MESSAGE device_update_schedule_response_descriptor),
      (9, LABEL_NONE, TYPE_MESSAGE update_coordinate_device_request_descriptor),
      (10, LABEL_NONE, TYPE_MESSAGE update_coordinate_device_response_descriptor),
      (11, LABEL_NONE, TYPE_MESSAGE announce_error_device_request_descriptor),
      (12, LABEL_NONE, TYPE_MESSAGE update_power_state_device_request_descriptor),
      (13, LABEL_NONE, TYPE_MESSAGE update_mode_device_request_descriptor),
      (14, LABEL_NONE, TYPE_MESSAGE update_meter_data_device_request_descriptor)]"

definition require_stream_device_request_descriptor :: descriptor where
  "require_stream_device_request_descriptor =
     [(1, LABEL_NONE, TYPE_STRING), (2, LABEL_NONE, TYPE_BOOL)]"

definition require_stream_device_response_descriptor :: descriptor where
  "require_stream_device_response_descriptor =
     [(1000, LABEL_NONE, TYPE_MESSAGE status_code_descriptor)]"

definition control_lane_device_request_descriptor :: descriptor where
  "control_lane_device_request_descriptor =
     [(1, LABEL_NONE, TYPE_STRING), (2, LABEL_NONE, TYPE_UINT32), (3, LABEL_NONE, TYPE_BOOL)]"

definition control_lane_device_response_descriptor :: descriptor where
  "control_lane_device_response_descriptor =
     [(1000, LABEL_NONE, TYPE_MESSAGE status_code_descriptor)]"

definition set_active_time_device_request_descriptor :: descriptor where
  "set_active_time_device_request_descriptor =
     [(1, LABEL_NONE, TYPE_STRING), (2, LABEL_NONE, TYPE_MESSAGE active_lamp_descriptor)]"

definition set_active_time_device_response_descriptor :: descriptor where
  "set_active_time_device_response_descriptor =
     [(1000, LABEL_NONE, TYPE_MESSAGE status_code_descriptor)]"

definition set_cycle_config_device_request_descriptor :: descriptor where
  "set_cycle_config_device_request_descriptor =
     [(1, LABEL_NONE, TYPE_STRING), (2, LABEL_NONE, TYPE_UINT32), (3, LABEL_NONE, TYPE_UINT32),
      (4, LABEL_NONE, TYPE_UINT32), (5, LABEL_REPEATED True, TYPE_UINT32)]"

definition sync_time_device_request_descriptor :: descriptor where
  "sync_time_device_request_descriptor =
     [(1, LABEL_NONE, TYPE_STRING)]"

definition sync_time_device_response_descriptor :: descriptor where
  "sync_time_device_response_descriptor =
     [(1000, LABEL_NONE, TYPE_MESSAGE status_code_descriptor)]"

definition get_coordinate_device_request_descriptor :: descriptor where
  "get_coordinate_device_request_descriptor =
     [(1, LABEL_NONE, TYPE_STRING)]"

definition get_coordinate_device_response_descriptor :: descriptor where
  "get_coordinate_device_response_descriptor =
     [(1, LABEL_NONE, TYPE_FLOAT), (2, LABEL_NONE, TYPE_FLOAT),
      (1000, LABEL_NONE, TYPE_MESSAGE status_code_descriptor)]"

definition trigger_notify_user_device_request_descriptor :: descriptor where
  "trigger_notify_user_device_request_descriptor =
     [(1, LABEL_NONE, TYPE_STRING), (2, LABEL_NONE, TYPE_STRING), (3, LABEL_NONE, TYPE_STRING),
      (4, LABEL_NONE, TYPE_STRING)]"

definition trigger_notify_user_device_response_descriptor :: descriptor where
  "trigger_notify_user_device_response_descriptor =
     [(1000, LABEL_NONE, TYPE_MESSAGE status_code_descriptor)]"

definition update_schedule_user_device_request_descriptor :: descriptor where
  "update_schedule_user_device_request_descriptor =
     [(1, LABEL_NONE, TYPE_STRING), (2, LABEL_NONE, TYPE_MESSAGE time_lamp_form_descriptor),
      (3, LABEL_NONE, TYPE_MESSAGE cycle_lamp_form_descriptor),
      (4, LABEL_NONE, TYPE_MESSAGE day_lamp_form_descriptor),
      (5, LABEL_NONE, TYPE_MESSAGE active_lamp_descriptor)]"

definition update_schedule_user_device_response_descriptor :: descriptor where
  "update_schedule_user_device_response_descriptor =
     [(1000, LABEL_NONE, TYPE_MESSAGE status_code_descriptor)]"

definition power_control_user_request_descriptor :: descriptor where
  "power_control_user_request_descriptor =
     [(1, LABEL_NONE, TYPE_STRING), (2, LABEL_NONE, TYPE_BOOL)]"

definition force_otaupdate_user_request_descriptor :: descriptor where
  "force_otaupdate_user_request_descriptor =
     [(1, LABEL_NONE, TYPE_STRING)]"

definition release_control_user_request_descriptor :: descriptor where
  "release_control_user_request_descriptor =
     [(1, LABEL_NONE, TYPE_STRING)]"

definition user_device_message_descriptor :: descriptor where
  "user_device_message_descriptor =
     [(1, LABEL_NONE, TYPE_MESSAGE require_stream_device_request_descriptor),
      (2, LABEL_NONE, TYPE_MESSAGE require_stream_device_response_descriptor),
      (3, LABEL_NONE, TYPE_MESSAGE control_lane_device_request_descriptor),
      (4, LABEL_NONE, TYPE_MESSAGE control_lane_device_response_descriptor),
      (7, LABEL_NONE, TYPE_MESSAGE set_active_time_device_request_descriptor),
      (8, LABEL_NONE, TYPE_MESSAGE set_active_time_device_response_descriptor),
      (9, LABEL_NONE, TYPE_MESSAGE set_cycle_config_device_request_descriptor),
      (10, LABEL_NONE, TYPE_MESSAGE sync_time_device_request_descriptor),
      (11, LABEL_NONE, TYPE_MESSAGE sync_time_device_response_descriptor),
      (12, LABEL_NONE, TYPE_MESSAGE get_coordinate_device_request_descriptor),
      (13, LABEL_NONE, TYPE_MESSAGE get_coordinate_device_response_descriptor),
      (14, LABEL_NONE, TYPE_MESSAGE trigger_notify_user_device_request_descriptor),
      (15, LABEL_NONE, TYPE_MESSAGE trigger_notify_user_device_response_descriptor),
      (16, LABEL_NONE, TYPE_MESSAGE update_schedule_user_device_request_descriptor),
      (17, LABEL_NONE, TYPE_MESSAGE update_schedule_user_device_response_descriptor),
      (18, LABEL_NONE, TYPE_MESSAGE power_control_user_request_descriptor),
      (19, LABEL_NONE, TYPE_MESSAGE force_otaupdate_user_request_descriptor),
      (20, LABEL_NONE, TYPE_MESSAGE release_control_user_request_descriptor)]"

definition device_message_descriptor :: descriptor where
  "device_message_descriptor =
     [(1, LABEL_NONE, TYPE_MESSAGE device_auth_message_descriptor),
      (2, LABEL_NONE, TYPE_MESSAGE device_update_message_descriptor),
      (3, LABEL_NONE, TYPE_MESSAGE user_device_message_descriptor)]"

end
