(* ===== verification/User_Proto.thy ===== *)
theory User_Proto
  imports Device_Proto
begin

text \<open>
  The descriptors of the messages between the cloud and its users, and of \<^verbatim>\<open>MainMessage\<close>,
  which carries one of them or a device message: the tables of
  \<^verbatim>\<open>main/protobuf/user_proto.pb-c.c\<close> and \<^verbatim>\<open>main/protobuf/main_proto.pb-c.c\<close>. The firmware does
  not use the user messages, but its parser accepts or rejects a frame by them.
\<close>

definition device_descriptor :: descriptor where
  "device_descriptor =
     [(1, LABEL_NONE, TYPE_STRING), (2, LABEL_NONE, TYPE_STRING),
      (3, LABEL_NONE, TYPE_MESSAGE device_state_descriptor), (4, LABEL_NONE, TYPE_STRING),
      (5, LABEL_NONE, TYPE_STRING), (6, LABEL_NONE, TYPE_UINT32), (7, LABEL_NONE, TYPE_FLOAT),
      (8, LABEL_NONE, TYPE_FLOAT)]"

definition meter_item_descriptor :: descriptor where
  "meter_item_descriptor =
     [(1, LABEL_NONE, TYPE_UINT32), (2, LABEL_NONE, TYPE_STRING), (3, LABEL_NONE, TYPE_DOUBLE),
      (4, LABEL_NONE, TYPE_STRING)]"

definition sign_param_descriptor :: descriptor where
  "sign_param_descriptor =
     [(1, LABEL_NONE, TYPE_UINT32), (2, LABEL_NONE, TYPE_UINT32), (3, LABEL_NONE, TYPE_UINT32),
      (4, LABEL_NONE, TYPE_STRING)]"

definition station_lane_light_config_descriptor :: descriptor where
  "station_lane_light_config_descriptor =
     [(1, LABEL_NONE, TYPE_MESSAGE sign_param_descriptor),
      (2, LABEL_NONE, TYPE_MESSAGE sign_param_descriptor),
      (3, LABEL_NONE, TYPE_MESSAGE sign_param_descriptor),
      (4, LABEL_NONE, TYPE_MESSAGE sign_param_descriptor),
      (5, LABEL_NONE, TYPE_MESSAGE sign_param_descriptor),
      (6, LABEL_NONE, TYPE_MESSAGE sign_param_descriptor),
      (7, LABEL_NONE, TYPE_MESSAGE sign_param_descriptor), (8, LABEL_NONE, TYPE_UINT32),
      (9, LABEL_NONE, TYPE_MESSAGE sign_param_descriptor)]"

definition station_descriptor :: descriptor where
  "station_descriptor =
     [(1, LABEL_NONE, TYPE_STRING), (2, LABEL_NONE, TYPE_STRING),
      (3, LABEL_NONE, TYPE_MESSAGE device_descriptor), (4, LABEL_NONE, TYPE_FLOAT),
      (5, LABEL_NONE, TYPE_FLOAT), (6, LABEL_NONE, TYPE_UINT32),
      (7, LABEL_REPEATED False, TYPE_MESSAGE station_lane_light_config_descriptor),
      (8, LABEL_NONE, TYPE_STRING), (9, LABEL_NONE, TYPE_STRING), (10, LABEL_NONE, TYPE_STRING),
      (11, LABEL_NONE, TYPE_STRING), (12, LABEL_NONE, TYPE_UINT32), (13, LABEL_NONE, TYPE_UINT32),
      (14, LABEL_NONE, TYPE_STRING), (15, LABEL_NONE, TYPE_ENUM), (16, LABEL_NONE, TYPE_BOOL),
      (17, LABEL_NONE, TYPE_STRING), (18, LABEL_NONE, TYPE_STRING),
      (19, LABEL_REPEATED False, TYPE_MESSAGE meter_item_descriptor),
      (20, LABEL_NONE, TYPE_STRING), (21, LABEL_NONE, TYPE_UINT32)]"

definition accessory_descriptor :: descriptor where
  "accessory_descriptor =
     [(1, LABEL_NONE, TYPE_STRING), (2, LABEL_NONE, TYPE_STRING), (3, LABEL_NONE, TYPE_STRING),
      (4, LABEL_NONE, TYPE_STRING), (5, LABEL_NONE, TYPE_STRING), (6, LABEL_NONE, TYPE_STRING),
      (7, LABEL_NONE, TYPE_STRING), (8, LABEL_NONE, TYPE_STRING), (9, LABEL_NONE, TYPE_STRING)]"

definition account_descriptor :: descriptor where
  "account_descriptor =
     [(1, LABEL_NONE, TYPE_STRING), (2, LABEL_NONE, TYPE_STRING), (3, LABEL_NONE, TYPE_ENUM),
      (4, LABEL_NONE, TYPE_STRING), (5, LABEL_NONE, TYPE_BOOL)]"

definition user_login_request_descriptor :: descriptor where
  "user_login_request_descriptor =
     [(1, LABEL_NONE, TYPE_STRING), (2, LABEL_NONE, TYPE_STRING), (3, LABEL_NONE, TYPE_STRING),
      (4, LABEL_NONE, TYPE_STRING), (5, LABEL_NONE, TYPE_BOOL)]"

definition user_login_response_descriptor :: descriptor where
  "user_login_response_descriptor =
     [(1, LABEL_NONE, TYPE_STRING), (2, LABEL_NONE, TYPE_STRING), (3, LABEL_NONE, TYPE_UINT32),
      (4, LABEL_NONE, TYPE_STRING), (5, LABEL_NONE, TYPE_STRING), (6, LABEL_NONE, TYPE_STRING),
      (1000, LABEL_NONE, TYPE_MESSAGE status_code_descriptor)]"

definition get_access_token_user_request_descriptor :: descriptor where
  "get_access_token_user_request_descriptor =
     []"

definition get_access_token_user_response_descriptor :: descriptor where
  "get_access_token_user_response_descriptor =
     [(1, LABEL_NONE, TYPE_STRING), (1000, LABEL_NONE, TYPE_MESSAGE status_code_descriptor)]"

definition auth_user_message_descriptor :: descriptor where
  "auth_user_message_descriptor =
     [(1, LABEL_NONE, TYPE_MESSAGE user_login_request_descriptor),
      (2, LABEL_NONE, TYPE_MESSAGE user_login_response_descriptor),
      (3, LABEL_NONE, TYPE_MESSAGE get_access_token_user_request_descriptor),
      (4, LABEL_NONE, TYPE_MESSAGE get_access_token_user_response_descriptor)]"

definition device_control_user_request_descriptor :: descriptor where
  "device_control_user_request_descriptor =
     [(1, LABEL_NONE, TYPE_STRING), (2, LABEL_NONE, TYPE_BOOL)]"

definition device_control_user_response_descriptor :: descriptor where
  "device_control_user_response_descriptor =
     []"

definition require_stream_user_request_descriptor :: descriptor where
  "require_stream_user_request_descriptor =
     [(1, LABEL_NONE, TYPE_STRING), (2, LABEL_NONE, TYPE_BOOL), (3, LABEL_NONE, TYPE_BOOL)]"

definition require_stream_user_response_descriptor :: descriptor where
  "require_stream_user_response_descriptor =
     [(1000, LABEL_NONE, TYPE_MESSAGE status_code_descriptor)]"

definition control_lane_user_request_descriptor :: descriptor where
  "control_lane_user_request_descriptor =
     [(1, LABEL_NONE, TYPE_STRING), (2, LABEL_NONE, TYPE_UINT32), (3, LABEL_NONE, TYPE_BOOL)]"

definition control_lane_user_response_descriptor :: descriptor where
  "control_lane_user_response_descriptor =
     [(1000, LABEL_NONE, TYPE_MESSAGE status_code_descriptor)]"

definition set_active_time_user_request_descriptor :: descriptor where
  "set_active_time_user_request_descriptor =
     [(1, LABEL_NONE, TYPE_STRING), (2, LABEL_NONE, TYPE_MESSAGE active_lamp_descriptor)]"

definition set_active_time_user_response_descriptor :: descriptor where
  "set_active_time_user_response_descriptor =
     [(1000, LABEL_NONE, TYPE_MESSAGE status_code_descriptor)]"

definition set_cycle_config_user_request_descriptor :: descriptor where
  "set_cycle_config_user_request_descriptor =
     [(1, LABEL_NONE, TYPE_STRING), (2, LABEL_NONE, TYPE_UINT32), (3, LABEL_NONE, TYPE_UINT32),
      (4, LABEL_NONE, TYPE_UINT32), (5, LABEL_REPEATED True, TYPE_UINT32)]"

definition set_cycle_config_user_response_descriptor :: descriptor where
  "set_cycle_config_user_response_descriptor =
     []"

definition set_coordinate_user_request_descriptor :: descriptor where
  "set_coordinate_user_request_descriptor =
     [(1, LABEL_NONE, TYPE_STRING), (2, LABEL_NONE, TYPE_DOUBLE), (3, LABEL_NONE, TYPE_DOUBLE)]"

definition set_coordinate_user_response_descriptor :: descriptor where
  "set_coordinate_user_response_descriptor =
     []"

definition sync_time_user_request_descriptor :: descriptor where
  "sync_time_user_request_descriptor =
     [(1, LABEL_NONE, TYPE_STRING)]"

definition sync_time_user_response_descriptor :: descriptor where
  "sync_time_user_response_descriptor =
     [(1000, LABEL_NONE, TYPE_MESSAGE status_code_descriptor)]"

definition get_device_user_request_descriptor :: descriptor where
  "get_device_user_request_descriptor =
     [(1, LABEL_NONE, TYPE_STRING), (2, LABEL_NONE, TYPE_STRING)]"

definition get_device_user_response_descriptor :: descriptor where
  "get_device_user_response_descriptor =
     [(1, LABEL_NONE, TYPE_MESSAGE device_descriptor),
      (1000, LABEL_NONE, TYPE_MESSAGE status_code_descriptor)]"

definition get_coordinate_user_request_descriptor :: descriptor where
  "get_coordinate_user_request_descriptor =
     [(1, LABEL_NONE, TYPE_STRING), (2, LABEL_NONE, TYPE_STRING)]"

definition get_coordinate_user_response_descriptor :: descriptor where
  "get_coordinate_user_response_descriptor =
     [(1, LABEL_NONE, TYPE_FLOAT), (2, LABEL_NONE, TYPE_FLOAT),
      (1000, LABEL_NONE, TYPE_MESSAGE status_code_descriptor)]"

definition get_meter_in_day_user_request_descriptor :: descriptor where
  "get_meter_in_day_user_request_descriptor =
     [(1, LABEL_NONE, TYPE_STRING), (2, LABEL_NONE, TYPE_STRING)]"

definition get_meter_in_day_user_response_descriptor :: descriptor where
  "get_meter_in_day_user_response_descriptor =
     [(1, LABEL_NONE, TYPE_STRING), (2, LABEL_REPEATED False, TYPE_MESSAGE meter_item_descriptor)]"

definition get_meter_in_month_user_request_descriptor :: descriptor where
  "get_meter_in_month_user_request_descriptor =
     [(1, LABEL_NONE, TYPE_STRING), (2, LABEL_NONE, TYPE_STRING)]"

definition get_meter_in_month_user_response_descriptor :: descriptor where
  "get_meter_in_month_user_response_descriptor =
     [(1, LABEL_NONE, TYPE_STRING), (2, LABEL_REPEATED False, TYPE_MESSAGE meter_item_descriptor)]"

definition get_meter_in_year_user_request_descriptor :: descriptor where
  "get_meter_in_year_user_request_descriptor =
     [(1, LABEL_NONE, TYPE_STRING)]"

definition get_meter_in_year_user_response_descriptor :: descriptor where
  "get_meter_in_year_user_response_descriptor =
     [(1, LABEL_NONE, TYPE_STRING), (2, LABEL_REPEATED False, TYPE_MESSAGE meter_item_descriptor)]"

definition device_user_message_descriptor :: descriptor where
  "device_user_message_descriptor =
     [(1, LABEL_NONE, TYPE_MESSAGE device_control_user_request_descriptor),
      (2, LABEL_NONE, TYPE_MESSAGE device_control_user_response_descriptor),
      (3, LABEL_NONE, TYPE_MESSAGE require_stream_user_request_descriptor),
      (4, LABEL_NONE, TYPE_MESSAGE require_stream_user_response_descriptor),
      (5, LABEL_NONE, TYPE_MESSAGE control_lane_user_request_descriptor),
      (6, LABEL_NONE, TYPE_MESSAGE control_lane_user_response_descriptor),
      (7, LABEL_NONE, TYPE_MESSAGE set_active_time_user_request_descriptor),
      (8, LABEL_NONE, TYPE_MESSAGE set_active_time_user_response_descriptor),
      (9, LABEL_NONE, TYPE_MESSAGE set_cycle_config_user_request_descriptor),
      (10, LABEL_NONE, TYPE_MESSAGE set_cycle_config_user_response_descriptor),
      (11, LABEL_NONE, TYPE_MESSAGE set_coordinate_user_request_descriptor),
      (12, LABEL_NONE, TYPE_MESSAGE set_coordinate_user_response_descriptor),
      (13, LABEL_NONE, TYPE_MESSAGE sync_time_user_request_descriptor),
      (14, LABEL_NONE, TYPE_MESSAGE sync_time_user_response_descriptor),
      (15, LABEL_NONE, TYPE_MESSAGE get_device_user_request_descriptor),
      (16, LABEL_NONE, TYPE_MESSAGE get_device_user_response_descriptor),
      (17, LABEL_NONE, TYPE_MESSAGE get_coordinate_user_request_descriptor),
      (18, LABEL_NONE, TYPE_MESSAGE get_coordinate_user_response_descriptor),
      (19, LABEL_NONE, TYPE_MESSAGE get_meter_in_day_user_request_descriptor),
      (20, LABEL_NONE, TYPE_MESSAGE get_meter_in_day_user_response_descriptor),
      (21, LABEL_NONE, TYPE_MESSAGE get_meter_in_month_user_request_descriptor),
      (22, LABEL_NONE, TYPE_MESSAGE get_meter_in_month_user_response_descriptor),
      (23, LABEL_NONE, TYPE_MESSAGE get_meter_in_year_user_request_descriptor),
      (24, LABEL_NONE, TYPE_MESSAGE get_meter_in_year_user_response_descriptor)]"

definition update_device_connection_state_descriptor :: descriptor where
  "update_device_connection_state_descriptor =
     [(1, LABEL_NONE, TYPE_STRING), (2, LABEL_NONE, TYPE_ENUM)]"

definition channel_state_descriptor :: descriptor where
  "channel_state_descriptor =
     [(1, LABEL_NONE, TYPE_UINT32), (2, LABEL_NONE, TYPE_UINT32), (3, LABEL_NONE, TYPE_ENUM),
      (4, LABEL_NONE, TYPE_ENUM), (5, LABEL_NONE, TYPE_ENUM)]"

definition device_state_model_descriptor :: descriptor where
  "device_state_model_descriptor =
     [(1, LABEL_NONE, TYPE_ENUM), (2, LABEL_NONE, TYPE_UINT32),
      (3, LABEL_REPEATED True, TYPE_UINT32), (4, LABEL_REPEATED True, TYPE_UINT32),
      (5, LABEL_REPEATED True, TYPE_UINT32), (7, LABEL_REPEATED True, TYPE_UINT32),
      (8, LABEL_NONE, TYPE_BOOL), (9, LABEL_NONE, TYPE_BOOL), (10, LABEL_NONE, TYPE_ENUM),
      (13, LABEL_NONE, TYPE_UINT32), (14, LABEL_NONE, TYPE_UINT32), (15, LABEL_NONE, TYPE_UINT32),
      (16, LABEL_REPEATED False, TYPE_MESSAGE lane_state_descriptor),
      (17, LABEL_NONE, TYPE_STRING), (18, LABEL_NONE, TYPE_UINT32), (19, LABEL_NONE, TYPE_BOOL),
      (20, LABEL_NONE, TYPE_BOOL), (21, LABEL_NONE, TYPE_BOOL), (22, LABEL_NONE, TYPE_STRING),
      (23, LABEL_REPEATED False, TYPE_MESSAGE one_side_lamp_time_descriptor),
      (24, LABEL_NONE, TYPE_UINT32), (25, LABEL_NONE, TYPE_STRING), (26, LABEL_NONE, TYPE_STRING),
      (27, LABEL_REPEATED False, TYPE_MESSAGE channel_state_descriptor)]"

definition state_on_change_user_message_descriptor :: descriptor where
  "state_on_change_user_message_descriptor =
     [(1, LABEL_NONE, TYPE_STRING), (2, LABEL_NONE, TYPE_MESSAGE device_state_model_descriptor)]"

definition log_update_user_message_descriptor :: descriptor where
  "log_update_user_message_descriptor =
     [(1, LABEL_NONE, TYPE_STRING), (2, LABEL_NONE, TYPE_STRING)]"

definition error_status_user_message_descriptor :: descriptor where
  "error_status_user_message_descriptor =
     [(1, LABEL_NONE, TYPE_STRING), (2, LABEL_NONE, TYPE_UINT32), (3, LABEL_NONE, TYPE_STRING)]"

definition update_power_state_user_message_descriptor :: descriptor where
  "update_power_state_user_message_descriptor =
     [(1, LABEL_NONE, TYPE_STRING), (2, LABEL_NONE, TYPE_BOOL)]"

definition update_schedule_user_message_descriptor :: descriptor where
  "update_schedule_user_message_descriptor =
     [(1, LABEL_NONE, TYPE_STRING), (2, LABEL_NONE, TYPE_STRING), (3, LABEL_NONE, TYPE_STRING)]"

definition update_mode_user_message_descriptor :: descriptor where
  "update_mode_user_message_descriptor =
     [(1, LABEL_NONE, TYPE_STRING), (2, LABEL_NONE, TYPE_UINT32)]"

definition device_onchange_user_message_descriptor :: descriptor where
  "device_onchange_user_message_descriptor =
     [(1, LABEL_NONE, TYPE_MESSAGE update_device_connection_state_descriptor),
      (2, LABEL_NONE, TYPE_MESSAGE state_on_change_user_message_descriptor),
      (3, LABEL_NONE, TYPE_MESSAGE log_update_user_message_descriptor),
      (4, LABEL_NONE, TYPE_MESSAGE error_status_user_message_descriptor),
      (5, LABEL_NONE, TYPE_MESSAGE update_power_state_user_message_descriptor),
      (6, LABEL_NONE, TYPE_MESSAGE update_schedule_user_message_descriptor),
      (7, LABEL_NONE, TYPE_MESSAGE update_mode_user_message_descriptor)]"

definition get_station_user_request_descriptor :: descriptor where
  "get_station_user_request_descriptor =
     [(1, LABEL_NONE, TYPE_STRING)]"

definition get_station_user_response_descriptor :: descriptor where
  "get_station_user_response_descriptor =
     [(1, LABEL_NONE, TYPE_MESSAGE station_descriptor),
      (2, LABEL_NONE, TYPE_MESSAGE status_code_descriptor)]"

definition get_station_list_user_request_descriptor :: descriptor where
  "get_station_list_user_request_descriptor =
     [(1, LABEL_NONE, TYPE_STRING)]"

definition get_station_list_user_response_descriptor :: descriptor where
  "get_station_list_user_response_descriptor =
     [(1, LABEL_REPEATED False, TYPE_MESSAGE station_descriptor), (2, LABEL_NONE, TYPE_FLOAT),
      (3, LABEL_NONE, TYPE_FLOAT), (1000, LABEL_NONE, TYPE_MESSAGE status_code_descriptor)]"

definition add_station_user_request_descriptor :: descriptor where
  "add_station_user_request_descriptor =
     [(1, LABEL_NONE, TYPE_STRING), (2, LABEL_NONE, TYPE_STRING), (3, LABEL_NONE, TYPE_FLOAT),
      (4, LABEL_NONE, TYPE_FLOAT)]"

definition add_station_user_response_descriptor :: descriptor where
  "add_station_user_response_descriptor =
     [(1000, LABEL_NONE, TYPE_MESSAGE status_code_descriptor)]"

definition set_sign_setting_user_request_descriptor :: descriptor where
  "set_sign_setting_user_request_descriptor =
     [(1, LABEL_NONE, TYPE_STRING), (2, LABEL_REPEATED False, TYPE_MESSAGE sign_param_descriptor),
      (3, LABEL_REPEATED False, TYPE_MESSAGE sign_param_descriptor),
      (4, LABEL_REPEATED False, TYPE_MESSAGE sign_param_descriptor),
      (5, LABEL_REPEATED False, TYPE_MESSAGE sign_param_descriptor),
      (6, LABEL_REPEATED False, TYPE_MESSAGE sign_param_descriptor),
      (7, LABEL_REPEATED False, TYPE_MESSAGE sign_param_descriptor),
      (8, LABEL_REPEATED False, TYPE_MESSAGE sign_param_descriptor),
      (9, LABEL_REPEATED False, TYPE_MESSAGE sign_param_descriptor), (10, LABEL_NONE, TYPE_STRING)]"

definition set_sign_setting_user_response_descriptor :: descriptor where
  "set_sign_setting_user_response_descriptor =
     [(1000, LABEL_NONE, TYPE_MESSAGE status_code_descriptor)]"

definition get_latest_firmware_user_request_descriptor :: descriptor where
  "get_latest_firmware_user_request_descriptor =
     []"

definition get_latest_firmware_user_response_descriptor :: descriptor where
  "get_latest_firmware_user_response_descriptor =
     [(1, LABEL_NONE, TYPE_STRING), (2, LABEL_NONE, TYPE_STRING),
      (1000, LABEL_NONE, TYPE_MESSAGE status_code_descriptor)]"

definition get_log_file_user_request_descriptor :: descriptor where
  "get_log_file_user_request_descriptor =
     [(1, LABEL_NONE, TYPE_STRING), (2, LABEL_NONE, TYPE_STRING)]"

definition get_log_file_user_response_descriptor :: descriptor where
  "get_log_file_user_response_descriptor =
     [(1, LABEL_NONE, TYPE_STRING), (1000, LABEL_NONE, TYPE_MESSAGE status_code_descriptor)]"

definition delete_station_user_request_descriptor :: descriptor where
  "delete_station_user_request_descriptor =
     [(1, LABEL_NONE, TYPE_STRING)]"

definition delete_station_user_response_descriptor :: descriptor where
  "delete_station_user_response_descriptor =
     [(1000, LABEL_NONE, TYPE_MESSAGE status_code_descriptor)]"

definition edit_number_card_user_request_descriptor :: descriptor where
  "edit_number_card_user_request_descriptor =
     [(1, LABEL_NONE, TYPE_STRING), (2, LABEL_NONE, TYPE_UINT32)]"

definition edit_number_card_user_response_descriptor :: descriptor where
  "edit_number_card_user_response_descriptor =
     [(1, LABEL_NONE, TYPE_UINT32), (1000, LABEL_NONE, TYPE_MESSAGE status_code_descriptor)]"

definition update_error_handling_user_request_descriptor :: descriptor where
  "update_error_handling_user_request_descriptor =
     [(1, LABEL_NONE, TYPE_STRING), (2, LABEL_NONE, TYPE_UINT32)]"

definition update_diary_log_user_request_descriptor :: descriptor where
  "update_diary_log_user_request_descriptor =
     [(1, LABEL_NONE, TYPE_STRING), (2, LABEL_NONE, TYPE_STRING)]"

definition update_diary_log_user_response_descriptor :: descriptor where
  "update_diary_log_user_response_descriptor =
     [(1, LABEL_NONE, TYPE_STRING), (1000, LABEL_NONE, TYPE_MESSAGE status_code_descriptor)]"

definition insert_accessory_user_request_descriptor :: descriptor where
  "insert_accessory_user_request_descriptor =
     [(1, LABEL_NONE, TYPE_MESSAGE accessory_descriptor)]"

definition insert_accessory_user_response_descriptor :: descriptor where
  "insert_accessory_user_response_descriptor =
     [(1, LABEL_REPEATED False, TYPE_MESSAGE accessory_descriptor),
      (1000, LABEL_NONE, TYPE_MESSAGE status_code_descriptor)]"

definition get_accessories_user_request_descriptor :: descriptor where
  "get_accessories_user_request_descriptor =
     [(1, LABEL_NONE, TYPE_STRING)]"

definition get_accessories_user_response_descriptor :: descriptor where
  "get_accessories_user_response_descriptor =
     [(1, LABEL_REPEATED False, TYPE_MESSAGE accessory_descriptor),
      (1000, LABEL_NONE, TYPE_MESSAGE status_code_descriptor)]"

definition delete_accessory_user_request_descriptor :: descriptor where
  "delete_accessory_user_request_descriptor =
     [(1, LABEL_NONE, TYPE_STRING), (2, LABEL_NONE, TYPE_STRING)]"

definition delete_accessory_user_response_descriptor :: descriptor where
  "delete_accessory_user_response_descriptor =
     [(1, LABEL_REPEATED False, TYPE_MESSAGE accessory_descriptor),
      (1000, LABEL_NONE, TYPE_MESSAGE status_code_descriptor)]"

definition edit_accessory_user_request_descriptor :: descriptor where
  "edit_accessory_user_request_descriptor =
     [(1, LABEL_NONE, TYPE_MESSAGE accessory_descriptor)]"

definition edit_accessory_user_response_descriptor :: descriptor where
  "edit_accessory_user_response_descriptor =
     [(1, LABEL_REPEATED False, TYPE_MESSAGE accessory_descriptor),
      (1000, LABEL_NONE, TYPE_MESSAGE status_code_descriptor)]"

definition update_schedule_user_request_descriptor :: descriptor where
  "update_schedule_user_request_descriptor =
     [(1, LABEL_NONE, TYPE_STRING), (2, LABEL_NONE, TYPE_MESSAGE time_lamp_form_descriptor),
      (3, LABEL_NONE, TYPE_MESSAGE cycle_lamp_form_descriptor),
      (4, LABEL_NONE, TYPE_MESSAGE day_lamp_form_descriptor)]"

definition update_schedule_user_response_descriptor :: descriptor where
  "update_schedule_user_response_descriptor =
     [(1000, LABEL_NONE, TYPE_MESSAGE status_code_descriptor)]"

definition get_schedule_user_request_descriptor :: descriptor where
  "get_schedule_user_request_descriptor =
     [(1, LABEL_NONE, TYPE_STRING)]"

definition get_schedule_user_response_descriptor :: descriptor where
  "get_schedule_user_response_descriptor =
     [(1, LABEL_NONE, TYPE_STRING), (2, LABEL_NONE, TYPE_MESSAGE time_lamp_form_descriptor),
      (3, LABEL_NONE, TYPE_MESSAGE cycle_lamp_form_descriptor),
      (4, LABEL_NONE, TYPE_MESSAGE day_lamp_form_descriptor),
      (1000, LABEL_NONE, TYPE_MESSAGE status_code_descriptor)]"

definition station_user_message_descriptor :: descriptor where
  "station_user_message_descriptor =
     [(1, LABEL_NONE, TYPE_MESSAGE get_station_user_request_descriptor),
      (2, LABEL_NONE, TYPE_MESSAGE get_station_user_response_descriptor),
      (3, LABEL_NONE, TYPE_MESSAGE get_station_list_user_request_descriptor),
      (4, LABEL_NONE, TYPE_MESSAGE get_station_list_user_response_descriptor),
      (5, LABEL_NONE, TYPE_MESSAGE add_station_user_request_descriptor),
      (6, LABEL_NONE, TYPE_MESSAGE add_station_user_response_descriptor),
      (7, LABEL_NONE, TYPE_MESSAGE set_sign_setting_user_request_descriptor),
      (8, LABEL_NONE, TYPE_MESSAGE set_sign_setting_user_response_descriptor),
      (9, LABEL_NONE, TYPE_MESSAGE get_latest_firmware_user_request_descriptor),
      (10, LABEL_NONE, TYPE_MESSAGE get_latest_firmware_user_response_descriptor),
      (11, LABEL_NONE, TYPE_MESSAGE get_log_file_user_request_descriptor),
      (12, LABEL_NONE, TYPE_MESSAGE get_log_file_user_response_descriptor),
      (13, LABEL_NONE, TYPE_MESSAGE delete_station_user_request_descriptor),
      (14, LABEL_NONE, TYPE_MESSAGE delete_station_user_response_descriptor),
      (15, LABEL_NONE, TYPE_MESSAGE edit_number_card_user_request_descriptor),
      (16, LABEL_NONE, TYPE_MESSAGE edit_number_card_user_response_descriptor),
      (17, LABEL_NONE, TYPE_MESSAGE update_error_handling_user_request_descriptor),
      (18, LABEL_NONE, TYPE_MESSAGE update_diary_log_user_request_descriptor),
      (19, LABEL_NONE, TYPE_MESSAGE update_diary_log_user_response_descriptor),
      (20, LABEL_NONE, TYPE_MESSAGE insert_accessory_user_request_descriptor),
      (21, LABEL_NONE, TYPE_MESSAGE insert_accessory_user_response_descriptor),
      (22, LABEL_NONE, TYPE_MESSAGE get_accessories_user_request_descriptor),
      (23, LABEL_NONE, TYPE_MESSAGE get_accessories_user_response_descriptor),
      (24, LABEL_NONE, TYPE_MESSAGE delete_accessory_user_request_descriptor),
      (25, LABEL_NONE, TYPE_MESSAGE delete_accessory_user_response_descriptor),
      (26, LABEL_NONE, TYPE_MESSAGE edit_accessory_user_request_descriptor),
      (27, LABEL_NONE, TYPE_MESSAGE edit_accessory_user_response_descriptor),
      (28, LABEL_NONE, TYPE_MESSAGE update_schedule_user_request_descriptor),
      (29, LABEL_NONE, TYPE_MESSAGE update_schedule_user_response_descriptor),
      (30, LABEL_NONE, TYPE_MESSAGE get_schedule_user_request_descriptor),
      (31, LABEL_NONE, TYPE_MESSAGE get_schedule_user_response_descriptor)]"

definition get_accounts_user_request_descriptor :: descriptor where
  "get_accounts_user_request_descriptor =
     [(1, LABEL_NONE, TYPE_STRING)]"

definition get_accounts_user_response_descriptor :: descriptor where
  "get_accounts_user_response_descriptor =
     [(1, LABEL_REPEATED False, TYPE_MESSAGE account_descriptor),
      (1000, LABEL_NONE, TYPE_MESSAGE status_code_descriptor)]"

definition delete_account_user_request_descriptor :: descriptor where
  "delete_account_user_request_descriptor =
     [(1, LABEL_NONE, TYPE_STRING)]"

definition delete_account_user_response_descriptor :: descriptor where
  "delete_account_user_response_descriptor =
     [(1000, LABEL_NONE, TYPE_MESSAGE status_code_descriptor)]"

definition create_new_account_user_request_descriptor :: descriptor where
  "create_new_account_user_request_descriptor =
     [(1, LABEL_NONE, TYPE_STRING), (2, LABEL_NONE, TYPE_STRING), (3, LABEL_NONE, TYPE_UINT32)]"

definition create_new_account_user_response_descriptor :: descriptor where
  "create_new_account_user_response_descriptor =
     [(1000, LABEL_NONE, TYPE_MESSAGE status_code_descriptor)]"

definition change_password_user_request_descriptor :: descriptor where
  "change_password_user_request_descriptor =
     [(1, LABEL_NONE, TYPE_STRING), (2, LABEL_NONE, TYPE_STRING)]"

definition change_password_user_response_descriptor :: descriptor where
  "change_password_user_response_descriptor =
     [(1000, LABEL_NONE, TYPE_MESSAGE status_code_descriptor)]"

definition update_alert_info_user_request_descriptor :: descriptor where
  "update_alert_info_user_request_descriptor =
     [(1, LABEL_NONE, TYPE_STRING), (2, LABEL_NONE, TYPE_STRING)]"

definition update_alert_info_user_response_descriptor :: descriptor where
  "update_alert_info_user_response_descriptor =
     [(1, LABEL_NONE, TYPE_STRING), (2, LABEL_NONE, TYPE_STRING),
      (1000, LABEL_NONE, TYPE_MESSAGE status_code_descriptor)]"

definition account_user_message_descriptor :: descriptor where
  "account_user_message_descriptor =
     [(1, LABEL_NONE, TYPE_MESSAGE get_accounts_user_request_descriptor),
      (2, LABEL_NONE, TYPE_MESSAGE get_accounts_user_response_descriptor),
      (3, LABEL_NONE, TYPE_MESSAGE delete_account_user_request_descriptor),
      (4, LABEL_NONE, TYPE_MESSAGE delete_account_user_response_descriptor),
      (5, LABEL_NONE, TYPE_MESSAGE create_new_account_user_request_descriptor),
      (6, LABEL_NONE, TYPE_MESSAGE create_new_account_user_response_descriptor),
      (7, LABEL_NONE, TYPE_MESSAGE change_password_user_request_descriptor),
      (8, LABEL_NONE, TYPE_MESSAGE change_password_user_response_descriptor),
      (9, LABEL_NONE, TYPE_MESSAGE update_alert_info_user_request_descriptor),
      (10, LABEL_NONE, TYPE_MESSAGE update_alert_info_user_response_descriptor)]"

definition user_message_descriptor :: descriptor where
  "user_message_descriptor =
     [(1, LABEL_NONE, TYPE_MESSAGE auth_user_message_descriptor),
      (2, LABEL_NONE, TYPE_MESSAGE device_user_message_descriptor),
      (3, LABEL_NONE, TYPE_MESSAGE device_onchange_user_message_descriptor),
      (4, LABEL_NONE, TYPE_MESSAGE station_user_message_descriptor),
      (5, LABEL_NONE, TYPE_MESSAGE account_user_message_descriptor)]"

definition main_message_descriptor :: descriptor where
  "main_message_descriptor =
     [(1, LABEL_NONE, TYPE_MESSAGE user_message_descriptor),
      (2, LABEL_NONE, TYPE_MESSAGE device_message_descriptor)]"

end
