(* ===== verification/App_Websocket.thy ===== *)
theory App_Websocket
  imports App_Schedule User_Proto
begin

text \<open>
  \<^verbatim>\<open>main/app_websocket.c\<close>: the connection to the cloud. Received frames and frames to send wait
  in two ring buffers between the tasks; a frame is a packed \<^verbatim>\<open>MainMessage\<close>. The WebSocket client
  and the ring buffers belong to the SDK: what the client was given to send is the list
  \<open>ws_sent\<close>, and \<open>rb_res n\<close> says whether the \<open>n\<close>-th insertion into a ring buffer finds
  room before its time limit. The network handle of the configuration is the one of
  \<^verbatim>\<open>app_main.c\<close>.
\<close>

section \<open>State\<close>

record app_websocket_t =
  ws_running :: bool
  ws_callback :: bool
  websocket_connected :: bool
  websocket_url :: string
  is_start_websocket :: bool
  rx_rb :: "byte list list"
  tx_rb :: "byte list list"
  device_id :: "string option"
  ws_hardware_id :: string
  firmware_version :: string
  is_logged :: bool
  last_reg_tick :: int
  last_login_tick :: int
  last_ping_tick :: int
  power_state :: bool
  ws_active_time :: active_time_t
  ws_mode :: int

record app_websocket_config_t =
  wc_callback :: bool
  wc_websocket_url :: string
  wc_init_active_time :: active_time_t
  wc_hardware_id :: string

record websocket_world = schedule_world +
  websocket_handle :: "app_websocket_t option"
  ws_sent :: "byte list list"
  ws_started :: nat
  rb_res :: "nat \<Rightarrow> bool"
  rb_count :: nat

definition REGISTER_TIMEOUT_MS :: int where "REGISTER_TIMEOUT_MS = 30 * 1000"
definition LOGIN_TIMEOUT_MS :: int where "LOGIN_TIMEOUT_MS = 30 * 1000"
definition PING_TIMEOUT_MS :: int where "PING_TIMEOUT_MS = 30 * 1000"

lemmas timeout_defs = REGISTER_TIMEOUT_MS_def LOGIN_TIMEOUT_MS_def PING_TIMEOUT_MS_def

definition set_websocket :: "app_websocket_t \<Rightarrow> 'a websocket_world_scheme \<Rightarrow> 'a websocket_world_scheme" where
  "set_websocket h w = w\<lparr>websocket_handle := Some h\<rparr>"

definition app_websocket_init :: "app_websocket_t \<Rightarrow> app_websocket_config_t \<Rightarrow> app_websocket_t" where
  "app_websocket_init junk config = junk\<lparr>
     ws_callback := wc_callback config, ws_running := False, websocket_connected := False,
     websocket_url := wc_websocket_url config, is_start_websocket := False,
     rx_rb := [], tx_rb := [], device_id := None, firmware_version := FIRMWARE_VERSION,
     last_login_tick := - LOGIN_TIMEOUT_MS, last_ping_tick := - PING_TIMEOUT_MS,
     last_reg_tick := - REGISTER_TIMEOUT_MS, power_state := False, ws_mode := 0,
     ws_active_time := wc_init_active_time config, ws_hardware_id := wc_hardware_id config\<rparr>"

text \<open>
  \<^verbatim>\<open>esp_tick_get\<close> is defined nowhere in the repository, and called without a declaration, so the
  compiler takes its result for an \<open>int\<close>. What it returns is a parameter of the model, the
  counter \<open>tick_ms\<close> of the platform; that it counts milliseconds is what the callers'
  constants say.
\<close>

definition esp_tick_get :: "'a platform_scheme \<Rightarrow> int" where
  "esp_tick_get w = wrap32 (tick_ms w)"

section \<open>Ring buffers\<close>

definition rb_next :: "'a websocket_world_scheme \<Rightarrow> bool \<times> 'a websocket_world_scheme" where
  "rb_next w = (rb_res w (rb_count w), w\<lparr>rb_count := Suc (rb_count w)\<rparr>)"

definition tx_enqueue :: "byte list \<Rightarrow> 'a websocket_world_scheme \<Rightarrow> 'a websocket_world_scheme" where
  "tx_enqueue item w =
     (case websocket_handle w of
        None \<Rightarrow> w
      | Some handle \<Rightarrow>
          (case rb_next w of (ok, w) \<Rightarrow>
             if ok then set_websocket (handle\<lparr>tx_rb := tx_rb handle @ [item]\<rparr>) w else w))"

definition rx_enqueue :: "byte list \<Rightarrow> 'a websocket_world_scheme \<Rightarrow> 'a websocket_world_scheme" where
  "rx_enqueue item w =
     (case websocket_handle w of
        None \<Rightarrow> w
      | Some handle \<Rightarrow>
          (case rb_next w of (ok, w) \<Rightarrow>
             if ok then set_websocket (handle\<lparr>rx_rb := rx_rb handle @ [item]\<rparr>) w else w))"

section \<open>Messages to the cloud\<close>

definition main_message__pack :: "message \<Rightarrow> byte list" where
  "main_message__pack m = protobuf_c_message_pack main_message_descriptor m"

definition main_message__unpack :: "byte list \<Rightarrow> message unpacked" where
  "main_message__unpack bs = protobuf_c_message_unpack main_message_descriptor bs"

text \<open>A string member: a null pointer leaves the field unset.\<close>

definition str_field :: "nat \<Rightarrow> string option \<Rightarrow> message" where
  "str_field i s = (case s of None \<Rightarrow> [] | Some x \<Rightarrow> [(i, PStr x)])"

definition update_message :: "nat \<Rightarrow> message \<Rightarrow> message" where
  "update_message i m = [(2, PMsg [(2, PMsg [(i, PMsg m)])])]"

definition auth_message :: "nat \<Rightarrow> message \<Rightarrow> message" where
  "auth_message i m = [(2, PMsg [(1, PMsg [(i, PMsg m)])])]"

definition power_state_message :: "string option \<Rightarrow> bool \<Rightarrow> message" where
  "power_state_message dev is_on = update_message 12 (str_field 1 dev @ [(2, PBool is_on)])"

definition mode_message :: "string option \<Rightarrow> int \<Rightarrow> message" where
  "mode_message dev mode = update_message 13 (str_field 1 dev @ [(2, P32 (word_of_int mode))])"

text \<open>The conversion of a \<open>float\<close> to \<open>double\<close>, on bit patterns.\<close>

definition float_to_double :: "32 word \<Rightarrow> 64 word" where
  "float_to_double x =
     (let s = (if float_sign x then push_bit 63 1 else 0); e = float_exp x; m = float_man x;
          k = (23 - length (takeWhile Not (map (\<lambda>i. bit m (22 - i)) [0..<23])))
      in if e = 255 then s OR push_bit 52 0x7FF OR push_bit 29 (word_of_int m)
         else if e = 0 \<and> m = 0 then s
         else if e = 0 then
           s OR push_bit 52 (word_of_nat (873 + k)) OR
             (push_bit (53 - k) (word_of_int m) AND mask 52)
         else s OR push_bit 52 (word_of_int (e + 896)) OR push_bit 29 (word_of_int m))"

definition meter_message :: "string option \<Rightarrow> phases_data_t \<Rightarrow> message" where
  "meter_message dev d = update_message 14 (str_field 1 dev @
     map (\<lambda>(i, x). (i, P64 (float_to_double x)))
       [(2, ph_u1 d), (3, ph_u2 d), (4, ph_u3 d), (5, ph_i1 d), (6, ph_i2 d), (7, ph_i3 d),
        (8, ph_p1 d), (9, ph_p2 d), (10, ph_p3 d), (11, ph_phy1 d), (12, ph_phy2 d), (13, ph_phy3 d),
        (14, ph_power d)])"

definition hm_time :: "int \<Rightarrow> int \<Rightarrow> message" where
  "hm_time hour minute = [(1, P32 (word_of_int hour)), (2, P32 (word_of_int minute))]"

definition active_time_message :: "string option \<Rightarrow> active_time_t \<Rightarrow> message" where
  "active_time_message dev t = update_message 7 (str_field 1 dev @
     [(3, PMsg [(1, PMsg (hm_time (at_start_hour t) (at_start_minute t))),
                (2, PMsg (hm_time (at_end_hour t) (at_end_minute t)))])])"

definition register_message :: "app_websocket_t \<Rightarrow> message" where
  "register_message h = auth_message 1
     [(1, PStr (ws_hardware_id h)), (2, PStr ''112233445566''), (4, P32 2), (5, PStr (firmware_version h)),
      (6, PStr ''112233445566'')]"

definition login_message :: "app_websocket_t \<Rightarrow> message" where
  "login_message h = auth_message 3 (str_field 1 (device_id h) @ [(2, PStr ''112233445566'')])"

definition ping_message :: "app_websocket_t \<Rightarrow> message" where
  "ping_message h = update_message 5 (str_field 1 (device_id h))"

definition update_power_state :: "bool \<Rightarrow> 'a websocket_world_scheme \<Rightarrow> 'a websocket_world_scheme" where
  "update_power_state is_on w =
     (case websocket_handle w of
        None \<Rightarrow> w
      | Some handle \<Rightarrow> tx_enqueue (main_message__pack (power_state_message (device_id handle) is_on)) w)"

definition update_mode :: "int \<Rightarrow> 'a websocket_world_scheme \<Rightarrow> 'a websocket_world_scheme" where
  "update_mode mode w =
     (case websocket_handle w of
        None \<Rightarrow> w
      | Some handle \<Rightarrow> tx_enqueue (main_message__pack (mode_message (device_id handle) mode)) w)"

definition update_meter_data :: "phases_data_t \<Rightarrow> 'a websocket_world_scheme \<Rightarrow> 'a websocket_world_scheme" where
  "update_meter_data d w =
     (case websocket_handle w of
        None \<Rightarrow> w
      | Some handle \<Rightarrow> tx_enqueue (main_message__pack (meter_message (device_id handle) d)) w)"

definition update_active_time :: "active_time_t \<Rightarrow> 'a websocket_world_scheme \<Rightarrow> 'a websocket_world_scheme" where
  "update_active_time t w =
     (case websocket_handle w of
        None \<Rightarrow> w
      | Some handle \<Rightarrow> tx_enqueue (main_message__pack (active_time_message (device_id handle) t)) w)"

definition app_websocket_send :: "byte list \<Rightarrow> 'a websocket_world_scheme \<Rightarrow> 'a websocket_world_scheme" where
  "app_websocket_send data w = w\<lparr>ws_sent := ws_sent w @ [data]\<rparr>"

definition app_websocket_update_power_state ::
    "bool \<Rightarrow> 'a websocket_world_scheme \<Rightarrow> esp_err_t \<times> 'a websocket_world_scheme" where
  "app_websocket_update_power_state is_on w =
     (case websocket_handle w of
        None \<Rightarrow> (ESP_FAIL, w)
      | Some handle \<Rightarrow>
          (let w = set_websocket (handle\<lparr>power_state := is_on\<rparr>) w
           in (ESP_OK, if is_logged handle then update_power_state is_on w else w)))"

definition app_websocket_update_mode ::
    "int \<Rightarrow> 'a websocket_world_scheme \<Rightarrow> esp_err_t \<times> 'a websocket_world_scheme" where
  "app_websocket_update_mode mode w =
     (case websocket_handle w of
        None \<Rightarrow> (ESP_FAIL, w)
      | Some handle \<Rightarrow>
          (let w = set_websocket (handle\<lparr>ws_mode := mode\<rparr>) w
           in (ESP_OK, if is_logged handle then update_mode mode w else w)))"

definition app_websocket_update_meter_data ::
    "phases_data_t option \<Rightarrow> 'a websocket_world_scheme \<Rightarrow> esp_err_t \<times> 'a websocket_world_scheme" where
  "app_websocket_update_meter_data phases_data w =
     (case (websocket_handle w, phases_data) of
        (Some handle, Some d) \<Rightarrow> (ESP_OK, if is_logged handle then update_meter_data d w else w)
      | _ \<Rightarrow> (ESP_FAIL, w))"

definition app_websocket_update_active_time ::
    "active_time_t \<Rightarrow> 'a websocket_world_scheme \<Rightarrow> esp_err_t \<times> 'a websocket_world_scheme" where
  "app_websocket_update_active_time t w =
     (case websocket_handle w of
        None \<Rightarrow> (ESP_FAIL, w)
      | Some handle \<Rightarrow>
          (let w = set_websocket (handle\<lparr>ws_active_time := t\<rparr>) w
           in (ESP_OK, if is_logged handle then update_active_time t w else w)))"

section \<open>The sending task\<close>

definition app_ws_prepare ::
    "'a websocket_world_scheme \<Rightarrow> (esp_err_t \<times> 'a websocket_world_scheme) option" where
  "app_ws_prepare w = do {
     handle \<leftarrow> websocket_handle w;
     connected \<leftarrow> app_network_is_connected w;
     if \<not> connected then Some (ESP_FAIL, vTaskDelay_ms 500 w)
     else if websocket_connected handle then Some (ESP_OK, w)
     else if is_start_websocket handle then Some (ESP_FAIL, w)
     else Some (ESP_FAIL, set_websocket (handle\<lparr>is_start_websocket := True\<rparr>)
                  (w\<lparr>ws_started := Suc (ws_started w)\<rparr>))
   }"

definition app_ws_register ::
    "'a websocket_world_scheme \<Rightarrow> (esp_err_t \<times> 'a websocket_world_scheme) option" where
  "app_ws_register w = do {
     handle \<leftarrow> websocket_handle w;
     if device_id handle \<noteq> None \<and> device_id handle \<noteq> Some [] then Some (ESP_OK, w)
     else if esp_tick_get w < wrap32 (last_reg_tick handle + REGISTER_TIMEOUT_MS)
     then Some (ESP_FAIL, vTaskDelay_ms 100 w)
     else
       Some (ESP_FAIL, app_websocket_send (main_message__pack (register_message handle))
               (set_websocket (handle\<lparr>last_reg_tick := esp_tick_get w\<rparr>) w))
   }"

definition app_ws_login ::
    "'a websocket_world_scheme \<Rightarrow> (esp_err_t \<times> 'a websocket_world_scheme) option" where
  "app_ws_login w = do {
     handle \<leftarrow> websocket_handle w;
     if is_logged handle then Some (ESP_OK, w)
     else if esp_tick_get w < wrap32 (last_login_tick handle + LOGIN_TIMEOUT_MS)
     then Some (ESP_FAIL, vTaskDelay_ms 100 w)
     else
       Some (ESP_FAIL, app_websocket_send (main_message__pack (login_message handle))
               (set_websocket (handle\<lparr>last_login_tick := esp_tick_get w\<rparr>) w))
   }"

definition app_ws_send_ping ::
    "'a websocket_world_scheme \<Rightarrow> (esp_err_t \<times> 'a websocket_world_scheme) option" where
  "app_ws_send_ping w = do {
     handle \<leftarrow> websocket_handle w;
     if esp_tick_get w < wrap32 (last_ping_tick handle + PING_TIMEOUT_MS) then Some (ESP_OK, w)
     else
       Some (ESP_FAIL, app_websocket_send (main_message__pack (ping_message handle))
               (set_websocket (handle\<lparr>last_ping_tick := esp_tick_get w\<rparr>) w))
   }"

definition app_ws_sending_data ::
    "'a websocket_world_scheme \<Rightarrow> (esp_err_t \<times> 'a websocket_world_scheme) option" where
  "app_ws_sending_data w = do {
     handle \<leftarrow> websocket_handle w;
     case tx_rb handle of
       [] \<Rightarrow> Some (ESP_OK, w)
     | item # rest \<Rightarrow> Some (ESP_OK, set_websocket (handle\<lparr>tx_rb := rest\<rparr>) (app_websocket_send item w))
   }"

text \<open>One round of \<^verbatim>\<open>_websocket_task\<close>: \<^verbatim>\<open>AWAIT\<close> continues with the next round on an error.\<close>

definition websocket_task_step :: "'a websocket_world_scheme \<Rightarrow> 'a websocket_world_scheme option" where
  "websocket_task_step w = do {
     (r, w) \<leftarrow> app_ws_prepare w;
     if r \<noteq> ESP_OK then Some w else do {
       (r, w) \<leftarrow> app_ws_register w;
       if r \<noteq> ESP_OK then Some w else do {
         (r, w) \<leftarrow> app_ws_login w;
         if r \<noteq> ESP_OK then Some w else do {
           (r, w) \<leftarrow> app_ws_sending_data w;
           Some (if r \<noteq> ESP_OK then w else vTaskDelay_ms 10 w)
         }
       }
     }
   }"

section \<open>The receiving side\<close>

definition websocket_callback ::
    "'a websocket_world_scheme callback \<Rightarrow> int \<Rightarrow> cb_data option \<Rightarrow> int \<Rightarrow> 'a websocket_world_scheme
     \<Rightarrow> 'a websocket_world_scheme option" where
  "websocket_callback cb event_id data len w = do {
     handle \<leftarrow> websocket_handle w;
     if ws_callback handle then cb w \<lparr>ev_id = event_id, ev_data = data, ev_len = len\<rparr> else Some w
   }"

datatype ws_client_event =
    WEBSOCKET_EVENT_ERROR | WEBSOCKET_EVENT_CONNECTED | WEBSOCKET_EVENT_DISCONNECTED
  | WEBSOCKET_EVENT_DATA "byte list"

definition websocket_event_number :: "ws_client_event \<Rightarrow> int" where
  "websocket_event_number e =
     (case e of WEBSOCKET_EVENT_ERROR \<Rightarrow> 0 | WEBSOCKET_EVENT_CONNECTED \<Rightarrow> 1
      | WEBSOCKET_EVENT_DISCONNECTED \<Rightarrow> 2 | WEBSOCKET_EVENT_DATA d \<Rightarrow> 3)"

definition websocket_event_handler ::
    "'a websocket_world_scheme callback \<Rightarrow> ws_client_event \<Rightarrow> 'a websocket_world_scheme
     \<Rightarrow> 'a websocket_world_scheme option" where
  "websocket_event_handler cb e w = do {
     handle \<leftarrow> websocket_handle w;
     case e of
       WEBSOCKET_EVENT_CONNECTED \<Rightarrow>
         websocket_callback cb (websocket_event_number e) None 0
           (set_websocket (handle\<lparr>websocket_connected := True, is_logged := False\<rparr>) w)
     | WEBSOCKET_EVENT_DISCONNECTED \<Rightarrow>
         websocket_callback cb WEBSOCKET_ON_DISCONNECTED None 0
           (set_websocket (handle\<lparr>websocket_connected := False, is_logged := False\<rparr>) w)
     | WEBSOCKET_EVENT_DATA d \<Rightarrow> if d = [] then Some w else Some (rx_enqueue d w)
     | WEBSOCKET_EVENT_ERROR \<Rightarrow> Some w
   }"

text \<open>Members of the message, by the numbers of the descriptors; a null pointer on the way gives \<open>None\<close>.\<close>

definition auth_part :: "nat \<Rightarrow> message \<Rightarrow> message option" where
  "auth_part i m = do { d \<leftarrow> msg_sub 2 m; a \<leftarrow> msg_sub 1 d; msg_sub i a }"

definition user_part :: "nat \<Rightarrow> message \<Rightarrow> message option" where
  "user_part i m = do { d \<leftarrow> msg_sub 2 m; u \<leftarrow> msg_sub 3 d; msg_sub i u }"

definition status_code :: "message \<Rightarrow> 32 word option" where
  "status_code m = map_option (msg_u32 2) (msg_sub 1000 m)"

definition u32_int :: "32 word \<Rightarrow> int" where
  "u32_int x = sint x"

definition process_register ::
    "message \<Rightarrow> 'a websocket_world_scheme \<Rightarrow> 'a websocket_world_scheme option" where
  "process_register resp w = do {
     handle \<leftarrow> websocket_handle w;
     code \<leftarrow> status_code resp;
     Some (if code = 0 then set_websocket (handle\<lparr>device_id := Some (msg_str 1 resp)\<rparr>) w else w)
   }"

definition process_login ::
    "'a websocket_world_scheme callback \<Rightarrow> message \<Rightarrow> 'a websocket_world_scheme
     \<Rightarrow> 'a websocket_world_scheme option" where
  "process_login cb resp w = do {
     handle \<leftarrow> websocket_handle w;
     code \<leftarrow> status_code resp;
     if code = 0 then do {
       w \<leftarrow> websocket_callback cb WEBSOCKET_ON_ONLINE None 0 (set_websocket (handle\<lparr>is_logged := True\<rparr>) w);
       handle \<leftarrow> websocket_handle w;
       let w = update_power_state (power_state handle) w;
       let w = update_mode (ws_mode handle) w;
       Some (update_active_time (ws_active_time handle) w)
     } else Some w
   }"

definition process_active_time ::
    "'a websocket_world_scheme callback \<Rightarrow> message \<Rightarrow> 'a websocket_world_scheme
     \<Rightarrow> 'a websocket_world_scheme option" where
  "process_active_time cb req w = do {
     lamp \<leftarrow> msg_sub 2 req;
     b \<leftarrow> msg_sub 1 lamp;
     e \<leftarrow> msg_sub 2 lamp;
     let t = \<lparr>at_start_hour = u32_int (msg_u32 1 b), at_start_minute = u32_int (msg_u32 2 b),
              at_end_hour = u32_int (msg_u32 1 e), at_end_minute = u32_int (msg_u32 2 e)\<rparr>;
     websocket_callback cb WEBSOCKET_ON_SETTING_ACTIVE_TIME (Some (CbActiveTime t)) sizeof_active_time_t w
   }"

text \<open>The dispatch of \<^verbatim>\<open>_process_data\<close> on a parsed message.\<close>

definition process_message ::
    "'a websocket_world_scheme callback \<Rightarrow> message \<Rightarrow> 'a websocket_world_scheme
     \<Rightarrow> 'a websocket_world_scheme option" where
  "process_message cb m w =
     (case auth_part 2 m of Some resp \<Rightarrow> process_register resp w
      | None \<Rightarrow> (case auth_part 4 m of Some resp \<Rightarrow> process_login cb resp w
      | None \<Rightarrow> (case user_part 18 m of
          Some req \<Rightarrow> websocket_callback cb WEBSOCKET_ON_CONTROL (Some (CbBool (msg_bool 2 req))) sizeof_bool w
      | None \<Rightarrow> (case user_part 1 m of Some req \<Rightarrow> Some w
      | None \<Rightarrow> (case user_part 3 m of Some req \<Rightarrow> Some w
      | None \<Rightarrow> (case user_part 7 m of Some req \<Rightarrow> process_active_time cb req w
      | None \<Rightarrow> (case user_part 9 m of Some req \<Rightarrow> if length (msg_rep 5 req) < 2 then None else Some w
      | None \<Rightarrow> (case user_part 19 m of Some req \<Rightarrow> websocket_callback cb WEBSOCKET_ON_FORCE_OTA None 0 w
      | None \<Rightarrow> (case user_part 20 m of Some req \<Rightarrow> websocket_callback cb WEBSOCKET_ON_FREE None 0 w
      | None \<Rightarrow> Some w)))))))))"

definition process_data ::
    "'a websocket_world_scheme callback \<Rightarrow> byte list \<Rightarrow> 'a websocket_world_scheme
     \<Rightarrow> (esp_err_t \<times> 'a websocket_world_scheme) option" where
  "process_data cb data w =
     (case main_message__unpack data of
        Corrupted \<Rightarrow> None
      | Malformed \<Rightarrow> Some (ESP_FAIL, w)
      | Unpacked m \<Rightarrow> do { w \<leftarrow> process_message cb m w; Some (ESP_OK, w) })"

text \<open>One round of \<^verbatim>\<open>_rx_process_task\<close>.\<close>

definition rx_process_step ::
    "'a websocket_world_scheme callback \<Rightarrow> 'a websocket_world_scheme \<Rightarrow> 'a websocket_world_scheme option" where
  "rx_process_step cb w = do {
     handle \<leftarrow> websocket_handle w;
     case rx_rb handle of
       [] \<Rightarrow> Some (vTaskDelay_ms 10 w)
     | item # rest \<Rightarrow> do {
         (r, w) \<leftarrow> process_data cb item (set_websocket (handle\<lparr>rx_rb := rest\<rparr>) w);
         Some (vTaskDelay_ms 10 w)
       }
   }"

lemmas websocket_defs = app_websocket_update_power_state_def app_websocket_update_mode_def
  app_websocket_update_meter_data_def app_websocket_update_active_time_def
  update_power_state_def update_mode_def update_meter_data_def update_active_time_def
  tx_enqueue_def rb_next_def set_websocket_def

lemmas ws_task_defs = websocket_task_step_def app_ws_prepare_def app_ws_register_def app_ws_login_def
  app_ws_sending_data_def app_websocket_send_def

section \<open>The session\<close>

definition registered :: "app_websocket_t \<Rightarrow> bool" where
  "registered h \<longleftrightarrow> device_id h \<noteq> None \<and> device_id h \<noteq> Some []"

text \<open>What one round sends on an established connection.\<close>

definition session_frames :: "int \<Rightarrow> app_websocket_t \<Rightarrow> byte list list" where
  "session_frames tick h =
     (if \<not> registered h then
        (if tick < wrap32 (last_reg_tick h + REGISTER_TIMEOUT_MS) then []
         else [main_message__pack (register_message h)])
      else if \<not> is_logged h then
        (if tick < wrap32 (last_login_tick h + LOGIN_TIMEOUT_MS) then []
         else [main_message__pack (login_message h)])
      else take 1 (tx_rb h))"

lemma task_step_frames:
  assumes "websocket_handle w = Some h" "app_network_is_connected w = Some c"
  shows "\<exists>w' h'. websocket_task_step w = Some w' \<and> websocket_handle w' = Some h' \<and>
    ws_sent w' = ws_sent w @ (if c \<and> websocket_connected h then session_frames (esp_tick_get w) h else []) \<and>
    tx_rb h' = (if c \<and> websocket_connected h \<and> registered h \<and> is_logged h then drop 1 (tx_rb h) else tx_rb h)"
  using assms
  by (cases "tx_rb h")
    (auto simp: ws_task_defs session_frames_def registered_def set_websocket_def vTaskDelay_ms_def)

end
