(* ===== verification/App_Ota.thy ===== *)
theory App_Ota
  imports App_Websocket
begin

text \<open>
  \<^verbatim>\<open>main/app_ota.c\<close>: firmware update on request. The task waits on a binary semaphore that
  \<^verbatim>\<open>app_ota_force_update\<close> gives. Downloading and writing the image is the SDK's
  \<^verbatim>\<open>esp_https_ota\<close>, whose result is an argument; the URLs it was called with are recorded.
\<close>

record app_ota_cfg_t =
  oc_host :: "string option"
  oc_version :: "string option"
  oc_model :: "string option"
  oc_update_interval_in_seconds :: int
  oc_hardware_id :: "string option"

record app_ota_t =
  ota_host :: string
  ota_version :: string
  ota_hardware_id :: string
  ota_model :: string
  update_interval_in_seconds :: int
  force_ota_flag :: bool

record ota_world = websocket_world +
  ota_handle :: "app_ota_t option"
  ota_requests :: "string list"

definition str_or_empty :: "string option \<Rightarrow> string" where
  "str_or_empty s = (case s of None \<Rightarrow> [] | Some x \<Rightarrow> x)"

text \<open>A missing version or host, or a task that cannot be created, gives a null handle.\<close>

definition app_ota_init :: "app_ota_t \<Rightarrow> bool \<Rightarrow> app_ota_cfg_t \<Rightarrow> app_ota_t option" where
  "app_ota_init junk task_created cfg =
     (case (oc_version cfg, oc_host cfg) of
        (Some version, Some host) \<Rightarrow>
          (let handle = junk\<lparr>update_interval_in_seconds := oc_update_interval_in_seconds cfg,
                 ota_host := host, ota_hardware_id := str_or_empty (oc_hardware_id cfg),
                 ota_model := str_or_empty (oc_model cfg), ota_version := version,
                 force_ota_flag := False\<rparr>
           in if \<not> task_created then None else Some handle)
      | _ \<Rightarrow> None)"

definition app_ota_force_update :: "'a ota_world_scheme \<Rightarrow> esp_err_t \<times> 'a ota_world_scheme" where
  "app_ota_force_update w =
     (case ota_handle w of
        None \<Rightarrow> (ESP_FAIL, w)
      | Some handle \<Rightarrow> (ESP_OK, w\<lparr>ota_handle := Some (handle\<lparr>force_ota_flag := True\<rparr>)\<rparr>))"

text \<open>The text of \<^verbatim>\<open>URL_TEMPLATE\<close> filled in.\<close>

definition ota_url :: "app_ota_t \<Rightarrow> string" where
  "ota_url h = ota_host h @ ''/api/v1/ota/check?firmware_version='' @ ota_version h @
     ''&hardware_id='' @ ota_hardware_id h"

text \<open>
  One round of \<^verbatim>\<open>_ota_task\<close>. While the semaphore is not given the task is blocked: the round
  does nothing.
\<close>

definition ota_task_step ::
    "(string \<Rightarrow> esp_err_t) \<Rightarrow> 'a ota_world_scheme \<Rightarrow> 'a ota_world_scheme option" where
  "ota_task_step https_ota w = do {
     handle \<leftarrow> ota_handle w;
     if \<not> force_ota_flag handle then Some w
     else do {
       let w = w\<lparr>ota_handle := Some (handle\<lparr>force_ota_flag := False\<rparr>)\<rparr>;
       connected \<leftarrow> app_network_is_connected w;
       if \<not> connected then Some w
       else do {
         let url = ota_url handle;
         let w = w\<lparr>ota_requests := ota_requests w @ [url]\<rparr>;
         Some (if https_ota url = ESP_OK then esp_restart w else w)
       }
     }
   }"

text \<open>C28. One request, one attempt: each round of the update task that finds the flag given takes
  it back, contacts the server at most once, only with a network connection, with the URL built
  from the configuration, and restarts the device exactly when the download succeeded; without a
  request it does nothing.\<close>

theorem ota_one_attempt_per_request:
  assumes "ota_handle w = Some h" "app_network_is_connected w = Some c"
  shows "\<exists>w'. ota_task_step https_ota w = Some w' \<and>
    ota_handle w' = Some (h\<lparr>force_ota_flag := False\<rparr>) \<and>
    ota_requests w' = ota_requests w @ (if force_ota_flag h \<and> c then [ota_url h] else []) \<and>
    restarted w' = (restarted w \<or> (force_ota_flag h \<and> c \<and> https_ota (ota_url h) = ESP_OK))"
proof (cases "force_ota_flag h")
  case True
  have "app_network_is_connected (w\<lparr>ota_handle := x\<rparr>) = Some c" for x
    using assms(2) by (simp add: app_network_is_connected_def)
  then show ?thesis
    using assms(1) True by (simp add: ota_task_step_def esp_restart_def Let_def)
next
  case False
  then have "h\<lparr>force_ota_flag := False\<rparr> = h" by simp
  with False assms(1) show ?thesis by (simp add: ota_task_step_def)
qed

definition sample_ota :: app_ota_t where
  "sample_ota = \<lparr>ota_host = ''https://api.lighting.sdkd.com.vn'', ota_version = ''1.1.0'',
     ota_hardware_id = ''GW-A1B2C3'', ota_model = [], update_interval_in_seconds = 3000,
     force_ota_flag = True\<rparr>"

definition sample_socket :: app_websocket_t where
  "sample_socket = \<lparr>ws_running = False, ws_callback = True, websocket_connected = True,
     websocket_url = ''wss://api.lighting.sdkd.com.vn/websocket'', is_start_websocket = True, rx_rb = [],
     tx_rb = [], device_id = Some ''dev-1'', ws_hardware_id = ''GW-A1B2C3'', firmware_version = ''1.1.0'',
     is_logged = True, last_reg_tick = 0, last_login_tick = 0, last_ping_tick = 0, power_state = False,
     ws_active_time = \<lparr>at_start_hour = 18, at_start_minute = 0, at_end_hour = 5, at_end_minute = 30\<rparr>,
     ws_mode = 0\<rparr>"

definition sample_websocket :: websocket_world where
  "sample_websocket = schedule_world.extend sample_online
     \<lparr>websocket_handle = Some sample_socket, ws_sent = [], ws_started = 1, rb_res = (\<lambda>_. True), rb_count = 0\<rparr>"

definition sample_ota_world :: ota_world where
  "sample_ota_world = websocket_world.extend sample_websocket
     \<lparr>ota_handle = Some sample_ota, ota_requests = []\<rparr>"

lemmas sample_ota_defs = sample_ota_world_def websocket_world.defs sample_websocket_def
  schedule_world.defs sample_online_def sample_schedule_defs

theorem ota_one_attempt_per_request_witness:
  "\<exists>w'. ota_task_step (\<lambda>_. ESP_OK) sample_ota_world = Some w' \<and>
     ota_requests w' = [''https://api.lighting.sdkd.com.vn/api/v1/ota/check?firmware_version=1.1.0&hardware_id=GW-A1B2C3'']
     \<and> restarted w'"
proof -
  have "ota_handle sample_ota_world = Some sample_ota" "ota_requests sample_ota_world = []"
    by (simp_all add: sample_ota_world_def websocket_world.defs)
  moreover have "app_network_is_connected sample_ota_world = Some True"
    by (simp add: app_network_is_connected_def sample_ota_defs)
  ultimately show ?thesis
    using ota_one_attempt_per_request [of sample_ota_world sample_ota True "\<lambda>_. ESP_OK"]
    by (auto simp: sample_ota_def ota_url_def)
qed

end
