(* ===== verification/App_Gps.thy ===== *)
theory App_Gps
  imports App_Ota
begin

text \<open>
  \<^verbatim>\<open>main/app_gps.c\<close>: the clock from a GPS receiver. One task reads NMEA text from the serial
  port for ten seconds of every thirty; on the second position fix it leaves date and time in a
  global variable and raises a flag; a second task passes them on to \<^verbatim>\<open>app_main.c\<close>. What
  \<^verbatim>\<open>uart_read_bytes\<close> delivers in each poll is an argument. The two 20-byte buffers the fields
  are copied into are written without a check: a longer field has no result.
\<close>

record app_gps_t =
  uartPort :: int
  gps_tx_pin :: int
  gps_rx_pin :: int
  is_get_gps :: bool
  last_get_tick_gps :: int
  gps_callback :: bool
  is_sync_rtc_gps :: bool

record app_gps_config_t =
  gc_uartPort :: int
  gc_tx_pin :: int
  gc_rx_pin :: int
  gc_callback :: bool

record gps_world = ota_world +
  gps_handle :: "app_gps_t option"
  date_time_form :: date_time_form_t

definition app_gps_init :: "app_gps_t \<Rightarrow> app_gps_config_t \<Rightarrow> app_gps_t" where
  "app_gps_init junk config = junk\<lparr>
     is_get_gps := True, gps_rx_pin := gc_rx_pin config, gps_tx_pin := gc_tx_pin config,
     uartPort := gc_uartPort config, last_get_tick_gps := 0, is_sync_rtc_gps := False,
     gps_callback := gc_callback config\<rparr>"

definition set_gps :: "app_gps_t \<Rightarrow> 'a gps_world_scheme \<Rightarrow> 'a gps_world_scheme" where
  "set_gps h w = w\<lparr>gps_handle := Some h\<rparr>"

definition gpio_reset_pin :: "int \<Rightarrow> 'a platform_scheme \<Rightarrow> 'a platform_scheme" where
  "gpio_reset_pin pin w = gpio_set_output pin False w"

definition switchingUartPortToGps :: "'a platform_scheme \<Rightarrow> 'a platform_scheme" where
  "switchingUartPortToGps w =
     (let w = fold gpio_reset_pin [GPS_ACTIVE, GPS_RST, S0_MUX, S1_MUX, PWR_SIM] w;
          w = fold (\<lambda>p. gpio_set_output p True) [GPS_ACTIVE, GPS_RST, S0_MUX, S1_MUX, PWR_SIM] w;
          w = gpio_set_level PWR_SIM 0 w;
          w = vTaskDelay_ms 100 w;
          w = gpio_set_level GPS_ACTIVE 1 w;
          w = gpio_set_level GPS_RST 0 w;
          w = gpio_set_level S0_MUX 0 w;
          w = gpio_set_level S1_MUX 0 w
      in w)"

section \<open>Parsing a sentence\<close>

text \<open>The difference of a character to \<open>'0'\<close>; past the end of the string is its NUL byte.\<close>

definition char_at :: "string \<Rightarrow> nat \<Rightarrow> int" where
  "char_at s i = (if i < length s then int (of_char (s ! i)) else 0)"

text \<open>Two digits into a \<open>uint8_t\<close>, as the code computes them.\<close>

definition two_digits :: "string \<Rightarrow> nat \<Rightarrow> byte" where
  "two_digits s i = u8 ((char_at s i - 48) * 10) + u8 (char_at s (i + 1) - 48)"

definition gps_year :: "string \<Rightarrow> 32 word" where
  "gps_year s = word_of_int ((char_at s 4 - 48) * 10) + word_of_int (char_at s 5 - 48) + 2000"

definition gps_hour :: "string \<Rightarrow> byte" where
  "gps_hour s = (let h = two_digits s 0 + 7 in if h > 23 then h - 24 else h)"

definition gps_form :: "string \<Rightarrow> string \<Rightarrow> date_time_form_t" where
  "gps_form string_time string_date =
     \<lparr>dt_hour = uint (gps_hour string_time), dt_minute = uint (two_digits string_time 2),
      dt_day = uint (two_digits string_date 0), dt_month = uint (two_digits string_date 2),
      dt_year = sint (gps_year string_date), dt_second = uint (two_digits string_time 4)\<rparr>"

datatype gps_sentence = GpsNone | GpsNotFixed | GpsOtherStatus | GpsFixed string string

text \<open>The tokens of the receive buffer: \<open>None\<close> when \<^verbatim>\<open>strtok\<close> runs out of them and its null
  pointer is used, or a field overruns its buffer.\<close>

fun tokens :: "nat \<Rightarrow> string \<Rightarrow> (string \<times> string) option" where
  "tokens 0 s = None"
| "tokens (Suc n) s = (case strtok s '','' of
     None \<Rightarrow> None
   | Some (t, r) \<Rightarrow> if n = 0 then Some (t, r) else tokens n r)"

text \<open>
  \<open>tokens n\<close>: the \<open>n\<close>-th further token, with what follows it. \<^verbatim>\<open>strtok\<close> returns its null
  pointer again and again once it has run out.
\<close>

definition fits20 :: "string \<Rightarrow> bool" where
  "fits20 s \<longleftrightarrow> length s < 20"

definition parse_gnrmc :: "string \<Rightarrow> gps_sentence option" where
  "parse_gnrmc data =
     (if strstr data ''GNRMC'' = None then Some GpsNone
      else do {
        (_, r) \<leftarrow> strtok data ''$'';
        (string_time, r) \<leftarrow> tokens 2 r;
        if \<not> fits20 string_time then None else do {
          (status, r) \<leftarrow> tokens 1 r;
          if strstr status ''V'' \<noteq> None then Some GpsNotFixed
          else if strstr status ''A'' \<noteq> None then do {
            (latitude, r) \<leftarrow> tokens 1 r;
            (longitude, r) \<leftarrow> tokens 2 r;
            (string_date, r) \<leftarrow> tokens 4 r;
            if \<not> fits20 string_date then None else Some (GpsFixed string_time string_date)
          }
          else Some GpsOtherStatus
        }
      })"

section \<open>The tasks\<close>

text \<open>
  The acquisition loop over the polls of the port: \<open>couter_check_gps_fix\<close> is an eight-bit counter
  local to it. The loop ends on the second fix or when ten
  seconds have passed.
\<close>

definition gps_poll ::
    "byte \<Rightarrow> string \<Rightarrow> app_gps_t \<Rightarrow> 'a gps_world_scheme \<Rightarrow> (bool \<times> byte \<times> 'a gps_world_scheme) option" where
  "gps_poll couter rx handle w =
     (if rx = [] then Some (True, couter, w)
      else
        (case parse_gnrmc (c_str (take (BUF_SIZE - 1) rx)) of
           None \<Rightarrow> None
         | Some (GpsFixed string_time string_date) \<Rightarrow>
             if couter + 1 = 2 then
               Some (False, 0, (set_gps (handle\<lparr>is_sync_rtc_gps := True\<rparr>) w)
                       \<lparr>date_time_form := gps_form string_time string_date\<rparr>)
             else Some (True, couter + 1, w)
         | Some _ \<Rightarrow> Some (True, couter, w)))"

lemma wrap32_add:
  assumes "0 \<le> k" "wrap32 x + k < 2 ^ 31"
  shows "wrap32 (x + k) = wrap32 x + k"
proof -
  have r: "int_range (wrap32 x + k)"
    using wrap32_in_range [of x] assms by (simp add: int_range_def)
  have "wrap32 (x + k) = wrap32 (wrap32 x + k)"
    by (simp add: wrap32_def algebra_simps mod_add_right_eq)
  then show ?thesis using r by simp
qed

text \<open>
  A poll waits for up to 20 ms and takes at least one; \<open>dt\<close> is cut at a second, so that the
  millisecond counter cannot jump over the whole range of a 32-bit integer.
\<close>

definition poll_time :: "nat \<Rightarrow> int" where
  "poll_time dt = int (max 1 (min dt 1000))"

definition gps_elapsed :: "app_gps_t \<Rightarrow> 'a platform_scheme \<Rightarrow> int" where
  "gps_elapsed h w = wrap32 (esp_tick_get w - last_get_tick_gps h)"

lemma gps_elapsed_delay:
  assumes "gps_elapsed h w < 10000"
  shows "gps_elapsed h (vTaskDelay_ms (poll_time dt) w) = gps_elapsed h w + poll_time dt"
proof -
  have e: "gps_elapsed h v = wrap32 (tick_ms v - last_get_tick_gps h)" for v :: "'a platform_scheme"
    by (simp add: gps_elapsed_def esp_tick_get_def wrap32_def mod_diff_left_eq algebra_simps)
  have "wrap32 (tick_ms w - last_get_tick_gps h + poll_time dt) =
      wrap32 (tick_ms w - last_get_tick_gps h) + poll_time dt"
    by (rule wrap32_add) (use assms e [of w] in \<open>auto simp: poll_time_def\<close>)
  then show ?thesis by (simp add: e vTaskDelay_ms_def algebra_simps)
qed

lemma gps_poll_continue:
  "gps_poll c rx h w = Some (True, c', w') \<Longrightarrow> w' = w"
  by (auto simp: gps_poll_def split: if_splits option.splits gps_sentence.splits)

definition gps_work :: "'a gps_world_scheme \<Rightarrow> nat" where
  "gps_work w = (case gps_handle w of None \<Rightarrow> 0 | Some h \<Rightarrow> nat (10000 - gps_elapsed h w))"

function gps_acquire ::
    "byte \<Rightarrow> (nat \<Rightarrow> string \<times> nat) \<Rightarrow> nat \<Rightarrow> 'a gps_world_scheme \<Rightarrow> 'a gps_world_scheme option" where
  "gps_acquire couter polls i w =
     (case gps_handle w of
        None \<Rightarrow> None
      | Some handle \<Rightarrow>
          if gps_elapsed handle w < 10 * 1000 then
            (case gps_poll couter (fst (polls i)) handle (vTaskDelay_ms (poll_time (snd (polls i))) w) of
               None \<Rightarrow> None
             | Some (True, couter, w) \<Rightarrow> gps_acquire couter polls (Suc i) w
             | Some (False, couter, w) \<Rightarrow> Some w)
          else Some (set_gps (handle\<lparr>last_get_tick_gps := esp_tick_get w\<rparr>) w))"
  by pat_completeness simp_all

termination
proof (relation "measure (\<lambda>(c, polls, i, w). gps_work w)", goal_cases)
  case (2 couter polls i w handle p t cw b w')
  let ?v = "vTaskDelay_ms (poll_time (snd (polls i))) w"
  have v: "w' = ?v" using 2 gps_poll_continue by blast
  have "gps_elapsed handle ?v = gps_elapsed handle w + poll_time (snd (polls i))"
    using 2 by (intro gps_elapsed_delay) simp
  moreover have "0 < poll_time (snd (polls i))" by (simp add: poll_time_def)
  moreover have "gps_handle ?v = Some handle" using 2 by (simp add: vTaskDelay_ms_def)
  ultimately show ?case using 2 v by (simp add: gps_work_def)
qed simp

declare gps_acquire.simps [simp del]

text \<open>One round of \<^verbatim>\<open>_gps_task\<close>; the polls are what the receiver sends meanwhile.\<close>

definition gps_task_step ::
    "(nat \<Rightarrow> string \<times> nat) \<Rightarrow> 'a gps_world_scheme \<Rightarrow> 'a gps_world_scheme option" where
  "gps_task_step polls w = do {
     handle \<leftarrow> gps_handle w;
     if wrap32 (esp_tick_get w - last_get_tick_gps handle) < 30 * 1000 then Some (vTaskDelay_ms 10 w)
     else
       gps_acquire 0 polls 0
         (switchingUartPortToGps (set_gps (handle\<lparr>last_get_tick_gps := esp_tick_get w\<rparr>) w))
   }"

definition GPS_process_step ::
    "'a gps_world_scheme callback \<Rightarrow> 'a gps_world_scheme \<Rightarrow> 'a gps_world_scheme option" where
  "GPS_process_step cb w = do {
     handle \<leftarrow> gps_handle w;
     if is_sync_rtc_gps handle then do {
       w \<leftarrow> (if gps_callback handle
             then cb w \<lparr>ev_id = APP_GPS_EVENT_SET_TIME, ev_data = Some (CbDateTime (date_time_form w)),
                       ev_len = sizeof_date_time_form_t\<rparr>
             else Some w);
       handle \<leftarrow> gps_handle w;
       Some (set_gps (handle\<lparr>is_sync_rtc_gps := False\<rparr>) w)
     }
     else Some (vTaskDelay_ms 10 w)
   }"

section \<open>Properties\<close>

lemma fmt_0d_two:
  assumes "0 \<le> i" "i < 100"
  shows "fmt_0d 2 i = [digit_char (nat i div 10), digit_char (nat i mod 10)]"
proof (cases "i < 10")
  case True
  then have "dec (nat i) = [digit_char (nat i)]" by (simp add: dec.simps [of "nat i"])
  moreover have "digit_char 0 = CHR ''0''" by code_simp
  ultimately show ?thesis using True assms by (simp add: fmt_0d_def Let_def)
next
  case False
  then have "nat i div 10 < 10" using assms by auto
  then have "dec (nat i div 10) = [digit_char (nat i div 10)]" by (simp add: dec.simps [of "nat i div 10"])
  then have "dec (nat i) = [digit_char (nat i div 10), digit_char (nat i mod 10)]"
    using False assms by (simp add: dec.simps [of "nat i"])
  then show ?thesis using assms by (simp add: fmt_0d_def Let_def)
qed

lemma length_fmt_0d_two: "0 \<le> i \<Longrightarrow> i < 100 \<Longrightarrow> length (fmt_0d 2 i) = 2"
  by (simp add: fmt_0d_two)

lemma two_digit_value: "0 \<le> i \<Longrightarrow> i < 100 \<Longrightarrow> int (nat i div 10) * 10 + int (nat i mod 10) = i"
  by (simp add: of_nat_div of_nat_mod)

lemma chars_fmt_0d:
  assumes "0 \<le> i" "i < 100"
  shows "char_at (p @ fmt_0d 2 i @ r) (length p) - 48 = int (nat i div 10)"
    and "char_at (p @ fmt_0d 2 i @ r) (length p + 1) - 48 = int (nat i mod 10)"
proof -
  have "nat i div 10 < 10" using assms by auto
  then show "char_at (p @ fmt_0d 2 i @ r) (length p) - 48 = int (nat i div 10)"
    "char_at (p @ fmt_0d 2 i @ r) (length p + 1) - 48 = int (nat i mod 10)"
    using of_char_digit_char [of "nat i div 10"] of_char_digit_char [of "nat i mod 10"]
    by (simp_all add: char_at_def fmt_0d_two [OF assms] nth_append digit_char_def)
qed

lemma two_digits_fmt:
  assumes "0 \<le> i" "i < 100"
  shows "two_digits (p @ fmt_0d 2 i @ r) (length p) = u8 i"
proof -
  have "two_digits (p @ fmt_0d 2 i @ r) (length p) = u8 (int (nat i div 10) * 10 + int (nat i mod 10))"
    unfolding two_digits_def chars_fmt_0d [OF assms] by (simp add: u8_def)
  then show ?thesis by (simp only: two_digit_value [OF assms])
qed

lemma sint_word_32: "0 \<le> x \<Longrightarrow> x < 2 ^ 31 \<Longrightarrow> sint (word_of_int x :: 32 word) = x"
  by (simp add: sint_uint uint_word_of_int signed_take_bit_int_eq_self)



end
