(* ===== verification/App_Main.thy ===== *)
theory App_Main
  imports App_Gps
begin

text \<open>
  \<^verbatim>\<open>main/app_main.c\<close>: the one function through which the components talk to each other, and the
  start-up sequence. A component calls \<^verbatim>\<open>event_callback\<close> through its function pointer, and the
  function calls operations of other components, which may call it again:
  \<open>event_callback_body cb\<close> is its body with \<open>cb\<close> for the calls through the pointers, and
  \<open>event_callback\<close> the function itself, whose calls nest at most three deep. Data of the wrong
  kind for an event, or a null pointer the code dereferences, has no result.
\<close>

section \<open>Texts\<close>

definition txt_server_ok :: string where
  "txt_server_ok = ''K'' @ [CHR 0xE1, CHR 0xBA, CHR 0xBF] @ ''t n'' @ [CHR 0xE1, CHR 0xBB, CHR 0x91] @ ''i m'' @ [CHR 0xC3, CHR 0xA1] @ ''y ch'' @ [CHR 0xE1, CHR 0xBB, CHR 0xA7] @ '' th'' @ [CHR 0xC3, CHR 0xA0] @ ''nh c'' @ [CHR 0xC3, CHR 0xB4] @ ''ng''"
definition txt_device_online :: string where
  "txt_device_online = ''Thi'' @ [CHR 0xE1, CHR 0xBA, CHR 0xBF] @ ''t b'' @ [CHR 0xE1, CHR 0xBB, CHR 0x8B] @ '' '' @ [CHR 0xC4, CHR 0x91, CHR 0xC3, CHR 0xA3] @ '' online''"
definition txt_remote_on :: string where
  "txt_remote_on = [CHR 0xC4, CHR 0x90] @ ''i'' @ [CHR 0xE1, CHR 0xBB, CHR 0x81] @ ''u khi'' @ [CHR 0xE1, CHR 0xBB, CHR 0x83] @ ''n b'' @ [CHR 0xE1, CHR 0xBA, CHR 0xAD] @ ''t t'' @ [CHR 0xE1, CHR 0xBB, CHR 0xAB] @ '' ph'' @ [CHR 0xE1, CHR 0xBA, CHR 0xA7] @ ''n m'' @ [CHR 0xE1, CHR 0xBB, CHR 0x81] @ ''m''"
definition txt_remote_off :: string where
  "txt_remote_off = [CHR 0xC4, CHR 0x90] @ ''i'' @ [CHR 0xE1, CHR 0xBB, CHR 0x81] @ ''u khi'' @ [CHR 0xE1, CHR 0xBB, CHR 0x83] @ ''n t'' @ [CHR 0xE1, CHR 0xBA, CHR 0xAF] @ ''t t'' @ [CHR 0xE1, CHR 0xBB, CHR 0xAB] @ '' ph'' @ [CHR 0xE1, CHR 0xBA, CHR 0xA7] @ ''n m'' @ [CHR 0xE1, CHR 0xBB, CHR 0x81] @ ''m''"
definition txt_set_time_ok :: string where
  "txt_set_time_ok = ''Thi'' @ [CHR 0xE1, CHR 0xBA, CHR 0xBF] @ ''t l'' @ [CHR 0xE1, CHR 0xBA, CHR 0xAD] @ ''p th'' @ [CHR 0xE1, CHR 0xBB, CHR 0x9D] @ ''i gian th'' @ [CHR 0xC3, CHR 0xA0] @ ''nh c'' @ [CHR 0xC3, CHR 0xB4] @ ''ng''"
definition txt_sync_time_ok :: string where
  "txt_sync_time_ok = [CHR 0xC4, CHR 0x90, CHR 0xE1, CHR 0xBB, CHR 0x93] @ ''ng b'' @ [CHR 0xE1, CHR 0xBB, CHR 0x99] @ '' th'' @ [CHR 0xE1, CHR 0xBB, CHR 0x9D] @ ''i gian th'' @ [CHR 0xC3, CHR 0xA0] @ ''nh c'' @ [CHR 0xC3, CHR 0xB4] @ ''ng''"
definition txt_set_ok :: string where
  "txt_set_ok = ''Thi'' @ [CHR 0xE1, CHR 0xBA, CHR 0xBF] @ ''t l'' @ [CHR 0xE1, CHR 0xBA, CHR 0xAD] @ ''p th'' @ [CHR 0xC3, CHR 0xA0] @ ''nh c'' @ [CHR 0xC3, CHR 0xB4] @ ''ng''"
definition txt_manual_on :: string where
  "txt_manual_on = [CHR 0xC4, CHR 0x90] @ ''i'' @ [CHR 0xE1, CHR 0xBB, CHR 0x81] @ ''u khi'' @ [CHR 0xE1, CHR 0xBB, CHR 0x83] @ ''n b'' @ [CHR 0xE1, CHR 0xBA, CHR 0xAD] @ ''t''"
definition txt_manual_off :: string where
  "txt_manual_off = [CHR 0xC4, CHR 0x90] @ ''i'' @ [CHR 0xE1, CHR 0xBB, CHR 0x81] @ ''u khi'' @ [CHR 0xE1, CHR 0xBB, CHR 0x83] @ ''n t'' @ [CHR 0xE1, CHR 0xBA, CHR 0xAF] @ ''t''"

section \<open>The event function\<close>

definition operator_of_mode :: "app_controller_mode_t \<Rightarrow> operator_mode_t" where
  "operator_of_mode m =
     (case m of APP_CONTROLLER_INPUT_MODE_OFF \<Rightarrow> OPERATOR_MODE_OFF
      | APP_CONTROLLER_INPUT_MODE_AUTO \<Rightarrow> OPERATOR_MODE_AUTO
      | APP_CONTROLLER_INPUT_MODE_MANUAL \<Rightarrow> OPERATOR_MODE_MANUAL)"

definition mode_number :: "app_controller_mode_t \<Rightarrow> int" where
  "mode_number m =
     (case m of APP_CONTROLLER_INPUT_MODE_OFF \<Rightarrow> 0 | APP_CONTROLLER_INPUT_MODE_AUTO \<Rightarrow> 1
      | APP_CONTROLLER_INPUT_MODE_MANUAL \<Rightarrow> 2)"

definition storage_of_active_time :: "active_time_t \<Rightarrow> app_storage_data_t" where
  "storage_of_active_time t =
     \<lparr>start_hour = at_start_hour t, start_minute = at_start_minute t, enable_start = True,
      end_hour = at_end_hour t, end_minute = at_end_minute t, enable_end = True\<rparr>"

text \<open>The part the two events that set the active time share.\<close>

definition store_active_time :: "active_time_t \<Rightarrow> 'a gps_world_scheme \<Rightarrow> 'a gps_world_scheme option" where
  "store_active_time t w = do {
     let w = snd (app_storage_set_data (storage_of_active_time t) w);
     let w = snd (app_storage_save_data w);
     (_, w) \<leftarrow> app_schedule_add_alarm (at_start_hour t) (at_start_minute t) SCHEDULE_TYPE_ACTIVE_START w;
     (_, w) \<leftarrow> app_schedule_add_alarm (at_end_hour t) (at_end_minute t) SCHEDULE_TYPE_ACTIVE_END w;
     Some w
   }"

definition on_websocket_control ::
    "'a gps_world_scheme callback \<Rightarrow> bool \<Rightarrow> 'a gps_world_scheme \<Rightarrow> 'a gps_world_scheme option" where
  "on_websocket_control cb is_on w =
     (if app_controller_get_mode w = APP_CONTROLLER_INPUT_MODE_OFF then Some w
      else do {
        (_, w) \<leftarrow> app_controller_force_manual cb False w;
        (_, w) \<leftarrow> app_controller_control_relay cb is_on w;
        w \<leftarrow> app_nextion_set_button is_on w;
        app_nextion_set_console (if is_on then txt_remote_on else txt_remote_off) w
      })"

definition on_setting_active_time ::
    "active_time_t \<Rightarrow> 'a gps_world_scheme \<Rightarrow> 'a gps_world_scheme option" where
  "on_setting_active_time t w = do {
     w \<leftarrow> store_active_time t w;
     let w = snd (app_nextion_set_active_time (Some t) w);
     Some (snd (app_websocket_update_active_time t w))
   }"

definition on_set_schedule :: "active_time_t \<Rightarrow> 'a gps_world_scheme \<Rightarrow> 'a gps_world_scheme option" where
  "on_set_schedule t w = do {
     w \<leftarrow> store_active_time t w;
     let w = snd (app_websocket_update_active_time t w);
     app_nextion_set_console txt_set_ok w
   }"

definition on_change_mode ::
    "'a gps_world_scheme callback \<Rightarrow> app_controller_mode_t \<Rightarrow> 'a gps_world_scheme
     \<Rightarrow> 'a gps_world_scheme option" where
  "on_change_mode cb mode w = do {
     let w = snd (app_nextion_set_mode mode w);
     let w = snd (app_schedule_set_mode (operator_of_mode mode) w);
     w \<leftarrow> (if mode = APP_CONTROLLER_INPUT_MODE_OFF
           then map_option snd (app_controller_control_relay cb False w) else Some w);
     Some (snd (app_websocket_update_mode (mode_number mode) w))
   }"

definition event_callback_body :: "'a gps_world_scheme callback \<Rightarrow> 'a gps_world_scheme callback" where
  "event_callback_body cb w e =
     (let event_id = ev_id e; data = ev_data e; data_len = ev_len e in
      if event_id = WEBSOCKET_ON_CONNECTED then
        Some (snd (app_nextion_set_loading 66 (Some txt_server_ok)
               (snd (app_nextion_set_conection_state False w))))
      else if event_id = WEBSOCKET_ON_DISCONNECTED then
        Some (snd (app_nextion_set_conection_state False w))
      else if event_id = WEBSOCKET_ON_ONLINE then
        (let w = snd (app_nextion_set_conection_state True w);
             w = snd (app_nextion_set_loading 100 (Some txt_device_online) w);
             w = vTaskDelay_ms 500 w
         in Some (app_nextion_set_page PAGE_LOCK_INDEX w))
      else if event_id = WEBSOCKET_ON_CONTROL then
        (case data of
           None \<Rightarrow> Some w
         | Some (CbBool is_on) \<Rightarrow> on_websocket_control cb is_on w
         | _ \<Rightarrow> None)
      else if event_id = WEBSOCKET_ON_FREE then
        map_option snd (app_controller_force_manual cb True w)
      else if event_id = WEBSOCKET_ON_FORCE_OTA then
        Some (snd (app_ota_force_update w))
      else if event_id = WEBSOCKET_ON_SETTING_ACTIVE_TIME then
        (if data = None \<or> data_len \<noteq> sizeof_active_time_t then Some w
         else case data of Some (CbActiveTime t) \<Rightarrow> on_setting_active_time t w | _ \<Rightarrow> None)
      else if event_id = APP_NEXTION_EVENT_SET_TIME then
        (if data = None \<or> data_len \<noteq> sizeof_date_time_form_t then Some w
         else case data of
           Some (CbDateTime f) \<Rightarrow> app_nextion_set_console txt_set_time_ok (snd (app_schedule_set_time f w))
         | _ \<Rightarrow> None)
      else if event_id = APP_NEXTION_EVENT_SYNC_TIME then
        app_nextion_set_console txt_sync_time_ok (snd (app_schedule_sync_time w))
      else if event_id = APP_NEXTION_EVENT_SET_SCHEDULE then
        (if data = None \<or> data_len \<noteq> sizeof_active_time_t then Some w
         else case data of Some (CbActiveTime t) \<Rightarrow> on_set_schedule t w | _ \<Rightarrow> None)
      else if event_id = APP_GPS_EVENT_SET_TIME then
        (if data = None \<or> data_len \<noteq> sizeof_date_time_form_t then Some w
         else case data of Some (CbDateTime f) \<Rightarrow> Some (snd (app_gps_set_time f w)) | _ \<Rightarrow> None)
      else if event_id = APP_NEXTION_EVENT_MANUAL_ON then do {
        (_, w) \<leftarrow> app_controller_control_relay cb True w;
        app_nextion_set_console txt_manual_on w
      }
      else if event_id = APP_NEXTION_EVENT_MANUAL_OFF then do {
        (_, w) \<leftarrow> app_controller_control_relay cb False w;
        app_nextion_set_console txt_manual_off w
      }
      else if event_id = APP_MODBUS_EVENT_DATA then
        (if data = None \<or> data_len \<noteq> sizeof_phases_data_t then Some w
         else case data of
           Some (CbPhases d) \<Rightarrow> do {
             (_, w) \<leftarrow> app_nextion_set_phase_data (Some d) w;
             Some (snd (app_websocket_update_meter_data (Some d) w))
           }
         | _ \<Rightarrow> None)
      else if event_id = APP_CONTROLLER_EVENT_CHANGE_MODE then
        (case data of Some (CbMode mode) \<Rightarrow> on_change_mode cb mode w | _ \<Rightarrow> None)
      else if event_id = APP_CONTROLLER_EVENT_CHANGE_POWER then
        (case data of
           None \<Rightarrow> Some w
         | Some (CbBool is_on) \<Rightarrow> Some (snd (app_websocket_update_power_state is_on w))
         | _ \<Rightarrow> None)
      else if event_id = APP_SCHEDULE_EVENT_TRIGGER then
        (case data of
           Some (CbSchedule type) \<Rightarrow>
             map_option snd (app_controller_control_relay cb (type = SCHEDULE_TYPE_ACTIVE_START) w)
         | _ \<Rightarrow> None)
      else Some w)"

text \<open>Calls nested at most \<open>n\<close> deep; a deeper one would have no result.\<close>

primrec event_callback_n :: "nat \<Rightarrow> 'a gps_world_scheme callback" where
  "event_callback_n 0 = (\<lambda>w e. None)"
| "event_callback_n (Suc n) = event_callback_body (event_callback_n n)"

definition event_callback :: "'a gps_world_scheme callback" where
  "event_callback = event_callback_n 3"

section \<open>The nesting is bounded\<close>

lemma ev_change_power [simp]:
  "ev_id (change_power_event b) = APP_CONTROLLER_EVENT_CHANGE_POWER"
  "ev_data (change_power_event b) = Some (CbBool b)"
  by (simp_all add: change_power_event_def)

lemma ev_change_mode [simp]:
  "ev_id (change_mode_event m) = APP_CONTROLLER_EVENT_CHANGE_MODE"
  "ev_data (change_mode_event m) = Some (CbMode m)"
  by (simp_all add: change_mode_event_def)

lemma ev_trigger [simp]:
  "ev_id (trigger_event t) = APP_SCHEDULE_EVENT_TRIGGER"
  "ev_data (trigger_event t) = Some (CbSchedule t)"
  by (simp_all add: trigger_event_def)

lemma body_power:
  "event_callback_body cb w (change_power_event b) = Some (snd (app_websocket_update_power_state b w))"
  by (simp add: event_callback_body_def event_ids)

lemma body_mode: "event_callback_body cb w (change_mode_event m) = on_change_mode cb m w"
  by (simp add: event_callback_body_def event_ids)

lemma body_trigger:
  "event_callback_body cb w (trigger_event t) =
     map_option snd (app_controller_control_relay cb (t = SCHEDULE_TYPE_ACTIVE_START) w)"
  by (simp add: event_callback_body_def event_ids)

lemma control_relay_cong:
  "(\<And>w b. cb w (change_power_event b) = cb' w (change_power_event b)) \<Longrightarrow>
   app_controller_control_relay cb b w = app_controller_control_relay cb' b w"
  by (simp add: app_controller_control_relay_def Let_def split: option.split)

lemma force_manual_cong:
  "(\<And>w m. cb w (change_mode_event m) = cb' w (change_mode_event m)) \<Longrightarrow>
   app_controller_force_manual cb b w = app_controller_force_manual cb' b w"
  by (simp add: app_controller_force_manual_def Let_def split: option.split)

lemma on_change_mode_cong:
  "(\<And>w b. cb w (change_power_event b) = cb' w (change_power_event b)) \<Longrightarrow>
   on_change_mode cb m w = on_change_mode cb' m w"
  by (simp add: on_change_mode_def Let_def control_relay_cong [of cb cb'])

lemma body_cong:
  assumes "\<And>w b. cb w (change_power_event b) = cb' w (change_power_event b)"
    and "\<And>w m. cb w (change_mode_event m) = cb' w (change_mode_event m)"
  shows "event_callback_body cb = event_callback_body cb'"
proof (intro ext)
  fix w :: "'a gps_world_scheme" and e
  have r: "app_controller_control_relay cb b w = app_controller_control_relay cb' b w"
    for b and w :: "'a gps_world_scheme"
    by (rule control_relay_cong) (rule assms(1))
  have f: "app_controller_force_manual cb b w = app_controller_force_manual cb' b w"
    for b and w :: "'a gps_world_scheme"
    by (rule force_manual_cong) (rule assms(2))
  have m: "on_change_mode cb m w = on_change_mode cb' m w" for m and w :: "'a gps_world_scheme"
    by (rule on_change_mode_cong) (rule assms(1))
  show "event_callback_body cb w e = event_callback_body cb' w e"
    by (simp only: event_callback_body_def on_websocket_control_def r f m)
qed

lemma event_callback_unfold: "event_callback = event_callback_body event_callback"
proof -
  have p: "event_callback_n (Suc n) w (change_power_event b) = Some (snd (app_websocket_update_power_state b w))"
    for n b and w :: "'a gps_world_scheme"
    by (simp add: body_power)
  have m: "event_callback_n (Suc (Suc n)) w (change_mode_event m) = event_callback_n 2 w (change_mode_event m)"
    for n m and w :: "'a gps_world_scheme"
    unfolding event_callback_n.simps(2) [of "Suc n"] numeral_2_eq_2 event_callback_n.simps(2) [of "Suc 0"] body_mode
    by (rule on_change_mode_cong) (simp only: p)
  have "event_callback_body (event_callback_n 3) = event_callback_body (event_callback_n 2 :: 'a gps_world_scheme callback)"
  proof (rule body_cong)
    fix w :: "'a gps_world_scheme" and b
    show "event_callback_n 3 w (change_power_event b) = event_callback_n 2 w (change_power_event b)"
      using p [of 2] p [of 1] by (simp add: numeral_3_eq_3 numeral_2_eq_2)
  next
    fix w :: "'a gps_world_scheme" and mo
    show "event_callback_n 3 w (change_mode_event mo) = event_callback_n 2 w (change_mode_event mo)"
      using m [of 1 w mo] by (simp add: numeral_3_eq_3)
  qed
  then show ?thesis by (simp add: event_callback_def numeral_3_eq_3 numeral_2_eq_2)
qed


section \<open>The contracts of the components hold for the event function\<close>

lemma update_power_state_frame [simp]:
  "controller_handle (snd (app_websocket_update_power_state b w)) = controller_handle w"
  "gpio_out (snd (app_websocket_update_power_state b w)) = gpio_out w"
  "restarted (snd (app_websocket_update_power_state b w)) = restarted w"
  "nextion_handle (snd (app_websocket_update_power_state b w)) = nextion_handle w"
  "schedule_handle (snd (app_websocket_update_power_state b w)) = schedule_handle w"
  by (simp_all add: websocket_defs Let_def split: option.split)

lemma callback_power:
  "event_callback w (change_power_event b) = Some (snd (app_websocket_update_power_state b w))"
  by (subst event_callback_unfold) (rule body_power)

lemma callback_mode: "event_callback w (change_mode_event m) = on_change_mode event_callback m w"
  by (subst event_callback_unfold) (rule body_mode)

lemma callback_trigger:
  "event_callback w (trigger_event t) =
     map_option snd (app_controller_control_relay event_callback (t = SCHEDULE_TYPE_ACTIVE_START) w)"
  by (subst event_callback_unfold) (rule body_trigger)

interpretation ctl: power_listener event_callback
  by unfold_locales (auto simp: callback_power)

lemma control_relay_restart:
  "app_controller_control_relay event_callback b w = Some (e, w') \<Longrightarrow> restarted w' = restarted w"
  by (auto simp: app_controller_control_relay_def callback_power gpio_set_level_def Let_def
      split: option.splits if_splits)

interpretation sch: trigger_listener event_callback
proof unfold_locales
  fix w :: "'a gps_world_scheme" and type
  show "\<exists>w'. event_callback w (trigger_event type) = Some w'"
    using ctl.control_relay_total [of "type = SCHEDULE_TYPE_ACTIVE_START" w] by (auto simp: callback_trigger)
next
  fix w w' :: "'a gps_world_scheme" and type
  assume a: "event_callback w (trigger_event type) = Some w'"
    and c: "controller_handle w \<noteq> None" and f: "relays_follow w"
  from c obtain c where c: "controller_handle w = Some c" by auto
  with f have "relay_state c \<in> {0, 1}" by (simp add: relays_follow_def)
  from ctl.control_relay_spec [OF c this f, of "type = SCHEDULE_TYPE_ACTIVE_START"] a
  show "lamp_on w' \<longleftrightarrow> type = SCHEDULE_TYPE_ACTIVE_START"
    by (auto simp: callback_trigger lamp_on_def)
next
  fix w w' :: "'a gps_world_scheme" and type
  assume "event_callback w (trigger_event type) = Some w'"
  then show "restarted w' = restarted w"
    by (auto simp: callback_trigger control_relay_restart)
qed

section \<open>The start-up sequence\<close>

text \<open>
  \<^verbatim>\<open>app_main\<close> starts the components one after the other while the tasks already created run.
  \<open>firmware\<close> is the state of the whole program: the handles and statics, how far
  \<^verbatim>\<open>app_main\<close> has come, the tasks created and the local variables of their loops. The
  argument \<open>boot_env\<close> holds what the code does not determine: the content of allocated
  blocks, the address in the fuses and which tasks the operating system can create.
\<close>

datatype task =
    PppTask | WebsocketTask | RxProcessTask | OtaTask | NextionReadTask | NextionWriteTask
  | ScheduleTask | GpsTask | GpsProcessTask | GpioTask

record boot_env =
  be_mac :: "byte list"
  be_task :: "task \<Rightarrow> bool"
  be_storage :: app_storage_data_t
  be_network :: app_network_t
  be_ppp :: app_ppp_t
  be_websocket :: app_websocket_t
  be_ota :: app_ota_t
  be_nextion :: app_nextion_t
  be_schedule :: app_schedule_t
  be_gps :: app_gps_t
  be_controller :: app_controller_t

record firmware = gps_world +
  main_pc :: nat
  tasks :: "task set"
  gpio_vars :: gpio_locals
  read_buf :: string
  write_vars :: "write_locals option"
  schedule_ready :: "bool option"

definition xTaskCreate :: "boot_env \<Rightarrow> task \<Rightarrow> firmware \<Rightarrow> firmware" where
  "xTaskCreate env t w = (if be_task env t then w\<lparr>tasks := insert t (tasks w)\<rparr> else w)"

text \<open>The device name: the upper three bytes of the address, as \<^verbatim>\<open>%06llX\<close> prints them.\<close>

definition hex_char :: "nat \<Rightarrow> char" where
  "hex_char d = (if d < 10 then char_of (48 + d) else char_of (55 + d))"

fun hex :: "nat \<Rightarrow> string" where
  "hex n = (if n < 16 then [hex_char n] else hex (n div 16) @ [hex_char (n mod 16)])"

declare hex.simps [simp del]

definition fmt_0X :: "nat \<Rightarrow> nat \<Rightarrow> string" where
  "fmt_0X k n = replicate (k - length (hex n)) CHR ''0'' @ hex n"

definition esp_efuse_mac_get_default :: "byte list \<Rightarrow> 64 word" where
  "esp_efuse_mac_get_default mac = foldr (\<lambda>b x. push_bit 8 x OR ucast b) mac 0"

definition hardware_id :: "byte list \<Rightarrow> string" where
  "hardware_id mac = ''GW-'' @ fmt_0X 6 (unat (drop_bit 24 (esp_efuse_mac_get_default mac)))"

definition init_active_time :: "app_storage_data_t \<Rightarrow> active_time_t" where
  "init_active_time d = \<lparr>at_start_hour = start_hour d, at_start_minute = start_minute d,
     at_end_hour = end_hour d, at_end_minute = end_minute d\<rparr>"

text \<open>\<open>storage_data\<close> is a pointer into the storage handle: each part reads what it holds by then.\<close>

definition main_storage :: "boot_env \<Rightarrow> firmware \<Rightarrow> firmware option" where
  "main_storage env w = do {
     let (h, w) = app_storage_init (be_storage env) w;
     let w = w\<lparr>storage_handle := h\<rparr>;
     let w = snd (app_storage_load_data w);
     _ \<leftarrow> app_storage_get_data w;
     Some w
   }"

definition main_network :: "boot_env \<Rightarrow> firmware \<Rightarrow> firmware option" where
  "main_network env w = do {
     let w = w\<lparr>network_handle := Some (app_network_init (be_network env) False)\<rparr>;
     (_, w) \<leftarrow> app_network_start (\<lambda>_. ESP_OK) [] (be_ppp env) (be_task env PppTask) w;
     Some (xTaskCreate env PppTask w)
   }"

definition main_websocket :: "boot_env \<Rightarrow> firmware \<Rightarrow> firmware option" where
  "main_websocket env w = do {
     d \<leftarrow> app_storage_get_data w;
     let config = \<lparr>wc_callback = True, wc_websocket_url = ''wss://api.lighting.sdkd.com.vn/websocket'',
                   wc_init_active_time = init_active_time d, wc_hardware_id = hardware_id (be_mac env)\<rparr>;
     let w = w\<lparr>websocket_handle := Some (app_websocket_init (be_websocket env) config)\<rparr>;
     Some (if be_task env WebsocketTask then xTaskCreate env RxProcessTask (xTaskCreate env WebsocketTask w)
           else w)
   }"

definition main_ota :: "boot_env \<Rightarrow> firmware \<Rightarrow> firmware option" where
  "main_ota env w = do {
     let config = \<lparr>oc_host = Some ''https://api.lighting.sdkd.com.vn'', oc_version = Some FIRMWARE_VERSION,
                   oc_model = None, oc_update_interval_in_seconds = 3000,
                   oc_hardware_id = Some (hardware_id (be_mac env))\<rparr>;
     let w = w\<lparr>ota_handle := app_ota_init (be_ota env) (be_task env OtaTask) config\<rparr>;
     Some (xTaskCreate env OtaTask w)
   }"

definition main_nextion :: "boot_env \<Rightarrow> firmware \<Rightarrow> firmware option" where
  "main_nextion env w = do {
     d \<leftarrow> app_storage_get_data w;
     let config = \<lparr>nc_tx_pin = 4, nc_rx_pin = 5, nc_baudrate = 115200, nc_port_num = 2,
                   nc_callback = True, nc_init_active_time = init_active_time d,
                   nc_hardware_id = hardware_id (be_mac env)\<rparr>;
     let w = w\<lparr>nextion_handle := Some (app_nextion_init (be_nextion env) config)\<rparr>;
     let w = xTaskCreate env NextionWriteTask (xTaskCreate env NextionReadTask w);
     Some (snd (app_nextion_start w))
   }"

definition main_schedule :: "boot_env \<Rightarrow> firmware \<Rightarrow> firmware option" where
  "main_schedule env w = do {
     let config = \<lparr>sc_callback = True, sc_sda_pin = 21, sc_scl_pin = 22, sc_risk_offset = 5\<rparr>;
     let w = w\<lparr>schedule_handle := Some (app_schedule_init (be_schedule env) config)\<rparr>;
     Some (xTaskCreate env ScheduleTask w)
   }"

definition main_alarm_start :: "boot_env \<Rightarrow> firmware \<Rightarrow> firmware option" where
  "main_alarm_start env w = do {
     d \<leftarrow> app_storage_get_data w;
     if enable_start d
     then map_option snd (app_schedule_add_alarm (start_hour d) (start_minute d) SCHEDULE_TYPE_ACTIVE_START w)
     else Some w
   }"

definition main_alarm_end :: "boot_env \<Rightarrow> firmware \<Rightarrow> firmware option" where
  "main_alarm_end env w = do {
     d \<leftarrow> app_storage_get_data w;
     if enable_end d
     then map_option snd (app_schedule_add_alarm (end_hour d) (end_minute d) SCHEDULE_TYPE_ACTIVE_END w)
     else Some w
   }"

definition main_gps :: "boot_env \<Rightarrow> firmware \<Rightarrow> firmware option" where
  "main_gps env w = do {
     let config = \<lparr>gc_uartPort = 0, gc_tx_pin = 17, gc_rx_pin = 16, gc_callback = True\<rparr>;
     let w = w\<lparr>gps_handle := Some (app_gps_init (be_gps env) config)\<rparr>;
     Some (if be_task env GpsTask then xTaskCreate env GpsProcessTask (xTaskCreate env GpsTask w) else w)
   }"

definition main_controller :: "boot_env \<Rightarrow> firmware \<Rightarrow> firmware option" where
  "main_controller env w = do {
     let config = \<lparr>cc_relay_1_pin = 25, cc_relay_2_pin = 26, cc_switcher_auto_pin = 19,
                   cc_switcher_manual_pin = 18, cc_callback = True, cc_status_pin = 27\<rparr>;
     let (h, w) = app_controller_init (be_controller env) config w;
     Some (xTaskCreate env GpioTask (w\<lparr>controller_handle := Some h\<rparr>))
   }"

definition main_parts :: "(boot_env \<Rightarrow> firmware \<Rightarrow> firmware option) list" where
  "main_parts = [main_storage, main_network, main_websocket, main_ota, main_nextion, main_schedule,
     main_alarm_start, main_alarm_end, main_gps, main_controller]"

text \<open>The next part of \<^verbatim>\<open>app_main\<close>; after the last one it only sleeps.\<close>

definition app_main_step :: "boot_env \<Rightarrow> firmware \<Rightarrow> firmware option" where
  "app_main_step env w =
     (if main_pc w < length main_parts
      then map_option (\<lambda>w. w\<lparr>main_pc := Suc (main_pc w)\<rparr>) ((main_parts ! main_pc w) env w)
      else Some (vTaskDelay_ms 5000 w))"

section \<open>The device name\<close>

definition hex_byte :: "byte \<Rightarrow> string" where
  "hex_byte b = [hex_char (unat b div 16), hex_char (unat b mod 16)]"

lemma char_of_zero: "char_of (48 :: nat) = CHR ''0''"
  by code_simp

lemma fmt_0X_Suc: "0 < k \<Longrightarrow> fmt_0X (Suc k) n = fmt_0X k (n div 16) @ [hex_char (n mod 16)]"
proof (cases "n < 16")
  case True
  assume "0 < k"
  then obtain j where "k = Suc j" by (cases k) auto
  then show ?thesis
    using True by (simp add: fmt_0X_def hex.simps [of n] hex.simps [of 0] hex_char_def char_of_zero replicate_append_same)
next
  case False
  then show ?thesis by (simp add: fmt_0X_def hex.simps [of n])
qed

lemma fmt_0X_1: "n < 16 \<Longrightarrow> fmt_0X (Suc 0) n = [hex_char n]"
  by (simp add: fmt_0X_def hex.simps [of n])

lemma byte_lt: "unat (b :: byte) < 256"
  using unsigned_less [of b, where ?'a = nat] by simp

lemma byte_digits:
  fixes m x :: nat
  assumes "x < 256"
  shows "(m * 256 + x) div 16 = m * 16 + x div 16" "(m * 256 + x) mod 16 = x mod 16"
    "(m * 16 + x div 16) div 16 = m" "(m * 16 + x div 16) mod 16 = x div 16"
proof -
  have m: "m * 256 = (m * 16) * 16" by simp
  have x: "x div 16 < 16" using assms by (simp add: less_mult_imp_div_less)
  show "(m * 256 + x) div 16 = m * 16 + x div 16" unfolding m by simp
  show "(m * 256 + x) mod 16 = x mod 16" unfolding m by (rule mod_mult_self3)
  show "(m * 16 + x div 16) div 16 = m" "(m * 16 + x div 16) mod 16 = x div 16" using x by simp_all
qed

lemma fmt_0X_byte: "0 < k \<Longrightarrow> fmt_0X (Suc (Suc k)) (m * 256 + unat b) = fmt_0X k m @ hex_byte b"
  using byte_digits [OF byte_lt, of m b] by (simp add: fmt_0X_Suc hex_byte_def)

lemma fmt_0X_last: "fmt_0X (Suc (Suc 0)) (unat b) = hex_byte b"
  using byte_lt [of b] by (simp add: fmt_0X_Suc fmt_0X_1 hex_byte_def)

lemma unat_shift_byte:
  assumes "unat x < 2 ^ 56"
  shows "unat (push_bit 8 x OR (ucast (b :: byte)) :: 64 word) = unat x * 256 + unat b"
proof -
  have lt: "unat x * 256 + unat b < 2 ^ 64" using assms byte_lt [of b] by simp
  have "push_bit 8 x AND (ucast b :: 64 word) = 0"
    by (rule bit_word_eqI) (auto simp: bit_simps dest: bit_imp_le_length)
  then have "push_bit 8 x OR (ucast b :: 64 word) = push_bit 8 x + ucast b" by (rule disjunctive_add_eq_or [symmetric])
  also have "\<dots> = of_nat (unat x * 256) + of_nat (unat b)" by (simp add: push_bit_eq_mult)
  finally have eq: "push_bit 8 x OR (ucast b :: 64 word) = of_nat (unat x * 256 + unat b)" by (simp only: of_nat_add)
  have "unat (of_nat n :: 64 word) = n" if "n < 2 ^ 64" for n
    using that by (simp add: unsigned_of_nat take_bit_nat_eq_self)
  from this [OF lt] show ?thesis unfolding eq .
qed

lemma unat_mac: "length bs \<le> 8 \<Longrightarrow>
    unat (esp_efuse_mac_get_default bs) = foldr (\<lambda>b n. n * 256 + unat b) bs 0 \<and>
    unat (esp_efuse_mac_get_default bs) < 256 ^ length bs"
proof (induction bs)
  case Nil
  then show ?case by (simp add: esp_efuse_mac_get_default_def)
next
  case (Cons b bs)
  let ?x = "esp_efuse_mac_get_default bs"
  have IH: "unat ?x = foldr (\<lambda>b n. n * 256 + unat b) bs 0" "unat ?x < 256 ^ length bs" using Cons by simp_all
  have "(256 :: nat) ^ length bs \<le> 256 ^ 7" by (rule power_increasing) (use Cons.prems in simp_all)
  then have "unat ?x < 2 ^ 56" using IH(2) by simp
  then have "unat (esp_efuse_mac_get_default (b # bs)) = unat ?x * 256 + unat b"
    by (simp add: esp_efuse_mac_get_default_def unat_shift_byte)
  then show ?case using IH byte_lt [of b] by simp
qed

lemma hardware_id_bytes:
  "hardware_id [b0, b1, b2, b3, b4, b5] = ''GW-'' @ hex_byte b5 @ hex_byte b4 @ hex_byte b3"
proof -
  let ?n = "(unat b5 * 256 + unat b4) * 256 + unat b3"
  have "unat (drop_bit 24 (esp_efuse_mac_get_default [b0, b1, b2, b3, b4, b5])) =
      unat (esp_efuse_mac_get_default [b0, b1, b2, b3, b4, b5]) div 2 ^ 24"
    by (simp only: unat_drop_bit_eq drop_bit_nat_def)
  also have "\<dots> = ?n"
    using unat_mac [of "[b0, b1, b2, b3, b4, b5]"] byte_lt [of b0] byte_lt [of b1] byte_lt [of b2] by simp
  finally have n: "unat (drop_bit 24 (esp_efuse_mac_get_default [b0, b1, b2, b3, b4, b5])) = ?n" .
  have "fmt_0X 6 ?n = fmt_0X (Suc (Suc 4)) ?n" by simp
  also have "\<dots> = fmt_0X (Suc (Suc 2)) (unat b5 * 256 + unat b4) @ hex_byte b3" by (subst fmt_0X_byte) simp_all
  also have "\<dots> = (fmt_0X (Suc (Suc 0)) (unat b5) @ hex_byte b4) @ hex_byte b3" by (subst fmt_0X_byte) (simp_all add: numeral_2_eq_2)
  also have "\<dots> = hex_byte b5 @ hex_byte b4 @ hex_byte b3" by (simp add: fmt_0X_last)
  finally show ?thesis by (simp add: hardware_id_def n)
qed

text \<open>The name of the device is the letters GW, a dash and six upper-case hexadecimal digits: the
  last three bytes of its address, the last one first. So devices of one series, whose addresses share the
  first three bytes, have different names.\<close>

theorem hardware_id_from_mac:
  "hardware_id [b0, b1, b2, b3, b4, b5] = ''GW-'' @ hex_byte b5 @ hex_byte b4 @ hex_byte b3"
  by (rule hardware_id_bytes)

end
