(* ===== verification/Device_View.thy ===== *)
theory Device_View
  imports App_Main
begin

text \<open>
  What the event function does to the device, seen from outside the components. The abstraction
  \<open>view\<close> keeps of the state the lamp (relay state and the two output pins), the modes the
  three components show, what the cloud connection would report, and which handles exist. The
  specification \<open>spec_event\<close> says in a few lines what each event means; \<open>event_callback_refines\<close>
  is the refinement: the event function of \<^verbatim>\<open>app_main.c\<close>, with everything it calls, does
  exactly that.
\<close>

section \<open>The abstraction\<close>

record 'm view =
  v_more :: 'm
  v_restarted :: bool
  v_storage :: bool
  v_network :: "(bool \<times> bool) option"
  v_ctl :: "app_controller_t option"
  v_relays :: "int \<times> int"
  v_ws :: "(bool \<times> bool \<times> int) option"
  v_nx :: "(bool \<times> app_controller_mode_t) option"
  v_sch :: "(bool \<times> operator_mode_t \<times> nat) option"
  v_ota :: bool
  v_gps :: "bool option"

definition net_view :: "app_network_t \<Rightarrow> bool \<times> bool" where
  "net_view n = (is_using_wifi n, ppp_handle n \<noteq> None)"

definition ws_view :: "app_websocket_t \<Rightarrow> bool \<times> bool \<times> int" where
  "ws_view h = (ws_callback h, power_state h, ws_mode h)"

definition nx_view :: "app_nextion_t \<Rightarrow> bool \<times> app_controller_mode_t" where
  "nx_view h = (nx_callback h, nx_mode h)"

definition sch_view :: "app_schedule_t \<Rightarrow> bool \<times> operator_mode_t \<times> nat" where
  "sch_view h = (sch_callback h, sch_mode h, length (job_list h))"

definition view :: "'a gps_world_scheme \<Rightarrow> 'a view" where
  "view w = \<lparr>v_more = gps_world.more w, v_restarted = restarted w, v_storage = (storage_handle w \<noteq> None),
     v_network = map_option net_view (network_handle w), v_ctl = controller_handle w, v_relays = (gpio_out w 25, gpio_out w 26),
     v_ws = map_option ws_view (websocket_handle w), v_nx = map_option nx_view (nextion_handle w),
     v_sch = map_option sch_view (schedule_handle w), v_ota = (ota_handle w \<noteq> None),
     v_gps = map_option gps_callback (gps_handle w)\<rparr>"

lemmas view_defs = view_def net_view_def ws_view_def nx_view_def sch_view_def

named_theorems view_frame

section \<open>Operations the abstraction does not see\<close>

lemma view_platform [view_frame]:
  "view (uart_write_bytes p s w) = view w"
  "view (settimeofday t w) = view w"
  "view (vTaskDelay_ms ms w) = view w"
  "p \<noteq> 25 \<Longrightarrow> p \<noteq> 26 \<Longrightarrow> view (gpio_set_level p l w) = view w"
  "view (gpio_set_output p b w) = view w"
  "view (w\<lparr>rtc_chip := c, i2c_count := n\<rparr>) = view w"
  "view (w\<lparr>sys_time := t\<rparr>) = view w"
  "view (w\<lparr>nvs_count := k\<rparr>) = view w"
  "view (w\<lparr>nvs := f\<rparr>) = view w"
  "view (set_stored d w) = (view w)\<lparr>v_storage := True\<rparr>"
  by (simp_all add: view_def uart_write_bytes_def settimeofday_def vTaskDelay_ms_def gpio_set_level_def
      gpio_set_output_def set_stored_def)

lemma view_send_command [view_frame]: "view (send_command port s w) = view w"
  by (simp add: send_command_def Let_def view_frame)

lemma view_nvs_next [view_frame]: "view (snd (nvs_next w)) = view w"
  by (simp add: nvs_next_def view_frame)

lemma view_storage [view_frame]:
  "view (snd (app_storage_set_data d w)) = view w"
  "view (snd (app_storage_save_data w)) = view w"
  "view (snd (app_storage_load_data w)) = view w"
  by (auto simp: storage_defs nvs_defs view_def split: option.splits prod.splits if_splits)

lemma view_ds3231_set [view_frame]: "view (snd (ds3231_set_time d t w)) = view w"
  by (subst ds3231_set_time_more) (rule view_frame)

lemma view_nextion [view_frame]:
  "view (app_nextion_set_page p w) = view w"
  "view (snd (app_nextion_set_conection_state b w)) = view w"
  "view (snd (app_nextion_set_power_state b w)) = view w"
  "view (snd (app_nextion_set_active_time t w)) = view w"
  "view (snd (app_nextion_set_loading n c w)) = view w"
  by (auto simp: nextion_defs send_command_def uart_write_bytes_def view_defs Let_def
      split: option.splits)

lemma view_console [view_frame]:
  "app_nextion_set_console s w = Some w' \<Longrightarrow> view w' = view w"
  "app_nextion_set_button b w = Some w' \<Longrightarrow> view w' = view w"
  "app_nextion_set_phase_data d w = Some (e, w') \<Longrightarrow> view w' = view w"
  by (auto simp: nextion_defs send_command_def uart_write_bytes_def view_defs Let_def
      split: option.splits bind_splits)

lemma view_schedule_ops [view_frame]:
  "view (snd (app_schedule_sync_time w)) = view w"
  "app_schedule_add_alarm h m t w = Some (e, w') \<Longrightarrow> view w' = view w"
  by (auto simp: app_schedule_sync_time_def app_schedule_add_alarm_def set_schedule_def view_defs Let_def
      split: option.splits if_splits)

lemma set_schedule_view:
  "schedule_handle w = Some h \<Longrightarrow> sch_view h' = sch_view h \<Longrightarrow> view (set_schedule h' w) = view w"
  by (simp add: set_schedule_def view_def)

lemma view_schedule_set [view_frame]:
  "view (snd (app_schedule_set_time f w)) = view w"
  "view (snd (app_gps_set_time f w)) = view w"
proof -
  have set_time: "ds3231_set_time d t w = (e, w') \<Longrightarrow> view w' = view w \<and> schedule_handle w' = schedule_handle w"
    for d t e and w' :: "'a gps_world_scheme"
    using view_ds3231_set [of d t w] schedule_handle_ds3231 [of d t w] by simp
  show "view (snd (app_schedule_set_time f w)) = view w"
    by (auto simp: app_schedule_set_time_def Let_def view_frame sch_view_def settimeofday_def
        dest!: set_time split: option.split prod.split intro!: trans [OF set_schedule_view])
  show "view (snd (app_gps_set_time f w)) = view w"
    by (auto simp: app_gps_set_time_def Let_def view_frame sch_view_def settimeofday_def
        dest!: set_time split: option.split prod.split intro!: trans [OF set_schedule_view])
qed

lemma view_websocket [view_frame]:
  "view (tx_enqueue m w) = view w"
  "view (rx_enqueue m w) = view w"
  "view (snd (app_websocket_update_active_time t w)) = view w"
  "view (snd (app_websocket_update_meter_data d w)) = view w"
  "view (update_power_state b w) = view w"
  "view (update_mode n w) = view w"
  "view (update_active_time t w) = view w"
  by (auto simp: websocket_defs rx_enqueue_def view_defs Let_def split: option.splits)

lemma view_force_ota [view_frame]: "view (snd (app_ota_force_update w)) = view w"
  by (auto simp: app_ota_force_update_def view_def split: option.splits)

section \<open>The specification of the events\<close>

text \<open>Switching the lamp: the relays follow, and the cloud connection records the change.\<close>

definition spec_power :: "bool \<Rightarrow> 'm view \<Rightarrow> 'm view" where
  "spec_power b v = v\<lparr>v_ws := map_option (\<lambda>(c, p, m). (c, b, m)) (v_ws v)\<rparr>"

definition spec_relay :: "bool \<Rightarrow> 'm view \<Rightarrow> 'm view" where
  "spec_relay b v =
     (case v_ctl v of
        None \<Rightarrow> v
      | Some c \<Rightarrow>
          if relay_state c = of_bool b then v
          else spec_power b (v\<lparr>v_ctl := Some (c\<lparr>relay_state := of_bool b\<rparr>), v_relays := (of_bool b, of_bool b)\<rparr>))"

text \<open>Changing the mode: screen, schedule and cloud connection take it over; mode OFF switches the lamp off.\<close>

definition spec_mode :: "app_controller_mode_t \<Rightarrow> 'm view \<Rightarrow> 'm view" where
  "spec_mode m v =
     (let v = v\<lparr>v_nx := map_option (\<lambda>(c, _). (c, m)) (v_nx v),
                v_sch := map_option (\<lambda>(c, _, n). (c, operator_of_mode m, n)) (v_sch v)\<rparr>;
          v = (if m = APP_CONTROLLER_INPUT_MODE_OFF then spec_relay False v else v)
      in v\<lparr>v_ws := map_option (\<lambda>(c, p, _). (c, p, mode_number m)) (v_ws v)\<rparr>)"

definition spec_remote :: "bool \<Rightarrow> 'm view \<Rightarrow> 'm view" where
  "spec_remote b v =
     (case v_ctl v of
        None \<Rightarrow> v
      | Some c \<Rightarrow> if ctl_mode c = APP_CONTROLLER_INPUT_MODE_OFF then v
                 else spec_relay b (spec_mode APP_CONTROLLER_INPUT_MODE_MANUAL v))"

definition spec_event :: "cb_event \<Rightarrow> 'm view \<Rightarrow> 'm view" where
  "spec_event e v =
     (case (ev_id e, ev_data e) of
        (i, d) \<Rightarrow>
          if i = WEBSOCKET_ON_CONTROL then (case d of Some (CbBool b) \<Rightarrow> spec_remote b v | _ \<Rightarrow> v)
          else if i = WEBSOCKET_ON_FREE then (case v_ctl v of None \<Rightarrow> v | Some c \<Rightarrow> spec_mode (ctl_mode c) v)
          else if i = APP_NEXTION_EVENT_MANUAL_ON then spec_relay True v
          else if i = APP_NEXTION_EVENT_MANUAL_OFF then spec_relay False v
          else if i = APP_CONTROLLER_EVENT_CHANGE_MODE then (case d of Some (CbMode m) \<Rightarrow> spec_mode m v | _ \<Rightarrow> v)
          else if i = APP_CONTROLLER_EVENT_CHANGE_POWER then (case d of Some (CbBool b) \<Rightarrow> spec_power b v | _ \<Rightarrow> v)
          else if i = APP_SCHEDULE_EVENT_TRIGGER then
            (case d of Some (CbSchedule t) \<Rightarrow> spec_relay (t = SCHEDULE_TYPE_ACTIVE_START) v | _ \<Rightarrow> v)
          else v)"

text \<open>What the refinement needs of the controller: its pins and callback, and a recorded state of 0 or 1.\<close>

definition ctl_ok :: "app_controller_t option \<Rightarrow> bool" where
  "ctl_ok co \<longleftrightarrow> (case co of None \<Rightarrow> True
     | Some c \<Rightarrow> ctl_callback c \<and> relay_1_pin c = 25 \<and> relay_2_pin c = 26 \<and> relay_state c \<in> {0, 1})"

lemma ctl_ok_spec [simp]:
  "ctl_ok (v_ctl (spec_power b v)) = ctl_ok (v_ctl v)"
  "ctl_ok (v_ctl v) \<Longrightarrow> ctl_ok (v_ctl (spec_relay b v))"
  "ctl_ok (v_ctl v) \<Longrightarrow> ctl_ok (v_ctl (spec_mode m v))"
  by (auto simp: ctl_ok_def spec_power_def spec_relay_def spec_mode_def Let_def split: option.splits)

section \<open>The event function refines it\<close>

lemma view_power: "view (snd (app_websocket_update_power_state b w)) = spec_power b (view w)"
  by (auto simp: websocket_defs view_defs spec_power_def Let_def split: option.splits)

lemma view_mode: "view (snd (app_websocket_update_mode m w)) =
    (view w)\<lparr>v_ws := map_option (\<lambda>(c, p, _). (c, p, m)) (v_ws (view w))\<rparr>"
  by (auto simp: websocket_defs view_defs Let_def split: option.splits)

lemma view_relay:
  assumes "ctl_ok (controller_handle w)"
    and "app_controller_control_relay event_callback b w = Some (e, w')"
  shows "view w' = spec_relay b (view w)"
proof (cases "controller_handle w")
  case None
  then show ?thesis using assms(2) by (simp add: app_controller_control_relay_def spec_relay_def view_def)
next
  case (Some c)
  let ?w = "gpio_set_level 26 (of_bool b) (gpio_set_level 25 (of_bool b)
      (w\<lparr>controller_handle := Some (c\<lparr>relay_state := of_bool b\<rparr>)\<rparr>))"
  have "view ?w = (view w)\<lparr>v_ctl := Some (c\<lparr>relay_state := of_bool b\<rparr>), v_relays := (of_bool b, of_bool b)\<rparr>"
    by (simp add: view_def gpio_set_level_def)
  moreover have "w' = (if relay_state c = of_bool b then w else snd (app_websocket_update_power_state b ?w))"
    using assms Some
    by (auto simp: app_controller_control_relay_def callback_power ctl_ok_def Let_def split: if_splits)
  moreover have "v_ctl (view w) = Some c" using Some by (simp add: view_def)
  ultimately show ?thesis by (simp add: spec_relay_def view_power)
qed

lemma view_set_modes:
  "view (snd (app_schedule_set_mode om (snd (app_nextion_set_mode m w)))) =
     (view w)\<lparr>v_nx := map_option (\<lambda>(c, _). (c, m)) (v_nx (view w)),
       v_sch := map_option (\<lambda>(c, _, n). (c, om, n)) (v_sch (view w))\<rparr>"
  by (cases m) (auto simp: nextion_defs app_schedule_set_mode_def set_schedule_def send_command_def
      uart_write_bytes_def view_defs Let_def split: option.splits)

lemma view_on_change_mode:
  assumes "ctl_ok (controller_handle w)" "on_change_mode event_callback m w = Some w'"
  shows "view w' = spec_mode m (view w)"
proof -
  let ?w = "snd (app_schedule_set_mode (operator_of_mode m) (snd (app_nextion_set_mode m w)))"
  let ?v = "(view w)\<lparr>v_nx := map_option (\<lambda>(c, _). (c, m)) (v_nx (view w)),
      v_sch := map_option (\<lambda>(c, _, n). (c, operator_of_mode m, n)) (v_sch (view w))\<rparr>"
  have v: "view ?w = ?v" by (rule view_set_modes)
  then have "v_ctl (view ?w) = controller_handle w" by (simp add: view_def)
  then have c: "ctl_ok (controller_handle ?w)" using assms(1) by (simp add: view_def)
  obtain w1 where "w' = snd (app_websocket_update_mode (mode_number m) w1)"
    and w1: "if m = APP_CONTROLLER_INPUT_MODE_OFF
             then \<exists>e. app_controller_control_relay event_callback False ?w = Some (e, w1) else w1 = ?w"
    using assms(2) by (auto simp: on_change_mode_def Let_def split: if_splits bind_splits)
  moreover have "view w1 = (if m = APP_CONTROLLER_INPUT_MODE_OFF then spec_relay False ?v else ?v)"
    using w1 view_relay [OF c] v by (auto split: if_splits)
  ultimately show ?thesis by (simp add: view_mode spec_mode_def Let_def)
qed

lemma ctl_ok_view: "ctl_ok (controller_handle w) = ctl_ok (v_ctl (view w))"
  by (simp add: view_def)

lemma view_force_manual:
  assumes "ctl_ok (controller_handle w)" "app_controller_force_manual event_callback r w = Some (e, w')"
  shows "view w' = (case controller_handle w of None \<Rightarrow> view w
     | Some c \<Rightarrow> spec_mode (if r then ctl_mode c else APP_CONTROLLER_INPUT_MODE_MANUAL) (view w))"
  using assms(2) view_on_change_mode [OF assms(1)] assms(1)
  by (auto simp: app_controller_force_manual_def callback_mode Let_def ctl_ok_def split: option.splits bind_splits if_splits)

lemma view_remote:
  assumes "ctl_ok (controller_handle w)" "on_websocket_control event_callback b w = Some w'"
  shows "view w' = spec_remote b (view w)"
proof (cases "app_controller_get_mode w = APP_CONTROLLER_INPUT_MODE_OFF")
  case True
  then show ?thesis using assms(2)
    by (auto simp: on_websocket_control_def spec_remote_def app_controller_get_mode_def view_def split: option.splits)
next
  case False
  then obtain c where c: "controller_handle w = Some c" "ctl_mode c \<noteq> APP_CONTROLLER_INPUT_MODE_OFF"
    by (auto simp: app_controller_get_mode_def split: option.splits)
  obtain e1 w1 e2 w2 w3 where w1: "app_controller_force_manual event_callback False w = Some (e1, w1)"
    and w2: "app_controller_control_relay event_callback b w1 = Some (e2, w2)"
    and w3: "app_nextion_set_button b w2 = Some w3"
    and w4: "app_nextion_set_console (if b then txt_remote_on else txt_remote_off) w3 = Some w'"
    using assms(2) False by (auto simp: on_websocket_control_def split: bind_splits)
  have "view w1 = spec_mode APP_CONTROLLER_INPUT_MODE_MANUAL (view w)"
    using view_force_manual [OF assms(1) w1] c by simp
  moreover from this have "ctl_ok (controller_handle w1)"
    using assms(1) by (simp add: ctl_ok_view)
  moreover have "view w' = view w2" using view_console(1) [OF w4] view_console(2) [OF w3] by simp
  moreover have "v_ctl (view w) = Some c" using c by (simp add: view_def)
  ultimately show ?thesis using view_relay [of w1 b e2 w2] w2 c by (simp add: spec_remote_def)
qed

lemma view_store_active_time: "store_active_time t w = Some w' \<Longrightarrow> view w' = view w"
  by (auto simp: store_active_time_def Let_def view_frame dest!: view_schedule_ops(2) split: bind_splits)

lemma view_on_setting: "on_setting_active_time t w = Some w' \<Longrightarrow> view w' = view w"
  by (auto simp: on_setting_active_time_def Let_def view_frame dest!: view_store_active_time split: bind_splits)

lemma view_on_set_schedule: "on_set_schedule t w = Some w' \<Longrightarrow> view w' = view w"
  by (auto simp: on_set_schedule_def Let_def view_frame dest!: view_store_active_time view_console(1)
      split: bind_splits)

lemma body_of_callback: "event_callback w e = Some w' \<Longrightarrow> event_callback_body event_callback w e = Some w'"
  using event_callback_unfold by metis

lemma ctl_of_view: "v_ctl (view w) = controller_handle w"
  by (simp add: view_def)

lemmas event_simps = event_callback_body_def spec_event_def event_ids view_frame ctl_of_view view_power Let_def

abbreviation cloud_events :: "int set" where
  "cloud_events \<equiv> {WEBSOCKET_ON_CONNECTED, WEBSOCKET_ON_DISCONNECTED, WEBSOCKET_ON_ONLINE, WEBSOCKET_ON_FORCE_OTA,
     WEBSOCKET_ON_CONTROL, WEBSOCKET_ON_FREE, WEBSOCKET_ON_SETTING_ACTIVE_TIME}"

abbreviation screen_events :: "int set" where
  "screen_events \<equiv> {APP_NEXTION_EVENT_SET_TIME, APP_NEXTION_EVENT_SYNC_TIME, APP_NEXTION_EVENT_SET_SCHEDULE,
     APP_NEXTION_EVENT_MANUAL_ON, APP_NEXTION_EVENT_MANUAL_OFF, APP_MODBUS_EVENT_DATA}"

abbreviation lamp_events :: "int set" where
  "lamp_events \<equiv> {APP_GPS_EVENT_SET_TIME, APP_CONTROLLER_EVENT_CHANGE_MODE, APP_CONTROLLER_EVENT_CHANGE_POWER, APP_SCHEDULE_EVENT_TRIGGER}"

lemma refines_cloud:
  assumes "ctl_ok (controller_handle w)" and e: "event_callback_body event_callback w e = Some w'"
    and "ev_id e \<in> cloud_events"
  shows "view w' = spec_event e (view w)"
  using assms(3,2)
  by (elim insertE emptyE; auto simp: event_simps
      dest!: view_on_setting view_remote [OF assms(1)] view_force_manual [OF assms(1)]
      split: option.splits cb_data.splits if_splits)

lemma refines_screen:
  assumes "ctl_ok (controller_handle w)" and e: "event_callback_body event_callback w e = Some w'"
    and "ev_id e \<in> screen_events"
  shows "view w' = spec_event e (view w)"
  using assms(3,2)
  by (elim insertE emptyE; auto simp: event_simps
      dest!: view_on_set_schedule view_relay [OF assms(1)] view_console
      split: option.splits cb_data.splits if_splits bind_splits)

lemma refines_lamp:
  assumes "ctl_ok (controller_handle w)" and e: "event_callback_body event_callback w e = Some w'"
    and "ev_id e \<in> lamp_events"
  shows "view w' = spec_event e (view w)"
  using assms(3,2)
  by (elim insertE emptyE; auto simp: event_simps
      dest!: view_on_change_mode [OF assms(1)] view_relay [OF assms(1)]
      split: option.splits cb_data.splits if_splits)

lemma event_refines:
  assumes c: "ctl_ok (controller_handle w)" and "event_callback w e = Some w'"
  shows "view w' = spec_event e (view w)"
proof -
  have e: "event_callback_body event_callback w e = Some w'"
    using assms(2) by (rule body_of_callback)
  show ?thesis
  proof (rule ccontr)
    assume n: "view w' \<noteq> spec_event e (view w)"
    have "ev_id e \<notin> cloud_events" "ev_id e \<notin> screen_events" "ev_id e \<notin> lamp_events"
      using n refines_cloud [OF c e] refines_screen [OF c e] refines_lamp [OF c e] by metis+
    then have "view w' = spec_event e (view w)"
      using e by (simp add: event_callback_body_def spec_event_def Let_def)
    with n show False by simp
  qed
qed

section \<open>The event function returns\<close>

text \<open>The data the components send with their events, and the handles the function relies on.\<close>

definition event_ok :: "cb_event \<Rightarrow> bool" where
  "event_ok e \<longleftrightarrow>
     (if ev_id e \<in> {WEBSOCKET_ON_CONTROL, APP_CONTROLLER_EVENT_CHANGE_POWER} then
        (case ev_data e of Some (CbBool b) \<Rightarrow> True | _ \<Rightarrow> False)
      else if ev_id e \<in> {WEBSOCKET_ON_SETTING_ACTIVE_TIME, APP_NEXTION_EVENT_SET_SCHEDULE} then
        (case ev_data e of Some (CbActiveTime t) \<Rightarrow> True | _ \<Rightarrow> False)
      else if ev_id e \<in> {APP_NEXTION_EVENT_SET_TIME, APP_GPS_EVENT_SET_TIME} then
        (case ev_data e of Some (CbDateTime f) \<Rightarrow> True | _ \<Rightarrow> False)
      else if ev_id e = APP_MODBUS_EVENT_DATA then
        (case ev_data e of Some (CbPhases d) \<Rightarrow> True | _ \<Rightarrow> False)
      else if ev_id e = APP_CONTROLLER_EVENT_CHANGE_MODE then
        (case ev_data e of Some (CbMode m) \<Rightarrow> True | _ \<Rightarrow> False)
      else if ev_id e = APP_SCHEDULE_EVENT_TRIGGER then
        (case ev_data e of Some (CbSchedule t) \<Rightarrow> True | _ \<Rightarrow> False)
      else True)"

definition handles_ok :: "'m view \<Rightarrow> bool" where
  "handles_ok v \<longleftrightarrow> ctl_ok (v_ctl v) \<and> (v_ctl v \<noteq> None \<longrightarrow> v_nx v \<noteq> None) \<and>
     (case v_sch v of None \<Rightarrow> True | Some (c, m, n) \<Rightarrow> n = 3)"

lemma nx_of_view: "v_nx (view w) = None \<longleftrightarrow> nextion_handle w = None"
  by (simp add: view_def)

lemma spec_nx [simp]:
  "(v_nx (spec_power b v) = None) = (v_nx v = None)"
  "(v_nx (spec_relay b v) = None) = (v_nx v = None)"
  "(v_nx (spec_mode m v) = None) = (v_nx v = None)"
  by (auto simp: spec_power_def spec_relay_def spec_mode_def Let_def split: option.splits)

lemma console_total:
  assumes "v_nx (view w) \<noteq> None"
  shows "\<exists>w'. app_nextion_set_console s w = Some w'" "\<exists>w'. app_nextion_set_button b w = Some w'"
  using assms by (auto simp: nextion_defs nx_of_view)

lemma add_alarm_total:
  assumes "handles_ok (view w)" "t \<in> {SCHEDULE_TYPE_ACTIVE_START, SCHEDULE_TYPE_ACTIVE_END}"
  shows "\<exists>e w'. app_schedule_add_alarm h m t w = Some (e, w') \<and> view w' = view w"
proof -
  have "\<exists>e w'. app_schedule_add_alarm h m t w = Some (e, w')"
    using assms
    by (auto simp: app_schedule_add_alarm_def handles_ok_def view_defs schedule_type_index_def Let_def
        split: option.splits)
  then show ?thesis using view_schedule_ops(2) by blast
qed

lemma store_active_time_total:
  assumes "handles_ok (view w)"
  shows "\<exists>w'. store_active_time t w = Some w' \<and> view w' = view w"
proof -
  let ?w = "snd (app_storage_save_data (snd (app_storage_set_data (storage_of_active_time t) w)))"
  have v: "view ?w = view w" by (simp add: view_frame)
  with assms obtain e1 w1 where w1: "view w1 = view ?w"
    "app_schedule_add_alarm (at_start_hour t) (at_start_minute t) SCHEDULE_TYPE_ACTIVE_START ?w = Some (e1, w1)"
    using add_alarm_total [of ?w SCHEDULE_TYPE_ACTIVE_START] by fastforce
  then obtain e2 w2 where
    "app_schedule_add_alarm (at_end_hour t) (at_end_minute t) SCHEDULE_TYPE_ACTIVE_END w1 = Some (e2, w2)"
    using add_alarm_total [of w1 SCHEDULE_TYPE_ACTIVE_END] assms v by fastforce
  then have "store_active_time t w = Some w2" using w1(2) by (simp add: store_active_time_def)
  then show ?thesis using view_store_active_time by blast
qed

lemma change_mode_total: "\<exists>w'. on_change_mode event_callback m w = Some w'"
  using ctl.control_relay_total [of False
      "snd (app_schedule_set_mode (operator_of_mode m) (snd (app_nextion_set_mode m w)))"]
  by (auto simp: on_change_mode_def Let_def)

lemma force_manual_total: "\<exists>r. app_controller_force_manual event_callback b w = Some r"
  using change_mode_total [of APP_CONTROLLER_INPUT_MODE_MANUAL w]
    change_mode_total [of "ctl_mode (the (controller_handle w))" w]
  by (auto simp: app_controller_force_manual_def callback_mode Let_def split: option.split)

lemma remote_total:
  assumes "handles_ok (view w)"
  shows "\<exists>w'. on_websocket_control event_callback b w = Some w'"
proof (cases "app_controller_get_mode w = APP_CONTROLLER_INPUT_MODE_OFF")
  case False
  then obtain c where c: "controller_handle w = Some c"
    by (auto simp: app_controller_get_mode_def split: option.splits)
  have ok: "ctl_ok (controller_handle w)" using assms by (simp add: handles_ok_def ctl_of_view)
  obtain e1 w1 where w1: "app_controller_force_manual event_callback False w = Some (e1, w1)"
    using force_manual_total [of False w] by auto
  obtain e2 w2 where w2: "app_controller_control_relay event_callback b w1 = Some (e2, w2)"
    using ctl.control_relay_total [of b w1] by auto
  have v1: "view w1 = spec_mode APP_CONTROLLER_INPUT_MODE_MANUAL (view w)"
    using view_force_manual [OF ok w1] c by simp
  then have "view w2 = spec_relay b (view w1)"
    using view_relay [of w1 b e2 w2] w2 ok by (simp add: ctl_ok_view)
  then have nx: "v_nx (view w2) \<noteq> None"
    using v1 assms c by (simp add: handles_ok_def ctl_of_view)
  then obtain w3 where w3: "app_nextion_set_button b w2 = Some w3" using console_total(2) by blast
  then have "v_nx (view w3) \<noteq> None" using nx view_console(2) by metis
  then obtain w4 where "app_nextion_set_console (if b then txt_remote_on else txt_remote_off) w3 = Some w4"
    using console_total(1) by blast
  then show ?thesis using False w1 w2 w3 by (simp add: on_websocket_control_def)
qed (simp add: on_websocket_control_def)

lemma on_setting_total:
  assumes "handles_ok (view w)"
  shows "\<exists>w'. on_setting_active_time t w = Some w'"
  using store_active_time_total [OF assms, of t] by (auto simp: on_setting_active_time_def)

lemma on_set_schedule_total:
  assumes "handles_ok (view w)" "v_nx (view w) \<noteq> None"
  shows "\<exists>w'. on_set_schedule t w = Some w'"
proof -
  obtain w1 where w1: "store_active_time t w = Some w1" "view w1 = view w"
    using store_active_time_total [OF assms(1), of t] by auto
  then have "v_nx (view (snd (app_websocket_update_active_time t w1))) \<noteq> None"
    using assms(2) by (simp add: view_frame)
  from console_total(1) [OF this, of txt_set_ok] w1(1) show ?thesis by (simp add: on_set_schedule_def)
qed

lemma manual_total:
  assumes "handles_ok (view w)" "v_nx (view w) \<noteq> None"
  shows "\<exists>w'. app_controller_control_relay event_callback b w \<bind>
     (\<lambda>(_, w). app_nextion_set_console s w) = Some w'"
proof -
  obtain e1 w1 where w1: "app_controller_control_relay event_callback b w = Some (e1, w1)"
    using ctl.control_relay_total [of b w] by auto
  have "view w1 = spec_relay b (view w)"
    using view_relay [OF _ w1] assms(1) by (simp add: handles_ok_def ctl_of_view)
  then have "v_nx (view w1) \<noteq> None" using assms(2) by simp
  from console_total(1) [OF this, of s] w1 show ?thesis by simp
qed

lemma phase_data_total: "\<exists>e w'. app_nextion_set_phase_data d w = Some (e, w')"
  by (auto simp: nextion_defs split: option.split)

lemma body_total_cloud:
  assumes "handles_ok (view w)" "event_ok e" "ev_id e \<in> cloud_events"
  shows "\<exists>w'. event_callback_body event_callback w e = Some w'"
  using assms(3,2) remote_total [OF assms(1)] force_manual_total [of True w] on_setting_total [OF assms(1)]
  by (elim insertE emptyE)
    (auto simp: event_callback_body_def event_ok_def event_ids Let_def split: option.splits cb_data.splits)

lemma body_total_screen:
  assumes "handles_ok (view w)" "event_ok e" "ev_id e \<in> screen_events" "v_nx (view w) \<noteq> None"
  shows "\<exists>w'. event_callback_body event_callback w e = Some w'"
proof -
  note s = event_callback_body_def event_ok_def event_ids Let_def
  have console: "\<exists>w'. app_nextion_set_console s (snd (app_schedule_set_time f w)) = Some w'"
    "\<exists>w'. app_nextion_set_console s (snd (app_schedule_sync_time w)) = Some w'" for s f
    using assms(4) by (auto intro!: console_total(1) simp: view_frame)
  have phases: "\<exists>w'. (app_nextion_set_phase_data d w \<bind>
      (\<lambda>(_, w). Some (snd (app_websocket_update_meter_data d w)))) = Some w'" for d
    using phase_data_total [of d w] by auto
  show ?thesis
    using assms(3)
  proof (elim insertE emptyE)
    assume "ev_id e = APP_NEXTION_EVENT_SET_TIME"
    then show ?thesis using assms(2) console(1) by (auto simp: s split: option.splits cb_data.splits)
  next
    assume "ev_id e = APP_NEXTION_EVENT_SET_SCHEDULE"
    then show ?thesis using assms(2) on_set_schedule_total [OF assms(1,4)]
      by (auto simp: s split: option.splits cb_data.splits)
  next
    assume "ev_id e = APP_MODBUS_EVENT_DATA"
    then show ?thesis using assms(2) phases by (auto simp: s split: option.splits cb_data.splits)
  qed (use console(2) manual_total [OF assms(1,4)] in \<open>simp_all add: s\<close>)
qed

lemma body_total_lamp:
  assumes "event_ok e" "ev_id e \<in> lamp_events"
  shows "\<exists>w'. event_callback_body event_callback w e = Some w'"
  using assms(2,1) change_mode_total [of _ w]
    ctl.control_relay_total [of "ev_data e = Some (CbSchedule SCHEDULE_TYPE_ACTIVE_START)" w]
  by (elim insertE emptyE)
    (auto simp: event_callback_body_def event_ok_def event_ids Let_def split: option.splits cb_data.splits)

lemma event_total:
  assumes "handles_ok (view w)" "event_ok e" "ev_id e \<in> screen_events \<longrightarrow> v_nx (view w) \<noteq> None"
  shows "\<exists>w'. event_callback w e = Some w' \<and> view w' = spec_event e (view w)"
proof -
  have c: "ctl_ok (controller_handle w)" using assms(1) by (simp add: handles_ok_def ctl_of_view)
  have "\<exists>w'. event_callback_body event_callback w e = Some w'"
  proof (cases "ev_id e \<in> cloud_events \<or> ev_id e \<in> screen_events \<or> ev_id e \<in> lamp_events")
    case True
    then show ?thesis
      using body_total_cloud [OF assms(1,2)] body_total_screen [OF assms(1,2)] body_total_lamp [OF assms(2)]
        assms(3) by metis
  next
    case False
    then show ?thesis by (simp add: event_callback_body_def Let_def)
  qed
  then have "\<exists>w'. event_callback w e = Some w'" using event_callback_unfold by metis
  then show ?thesis using event_refines [OF c] by blast
qed

section \<open>The refinement theorem\<close>

text \<open>C3. The event function does what the specification of the events says. On any state with the
  handles the start-up sequence guarantees, and any event with the data its sender gives it, the
  function and everything it calls (through the function pointers again too) returns, and its
  effect on lamp, relays, modes and reports is \<open>spec_event\<close>: remote control is refused while
  the switch is at OFF, mode OFF switches the lamp off, the cloud connection is told about every
  change of the lamp, and all other events leave these alone.\<close>

theorem event_callback_refines:
  assumes "handles_ok (view w)" "event_ok e" "ev_id e \<in> screen_events \<longrightarrow> v_nx (view w) \<noteq> None"
  shows "\<exists>w'. event_callback w e = Some w' \<and> view w' = spec_event e (view w)"
  using assms by (rule event_total)

definition sample_controller :: app_controller_t where
  "sample_controller = \<lparr>relay_1_pin = 25, relay_2_pin = 26, switcher_auto_pin = 19, switcher_manual_pin = 18,
     status_pin = 27, ctl_callback = True, switcher_state = 0, ctl_mode = APP_CONTROLLER_INPUT_MODE_AUTO,
     relay_state = 0\<rparr>"

definition sample_device :: gps_world where
  "sample_device = (ota_world.extend sample_ota_world \<lparr>gps_handle = None, date_time_form = sample_form\<rparr>)
     \<lparr>controller_handle := Some sample_controller\<rparr>"

lemmas sample_device_defs = sample_device_def ota_world.defs sample_ota_world_def sample_ota_defs

lemma sample_device_view:
  "handles_ok (view sample_device)" "v_nx (view sample_device) \<noteq> None"
  "v_ctl (view sample_device) = Some sample_controller"
  "v_ws (view sample_device) = Some (True, False, 0)"
  by (simp_all add: sample_device_defs view_defs handles_ok_def ctl_ok_def sample_controller_def
      sample_scheduler_def sample_socket_def)

theorem event_callback_refines_witness:
  "\<exists>w'. event_callback sample_device
       \<lparr>ev_id = WEBSOCKET_ON_CONTROL, ev_data = Some (CbBool True), ev_len = 1\<rparr> = Some w'
     \<and> v_relays (view w') = (1, 1) \<and> v_ws (view w') = Some (True, True, 2)"
proof -
  let ?e = "\<lparr>ev_id = WEBSOCKET_ON_CONTROL, ev_data = Some (CbBool True), ev_len = 1\<rparr>"
  have "event_ok ?e" by (simp add: event_ok_def)
  with sample_device_view(1,2) obtain w' where "event_callback sample_device ?e = Some w'"
    "view w' = spec_event ?e (view sample_device)"
    using event_callback_refines [of sample_device ?e] by auto
  then show ?thesis
    using sample_device_view
    by (auto simp: spec_event_def spec_remote_def spec_relay_def spec_mode_def spec_power_def
        sample_controller_def mode_number_def Let_def)
qed

end
