(* ===== verification/Task_Views.thy ===== *)
theory Task_Views
  imports Device_View
begin

text \<open>
  Each task and event handler on the abstraction of \<open>Device_View\<close>: one round returns, and what
  it does to the view is nothing, the effect of one event, or a restart (\<open>view_step\<close>).
\<close>

section \<open>Steps of the view\<close>

text \<open>Events from outside the controller; the controller's own two events are part of these.\<close>

definition external_event :: "cb_event \<Rightarrow> bool" where
  "external_event e \<longleftrightarrow> ev_id e \<noteq> APP_CONTROLLER_EVENT_CHANGE_MODE \<and> ev_id e \<noteq> APP_CONTROLLER_EVENT_CHANGE_POWER"

inductive view_step :: "'m view \<Rightarrow> 'm view \<Rightarrow> bool" where
  stutter: "view_step v v"
| event: "external_event e \<Longrightarrow> event_ok e \<Longrightarrow> (ev_id e \<in> screen_events \<longrightarrow> v_nx v \<noteq> None) \<Longrightarrow>
    view_step v (spec_event e v)"
| restart: "view_step v u \<Longrightarrow> view_step v (u\<lparr>v_restarted := True\<rparr>)"

lemma same_view: "view w' = view w \<Longrightarrow> view_step (view w) (view w')"
  by (simp add: view_step.stutter)

lemma callback_step:
  assumes "handles_ok (view w)" "external_event e" "event_ok e" "ev_id e \<in> screen_events \<longrightarrow> v_nx (view w) \<noteq> None"
  shows "\<exists>w'. event_callback w e = Some w' \<and> view_step (view w) (view w')"
proof -
  obtain w' where "event_callback w e = Some w'" "view w' = spec_event e (view w)"
    using event_total [OF assms(1,3,4)] by auto
  then show ?thesis using view_step.event [OF assms(2-4)] by auto
qed

section \<open>The clock and the schedule\<close>

lemma view_ds3231_get: "ds3231_get_time d t w = (r, x, w') \<Longrightarrow> view w' = view w \<and> schedule_handle w' = schedule_handle w"
  by (auto simp: ds3231_get_time_def i2c_dev_read_reg_def i2c_dev_read_def i2c_master_cmd_begin_def view_def Let_def
      split: option.splits prod.splits if_splits)

lemma view_sntp_complete:
  "schedule_handle w = Some h \<Longrightarrow> view (sntp_complete t h w) = view w"
  by (auto simp: sntp_complete_def Let_def view_frame sch_view_def settimeofday_def intro!: trans [OF set_schedule_view])

lemma view_sync_loop:
  "schedule_handle w \<noteq> None \<Longrightarrow>
   \<exists>r w'. sync_loop sntp i w = Some (r, w') \<and> view w' = view w \<and> schedule_handle w' \<noteq> None"
proof (induction sntp i w rule: sync_loop.induct)
  case (1 sntp i w)
  obtain h where h: "schedule_handle w = Some h" using "1.prems" by auto
  have v: "view (set_schedule (h\<lparr>n_sync_time := k\<rparr>) w) = view w" for k
    using h by (intro set_schedule_view) (simp_all add: sch_view_def)
  let ?u = "vTaskDelay_ms 1000 (set_schedule (h\<lparr>n_sync_time := n_sync_time h + 1\<rparr>) w)"
  have u: "view ?u = view w" "schedule_handle ?u \<noteq> None"
    by (simp_all add: view_frame v) (simp add: vTaskDelay_ms_def set_schedule_def)
  note step = sync_loop.simps [of sntp i w]
  consider (idle) "is_sync h" | (answer) t where "\<not> is_sync h" "sntp i = Some t"
    | (giveup) "\<not> is_sync h" "sntp i = None" "n_sync_time h + 1 > 60"
    | (wait) "\<not> is_sync h" "sntp i = None" "\<not> n_sync_time h + 1 > 60"
    by (cases "sntp i") auto
  then show ?case
  proof cases
    case idle
    then show ?thesis using h by (simp add: step)
  next
    case (answer t)
    then show ?thesis
      using "1.IH"(2) [OF h answer] view_sntp_complete [OF h, of t] h by (simp add: step)
  next
    case giveup
    then show ?thesis using h v [of 0] by (simp add: step set_schedule_def)
  next
    case wait
    then show ?thesis using "1.IH"(1) [OF h wait u(2)] u(1) h by (simp add: step)
  qed
qed

lemma network_total:
  assumes "v_network (view w) = Some (False, True)"
  shows "\<exists>b. app_network_is_connected w = Some b"
  using assms by (auto simp: view_defs network_defs)

lemma sync_network_view:
  assumes "v_network (view w) = Some (False, True)" "schedule_handle w = Some h"
  shows "\<exists>r w'. sync_network sntp h w = Some (r, w') \<and> view w' = view w \<and> schedule_handle w' \<noteq> None"
proof -
  obtain b where b: "app_network_is_connected w = Some b" using network_total [OF assms(1)] by auto
  have v: "view (set_schedule h' w) = view w" if "sch_view h' = sch_view h" for h'
    using assms(2) that by (rule set_schedule_view)
  have t: "schedule_handle (vTaskDelay_ms n w) = Some h" for n using assms(2) by (simp add: vTaskDelay_ms_def)
  let ?w = "set_schedule (h\<lparr>is_init_sntp := True, n_sync_time := 0\<rparr>) w"
  have "\<exists>r w'. sync_loop sntp 0 ?w = Some (r, w') \<and> view w' = view ?w \<and> schedule_handle w' \<noteq> None"
    by (rule view_sync_loop) (simp add: set_schedule_def)
  moreover have "view ?w = view w" by (rule v) (simp add: sch_view_def)
  ultimately show ?thesis
    using b set_schedule_view [OF t]
    by (auto simp: sync_network_def Let_def view_frame sch_view_def set_schedule_def)
qed

lemma sync_local_view:
  assumes "schedule_handle w = Some h" "sync_local t h w = (r, w')"
  shows "view w' = view w \<and> schedule_handle w' \<noteq> None \<and> (r = None \<longrightarrow> schedule_handle w' = Some h)"
proof -
  have v: "view (set_schedule (h\<lparr>is_sync := True\<rparr>) u) = view u" if "schedule_handle u = Some h" for u :: "'a gps_world_scheme"
    using that by (rule set_schedule_view) (simp add: sch_view_def)
  show ?thesis
  proof (cases "tm_year (localtime (utc_offset w) (sys_time w)) > 2021 - 1900")
    case True
    then have "r = Some ESP_OK" "w' = vTaskDelay_ms 1000 (set_schedule (h\<lparr>is_sync := True\<rparr>) w)"
      using assms(2) by (simp_all add: sync_local_def)
    moreover have "schedule_handle (vTaskDelay_ms 1000 (set_schedule (h\<lparr>is_sync := True\<rparr>) w)) \<noteq> None"
      by (simp add: set_schedule_def vTaskDelay_ms_def)
    ultimately show ?thesis by (simp add: view_frame v [OF assms(1)])
  next
    case False
    obtain r1 x w1 where g: "ds3231_get_time (Some (sch_dev h)) (Some t) w = (r1, x, w1)"
      by (cases "ds3231_get_time (Some (sch_dev h)) (Some t) w") auto
    have g': "view w1 = view w" "schedule_handle w1 = Some h" using view_ds3231_get [OF g] assms(1) by auto
    have "schedule_handle (w1\<lparr>sys_time := n\<rparr>) = Some h" for n using g'(2) by simp
    from v [OF this] show ?thesis using False assms(2) g g'
      by (auto simp: sync_local_def view_frame settimeofday_def set_schedule_def split: option.splits if_splits)
  qed
qed

lemma sync_time_view:
  assumes "v_network (view w) = Some (False, True)" "schedule_handle w \<noteq> None"
  shows "\<exists>r w'. sync_time sntp t w = Some (r, w') \<and> view w' = view w \<and> schedule_handle w' \<noteq> None"
proof -
  obtain h where h: "schedule_handle w = Some h" using assms(2) by auto
  obtain r1 w1 where l: "sync_local t h w = (r1, w1)" by fastforce
  note l' = sync_local_view [OF h l]
  show ?thesis
  proof (cases r1)
    case None
    with l' assms(1) show ?thesis
      using h l sync_network_view [of w1 h sntp] sync_network_view [OF assms(1) h, of sntp]
      by (auto simp: sync_time_def)
  next
    case (Some e)
    with l' show ?thesis
      using h l sync_network_view [OF assms(1) h, of sntp] by (auto simp: sync_time_def)
  qed
qed


lemma schedule_step_view:
  assumes "v_network (view w) = Some (False, True)" "schedule_handle w \<noteq> None" "handles_ok (view w)"
  shows "\<exists>w'. schedule_task_step event_callback sntp t w = Some w' \<and> view_step (view w) (view w')"
proof -
  obtain r w1 where r: "sync_time sntp t w = Some (r, w1)" "view w1 = view w" "schedule_handle w1 \<noteq> None"
    using sync_time_view [OF assms(1,2), of sntp t] by auto
  obtain h where h: "schedule_handle w1 = Some h" using r(3) by auto
  define tm where "tm = localtime (utc_offset w1) (sys_time w1)"
  have appl: "\<exists>w'. schedule_apply event_callback tm h w1 = Some w' \<and> view_step (view w1) (view w')"
  proof (cases "schedule_active h")
    case False
    then show ?thesis by (simp add: sch.apply_idle view_step.stutter)
  next
    case True
    have "external_event (trigger_event x)" "event_ok (trigger_event x)" "ev_id (trigger_event x) \<notin> screen_events" for x
      by (simp_all add: external_event_def event_ok_def event_ids)
    with callback_step [of w1 "trigger_event (wanted h tm)"] assms(3) r(2)
    obtain w2 where w2: "event_callback w1 (trigger_event (wanted h tm)) = Some w2" "view_step (view w1) (view w2)"
      by auto
    have "view (esp_restart w2) = (view w2)\<lparr>v_restarted := True\<rparr>" by (simp add: view_def esp_restart_def)
    then have "view_step (view w1) (view (esp_restart w2))" using w2(2) by (simp add: view_step.restart)
    with w2 True show ?thesis
      by (simp add: schedule_apply_def schedule_active_def wanted_def)
  qed
  have "view (set_schedule (h\<lparr>is_sync := False\<rparr>) w1) = view w1"
    using h by (rule set_schedule_view) (simp add: sch_view_def)
  with appl r h show ?thesis
    by (auto simp: schedule_task_step_def tm_def [symmetric] Let_def intro: same_view view_step.stutter)
qed

lemma view_set_timezone: "view (set_timezone_by_utc n w) = view w"
  "schedule_handle (set_timezone_by_utc n w) = schedule_handle w" "i2c_res (set_timezone_by_utc n w) = i2c_res w"
  by (simp_all add: set_timezone_by_utc_def tzset_def view_def split: option.split)

lemma get_time_ok:
  assumes "\<forall>n. i2c_res w n = ESP_OK"
  shows "\<exists>x w'. ds3231_get_time (Some d) (Some t) w = (ESP_OK, Some x, w')"
  using assms by (auto simp: ds3231_get_time_def i2c_dev_read_reg_def i2c_dev_read_def i2c_master_cmd_begin_def Let_def
      split: prod.split)

lemma schedule_start_view:
  assumes "schedule_handle w \<noteq> None" "\<forall>n. i2c_res w n = ESP_OK"
  shows "\<exists>b w'. schedule_task_start t w = Some (b, w') \<and> view w' = view w"
proof -
  obtain h where h: "schedule_handle w = Some h" using assms(1) by auto
  let ?d = "(sch_dev h)\<lparr>dev_port := 0, dev_addr := DS3231_ADDR, sda_io_num := sda_pin h,
      scl_io_num := scl_pin h, clk_speed := I2C_FREQ_HZ\<rparr>"
  let ?u = "(set_timezone_by_utc 7 w)\<lparr>i2c_count := Suc (i2c_count (set_timezone_by_utc 7 w))\<rparr>"
  let ?v = "set_schedule (h\<lparr>sch_dev := ?d\<rparr>) ?u"
  have "view ?v = view ?u"
    using h by (intro set_schedule_view) (simp_all add: sch_view_def view_set_timezone)
  also have "view ?u = view (set_timezone_by_utc 7 w)" by (simp add: view_def)
  finally have v: "view ?v = view w" by (simp add: view_set_timezone)
  have i: "\<forall>n. i2c_res ?v n = ESP_OK" using assms(2) by (simp add: set_schedule_def view_set_timezone)
  obtain x w1 where g: "ds3231_get_time (Some ?d) (Some t) ?v = (ESP_OK, Some x, w1)"
    using get_time_ok [OF i, of ?d t] by auto
  then have "view w1 = view w" using view_ds3231_get [OF g] v by simp
  moreover have "schedule_task_start t w =
      Some (True, if tm_year x > 2021 - 1900 then settimeofday (mktime (utc_offset w1) x) w1 else w1)"
    using h g assms(2)
    by (simp add: schedule_task_start_def ds3231_init_desc_def i2c_master_init_def i2c_driver_install_def
        view_set_timezone Let_def)
  ultimately show ?thesis by (auto simp: view_frame)
qed

section \<open>The cloud connection\<close>

lemma view_set_websocket:
  "websocket_handle w = Some h \<Longrightarrow> ws_view h' = ws_view h \<Longrightarrow> view (set_websocket h' w) = view w"
  by (simp add: view_def set_websocket_def)

lemma view_ws_other [view_frame]:
  "view (app_websocket_send d w) = view w" "view (w\<lparr>ws_started := n\<rparr>) = view w"
  by (simp_all add: app_websocket_send_def view_def)

lemma websocket_step_view:
  assumes "v_network (view w) = Some (False, True)" "websocket_handle w \<noteq> None"
  shows "\<exists>w'. websocket_task_step w = Some w' \<and> view w' = view w"
proof -
  obtain h where h: "websocket_handle w = Some h" using assms(2) by auto
  obtain b where b: "app_network_is_connected w = Some b" using network_total [OF assms(1)] by auto
  have "\<exists>w'. websocket_task_step w = Some w'"
    using h b by (auto simp: ws_task_defs Let_def split: list.split)
  moreover have "view w' = view w" if "websocket_task_step w = Some w'" for w'
    using that h b
    by (auto simp: ws_task_defs set_websocket_def vTaskDelay_ms_def view_defs Let_def split: if_splits list.splits)
  ultimately show ?thesis by blast
qed

lemma ws_callback_step:
  assumes "handles_ok (view w)" "v_ws (view w) \<noteq> None" "i \<notin> screen_events"
    and "external_event \<lparr>ev_id = i, ev_data = data, ev_len = len\<rparr>"
    and "event_ok \<lparr>ev_id = i, ev_data = data, ev_len = len\<rparr>"
  shows "\<exists>w'. websocket_callback event_callback i data len w = Some w' \<and> view_step (view w) (view w')"
proof -
  obtain h where h: "websocket_handle w = Some h" using assms(2) by (auto simp: view_def)
  obtain w' where "event_callback w \<lparr>ev_id = i, ev_data = data, ev_len = len\<rparr> = Some w'"
    "view_step (view w) (view w')"
    using callback_step [OF assms(1,4,5)] assms(3) by auto
  then show ?thesis using h by (auto simp: websocket_callback_def intro: view_step.stutter)
qed

lemma ws_event_view:
  assumes "handles_ok (view w)" "websocket_handle w = Some h"
  shows "\<exists>w'. websocket_event_handler event_callback e w = Some w' \<and> view_step (view w) (view w')"
proof -
  have v: "view (set_websocket (h\<lparr>websocket_connected := b, is_logged := False\<rparr>) w) = view w" for b
    using assms(2) by (rule view_set_websocket) (simp add: ws_view_def)
  note cb = ws_callback_step [of "set_websocket (h\<lparr>websocket_connected := b, is_logged := False\<rparr>) w" for b, unfolded v, OF assms(1)]
  have ws: "v_ws (view w) \<noteq> None" using assms(2) by (simp add: view_def)
  have "external_event \<lparr>ev_id = i, ev_data = None, ev_len = 0\<rparr> \<and> event_ok \<lparr>ev_id = i, ev_data = None, ev_len = 0\<rparr> \<and> i \<notin> screen_events"
    if "i \<in> {1, 2}" for i
    using that by (auto simp: external_event_def event_ok_def event_ids)
  then show ?thesis
    using cb [OF ws, of 1 None 0 True] cb [OF ws, of 2 None 0 False] assms(2)
    by (cases e) (auto simp: websocket_event_handler_def websocket_event_number_def event_ids view_frame intro: view_step.stutter)
qed

text \<open>
  The submessages \<^verbatim>\<open>_process_data\<close> dereferences without a test: a status in the two
  answers, begin and end in the active time, two green times in a cycle configuration.
\<close>

definition complete_message :: "message \<Rightarrow> bool" where
  "complete_message m \<longleftrightarrow>
     (\<forall>i \<in> {2, 4}. case auth_part i m of None \<Rightarrow> True | Some r \<Rightarrow> status_code r \<noteq> None) \<and>
     (case user_part 7 m of None \<Rightarrow> True
      | Some req \<Rightarrow> (case msg_sub 2 req of None \<Rightarrow> False
                    | Some lamp \<Rightarrow> msg_sub 1 lamp \<noteq> None \<and> msg_sub 2 lamp \<noteq> None)) \<and>
     (case user_part 9 m of None \<Rightarrow> True | Some req \<Rightarrow> 2 \<le> length (msg_rep 5 req))"

definition complete_frame :: "byte list \<Rightarrow> bool" where
  "complete_frame bs \<longleftrightarrow> (case main_message__unpack bs of Unpacked m \<Rightarrow> complete_message m | _ \<Rightarrow> True)"

lemma ws_events_ok:
  "external_event \<lparr>ev_id = WEBSOCKET_ON_CONTROL, ev_data = Some (CbBool b), ev_len = n\<rparr>"
  "event_ok \<lparr>ev_id = WEBSOCKET_ON_CONTROL, ev_data = Some (CbBool b), ev_len = n\<rparr>"
  "external_event \<lparr>ev_id = WEBSOCKET_ON_SETTING_ACTIVE_TIME, ev_data = Some (CbActiveTime t), ev_len = n\<rparr>"
  "event_ok \<lparr>ev_id = WEBSOCKET_ON_SETTING_ACTIVE_TIME, ev_data = Some (CbActiveTime t), ev_len = n\<rparr>"
  "i \<in> {WEBSOCKET_ON_ONLINE, WEBSOCKET_ON_FORCE_OTA, WEBSOCKET_ON_FREE} \<Longrightarrow>
     external_event \<lparr>ev_id = i, ev_data = None, ev_len = 0\<rparr> \<and> event_ok \<lparr>ev_id = i, ev_data = None, ev_len = 0\<rparr>"
  "i \<in> cloud_events \<Longrightarrow> i \<notin> screen_events"
  by (auto simp: external_event_def event_ok_def event_ids)

lemma process_register_view:
  assumes "websocket_handle w = Some h" "status_code r \<noteq> None"
  shows "\<exists>w'. process_register r w = Some w' \<and> view w' = view w"
  using assms view_set_websocket [OF assms(1), of "h\<lparr>device_id := Some (msg_str 1 r)\<rparr>"]
  by (auto simp: process_register_def ws_view_def)

lemma process_login_view:
  assumes "handles_ok (view w)" "websocket_handle w = Some h" "status_code r \<noteq> None"
  shows "\<exists>w'. process_login event_callback r w = Some w' \<and> view w' = view w"
proof -
  let ?w = "set_websocket (h\<lparr>is_logged := True\<rparr>) w"
  let ?e = "\<lparr>ev_id = WEBSOCKET_ON_ONLINE, ev_data = None, ev_len = 0\<rparr>"
  have v: "view ?w = view w" using assms(2) by (rule view_set_websocket) (simp add: ws_view_def)
  obtain w1 where w1: "event_callback ?w ?e = Some w1" "view w1 = spec_event ?e (view ?w)"
    using event_total [of ?w ?e] v assms(1) ws_events_ok(5,6) [of WEBSOCKET_ON_ONLINE] by auto
  then have v1: "view w1 = view w" using v by (simp add: spec_event_def event_ids)
  obtain h1 where h1: "websocket_handle w1 = Some h1" "ws_callback h1 = ws_callback h"
    using v1 assms(2) by (auto simp: view_def ws_view_def)
  obtain w2 where w2: "websocket_callback event_callback WEBSOCKET_ON_ONLINE None 0 ?w = Some w2"
    "view w2 = view w" "websocket_handle w2 \<noteq> None"
    using w1(1) v v1 h1 by (cases "ws_callback h") (auto simp: websocket_callback_def set_websocket_def)
  then show ?thesis using assms(2,3) by (auto simp: process_login_def Let_def view_frame)
qed

lemma process_active_time_view:
  assumes "handles_ok (view w)" "v_ws (view w) \<noteq> None"
    and "msg_sub 2 req = Some lamp" "msg_sub 1 lamp \<noteq> None" "msg_sub 2 lamp \<noteq> None"
  shows "\<exists>w'. process_active_time event_callback req w = Some w' \<and> view_step (view w) (view w')"
  using assms(3-5) ws_callback_step [OF assms(1,2) ws_events_ok(6) ws_events_ok(3,4)]
  by (auto simp: process_active_time_def Let_def)

lemma process_message_view:
  assumes "handles_ok (view w)" "websocket_handle w = Some h" "complete_message m"
  shows "\<exists>w'. process_message event_callback m w = Some w' \<and> view_step (view w) (view w')"
proof -
  have ws: "v_ws (view w) \<noteq> None" using assms(2) by (simp add: view_def)
  note cb = ws_callback_step [OF assms(1) ws ws_events_ok(6)]
  have reg: "\<exists>w'. process_register r w = Some w' \<and> view_step (view w) (view w')" if "auth_part 2 m = Some r" for r
    using that assms(3) process_register_view [OF assms(2), of r] same_view
    by (fastforce simp: complete_message_def)
  have login: "\<exists>w'. process_login event_callback r w = Some w' \<and> view_step (view w) (view w')"
    if "auth_part 4 m = Some r" for r
    using that assms(3) process_login_view [OF assms(1,2), of r] same_view
    by (fastforce simp: complete_message_def)
  have ctl: "\<exists>w'. websocket_callback event_callback WEBSOCKET_ON_CONTROL (Some (CbBool b)) sizeof_bool w = Some w'
      \<and> view_step (view w) (view w')" for b
    by (rule cb) (simp_all add: ws_events_ok)
  have time: "\<exists>w'. process_active_time event_callback r w = Some w' \<and> view_step (view w) (view w')"
    if "user_part 7 m = Some r" for r
    using that assms(3) process_active_time_view [OF assms(1) ws, of r]
    by (auto simp: complete_message_def split: option.splits)
  have other: "\<exists>w'. websocket_callback event_callback i None 0 w = Some w' \<and> view_step (view w) (view w')"
    if "i \<in> {WEBSOCKET_ON_FORCE_OTA, WEBSOCKET_ON_FREE}" for i
    using that ws_events_ok(5) [of i] by (intro cb) auto
  have cyc: "\<not> length (msg_rep 5 r) < 2" if "user_part 9 m = Some r" for r
    using that assms(3) by (simp add: complete_message_def)
  show ?thesis
    unfolding process_message_def
    by (auto simp: reg login ctl time other cyc view_step.stutter split: option.split)
qed

lemma rx_step_view:
  assumes "handles_ok (view w)" "websocket_handle w = Some h" "rx_rb h \<noteq> [] \<longrightarrow> complete_frame (hd (rx_rb h))"
  shows "\<exists>w'. rx_process_step event_callback w = Some w' \<and> view_step (view w) (view w')"
proof (cases "rx_rb h")
  case Nil
  then show ?thesis using assms(2) by (simp add: rx_process_step_def view_frame view_step.stutter)
next
  case (Cons f fs)
  let ?w = "set_websocket (h\<lparr>rx_rb := fs\<rparr>) w"
  have v: "view ?w = view w" using assms(2) by (rule view_set_websocket) (simp add: ws_view_def)
  have h: "websocket_handle ?w = Some (h\<lparr>rx_rb := fs\<rparr>)" by (simp add: set_websocket_def)
  have "\<exists>e w'. process_data event_callback f ?w = Some (e, w') \<and> view_step (view w) (view w')"
  proof (cases "main_message__unpack f")
    case (Unpacked m)
    then have "complete_message m" using assms(3) Cons by (simp add: complete_frame_def)
    from process_message_view [OF _ h this] assms(1) v Unpacked show ?thesis
      by (auto simp: process_data_def)
  next
    case Malformed
    then show ?thesis using v by (simp add: process_data_def view_step.stutter)
  next
    case Corrupted
    then show ?thesis
      using message_unpack_not_Corrupted [of "TYPE_MESSAGE main_message_descriptor" f]
      unfolding main_message__unpack_def protobuf_c_message_unpack_def by (rule notE [rotated])
  qed
  then show ?thesis using assms(2) Cons by (auto simp: rx_process_step_def view_frame)
qed

section \<open>The screen\<close>

lemma view_set_nextion:
  "nextion_handle w = Some h \<Longrightarrow> nx_view h' = nx_view h \<Longrightarrow> view (set_nextion h' w) = view w"
  by (simp add: view_def set_nextion_def)

lemma set_page_frame [simp]: "nextion_handle (app_nextion_set_page p w) = nextion_handle w"
  by (simp add: app_nextion_set_page_def send_command_frame split: option.split)

lemma nx_callback_step:
  assumes "handles_ok (view w)" "nextion_handle w = Some h"
    and "external_event \<lparr>ev_id = i, ev_data = data, ev_len = len\<rparr>"
    and "event_ok \<lparr>ev_id = i, ev_data = data, ev_len = len\<rparr>"
  shows "\<exists>w'. nextion_callback event_callback i data len w = Some w' \<and> view_step (view w) (view w')"
proof -
  have "v_nx (view w) \<noteq> None" using assms(2) by (simp add: view_def)
  then obtain w' where "event_callback w \<lparr>ev_id = i, ev_data = data, ev_len = len\<rparr> = Some w'"
    "view_step (view w) (view w')"
    using callback_step [OF assms(1,3,4)] by auto
  then show ?thesis using assms(2) by (auto simp: nextion_callback_def intro: view_step.stutter)
qed

lemma nx_events_ok:
  "i \<in> {APP_NEXTION_EVENT_MANUAL_ON, APP_NEXTION_EVENT_MANUAL_OFF, APP_NEXTION_EVENT_SYNC_TIME} \<Longrightarrow>
     external_event \<lparr>ev_id = i, ev_data = None, ev_len = 0\<rparr> \<and> event_ok \<lparr>ev_id = i, ev_data = None, ev_len = 0\<rparr>"
  "external_event \<lparr>ev_id = APP_NEXTION_EVENT_SET_SCHEDULE, ev_data = Some (CbActiveTime t), ev_len = n\<rparr>"
  "event_ok \<lparr>ev_id = APP_NEXTION_EVENT_SET_SCHEDULE, ev_data = Some (CbActiveTime t), ev_len = n\<rparr>"
  "external_event \<lparr>ev_id = APP_NEXTION_EVENT_SET_TIME, ev_data = Some (CbDateTime f), ev_len = n\<rparr>"
  "event_ok \<lparr>ev_id = APP_NEXTION_EVENT_SET_TIME, ev_data = Some (CbDateTime f), ev_len = n\<rparr>"
  by (auto simp: external_event_def event_ok_def event_ids)

lemma handle_up_time_view:
  assumes "handles_ok (view w)" "nextion_handle w = Some h"
  shows "\<exists>w'. handle_up_time event_callback vars data w = Some w' \<and> view_step (view w) (view w')"
proof -
  have nx: "v_nx (view w) \<noteq> None" using assms(2) by (simp add: view_def)
  obtain w1 where w1: "app_nextion_set_console txt_invalid_time w = Some w1"
    using console_total(1) [OF nx, of txt_invalid_time] by auto
  then have "view_step (view w) (view w1)" using view_console(1) [OF w1] by (simp add: view_step.stutter)
  moreover have "\<exists>w'. nextion_callback event_callback APP_NEXTION_EVENT_SET_SCHEDULE (Some (CbActiveTime t)) n
      (set_nextion (h\<lparr>nx_active_time := t\<rparr>) w) = Some w' \<and> view_step (view w) (view w')" for t n
  proof -
    have v: "view (set_nextion (h\<lparr>nx_active_time := t\<rparr>) w) = view w"
      using assms(2) by (rule view_set_nextion) (simp add: nx_view_def)
    show ?thesis
      using nx_callback_step [of "set_nextion (h\<lparr>nx_active_time := t\<rparr>) w" "h\<lparr>nx_active_time := t\<rparr>",
          OF _ _ nx_events_ok(2,3), of t n] assms(1) v
      by (simp add: set_nextion_def)
  qed
  ultimately show ?thesis using assms(2) w1 by (simp add: handle_up_time_def Let_def)
qed

lemma handle_page_view:
  assumes "nextion_handle w = Some h"
  shows "\<exists>w'. handle_page data w = Some w' \<and> view w' = view w"
proof -
  have v: "view (set_nextion (h\<lparr>current_page := p\<rparr>) w) = view w" for p
    using assms by (rule view_set_nextion) (simp add: nx_view_def)
  let ?u = "app_nextion_set_page PAGE_LOCK_INDEX (set_nextion (h\<lparr>current_page := PAGE_LOCK_INDEX\<rparr>) w)"
  have u: "nextion_handle ?u = Some (h\<lparr>current_page := PAGE_LOCK_INDEX\<rparr>)" by (simp add: set_nextion_def)
  have "view (set_nextion (h\<lparr>current_page := PAGE_LOCK_INDEX, is_sleeping := False\<rparr>) ?u) = view w"
    using view_set_nextion [OF u] v by (simp add: nx_view_def view_frame)
  then show ?thesis using assms v by (simp add: handle_page_def Let_def view_frame)
qed

lemma handle_message_view:
  assumes "handles_ok (view w)" "nextion_handle w = Some h"
  shows "\<exists>w'. handle_message event_callback vars data w = Some w' \<and> view_step (view w) (view w')"
proof -
  note cb = nx_callback_step [OF assms]
  have ev: "\<exists>w'. nextion_callback event_callback i None 0 w = Some w' \<and> view_step (view w) (view w')"
    if "i \<in> {APP_NEXTION_EVENT_MANUAL_ON, APP_NEXTION_EVENT_MANUAL_OFF, APP_NEXTION_EVENT_SYNC_TIME}" for i
    using that nx_events_ok(1) [of i] by (intro cb) auto
  have rtc: "\<exists>w'. handle_rtc event_callback data w = Some w' \<and> view_step (view w) (view w')"
    unfolding handle_rtc_def Let_def by (rule cb) (simp_all add: nx_events_ok)
  have page: "\<exists>w'. handle_page data w = Some w' \<and> view_step (view w) (view w')"
    using handle_page_view [OF assms(2), of data] same_view by blast
  have "view (set_nextion (h\<lparr>is_sleeping := True\<rparr>) w) = view w"
    using assms(2) by (rule view_set_nextion) (simp add: nx_view_def)
  then show ?thesis
    unfolding handle_message_def
    by (auto simp: ev rtc page handle_up_time_view [OF assms] assms(2) view_step.stutter)
qed

lemma view_send_commands [view_frame]: "view (send_commands p cs w) = view w"
  by (induction cs arbitrary: w) (simp_all add: send_commands_def view_frame)

lemma write_step_view:
  assumes "nextion_handle w = Some h"
  shows "\<exists>l' w'. nextion_write_step (l, w) = Some (l', w') \<and> view w' = view w"
    and "\<exists>l' w'. nextion_write_start w = Some (l', w') \<and> view w' = view w"
proof -
  show "\<exists>l' w'. nextion_write_step (l, w) = Some (l', w') \<and> view w' = view w"
    using assms by (auto simp: nextion_write_step_def Let_def view_frame split: prod.split)
  let ?u = "app_nextion_set_page PAGE_LOADING_INDEX (send_command (nx_port_num h) ''sleep=0'' w)"
  have "nextion_handle ?u = Some h" using assms by (simp add: send_command_frame)
  then have "view (set_nextion (h\<lparr>is_sleeping := False, current_page := PAGE_LOADING_INDEX\<rparr>) ?u) = view ?u"
    by (rule view_set_nextion) (simp add: nx_view_def)
  then show "\<exists>l' w'. nextion_write_start w = Some (l', w') \<and> view w' = view w"
    using assms by (auto simp: nextion_write_start_def Let_def view_frame)
qed

section \<open>GPS, update and switch\<close>

lemma view_set_gps:
  "gps_handle w = Some h \<Longrightarrow> gps_callback h' = gps_callback h \<Longrightarrow> view (set_gps h' w) = view w"
  by (simp add: view_def set_gps_def)

lemma gps_pins: "GPS_ACTIVE \<notin> {25, 26}" "GPS_RST \<notin> {25, 26}" "S0_MUX \<notin> {25, 26}" "S1_MUX \<notin> {25, 26}" "PWR_SIM \<notin> {25, 26}"
  by (simp_all add: pin_defs)

lemma view_switch_gps [view_frame]: "view (switchingUartPortToGps w) = view w"
  using gps_pins by (simp add: switchingUartPortToGps_def gpio_reset_pin_def Let_def view_frame)

lemma switch_gps_handle [simp]: "gps_handle (switchingUartPortToGps w) = gps_handle w"
  by (simp add: switchingUartPortToGps_def gpio_reset_pin_def gpio_set_output_def gpio_set_level_def vTaskDelay_ms_def Let_def)

text \<open>What the receiver may send without crashing the parser.\<close>

definition parseable :: "string \<Rightarrow> bool" where
  "parseable rx \<longleftrightarrow> parse_gnrmc (c_str (take (BUF_SIZE - 1) rx)) \<noteq> None"

lemma gps_poll_view:
  assumes "gps_handle w = Some h" "parseable rx"
  shows "\<exists>b c' w'. gps_poll c rx h w = Some (b, c', w') \<and> view w' = view w \<and> gps_handle w' \<noteq> None"
proof -
  have "view ((set_gps (h\<lparr>is_sync_rtc_gps := True\<rparr>) w)\<lparr>date_time_form := f\<rparr>) = view w" for f
    using assms(1) by (simp add: view_def set_gps_def)
  then show ?thesis using assms
    by (auto simp: gps_poll_def parseable_def set_gps_def split: gps_sentence.split)
qed

lemma gps_acquire_view:
  "\<forall>i. parseable (fst (polls i)) \<Longrightarrow> gps_handle w \<noteq> None \<Longrightarrow>
   \<exists>w'. gps_acquire c polls i w = Some w' \<and> view w' = view w"
proof (induction c polls i w rule: gps_acquire.induct)
  case (1 c polls i w)
  then obtain h where h: "gps_handle w = Some h" by auto
  let ?v = "vTaskDelay_ms (poll_time (snd (polls i))) w"
  have hv: "gps_handle ?v = Some h" using h by (simp add: vTaskDelay_ms_def)
  obtain b c' w1 where p: "gps_poll c (fst (polls i)) h ?v = Some (b, c', w1)" "view w1 = view w" "gps_handle w1 \<noteq> None"
    using gps_poll_view [OF hv, of "fst (polls i)" c] "1.prems"(1) by (auto simp: view_frame)
  show ?case
  proof (cases "gps_elapsed h w < 10 * 1000")
    case False
    then show ?thesis using h
      by (simp add: gps_acquire.simps [of c polls i w] view_set_gps)
  next
    case True
    show ?thesis
    proof (cases b)
      case False
      then show ?thesis using True h p by (simp add: gps_acquire.simps [of c polls i w])
    next
      case b: True
      have "\<exists>w'. gps_acquire c' polls (Suc i) w1 = Some w' \<and> view w' = view w1"
        using "1.IH" [OF h True p(1) refl eqTrueI [OF b] refl "1.prems"(1) p(3)] .
      then show ?thesis using True h p b by (simp add: gps_acquire.simps [of c polls i w])
    qed
  qed
qed

lemma gps_step_view:
  assumes "\<forall>i. parseable (fst (polls i))" "gps_handle w = Some h"
  shows "\<exists>w'. gps_task_step polls w = Some w' \<and> view w' = view w"
proof -
  let ?w = "switchingUartPortToGps (set_gps (h\<lparr>last_get_tick_gps := esp_tick_get w\<rparr>) w)"
  have "view ?w = view w" "gps_handle ?w \<noteq> None"
    using assms(2) by (simp_all add: view_frame view_set_gps) (simp add: set_gps_def)
  with gps_acquire_view [OF assms(1), of ?w 0 0] show ?thesis
    using assms(2) by (simp add: gps_task_step_def view_frame)
qed

lemma gps_process_view:
  assumes "handles_ok (view w)" "gps_handle w = Some h"
  shows "\<exists>w'. GPS_process_step event_callback w = Some w' \<and> view_step (view w) (view w')"
proof -
  let ?e = "\<lparr>ev_id = APP_GPS_EVENT_SET_TIME, ev_data = Some (CbDateTime (date_time_form w)),
      ev_len = sizeof_date_time_form_t\<rparr>"
  have "external_event ?e" "event_ok ?e" "ev_id ?e \<notin> screen_events"
    by (simp_all add: external_event_def event_ok_def event_ids)
  then obtain w1 where w1: "event_callback w ?e = Some w1" "view w1 = spec_event ?e (view w)"
    using event_total [OF assms(1), of ?e] by auto
  then have v1: "view w1 = view w" by (simp add: spec_event_def event_ids)
  then obtain h1 where h1: "gps_handle w1 = Some h1" using assms(2) by (auto simp: view_def)
  have "view (set_gps (h1\<lparr>is_sync_rtc_gps := False\<rparr>) w1) = view w1"
    "view (set_gps (h\<lparr>is_sync_rtc_gps := False\<rparr>) w) = view w"
    using h1 assms(2) by (simp_all add: view_set_gps)
  then show ?thesis using assms(2) w1(1) v1 h1
    by (simp add: GPS_process_step_def Let_def view_frame view_step.stutter)
qed

lemma ota_step_view:
  assumes "v_network (view w) = Some (False, True)" "ota_handle w = Some h"
  shows "\<exists>w'. ota_task_step f w = Some w' \<and> view_step (view w) (view w')"
proof -
  let ?w = "w\<lparr>ota_handle := Some (h\<lparr>force_ota_flag := False\<rparr>)\<rparr>"
  have v: "view ?w = view w" using assms(2) by (simp add: view_def)
  obtain b where b: "app_network_is_connected ?w = Some b" using network_total [of ?w] assms(1) v by auto
  have u: "view (?w\<lparr>ota_requests := rs\<rparr>) = view w" for rs using v by (simp add: view_def)
  have "view (esp_restart (?w\<lparr>ota_requests := rs\<rparr>)) = (view w)\<lparr>v_restarted := True\<rparr>" for rs
    unfolding u [of rs, symmetric] by (simp add: view_def esp_restart_def)
  then show ?thesis using assms(2) b v u
    by (simp add: ota_task_step_def Let_def view_step.stutter view_step.restart)
qed

lemma gpio_step_view:
  fixes w :: "'a gps_world_scheme"
  assumes "controller_handle w = Some c" "ctl_ok (Some c)" "status_pin c = 27"
  defines "m \<equiv> decode_switch (gpio_in w (switcher_auto_pin c)) (gpio_in w (switcher_manual_pin c))"
  shows "\<exists>l' w'. gpio_task_step event_callback (l, w) = Some (l', w') \<and> gl_mode l' = m \<and>
    view w' = (if m = gl_mode l then view w else spec_mode m ((view w)\<lparr>v_ctl := Some (c\<lparr>ctl_mode := m\<rparr>)\<rparr>))"
proof (cases "m = gl_mode l")
  case True
  then show ?thesis using assms
    by (simp add: gpio_task_step_def gpio_mode_change_def Let_def view_frame)
next
  case False
  let ?w = "w\<lparr>controller_handle := Some (c\<lparr>ctl_mode := m\<rparr>)\<rparr>"
  obtain w1 where w1: "on_change_mode event_callback m ?w = Some w1" using change_mode_total [of m ?w] by auto
  have "ctl_ok (controller_handle ?w)" using assms(2) by (simp add: ctl_ok_def)
  from view_on_change_mode [OF this w1]
  have "view w1 = spec_mode m ((view w)\<lparr>v_ctl := Some (c\<lparr>ctl_mode := m\<rparr>)\<rparr>)" by (simp add: view_def)
  moreover have "ctl_callback c" using assms(2) by (simp add: ctl_ok_def)
  ultimately show ?thesis using False assms(1,3) w1
    by (simp add: gpio_task_step_def gpio_mode_change_def callback_mode m_def Let_def view_frame)
qed

end
