(* ===== verification/Firmware.thy ===== *)
theory Firmware
  imports Task_Views
begin

text \<open>
  The whole program: the tasks, the drivers' events and \<^verbatim>\<open>app_main\<close> take turns on one
  state, in any order. A step is one round of a task's loop, one call of an event handler, or the
  next part of \<^verbatim>\<open>app_main\<close>; it is taken as a whole (the tasks are not preempted inside a
  round). The environment changes the input pins and lets time pass. \<open>reachable\<close> is the set of
  states some run leads to, from power-up with any content of flash, clock chip and allocated
  memory.
\<close>

section \<open>Steps\<close>

datatype action =
    MainStep
  | IpEvent ip_event
  | ModemEvent esp_modem_event
  | WsEvent ws_client_event
  | WebsocketStep
  | RxStep
  | OtaStep "string \<Rightarrow> esp_err_t"
  | ReadStep "int list" string
  | WriteStep
  | ScheduleStep "nat \<Rightarrow> int option" tm
  | GpsStep "nat \<Rightarrow> string \<times> nat"
  | GpsProcessStep
  | GpioStep
  | Inputs "int \<Rightarrow> int"
  | Elapse nat

text \<open>Which steps are possible: a task must have been created, a client started.\<close>

fun enabled :: "action \<Rightarrow> firmware \<Rightarrow> bool" where
  "enabled MainStep w = True"
| "enabled (IpEvent e) w = (PppTask \<in> tasks w)"
| "enabled (ModemEvent e) w = (PppTask \<in> tasks w)"
| "enabled (WsEvent e) w = (case websocket_handle w of None \<Rightarrow> False | Some h \<Rightarrow> is_start_websocket h)"
| "enabled WebsocketStep w = (WebsocketTask \<in> tasks w)"
| "enabled RxStep w = (RxProcessTask \<in> tasks w)"
| "enabled (OtaStep f) w = (OtaTask \<in> tasks w)"
| "enabled (ReadStep vars rx) w = (NextionReadTask \<in> tasks w)"
| "enabled WriteStep w = (NextionWriteTask \<in> tasks w)"
| "enabled (ScheduleStep sntp t) w = (ScheduleTask \<in> tasks w)"
| "enabled (GpsStep polls) w = (GpsTask \<in> tasks w)"
| "enabled GpsProcessStep w = (GpsProcessTask \<in> tasks w)"
| "enabled GpioStep w = (GpioTask \<in> tasks w)"
| "enabled (Inputs f) w = True"
| "enabled (Elapse n) w = True"

definition write_task :: "firmware \<Rightarrow> firmware option" where
  "write_task w =
     (case write_vars w of
        None \<Rightarrow> map_option (\<lambda>(l, w). w\<lparr>write_vars := Some l\<rparr>) (nextion_write_start w)
      | Some l \<Rightarrow> map_option (\<lambda>(l, w). w\<lparr>write_vars := Some l\<rparr>) (nextion_write_step (l, w)))"

definition schedule_task :: "(nat \<Rightarrow> int option) \<Rightarrow> tm \<Rightarrow> firmware \<Rightarrow> firmware option" where
  "schedule_task sntp t w =
     (case schedule_ready w of
        None \<Rightarrow> map_option (\<lambda>(b, w). w\<lparr>schedule_ready := Some b\<rparr>) (schedule_task_start t w)
      | Some False \<Rightarrow> Some w
      | Some True \<Rightarrow> schedule_task_step event_callback sntp t w)"

definition read_task :: "int list \<Rightarrow> string \<Rightarrow> firmware \<Rightarrow> firmware option" where
  "read_task vars rx w =
     map_option (\<lambda>(buf, w). w\<lparr>read_buf := buf\<rparr>) (nextion_read_step event_callback vars rx (read_buf w, w))"

definition gpio_task :: "firmware \<Rightarrow> firmware option" where
  "gpio_task w =
     map_option (\<lambda>(l, w). w\<lparr>gpio_vars := l\<rparr>) (gpio_task_step event_callback (gpio_vars w, w))"

fun execute :: "boot_env \<Rightarrow> action \<Rightarrow> firmware \<Rightarrow> firmware option" where
  "execute env MainStep w = app_main_step env w"
| "execute env (IpEvent e) w = on_ip_event e w"
| "execute env (ModemEvent e) w = Some (modem_event_handler e w)"
| "execute env (WsEvent e) w = websocket_event_handler event_callback e w"
| "execute env WebsocketStep w = websocket_task_step w"
| "execute env RxStep w = rx_process_step event_callback w"
| "execute env (OtaStep f) w = ota_task_step f w"
| "execute env (ReadStep vars rx) w = read_task vars rx w"
| "execute env WriteStep w = write_task w"
| "execute env (ScheduleStep sntp t) w = schedule_task sntp t w"
| "execute env (GpsStep polls) w = gps_task_step polls w"
| "execute env GpsProcessStep w = GPS_process_step event_callback w"
| "execute env GpioStep w = gpio_task w"
| "execute env (Inputs f) w = Some (w\<lparr>gpio_in := f\<rparr>)"
| "execute env (Elapse n) w = Some (w\<lparr>tick_ms := tick_ms w + 1000 * int n, sys_time := sys_time w + int n\<rparr>)"

text \<open>Power-up: no handle, no task, the relay outputs low; everything else is arbitrary.\<close>

definition power_up :: "firmware \<Rightarrow> bool" where
  "power_up w \<longleftrightarrow> main_pc w = 0 \<and> tasks w = {} \<and> gpio_vars w = gpio_locals_init \<and>
     write_vars w = None \<and> schedule_ready w = None \<and> \<not> restarted w \<and>
     gpio_out w 25 = 0 \<and> gpio_out w 26 = 0 \<and>
     storage_handle w = None \<and> controller_handle w = None \<and> network_handle w = None \<and>
     nextion_handle w = None \<and> schedule_handle w = None \<and> websocket_handle w = None \<and>
     ota_handle w = None \<and> gps_handle w = None"

text \<open>
  What the environment has to grant, each an assumption the code makes without a test: the flash
  can be initialised, the clock chip answers the first read of the schedule task (the task
  function returns otherwise, which aborts the program), a received frame has the submessages
  \<^verbatim>\<open>_process_data\<close> dereferences, and the GPS receiver's sentences can be split.
\<close>

fun tame :: "boot_env \<Rightarrow> action \<Rightarrow> firmware \<Rightarrow> bool" where
  "tame env MainStep w = (main_pc w = 0 \<longrightarrow> fst (app_storage_init (be_storage env) w) \<noteq> None)"
| "tame env RxStep w = (case websocket_handle w of None \<Rightarrow> True
     | Some h \<Rightarrow> rx_rb h \<noteq> [] \<longrightarrow> complete_frame (hd (rx_rb h)))"
| "tame env (ScheduleStep sntp t) w = (schedule_ready w = None \<longrightarrow> (\<forall>n. i2c_res w n = ESP_OK))"
| "tame env (GpsStep polls) w = (\<forall>i. parseable (fst (polls i)))"
| "tame env a w = True"

inductive reachable :: "boot_env \<Rightarrow> firmware \<Rightarrow> bool" for env where
  reach_init: "power_up w \<Longrightarrow> reachable env w"
| reach_step: "reachable env w \<Longrightarrow> \<not> restarted w \<Longrightarrow> enabled a w \<Longrightarrow> tame env a w \<Longrightarrow>
    execute env a w = Some w' \<Longrightarrow> reachable env w'"

text \<open>
  The array in the schedule's block has as many elements as the code declares, and the PPP task
  can be created: if not, every caller of \<^verbatim>\<open>app_network_is_connected\<close> dereferences null.
\<close>

definition env_ok :: "boot_env \<Rightarrow> bool" where
  "env_ok env \<longleftrightarrow> length (job_list (be_schedule env)) = 3 \<and> be_task env PppTask"

section \<open>The invariant of the device\<close>

definition lamp :: "'m view \<Rightarrow> bool" where
  "lamp v \<longleftrightarrow> (case v_ctl v of None \<Rightarrow> False | Some c \<Rightarrow> relay_state c = 1)"

definition mode_of :: "'m view \<Rightarrow> app_controller_mode_t" where
  "mode_of v = (case v_nx v of None \<Rightarrow> APP_CONTROLLER_INPUT_MODE_OFF | Some (c, m) \<Rightarrow> m)"

text \<open>
  The controller is the last component started. Both relay outputs show the recorded state;
  screen, schedule and cloud connection agree on the mode; the cloud connection would report the
  true state of the lamp.
\<close>

definition dev_inv :: "'m view \<Rightarrow> bool" where
  "dev_inv v \<longleftrightarrow> handles_ok v \<and>
     (case v_ctl v of
        None \<Rightarrow> v_relays v = (0, 0) \<and> mode_of v = APP_CONTROLLER_INPUT_MODE_OFF
      | Some c \<Rightarrow> status_pin c = 27 \<and> v_relays v = (relay_state c, relay_state c) \<and>
                 v_ws v \<noteq> None \<and> v_sch v \<noteq> None) \<and>
     (case v_sch v of None \<Rightarrow> True | Some (c, om, n) \<Rightarrow> c \<and> om = operator_of_mode (mode_of v)) \<and>
     (case v_ws v of None \<Rightarrow> True | Some (c, p, m) \<Rightarrow> c \<and> p = lamp v \<and> m = mode_number (mode_of v)) \<and>
     (case v_nx v of None \<Rightarrow> True | Some (c, m) \<Rightarrow> c)"

lemma dev_inv_restarted [simp]: "dev_inv (v\<lparr>v_restarted := b\<rparr>) = dev_inv v"
  by (auto simp: dev_inv_def handles_ok_def lamp_def mode_of_def split: option.splits)

lemma dev_inv_relay: "dev_inv v \<Longrightarrow> dev_inv (spec_relay b v)"
  by (auto simp: dev_inv_def handles_ok_def ctl_ok_def lamp_def mode_of_def spec_relay_def spec_power_def
      split: option.splits)

lemma dev_inv_mode: "dev_inv v \<Longrightarrow> v_ctl v \<noteq> None \<Longrightarrow> dev_inv (spec_mode m v)"
  by (auto simp: dev_inv_def handles_ok_def ctl_ok_def lamp_def mode_of_def spec_mode_def spec_relay_def
      spec_power_def Let_def split: option.splits)

lemma dev_inv_event:
  assumes "dev_inv v" "external_event e"
  shows "dev_inv (spec_event e v)"
  using assms dev_inv_relay [OF assms(1)] dev_inv_mode [OF assms(1)]
    dev_inv_relay [OF dev_inv_mode [OF assms(1)]]
  by (auto simp: spec_event_def spec_remote_def external_event_def split: option.split cb_data.split)

lemma dev_inv_step: "view_step v u \<Longrightarrow> dev_inv v \<Longrightarrow> dev_inv u"
  by (induction rule: view_step.induct) (auto intro: dev_inv_event)

text \<open>What no event changes: which handles exist, and the state above the components.\<close>

definition shape :: "'m view \<Rightarrow> 'm \<times> bool \<times> (bool \<times> bool) option \<times> bool list" where
  "shape v = (v_more v, v_storage v, v_network v,
     [v_ws v = None, v_nx v = None, v_sch v = None, v_gps v = None, v_ctl v = None, v_ota v])"

lemma shape_relay [simp]: "shape (spec_relay b v) = shape v"
  by (simp add: shape_def spec_relay_def spec_power_def split: option.split)

lemma shape_mode [simp]: "shape (spec_mode m v) = shape v"
  by (auto simp: shape_def spec_mode_def spec_relay_def spec_power_def Let_def split: option.split)

lemma shape_event: "external_event e \<Longrightarrow> shape (spec_event e v) = shape v"
  by (auto simp: spec_event_def spec_remote_def external_event_def split: option.split cb_data.split)

lemma shape_step: "view_step v u \<Longrightarrow> shape u = shape v"
  by (induction rule: view_step.induct) (auto simp: shape_event, simp add: shape_def)

section \<open>The order of start-up\<close>

primrec task_pc :: "task \<Rightarrow> nat" where
  "task_pc PppTask = 2"
| "task_pc WebsocketTask = 3"
| "task_pc RxProcessTask = 3"
| "task_pc OtaTask = 4"
| "task_pc NextionReadTask = 5"
| "task_pc NextionWriteTask = 5"
| "task_pc ScheduleTask = 6"
| "task_pc GpsTask = 9"
| "task_pc GpsProcessTask = 9"
| "task_pc GpioTask = 10"

text \<open>How far \<^verbatim>\<open>app_main\<close> has come says which handles exist and which tasks can.\<close>

definition boot_order :: "nat \<Rightarrow> task set \<Rightarrow> 'm view \<Rightarrow> bool" where
  "boot_order pc ts v \<longleftrightarrow> pc \<le> 10 \<and> (\<forall>t \<in> ts. task_pc t \<le> pc) \<and> (OtaTask \<in> ts \<longrightarrow> v_ota v) \<and>
     v_storage v = (1 \<le> pc) \<and> v_network v = (if 2 \<le> pc then Some (False, True) else None) \<and>
     (v_ws v = None) = (pc < 3) \<and> (v_nx v = None) = (pc < 5) \<and> (v_sch v = None) = (pc < 6) \<and>
     (v_gps v = None) = (pc < 9) \<and> (v_ctl v = None) = (pc < 10)"

definition fw_inv :: "firmware \<Rightarrow> bool" where
  "fw_inv w \<longleftrightarrow> dev_inv (view w) \<and> boot_order (main_pc w) (tasks w) (view w)"

lemma boot_order_shape: "shape v = shape u \<Longrightarrow> boot_order pc ts v = boot_order pc ts u"
  by (simp add: shape_def boot_order_def)

lemma more_firmware:
  assumes "gps_world.more w = gps_world.more w'"
  shows "main_pc w = main_pc w'" "tasks w = tasks w'"
  using assms by (cases w, cases w', simp)+

lemma fw_inv_step:
  assumes "fw_inv w" "view_step (view w) (view w')"
  shows "fw_inv w'"
proof -
  have s: "shape (view w') = shape (view w)" using assms(2) by (rule shape_step)
  then have "gps_world.more w' = gps_world.more w" by (simp add: shape_def view_def)
  then show ?thesis
    using assms(1) more_firmware [of w' w] dev_inv_step [OF assms(2)] boot_order_shape [OF s]
    by (simp add: fw_inv_def)
qed

lemma fw_inv_same: "fw_inv w \<Longrightarrow> view w' = view w \<Longrightarrow> fw_inv w'"
  by (rule fw_inv_step [OF _ same_view])

lemma dev_inv_more [simp]: "dev_inv (v\<lparr>v_more := x\<rparr>) = dev_inv v"
  by (auto simp: dev_inv_def handles_ok_def lamp_def mode_of_def split: option.splits)

lemma view_locals:
  "view (w\<lparr>gpio_vars := l\<rparr>) = (view w)\<lparr>v_more := gps_world.more (w\<lparr>gpio_vars := l\<rparr>)\<rparr>"
  "view (w\<lparr>read_buf := b\<rparr>) = (view w)\<lparr>v_more := gps_world.more (w\<lparr>read_buf := b\<rparr>)\<rparr>"
  "view (w\<lparr>write_vars := x\<rparr>) = (view w)\<lparr>v_more := gps_world.more (w\<lparr>write_vars := x\<rparr>)\<rparr>"
  "view (w\<lparr>schedule_ready := y\<rparr>) = (view w)\<lparr>v_more := gps_world.more (w\<lparr>schedule_ready := y\<rparr>)\<rparr>"
  "view (w\<lparr>tasks := ts\<rparr>) = (view w)\<lparr>v_more := gps_world.more (w\<lparr>tasks := ts\<rparr>)\<rparr>"
  "view (w\<lparr>main_pc := pc\<rparr>) = (view w)\<lparr>v_more := gps_world.more (w\<lparr>main_pc := pc\<rparr>)\<rparr>"
  by (simp_all add: view_def)

lemma boot_order_more [simp]: "boot_order pc ts (v\<lparr>v_more := x\<rparr>) = boot_order pc ts v"
  by (simp add: boot_order_def)

lemma fw_inv_locals [simp]:
  "fw_inv (w\<lparr>gpio_vars := l\<rparr>) = fw_inv w" "fw_inv (w\<lparr>read_buf := b\<rparr>) = fw_inv w"
  "fw_inv (w\<lparr>write_vars := x\<rparr>) = fw_inv w" "fw_inv (w\<lparr>schedule_ready := y\<rparr>) = fw_inv w"
  by (simp_all add: fw_inv_def view_locals)

section \<open>Start-up keeps the invariant\<close>

lemma view_handles:
  "view (w\<lparr>storage_handle := s\<rparr>) = (view w)\<lparr>v_storage := (s \<noteq> None)\<rparr>"
  "view (w\<lparr>network_handle := n\<rparr>) = (view w)\<lparr>v_network := map_option net_view n\<rparr>"
  "view (w\<lparr>websocket_handle := x\<rparr>) = (view w)\<lparr>v_ws := map_option ws_view x\<rparr>"
  "view (w\<lparr>ota_handle := ot\<rparr>) = (view w)\<lparr>v_ota := (ot \<noteq> None)\<rparr>"
  "view (w\<lparr>nextion_handle := nx\<rparr>) = (view w)\<lparr>v_nx := map_option nx_view nx\<rparr>"
  "view (w\<lparr>schedule_handle := sc\<rparr>) = (view w)\<lparr>v_sch := map_option sch_view sc\<rparr>"
  "view (w\<lparr>gps_handle := g\<rparr>) = (view w)\<lparr>v_gps := map_option gps_callback g\<rparr>"
  "view (w\<lparr>controller_handle := c\<rparr>) = (view w)\<lparr>v_ctl := c\<rparr>"
  by (simp_all add: view_def)

lemma xTaskCreate_simps [simp]:
  "dev_inv (view (xTaskCreate env t w)) = dev_inv (view w)"
  "boot_order pc ts (view (xTaskCreate env t w)) = boot_order pc ts (view w)"
  "tasks (xTaskCreate env t w) = (if be_task env t then insert t (tasks w) else tasks w)"
  "main_pc (xTaskCreate env t w) = main_pc w"
  "storage_handle (xTaskCreate env t w) = storage_handle w"
  by (simp_all add: xTaskCreate_def view_locals)

text \<open>A part that leaves the counter alone and reaches the next stage.\<close>

definition part_ok :: "firmware option \<Rightarrow> nat \<Rightarrow> bool" where
  "part_ok r k \<longleftrightarrow> (case r of None \<Rightarrow> False
     | Some w \<Rightarrow> main_pc w = k \<and> dev_inv (view w) \<and> boot_order (Suc k) (tasks w) (view w))"

lemma part_ok_next:
  assumes "part_ok r k"
  shows "\<exists>w'. map_option (\<lambda>w. w\<lparr>main_pc := Suc (main_pc w)\<rparr>) r = Some w' \<and> fw_inv w'"
  using assms by (auto simp: part_ok_def fw_inv_def view_locals split: option.splits)

lemma stored_data: "v_storage (view w) \<Longrightarrow> \<exists>d. app_storage_get_data w = Some d"
  by (auto simp: view_def app_storage_get_data_def)

lemma view_storage_init: "app_storage_init junk w = (h, w') \<Longrightarrow> view w' = view w"
  by (auto simp: app_storage_init_def nvs_defs view_def split: if_splits)

lemma main_pc_storage [simp]:
  "main_pc (snd (app_storage_load_data w)) = main_pc w" "tasks (snd (app_storage_load_data w)) = tasks w"
  by (simp_all add: storage_defs nvs_defs Let_def split: option.split prod.split)

lemma main_storage_ok:
  assumes "fw_inv w" "main_pc w = 0" "tame env MainStep w"
  shows "part_ok (main_storage env w) 0"
proof -
  obtain h w1 where i: "app_storage_init (be_storage env) w = (Some h, w1)"
    using assms(2,3) by (cases "app_storage_init (be_storage env) w") auto
  let ?w = "w1\<lparr>storage_handle := Some h\<rparr>"
  have v1: "view w1 = view w" using i by (rule view_storage_init)
  then have pc: "main_pc w1 = 0" "tasks w1 = tasks w"
    using more_firmware [of w1 w] assms(2) by (simp_all add: view_def)
  have v: "view (snd (app_storage_load_data ?w)) = (view w)\<lparr>v_storage := True\<rparr>"
    by (simp add: view_frame view_handles v1)
  obtain d where "app_storage_get_data (snd (app_storage_load_data ?w)) = Some d"
    using stored_data [of "snd (app_storage_load_data ?w)"] v by auto
  then have "main_storage env w = Some (snd (app_storage_load_data ?w))"
    by (simp add: main_storage_def i)
  moreover have "dev_inv ((view w)\<lparr>v_storage := True\<rparr>)" "boot_order (Suc 0) (tasks w) ((view w)\<lparr>v_storage := True\<rparr>)"
    using assms(1,2)
    by (auto simp: fw_inv_def dev_inv_def handles_ok_def lamp_def mode_of_def boot_order_def le_Suc_eq split: option.splits)
  ultimately show ?thesis by (simp add: part_ok_def v pc)
qed

lemma boot_stored: "fw_inv w \<Longrightarrow> 1 \<le> main_pc w \<Longrightarrow> \<exists>d. app_storage_get_data w = Some d"
  by (rule stored_data) (simp add: fw_inv_def boot_order_def)

text \<open>A new handle, on the level of the view.\<close>

lemmas dev_defs = dev_inv_def handles_ok_def lamp_def mode_of_def

lemma dev_inv_other [simp]:
  "dev_inv (v\<lparr>v_storage := b\<rparr>) = dev_inv v" "dev_inv (v\<lparr>v_network := n\<rparr>) = dev_inv v"
  "dev_inv (v\<lparr>v_ota := b\<rparr>) = dev_inv v" "dev_inv (v\<lparr>v_gps := g\<rparr>) = dev_inv v"
  by (auto simp: dev_defs split: option.splits)

lemma dev_inv_add:
  assumes "dev_inv v" "v_ctl v = None"
  shows "dev_inv (v\<lparr>v_ws := Some (True, False, 0)\<rparr>)"
    and "dev_inv (v\<lparr>v_nx := Some (True, APP_CONTROLLER_INPUT_MODE_OFF)\<rparr>)"
    and "dev_inv (v\<lparr>v_sch := Some (True, OPERATOR_MODE_OFF, 3)\<rparr>)"
  using assms
  by (auto simp: dev_defs mode_number_def operator_of_mode_def split: option.splits)

lemma dev_inv_add_ctl:
  assumes "dev_inv v" "v_ctl v = None" "v_ws v \<noteq> None" "v_nx v \<noteq> None" "v_sch v \<noteq> None"
    and "ctl_ok (Some c)" "status_pin c = 27" "relay_state c = 0"
  shows "dev_inv (v\<lparr>v_ctl := Some c\<rparr>)"
  using assms by (auto simp: dev_defs)

text \<open>The next stage, on the level of the view.\<close>

lemma boot_order_next:
  "boot_order 1 ts v \<Longrightarrow> boot_order 2 (ts \<union> {PppTask}) (v\<lparr>v_network := Some (False, True)\<rparr>)"
  "boot_order 2 ts v \<Longrightarrow> boot_order 3 (ts \<union> {WebsocketTask, RxProcessTask}) (v\<lparr>v_ws := Some x\<rparr>)"
  "boot_order 3 ts v \<Longrightarrow> OtaTask \<in> us \<longrightarrow> b \<Longrightarrow> us \<subseteq> {OtaTask} \<Longrightarrow> boot_order 4 (ts \<union> us) (v\<lparr>v_ota := b\<rparr>)"
  "boot_order 4 ts v \<Longrightarrow> boot_order 5 (ts \<union> {NextionReadTask, NextionWriteTask}) (v\<lparr>v_nx := Some y\<rparr>)"
  "boot_order 5 ts v \<Longrightarrow> boot_order 6 (ts \<union> {ScheduleTask}) (v\<lparr>v_sch := Some z\<rparr>)"
  "boot_order 6 ts v \<Longrightarrow> boot_order 7 ts v"
  "boot_order 7 ts v \<Longrightarrow> boot_order 8 ts v"
  "boot_order 8 ts v \<Longrightarrow> boot_order 9 (ts \<union> {GpsTask, GpsProcessTask}) (v\<lparr>v_gps := Some g\<rparr>)"
  "boot_order 9 ts v \<Longrightarrow> boot_order 10 (ts \<union> {GpioTask}) (v\<lparr>v_ctl := Some c\<rparr>)"
  by (auto simp: boot_order_def)

lemma boot_order_mono: "boot_order pc ts v \<Longrightarrow> us \<subseteq> ts \<Longrightarrow> boot_order pc us v"
  by (auto simp: boot_order_def)

lemma part_okI:
  assumes "main_pc w' = k" "dev_inv (view w')" "boot_order (Suc k) ts (view w')" "tasks w' \<subseteq> ts"
  shows "part_ok (Some w') k"
  using assms boot_order_mono [OF assms(3,4)] by (simp add: part_ok_def)

lemma inv_parts: "fw_inv w \<Longrightarrow> main_pc w = k \<Longrightarrow> dev_inv (view w) \<and> boot_order k (tasks w) (view w)"
  by (simp add: fw_inv_def)

lemma main_network_ok:
  assumes "fw_inv w" "main_pc w = 1" "env_ok env"
  shows "part_ok (main_network env w) 1"
proof -
  obtain w' where w': "main_network env w = Some w'" "main_pc w' = 1" "tasks w' = tasks w \<union> {PppTask}"
    "dev_inv (view w')" "view w' = (view w)\<lparr>v_network := Some (False, True), v_more := gps_world.more w'\<rparr>"
    using inv_parts [OF assms(1,2)] assms(2,3)
    by (simp add: main_network_def app_network_start_def app_network_init_def app_ppp_init_def env_ok_def
        xTaskCreate_def view_locals view_handles net_view_def)
  then show ?thesis
    using boot_order_next(1) [of "tasks w" "view w"] inv_parts [OF assms(1,2)]
    by (auto intro!: part_okI simp: numeral_2_eq_2)
qed

lemma main_websocket_ok:
  assumes "fw_inv w" "main_pc w = 2"
  shows "part_ok (main_websocket env w) 2"
proof -
  obtain d where d: "app_storage_get_data w = Some d" using boot_stored [OF assms(1)] assms(2) by auto
  have i: "dev_inv (view w)" "boot_order 2 (tasks w) (view w)" "v_ctl (view w) = None"
    using inv_parts [OF assms] by (simp_all add: boot_order_def)
  have "boot_order 3 (tasks w \<union> {WebsocketTask, RxProcessTask}) ((view w)\<lparr>v_ws := Some (True, False, 0)\<rparr>)"
    using i(2) by (rule boot_order_next)
  then show ?thesis
    unfolding main_websocket_def d using assms(2) dev_inv_add(1) [OF i(1,3)]
    by (auto intro!: part_okI [where ts = "tasks w \<union> {WebsocketTask, RxProcessTask}"]
        simp: app_websocket_init_def view_handles ws_view_def numeral_3_eq_3 Let_def split: if_splits)
qed

lemma main_ota_ok:
  assumes "fw_inv w" "main_pc w = 3"
  shows "part_ok (main_ota env w) 3"
proof -
  let ?us = "if be_task env OtaTask then {OtaTask} else {}"
  have i: "dev_inv (view w)" "boot_order 3 (tasks w) (view w)" using inv_parts [OF assms] by simp_all
  have "boot_order 4 (tasks w \<union> ?us) ((view w)\<lparr>v_ota := be_task env OtaTask\<rparr>)"
    using i(2) by (rule boot_order_next) auto
  then show ?thesis
    unfolding main_ota_def using assms(2) i(1)
    by (auto intro!: part_okI [where ts = "tasks w \<union> ?us"] simp: app_ota_init_def view_handles Let_def split: if_splits)
qed

lemma main_nextion_ok:
  assumes "fw_inv w" "main_pc w = 4"
  shows "part_ok (main_nextion env w) 4"
proof -
  obtain d where d: "app_storage_get_data w = Some d" using boot_stored [OF assms(1)] assms(2) by auto
  have i: "dev_inv (view w)" "boot_order 4 (tasks w) (view w)" "v_ctl (view w) = None"
    using inv_parts [OF assms] by (simp_all add: boot_order_def)
  let ?ts = "tasks w \<union> {NextionReadTask, NextionWriteTask}"
  have "boot_order 5 ?ts ((view w)\<lparr>v_nx := Some (True, APP_CONTROLLER_INPUT_MODE_OFF)\<rparr>)"
    using i(2) by (rule boot_order_next)
  moreover have "main_pc (snd (app_nextion_start u)) = main_pc u" "tasks (snd (app_nextion_start u)) = tasks u"
    "view (snd (app_nextion_start u)) = view u" for u :: firmware
    by (simp_all add: app_nextion_start_def vTaskDelay_ms_def view_def split: option.split)
  ultimately show ?thesis
    unfolding main_nextion_def d using assms(2) dev_inv_add(2) [OF i(1,3)]
    by (auto intro!: part_okI [where ts = ?ts] simp: app_nextion_init_def view_handles nx_view_def Let_def split: if_splits)
qed

lemma main_schedule_ok:
  assumes "fw_inv w" "main_pc w = 5" "env_ok env"
  shows "part_ok (main_schedule env w) 5"
proof -
  have i: "dev_inv (view w)" "boot_order 5 (tasks w) (view w)" "v_ctl (view w) = None"
    using inv_parts [OF assms(1,2)] by (simp_all add: boot_order_def)
  have "boot_order 6 (tasks w \<union> {ScheduleTask}) ((view w)\<lparr>v_sch := Some (True, OPERATOR_MODE_OFF, 3)\<rparr>)"
    using i(2) by (rule boot_order_next)
  then show ?thesis
    unfolding main_schedule_def using assms(2,3) dev_inv_add(3) [OF i(1,3)]
    by (auto intro!: part_okI [where ts = "tasks w \<union> {ScheduleTask}"]
        simp: app_schedule_init_def env_ok_def view_handles sch_view_def Let_def split: if_splits)
qed

lemma main_alarm_ok:
  assumes "fw_inv w" "main_pc w \<in> {6, 7}"
  shows "part_ok (main_alarm_start env w) (main_pc w)" "part_ok (main_alarm_end env w) (main_pc w)"
proof -
  obtain d where d: "app_storage_get_data w = Some d" using boot_stored [OF assms(1)] assms(2) by auto
  have h: "handles_ok (view w)" using assms(1) by (simp add: fw_inv_def dev_inv_def)
  have b: "boot_order (Suc (main_pc w)) (tasks w) (view w)"
    using assms boot_order_next(6,7) [of "tasks w" "view w"] by (auto simp: fw_inv_def numeral_eq_Suc)
  have ok: "part_ok (map_option snd (app_schedule_add_alarm hh mm t w)) (main_pc w)"
    if t: "t \<in> {SCHEDULE_TYPE_ACTIVE_START, SCHEDULE_TYPE_ACTIVE_END}" for hh mm t
  proof -
    obtain e w' where w': "app_schedule_add_alarm hh mm t w = Some (e, w')" "view w' = view w"
      using add_alarm_total [OF h t, of hh mm] by auto
    then have "main_pc w' = main_pc w" "tasks w' = tasks w"
      using more_firmware [of w' w] by (simp_all add: view_def)
    then show ?thesis using w' assms(1) b by (simp add: part_ok_def fw_inv_def)
  qed
  have "part_ok (Some w) (main_pc w)" using assms(1) b by (simp add: part_ok_def fw_inv_def)
  then show "part_ok (main_alarm_start env w) (main_pc w)" "part_ok (main_alarm_end env w) (main_pc w)"
    using d ok by (simp_all add: main_alarm_start_def main_alarm_end_def)
qed

lemma main_gps_ok:
  assumes "fw_inv w" "main_pc w = 8"
  shows "part_ok (main_gps env w) 8"
proof -
  let ?ts = "tasks w \<union> {GpsTask, GpsProcessTask}"
  have i: "dev_inv (view w)" "boot_order 8 (tasks w) (view w)" using inv_parts [OF assms] by simp_all
  have "boot_order 9 ?ts ((view w)\<lparr>v_gps := Some True\<rparr>)" using i(2) by (rule boot_order_next)
  then show ?thesis
    unfolding main_gps_def using assms(2) i(1)
    by (auto intro!: part_okI [where ts = ?ts] simp: app_gps_init_def view_handles Let_def split: if_splits)
qed

lemma main_controller_ok:
  assumes "fw_inv w" "main_pc w = 9"
  shows "part_ok (main_controller env w) 9"
proof -
  let ?ts = "tasks w \<union> {GpioTask}"
  have i: "dev_inv (view w)" "boot_order 9 (tasks w) (view w)" using inv_parts [OF assms] by simp_all
  obtain h w1 where h: "app_controller_init (be_controller env)
      \<lparr>cc_relay_1_pin = 25, cc_relay_2_pin = 26, cc_switcher_auto_pin = 19, cc_switcher_manual_pin = 18,
       cc_callback = True, cc_status_pin = 27\<rparr> w = (h, w1)" "view w1 = view w" "main_pc w1 = 9" "tasks w1 = tasks w"
    "ctl_ok (Some h)" "status_pin h = 27" "relay_state h = 0"
    using assms(2) by (simp add: app_controller_init_def view_frame ctl_ok_def gpio_set_output_def Let_def view_def)
  have "boot_order 10 ?ts ((view w)\<lparr>v_ctl := Some h\<rparr>)" using i(2) by (rule boot_order_next)
  moreover have "dev_inv ((view w)\<lparr>v_ctl := Some h\<rparr>)"
    using i h by (intro dev_inv_add_ctl) (simp_all add: boot_order_def)
  ultimately show ?thesis
    unfolding main_controller_def using h
    by (auto intro!: part_okI [where ts = ?ts] simp: view_handles Let_def split: if_splits)
qed

lemma main_part_ok:
  assumes "fw_inv w" "tame env MainStep w" "env_ok env" "main_pc w < length main_parts"
  shows "part_ok ((main_parts ! main_pc w) env w) (main_pc w)"
proof -
  consider "main_pc w = 0" | "main_pc w = 1" | "main_pc w = 2" | "main_pc w = 3" | "main_pc w = 4"
    | "main_pc w = 5" | "main_pc w = 6" | "main_pc w = 7" | "main_pc w = 8" | "main_pc w = 9"
    using assms(4) by (auto simp: main_parts_def less_Suc_eq numeral_eq_Suc)
  then show ?thesis
    using assms(1-3) main_alarm_ok [OF assms(1), of env]
    by cases (simp_all add: main_parts_def main_storage_ok main_network_ok main_websocket_ok main_ota_ok
        main_nextion_ok main_schedule_ok main_gps_ok main_controller_ok del: One_nat_def)
qed

lemma main_step_ok:
  assumes "fw_inv w" "tame env MainStep w" "env_ok env"
  shows "\<exists>w'. app_main_step env w = Some w' \<and> fw_inv w'"
proof (cases "main_pc w < length main_parts")
  case True
  then show ?thesis
    unfolding app_main_step_def using part_ok_next [OF main_part_ok [OF assms True]] by simp
next
  case False
  moreover have "fw_inv (vTaskDelay_ms 5000 w)" using assms(1) by (rule fw_inv_same) (simp add: view_frame)
  ultimately show ?thesis by (simp add: app_main_step_def)
qed

section \<open>Every step keeps the invariant\<close>

lemma inv_task: "fw_inv w \<Longrightarrow> t \<in> tasks w \<Longrightarrow> task_pc t \<le> main_pc w"
  by (simp add: fw_inv_def boot_order_def)

lemma inv_handles_ok: "fw_inv w \<Longrightarrow> handles_ok (view w)"
  by (simp add: fw_inv_def dev_inv_def)

lemma inv_network: "fw_inv w \<Longrightarrow> 2 \<le> main_pc w \<Longrightarrow> v_network (view w) = Some (False, True)"
  by (simp add: fw_inv_def boot_order_def)

lemma inv_exists:
  assumes "fw_inv w"
  shows "3 \<le> main_pc w \<Longrightarrow> websocket_handle w \<noteq> None" "5 \<le> main_pc w \<Longrightarrow> nextion_handle w \<noteq> None"
    "6 \<le> main_pc w \<Longrightarrow> schedule_handle w \<noteq> None" "9 \<le> main_pc w \<Longrightarrow> gps_handle w \<noteq> None"
    "10 \<le> main_pc w \<Longrightarrow> controller_handle w \<noteq> None"
  using assms by (auto simp: fw_inv_def boot_order_def view_def)

lemma read_task_ok:
  assumes "fw_inv w" "NextionReadTask \<in> tasks w"
  shows "\<exists>w'. read_task vars rx w = Some w' \<and> fw_inv w'"
proof (cases "rx = []")
  case True
  then show ?thesis using assms(1) by (simp add: read_task_def nextion_read_step_def)
next
  case False
  obtain h where h: "nextion_handle w = Some h" using inv_exists(2) [OF assms(1)] inv_task [OF assms] by auto
  let ?data = "take BUF_SIZE (take BUF_SIZE rx @ drop (length (take BUF_SIZE rx)) (read_buf w))"
  obtain w1 where w1: "handle_message event_callback vars ?data w = Some w1" "view_step (view w) (view w1)"
    using handle_message_view [OF inv_handles_ok [OF assms(1)] h, of vars ?data] by auto
  then have "fw_inv w1" using fw_inv_step [OF assms(1)] by blast
  then show ?thesis using False w1(1) by (simp add: read_task_def nextion_read_step_def Let_def)
qed

lemma write_task_ok:
  assumes "fw_inv w" "NextionWriteTask \<in> tasks w"
  shows "\<exists>w'. write_task w = Some w' \<and> fw_inv w'"
proof -
  obtain h where h: "nextion_handle w = Some h" using inv_exists(2) [OF assms(1)] inv_task [OF assms] by auto
  show ?thesis
    using write_step_view [OF h] fw_inv_same [OF assms(1)]
    by (cases "write_vars w") (fastforce simp: write_task_def)+
qed

lemma schedule_task_ok:
  assumes "fw_inv w" "ScheduleTask \<in> tasks w" "tame env (ScheduleStep sntp t) w"
  shows "\<exists>w'. schedule_task sntp t w = Some w' \<and> fw_inv w'"
proof -
  have pc: "6 \<le> main_pc w" using inv_task [OF assms(1,2)] by simp
  have s: "schedule_handle w \<noteq> None" using inv_exists(3) [OF assms(1) pc] .
  consider "schedule_ready w = None" | "schedule_ready w = Some False" | "schedule_ready w = Some True"
    by (cases "schedule_ready w") auto
  then show ?thesis
  proof cases
    case 1
    then obtain b w1 where "schedule_task_start t w = Some (b, w1)" "view w1 = view w"
      using schedule_start_view [OF s, of t] assms(3) by auto
    then show ?thesis using 1 fw_inv_same [OF assms(1)] by (simp add: schedule_task_def)
  next
    case 2
    then show ?thesis using assms(1) by (simp add: schedule_task_def)
  next
    case 3
    obtain w1 where "schedule_task_step event_callback sntp t w = Some w1" "view_step (view w) (view w1)"
      using schedule_step_view [OF inv_network [OF assms(1)] s inv_handles_ok [OF assms(1)], of sntp t] pc by auto
    then show ?thesis using 3 fw_inv_step [OF assms(1)] by (auto simp: schedule_task_def)
  qed
qed

lemma gpio_task_ok:
  assumes "fw_inv w" "GpioTask \<in> tasks w"
  shows "\<exists>w'. gpio_task w = Some w' \<and> fw_inv w'"
proof -
  have pc: "10 \<le> main_pc w" using inv_task [OF assms] by simp
  obtain c where c: "controller_handle w = Some c" using inv_exists(5) [OF assms(1) pc] by auto
  have ok: "ctl_ok (Some c)" "status_pin c = 27"
    using assms(1) c by (simp_all add: fw_inv_def dev_inv_def handles_ok_def ctl_of_view)
  define m where "m = decode_switch (gpio_in w (switcher_auto_pin c)) (gpio_in w (switcher_manual_pin c))"
  let ?v = "(view w)\<lparr>v_ctl := Some (c\<lparr>ctl_mode := m\<rparr>)\<rparr>"
  obtain l w1 where w1: "gpio_task_step event_callback (gpio_vars w, w) = Some (l, w1)"
    "view w1 = (if m = gl_mode (gpio_vars w) then view w else spec_mode m ?v)"
    using gpio_step_view [OF c ok, of "gpio_vars w"] by (auto simp: m_def)
  have d: "dev_inv ?v" using assms(1) c
    by (auto simp: fw_inv_def dev_defs ctl_of_view ctl_ok_def split: option.splits)
  have "shape ?v = shape (view w)" using c by (simp add: shape_def ctl_of_view)
  then have s: "shape (view w1) = shape (view w)" using w1(2) by simp
  have "dev_inv (view w1)" using w1(2) dev_inv_mode [OF d] assms(1) by (simp add: fw_inv_def)
  moreover have "main_pc w1 = main_pc w" "tasks w1 = tasks w"
    using s more_firmware [of w1 w] by (simp_all add: shape_def view_def)
  ultimately have "fw_inv w1" using assms(1) boot_order_shape [OF s] by (simp add: fw_inv_def)
  then show ?thesis using w1(1) by (simp add: gpio_task_def)
qed

lemma view_env [simp]:
  "view (w\<lparr>gpio_in := f\<rparr>) = view w" "view (w\<lparr>tick_ms := t, sys_time := u\<rparr>) = view w"
  "view (modem_event_handler e w) = view w"
  by (simp_all add: view_def modem_event_handler_def split: esp_modem_event.split)

lemma ip_event_ok:
  assumes "v_network (view w) = Some (False, True)"
  shows "\<exists>w'. on_ip_event e w = Some w' \<and> view w' = view w"
  using assms by (cases e) (auto simp: network_defs view_defs)

lemma execute_ok:
  assumes "fw_inv w" "enabled a w" "tame env a w" "env_ok env"
  shows "\<exists>w'. execute env a w = Some w' \<and> fw_inv w'"
proof -
  note same = fw_inv_same [OF assms(1)] and step = fw_inv_step [OF assms(1)]
  note task = inv_task [OF assms(1)] and ex = inv_exists [OF assms(1)]
    and net = inv_network [OF assms(1)] and hok = inv_handles_ok [OF assms(1)]
  show ?thesis
  proof (cases a)
    case MainStep
    then show ?thesis using main_step_ok assms by simp
  next
    case (IpEvent e)
    then have "2 \<le> main_pc w" using assms(2) task [of PppTask] by simp
    then obtain w' where "on_ip_event e w = Some w'" "view w' = view w" using ip_event_ok [OF net, of e] by auto
    then show ?thesis using IpEvent same by simp
  next
    case (WsEvent e)
    then obtain h where h: "websocket_handle w = Some h" using assms(2) by (auto split: option.splits)
    obtain w' where "websocket_event_handler event_callback e w = Some w'" "view_step (view w) (view w')"
      using ws_event_view [OF hok h, of e] by auto
    then show ?thesis using WsEvent step by auto
  next
    case WebsocketStep
    then have pc: "3 \<le> main_pc w" using assms(2) task [of WebsocketTask] by simp
    then obtain w' where "websocket_task_step w = Some w'" "view w' = view w"
      using websocket_step_view [OF net ex(1)] by auto
    then show ?thesis using WebsocketStep same by simp
  next
    case RxStep
    then have pc: "3 \<le> main_pc w" using assms(2) task [of RxProcessTask] by simp
    then obtain h where h: "websocket_handle w = Some h" using ex(1) by auto
    obtain w' where "rx_process_step event_callback w = Some w'" "view_step (view w) (view w')"
      using rx_step_view [OF hok h] RxStep assms(3) h by auto
    then show ?thesis using RxStep step by auto
  next
    case (OtaStep f)
    then have "4 \<le> main_pc w" "v_ota (view w)" using assms task [of OtaTask] by (auto simp: fw_inv_def boot_order_def)
    then obtain h where h: "ota_handle w = Some h" and pc: "2 \<le> main_pc w" by (auto simp: view_def)
    obtain w' where "ota_task_step f w = Some w'" "view_step (view w) (view w')"
      using ota_step_view [OF net [OF pc] h, of f] by auto
    then show ?thesis using OtaStep step by auto
  next
    case (GpsStep polls)
    then have "9 \<le> main_pc w" using assms(2) task [of GpsTask] by simp
    then obtain h where h: "gps_handle w = Some h" using ex(4) by auto
    obtain w' where "gps_task_step polls w = Some w'" "view w' = view w"
      using gps_step_view [OF _ h, of polls] GpsStep assms(3) by auto
    then show ?thesis using GpsStep same by simp
  next
    case GpsProcessStep
    then have "9 \<le> main_pc w" using assms(2) task [of GpsProcessTask] by simp
    then obtain h where h: "gps_handle w = Some h" using ex(4) by auto
    obtain w' where "GPS_process_step event_callback w = Some w'" "view_step (view w) (view w')"
      using gps_process_view [OF hok h] by auto
    then show ?thesis using GpsProcessStep step by auto
  qed (use assms read_task_ok write_task_ok schedule_task_ok gpio_task_ok same in \<open>simp_all\<close>)
qed

lemma power_up_inv: "power_up w \<Longrightarrow> fw_inv w"
  by (simp add: power_up_def fw_inv_def dev_defs boot_order_def view_def ctl_ok_def)

lemma reachable_inv:
  assumes "reachable env w" "env_ok env"
  shows "fw_inv w"
  using assms
proof (induction rule: reachable.induct)
  case (reach_init w)
  then show ?case by (blast intro: power_up_inv)
next
  case (reach_step w a w')
  then show ?case using execute_ok [of w a env] by auto
qed

section \<open>Running the start-up to its end\<close>

fun main_run :: "boot_env \<Rightarrow> nat \<Rightarrow> firmware \<Rightarrow> firmware option" where
  "main_run env 0 w = Some w"
| "main_run env (Suc n) w = app_main_step env w \<bind> main_run env n"

lemma main_step_next:
  assumes "fw_inv w" "tame env MainStep w" "env_ok env" "main_pc w < 10"
  shows "\<exists>w'. app_main_step env w = Some w' \<and> fw_inv w' \<and> main_pc w' = Suc (main_pc w)"
proof -
  have pc: "main_pc w < length main_parts" using assms(4) by (simp add: main_parts_def)
  have "part_ok ((main_parts ! main_pc w) env w) (main_pc w)" by (rule main_part_ok [OF assms(1-3) pc])
  then show ?thesis
    using pc by (auto simp: part_ok_def app_main_step_def fw_inv_def view_locals split: option.splits)
qed

lemma main_run_ok:
  assumes "fw_inv w" "tame env MainStep w" "env_ok env" "main_pc w + n \<le> 10"
  shows "\<exists>w'. main_run env n w = Some w' \<and> fw_inv w' \<and> main_pc w' = main_pc w + n"
  using assms
proof (induction n arbitrary: w)
  case 0
  then show ?case by simp
next
  case (Suc n)
  obtain w1 where w1: "app_main_step env w = Some w1" "fw_inv w1" "main_pc w1 = Suc (main_pc w)"
    using main_step_next [of w env] Suc.prems by auto
  have "tame env MainStep w1" using w1(3) by simp
  then show ?case using Suc.IH [of w1] Suc.prems w1 by simp
qed

lemma fw_inv_handles:
  assumes "fw_inv w" "main_pc w = 10"
  shows "storage_handle w \<noteq> None" "network_handle w \<noteq> None" "websocket_handle w \<noteq> None"
    "nextion_handle w \<noteq> None" "schedule_handle w \<noteq> None" "gps_handle w \<noteq> None" "controller_handle w \<noteq> None"
  using assms by (auto simp: fw_inv_def boot_order_def view_def)

text \<open>No part restarts the device or touches the local variables of the tasks.\<close>

lemma storage_frame [simp]:
  "restarted (snd (app_storage_load_data w)) = restarted w"
  "gpio_vars (snd (app_storage_load_data v)) = gpio_vars v" "rb_res (snd (app_storage_load_data v)) = rb_res v"
  by (simp_all add: storage_defs nvs_defs Let_def split: option.split prod.split)

lemma xTaskCreate_frame [simp]:
  "restarted (xTaskCreate env t w) = restarted w" "gpio_vars (xTaskCreate env t w) = gpio_vars w"
  "rb_res (xTaskCreate env t w) = rb_res w"
  by (simp_all add: xTaskCreate_def)

lemma parts_frame:
  "main_storage env w = Some w' \<Longrightarrow> restarted w' = restarted w \<and> gpio_vars w' = gpio_vars w \<and> rb_res w' = rb_res w"
  "main_network env w = Some w' \<Longrightarrow> restarted w' = restarted w \<and> gpio_vars w' = gpio_vars w \<and> rb_res w' = rb_res w"
  "main_websocket env w = Some w' \<Longrightarrow> restarted w' = restarted w \<and> gpio_vars w' = gpio_vars w \<and> rb_res w' = rb_res w"
  "main_ota env w = Some w' \<Longrightarrow> restarted w' = restarted w \<and> gpio_vars w' = gpio_vars w \<and> rb_res w' = rb_res w"
  "main_nextion env w = Some w' \<Longrightarrow> restarted w' = restarted w \<and> gpio_vars w' = gpio_vars w \<and> rb_res w' = rb_res w"
  "main_schedule env w = Some w' \<Longrightarrow> restarted w' = restarted w \<and> gpio_vars w' = gpio_vars w \<and> rb_res w' = rb_res w"
  "main_alarm_start env w = Some w' \<Longrightarrow> restarted w' = restarted w \<and> gpio_vars w' = gpio_vars w \<and> rb_res w' = rb_res w"
  "main_alarm_end env w = Some w' \<Longrightarrow> restarted w' = restarted w \<and> gpio_vars w' = gpio_vars w \<and> rb_res w' = rb_res w"
  "main_gps env w = Some w' \<Longrightarrow> restarted w' = restarted w \<and> gpio_vars w' = gpio_vars w \<and> rb_res w' = rb_res w"
  "main_controller env w = Some w' \<Longrightarrow> restarted w' = restarted w \<and> gpio_vars w' = gpio_vars w \<and> rb_res w' = rb_res w"
  subgoal by (auto simp: main_storage_def app_storage_init_def nvs_defs Let_def split: prod.splits if_splits bind_splits)
  subgoal by (auto simp: main_network_def app_network_start_def app_network_init_def network_defs Let_def split: option.splits prod.splits if_splits bind_splits)
  subgoal by (auto simp: main_websocket_def Let_def split: if_splits bind_splits)
  subgoal by (auto simp: main_ota_def Let_def)
  subgoal by (auto simp: main_nextion_def app_nextion_start_def vTaskDelay_ms_def Let_def split: option.splits if_splits bind_splits)
  subgoal by (auto simp: main_schedule_def Let_def)
  subgoal by (auto simp: main_alarm_start_def app_schedule_add_alarm_def set_schedule_def Let_def split: option.splits if_splits bind_splits)
  subgoal by (auto simp: main_alarm_end_def app_schedule_add_alarm_def set_schedule_def Let_def split: option.splits if_splits bind_splits)
  subgoal by (auto simp: main_gps_def Let_def split: if_splits)
  subgoal by (auto simp: main_controller_def app_controller_init_def gpio_set_output_def Let_def)
  done

lemma main_step_frame:
  assumes "app_main_step env w = Some w'" "main_pc w < 10"
  shows "restarted w' = restarted w \<and> gpio_vars w' = gpio_vars w \<and> rb_res w' = rb_res w"
proof -
  have pc: "main_pc w < length main_parts" using assms(2) by (simp add: main_parts_def)
  then obtain w1 where w1: "(main_parts ! main_pc w) env w = Some w1" "w' = w1\<lparr>main_pc := Suc (main_pc w1)\<rparr>"
    using assms(1) by (auto simp: app_main_step_def)
  have "main_parts ! main_pc w \<in> set main_parts" using pc by (rule nth_mem)
  then have "restarted w1 = restarted w \<and> gpio_vars w1 = gpio_vars w \<and> rb_res w1 = rb_res w"
    using w1(1) parts_frame [of env w w1] by (auto simp: main_parts_def)
  then show ?thesis using w1(2) by simp
qed

lemma main_run_reachable:
  assumes "reachable env w" "\<not> restarted w" "tame env MainStep w" "env_ok env" "main_pc w + n \<le> 10"
    "main_run env n w = Some w'"
  shows "reachable env w' \<and> \<not> restarted w' \<and> gpio_vars w' = gpio_vars w \<and> rb_res w' = rb_res w"
  using assms
proof (induction n arbitrary: w)
  case 0
  then show ?case by simp
next
  case (Suc n)
  then obtain w1 where w1: "app_main_step env w = Some w1" "main_run env n w1 = Some w'"
    by (auto split: bind_splits)
  have inv: "fw_inv w" using Suc.prems(1,4) by (rule reachable_inv)
  then have pc: "main_pc w1 = Suc (main_pc w)"
    using main_step_next [OF inv Suc.prems(3,4)] Suc.prems(5) w1(1) by auto
  have fr: "restarted w1 = restarted w \<and> gpio_vars w1 = gpio_vars w \<and> rb_res w1 = rb_res w"
    using main_step_frame [OF w1(1)] Suc.prems(5) by simp
  have "reachable env w1" by (rule reach_step [OF Suc.prems(1,2) _ Suc.prems(3)]) (simp_all add: w1(1))
  then show ?case using Suc.IH [of w1] Suc.prems w1(2) pc fr by simp
qed


text \<open>The switch as the controller reads it, and what the relays show.\<close>

definition switch_position :: "app_controller_t \<Rightarrow> 'a platform_scheme \<Rightarrow> app_controller_mode_t" where
  "switch_position c w = decode_switch (gpio_in w (switcher_auto_pin c)) (gpio_in w (switcher_manual_pin c))"

lemma inv_controller:
  assumes "fw_inv w" "controller_handle w = Some c"
  shows "\<exists>h n s. websocket_handle w = Some h \<and> nextion_handle w = Some n \<and> schedule_handle w = Some s \<and>
    relay_state c \<in> {0, 1} \<and> gpio_out w 25 = relay_state c \<and> gpio_out w 26 = relay_state c \<and>
    power_state h = (relay_state c = 1) \<and> ws_mode h = mode_number (nx_mode n) \<and>
    sch_mode s = operator_of_mode (nx_mode n)"
proof -
  have v: "dev_inv (view w)" "v_ctl (view w) = Some c" using assms by (simp_all add: fw_inv_def view_def)
  then have "v_ws (view w) \<noteq> None" "v_nx (view w) \<noteq> None" "v_sch (view w) \<noteq> None"
    by (simp_all add: dev_inv_def handles_ok_def)
  then obtain h n s where h: "websocket_handle w = Some h" "nextion_handle w = Some n" "schedule_handle w = Some s"
    by (auto simp: view_def)
  have "v_ws (view w) = Some (ws_view h)" "v_nx (view w) = Some (nx_view n)" "v_sch (view w) = Some (sch_view s)"
    "v_relays (view w) = (gpio_out w 25, gpio_out w 26)"
    using h by (simp_all add: view_def)
  with v h show ?thesis
    by (simp add: dev_inv_def handles_ok_def ctl_ok_def lamp_def mode_of_def ws_view_def nx_view_def sch_view_def)
qed

lemma gpio_task_moved:
  assumes "fw_inv w" "GpioTask \<in> tasks w" "controller_handle w = Some c"
    and "switch_position c w = m" "m \<noteq> gl_mode (gpio_vars w)"
  shows "\<exists>w' c'. gpio_task w = Some w' \<and> fw_inv w' \<and> controller_handle w' = Some c' \<and> ctl_mode c' = m \<and>
    mode_of (view w') = m \<and> gl_mode (gpio_vars w') = m \<and>
    relay_state c' = (if m = APP_CONTROLLER_INPUT_MODE_OFF then 0 else relay_state c)"
proof -
  have ok: "ctl_ok (Some c)" "status_pin c = 27"
    using assms(1,3) by (simp_all add: fw_inv_def dev_inv_def handles_ok_def ctl_of_view)
  let ?v = "(view w)\<lparr>v_ctl := Some (c\<lparr>ctl_mode := m\<rparr>)\<rparr>"
  obtain l w1 where w1: "gpio_task_step event_callback (gpio_vars w, w) = Some (l, w1)" "gl_mode l = m"
    "view w1 = spec_mode m ?v"
    using gpio_step_view [OF assms(3) ok, of "gpio_vars w"] assms(4,5) by (auto simp: switch_position_def)
  then have t: "gpio_task w = Some (w1\<lparr>gpio_vars := l\<rparr>)" by (simp add: gpio_task_def)
  then have "fw_inv (w1\<lparr>gpio_vars := l\<rparr>)" using gpio_task_ok [OF assms(1,2)] by auto
  moreover have "relay_state c \<in> {0, 1}" using ok(1) by (simp add: ctl_ok_def)
  then have "\<exists>c'. v_ctl (spec_mode m ?v) = Some c' \<and> ctl_mode c' = m \<and>
      relay_state c' = (if m = APP_CONTROLLER_INPUT_MODE_OFF then 0 else relay_state c)"
    by (auto simp: spec_mode_def spec_relay_def spec_power_def Let_def)
  then obtain c' where "controller_handle w1 = Some c'" "ctl_mode c' = m"
      "relay_state c' = (if m = APP_CONTROLLER_INPUT_MODE_OFF then 0 else relay_state c)"
    unfolding w1(3) [symmetric] by (auto simp: ctl_of_view)
  moreover have "v_nx ?v \<noteq> None" using assms(1,3) by (simp add: fw_inv_def dev_inv_def handles_ok_def ctl_of_view)
  then have "mode_of (spec_mode m ?v) = m"
    by (auto simp: mode_of_def spec_mode_def spec_relay_def spec_power_def Let_def split: option.splits)
  then have "mode_of (view (w1\<lparr>gpio_vars := l\<rparr>)) = m" by (simp add: view_locals mode_of_def w1(3))
  ultimately show ?thesis using t w1(2) by (auto intro!: exI [of _ "w1\<lparr>gpio_vars := l\<rparr>"])
qed

lemma main_run_snoc: "main_run env (Suc n) w = main_run env n w \<bind> app_main_step env"
proof (induction n arbitrary: w)
  case 0
  show ?case by (cases "app_main_step env w") simp_all
next
  case (Suc n)
  then show ?case by (cases "app_main_step env w") simp_all
qed

text \<open>The last part creates the controller and the task that polls the switch.\<close>

definition first_controller :: "boot_env \<Rightarrow> app_controller_t" where
  "first_controller env = (be_controller env)\<lparr>ctl_callback := True, relay_1_pin := 25, relay_2_pin := 26,
     switcher_manual_pin := 18, switcher_auto_pin := 19, switcher_state := 0, status_pin := 27, relay_state := 0\<rparr>"

lemma last_part:
  assumes "main_pc w = 9" "app_main_step env w = Some w'"
  shows "controller_handle w' = Some (first_controller env) \<and> (be_task env GpioTask \<longrightarrow> GpioTask \<in> tasks w')"
  using assms
  by (auto simp: app_main_step_def main_parts_def main_controller_def app_controller_init_def first_controller_def
      xTaskCreate_def Let_def)

lemma view_relays: "v_relays (view w) = (gpio_out w 25, gpio_out w 26)"
  by (simp add: view_def)

section \<open>Login\<close>

lemma online_callback:
  fixes w :: "'a gps_world_scheme"
  assumes "websocket_handle w = Some h" "ws_callback h"
  shows "\<exists>w'. websocket_callback event_callback WEBSOCKET_ON_ONLINE None 0 w = Some w' \<and>
    websocket_handle w' = Some h \<and> rb_res w' = rb_res w \<and> rb_count w' = rb_count w"
  using assms
  by (auto simp: websocket_callback_def nextion_defs send_command_def uart_write_bytes_def vTaskDelay_ms_def
      event_callback_body_def event_ids Let_def fun_cong [OF fun_cong [OF event_callback_unfold]] split: option.split)

lemma login_queue:
  fixes w :: "'a gps_world_scheme"
  assumes "websocket_handle w = Some h" "ws_callback h" "status_code resp = Some 0" "\<And>k. rb_res w k"
  shows "\<exists>w'. process_login event_callback resp w = Some w' \<and>
    websocket_handle w' = Some (h\<lparr>is_logged := True, tx_rb := tx_rb h @ map main_message__pack
      [power_state_message (device_id h) (power_state h), mode_message (device_id h) (ws_mode h),
       active_time_message (device_id h) (ws_active_time h)]\<rparr>)"
proof -
  let ?h = "h\<lparr>is_logged := True\<rparr>"
  obtain w1 where w1: "websocket_callback event_callback WEBSOCKET_ON_ONLINE None 0 (set_websocket ?h w) = Some w1"
    "websocket_handle w1 = Some ?h" "rb_res w1 = rb_res w"
    using online_callback [of "set_websocket ?h w" ?h] assms(2) by (auto simp: set_websocket_def)
  have "rb_res w1 k" for k using assms(4) w1(3) by simp
  then show ?thesis
    using assms(1,3) w1 by (simp add: process_login_def websocket_defs)
qed

end
