(* ===== verification/Modem_Lines.thy ===== *)
theory Modem_Lines
  imports App_Network
begin

text \<open>
  \<^verbatim>\<open>components/modem\<close>: the state of the modem driver, and the functions that handle one line of
  the modem's answer (\<^verbatim>\<open>esp_modem_dce_service.c\<close>, \<^verbatim>\<open>bg96.c\<close>, \<^verbatim>\<open>sim800.c\<close>,
  \<^verbatim>\<open>sim7600.c\<close>). The modem object (DCE) is allocated and freed while the terminal (DTE) keeps a
  pointer to it, so the objects live in a heap \<open>dce_heap\<close>: a pointer to a freed block has no
  result. What the modem sends while a command waits is the oracle \<open>uart_script n\<close>, the items
  the event task gets during the \<open>n\<close>-th wait.
\<close>

section \<open>State\<close>

datatype modem_mode_t = MODEM_COMMAND_MODE | MODEM_PPP_MODE | MODEM_TRANSITION_MODE

datatype modem_state_t = MODEM_STATE_PROCESSING | MODEM_STATE_SUCCESS | MODEM_STATE_FAIL

datatype modem_flow_ctrl_t = MODEM_FLOW_CONTROL_NONE | MODEM_FLOW_CONTROL_SW | MODEM_FLOW_CONTROL_HW

text \<open>The functions the pointer \<^verbatim>\<open>handle_line\<close> is set to, and those behind the method pointers that differ.\<close>

datatype line_handler =
    Handle_response_default | Handle_csq | Handle_cbc | Handle_exit_data_mode | Handle_atd_ppp
  | Handle_cgmm | Handle_cgsn | Handle_cimi | Handle_cops | Handle_power_down | Handle_sim800_power_down
  | Handle_sim7600_cbc

datatype dce_kind = Sim800 | Bg96

datatype battery_method = Cbc_battery | Sim7600_battery

text \<open>
  The four text members lie one behind the other in the structure: \<open>imei\<close> at 0, \<open>imsi\<close> at 16,
  \<open>name\<close> at 32 and \<open>oper\<close> at 64, 96 characters in all. \<open>priv_resource\<close> holds the
  variables of the caller the pointers of the same name lead to.
\<close>

record modem_dce_t =
  dce_text :: string
  act :: byte
  dce_state :: modem_state_t
  dce_mode :: modem_mode_t
  dce_dte :: bool
  handle_line :: "line_handler option"
  get_battery_status :: battery_method
  kind :: dce_kind
  priv_resource :: "int list"

datatype uart_event_type =
    UART_DATA | UART_FIFO_OVF | UART_BUFFER_FULL | UART_BREAK | UART_PARITY_ERR | UART_FRAME_ERR
  | UART_PATTERN_DET | UART_EVENT_OTHER

text \<open>
  One UART event with what the driver answers meanwhile: the characters received since the last
  event, the position the pattern queue gives (or -1), and the results of the single-character
  reads, \<open>None\<close> for one that times out.
\<close>

record uart_item =
  ui_type :: uart_event_type
  ui_new :: string
  ui_pos :: int
  ui_more :: "char option list"

record modem_world = network_world +
  dce_heap :: "nat \<Rightarrow> modem_dce_t option"
  dce_next :: nat
  heap_ok :: "nat \<Rightarrow> bool"
  dte_dce :: "nat option"
  dte_flow_ctrl :: modem_flow_ctrl_t
  line_buffer_size :: nat
  uart_rx :: string
  uart_busy :: bool
  uart_script :: "nat \<Rightarrow> uart_item list"
  uart_waits :: nat
  pattern_det :: bool
  rx_intr :: bool
  process_sem :: bool
  exit_sem :: bool
  modem_queue :: "(esp_modem_event \<times> string) list"
  receive_cb :: bool
  ppp_input :: string

definition uart_port :: int where "uart_port = 1"
definition ESP_MODEM_EVENT_QUEUE_SIZE :: nat where "ESP_MODEM_EVENT_QUEUE_SIZE = 16"

definition MODEM_COMMAND_TIMEOUT_DEFAULT :: int where "MODEM_COMMAND_TIMEOUT_DEFAULT = 500"
definition MODEM_COMMAND_TIMEOUT_OPERATOR :: int where "MODEM_COMMAND_TIMEOUT_OPERATOR = 75000"
definition MODEM_COMMAND_TIMEOUT_MODE_CHANGE :: int where "MODEM_COMMAND_TIMEOUT_MODE_CHANGE = 5000"
definition MODEM_COMMAND_TIMEOUT_HANG_UP :: int where "MODEM_COMMAND_TIMEOUT_HANG_UP = 90000"
definition MODEM_COMMAND_TIMEOUT_POWEROFF :: int where "MODEM_COMMAND_TIMEOUT_POWEROFF = 1000"

definition CR :: char where "CR = CHR 0x0D"
definition LF :: char where "LF = CHR 0x0A"

text \<open>Access through a pointer to a modem object.\<close>

definition dce_update :: "nat \<Rightarrow> (modem_dce_t \<Rightarrow> modem_dce_t) \<Rightarrow> 'a modem_world_scheme \<Rightarrow> 'a modem_world_scheme option" where
  "dce_update a f w = do {
     d \<leftarrow> dce_heap w a;
     Some (w\<lparr>dce_heap := (dce_heap w)(a \<mapsto> f d)\<rparr>)
   }"

definition modem_post :: "esp_modem_event \<Rightarrow> string \<Rightarrow> 'a modem_world_scheme \<Rightarrow> 'a modem_world_scheme" where
  "modem_post e s w =
     (if length (modem_queue w) < ESP_MODEM_EVENT_QUEUE_SIZE then w\<lparr>modem_queue := modem_queue w @ [(e, s)]\<rparr> else w)"

definition uart_flush :: "'a modem_world_scheme \<Rightarrow> 'a modem_world_scheme" where
  "uart_flush w = w\<lparr>uart_rx := []\<rparr>"

definition uart_read_bytes :: "nat \<Rightarrow> 'a modem_world_scheme \<Rightarrow> string \<times> 'a modem_world_scheme" where
  "uart_read_bytes n w = (take n (uart_rx w), w\<lparr>uart_rx := drop n (uart_rx w)\<rparr>)"

definition xSemaphoreGive_process :: "'a modem_world_scheme \<Rightarrow> esp_err_t \<times> 'a modem_world_scheme" where
  "xSemaphoreGive_process w = (if process_sem w then (ESP_FAIL, w) else (ESP_OK, w\<lparr>process_sem := True\<rparr>))"

section \<open>Answers of the modem\<close>

definition is_only_cr_lf :: "string \<Rightarrow> bool" where
  "is_only_cr_lf s \<longleftrightarrow> list_all (\<lambda>c. c = CR \<or> c = LF) s"

definition contains :: "string \<Rightarrow> string \<Rightarrow> bool" where
  "contains s p \<longleftrightarrow> strstr s p \<noteq> None"

definition esp_modem_dte_process_cmd_done :: "'a modem_world_scheme \<Rightarrow> esp_err_t \<times> 'a modem_world_scheme" where
  "esp_modem_dte_process_cmd_done w = xSemaphoreGive_process w"

definition esp_modem_process_command_done ::
    "nat \<Rightarrow> modem_state_t \<Rightarrow> 'a modem_world_scheme \<Rightarrow> (esp_err_t \<times> 'a modem_world_scheme) option" where
  "esp_modem_process_command_done a state w = do {
     d \<leftarrow> dce_heap w a;
     w \<leftarrow> dce_update a (\<lambda>d. d\<lparr>dce_state := state\<rparr>) w;
     if dce_dte d then Some (esp_modem_dte_process_cmd_done w) else None
   }"

text \<open>The end of a command: most handlers begin with these two tests.\<close>

definition handle_result ::
    "string \<Rightarrow> nat \<Rightarrow> string \<Rightarrow> ('a modem_world_scheme \<Rightarrow> (esp_err_t \<times> 'a modem_world_scheme) option)
     \<Rightarrow> 'a modem_world_scheme \<Rightarrow> (esp_err_t \<times> 'a modem_world_scheme) option" where
  "handle_result success a line other w =
     (if contains line success then esp_modem_process_command_done a MODEM_STATE_SUCCESS w
      else if contains line ''ERROR'' then esp_modem_process_command_done a MODEM_STATE_FAIL w
      else other w)"

definition esp_modem_dce_handle_response_default ::
    "nat \<Rightarrow> string \<Rightarrow> 'a modem_world_scheme \<Rightarrow> (esp_err_t \<times> 'a modem_world_scheme) option" where
  "esp_modem_dce_handle_response_default a line = handle_result ''OK'' a line (\<lambda>w. Some (ESP_FAIL, w))"

text \<open>
  Writing a text member: \<open>n\<close> is its size and \<open>off\<close> where it begins. The removal of the line end
  looks at the last two characters of the untruncated text; outside the 96 characters it has no
  result.
\<close>

definition text_put :: "nat \<Rightarrow> string \<Rightarrow> string \<Rightarrow> string" where
  "text_put off s t = take off t @ s @ drop (off + length s) t"

definition text_get :: "nat \<Rightarrow> string \<Rightarrow> string" where
  "text_get off t = c_str (drop off t)"

definition strip_cr_lf_tail :: "nat \<Rightarrow> nat \<Rightarrow> string \<Rightarrow> string option" where
  "strip_cr_lf_tail off len t =
     (if length t \<le> off + len - 2 then None
      else if t ! (off + len - 2) = CR then Some (t[off + len - 2 := CHR 0x00])
      else if length t \<le> off + len - 1 then None
      else if t ! (off + len - 1) = CR then Some (t[off + len - 1 := CHR 0x00])
      else Some t)"

definition store_text ::
    "nat \<Rightarrow> nat \<Rightarrow> nat \<Rightarrow> string \<Rightarrow> 'a modem_world_scheme \<Rightarrow> (esp_err_t \<times> 'a modem_world_scheme) option" where
  "store_text off n a s w = do {
     d \<leftarrow> dce_heap w a;
     let (out, len) = snprintf_s n s;
     let t = text_put off (out @ [CHR 0x00]) (dce_text d);
     if len > 2 then do {
       t \<leftarrow> strip_cr_lf_tail off len t;
       w \<leftarrow> dce_update a (\<lambda>d. d\<lparr>dce_text := t\<rparr>) w;
       Some (ESP_OK, w)
     } else do {
       w \<leftarrow> dce_update a (\<lambda>d. d\<lparr>dce_text := t\<rparr>) w;
       Some (ESP_FAIL, w)
     }
   }"

definition store_values ::
    "nat \<Rightarrow> (int list \<Rightarrow> int list) \<Rightarrow> 'a modem_world_scheme \<Rightarrow> (esp_err_t \<times> 'a modem_world_scheme) option" where
  "store_values a f w = do {
     w \<leftarrow> dce_update a (\<lambda>d. d\<lparr>priv_resource := f (priv_resource d)\<rparr>) w;
     Some (ESP_OK, w)
   }"

definition bg96_handle_csq ::
    "nat \<Rightarrow> string \<Rightarrow> 'a modem_world_scheme \<Rightarrow> (esp_err_t \<times> 'a modem_world_scheme) option" where
  "bg96_handle_csq a line = handle_result ''OK'' a line (\<lambda>w.
     if starts_with line ''+CSQ''
     then store_values a (assign_vars (sscanf [SSkipStr, SInt, SLit CHR '','', SInt] line)) w
     else Some (ESP_FAIL, w))"

definition bg96_handle_cbc ::
    "nat \<Rightarrow> string \<Rightarrow> 'a modem_world_scheme \<Rightarrow> (esp_err_t \<times> 'a modem_world_scheme) option" where
  "bg96_handle_cbc a line = handle_result ''OK'' a line (\<lambda>w.
     if starts_with line ''+CBC''
     then store_values a (assign_vars
       (sscanf [SSkipStr, SInt, SLit CHR '','', SInt, SLit CHR '','', SInt] line)) w
     else Some (ESP_FAIL, w))"

definition bg96_handle_exit_data_mode ::
    "nat \<Rightarrow> string \<Rightarrow> 'a modem_world_scheme \<Rightarrow> (esp_err_t \<times> 'a modem_world_scheme) option" where
  "bg96_handle_exit_data_mode a line w =
     (if contains line ''OK'' then esp_modem_process_command_done a MODEM_STATE_SUCCESS w
      else if contains line ''NO CARRIER'' then esp_modem_process_command_done a MODEM_STATE_SUCCESS w
      else if contains line ''ERROR'' then esp_modem_process_command_done a MODEM_STATE_FAIL w
      else Some (ESP_FAIL, w))"

definition bg96_handle_atd_ppp ::
    "nat \<Rightarrow> string \<Rightarrow> 'a modem_world_scheme \<Rightarrow> (esp_err_t \<times> 'a modem_world_scheme) option" where
  "bg96_handle_atd_ppp a line = handle_result ''CONNECT'' a line (\<lambda>w. Some (ESP_FAIL, w))"

definition bg96_handle_cgmm ::
    "nat \<Rightarrow> string \<Rightarrow> 'a modem_world_scheme \<Rightarrow> (esp_err_t \<times> 'a modem_world_scheme) option" where
  "bg96_handle_cgmm a line = handle_result ''OK'' a line (store_text 32 32 a line)"

definition bg96_handle_cgsn ::
    "nat \<Rightarrow> string \<Rightarrow> 'a modem_world_scheme \<Rightarrow> (esp_err_t \<times> 'a modem_world_scheme) option" where
  "bg96_handle_cgsn a line = handle_result ''OK'' a line (store_text 0 16 a line)"

definition bg96_handle_cimi ::
    "nat \<Rightarrow> string \<Rightarrow> 'a modem_world_scheme \<Rightarrow> (esp_err_t \<times> 'a modem_world_scheme) option" where
  "bg96_handle_cimi a line = handle_result ''OK'' a line (store_text 16 16 a line)"

text \<open>\<^verbatim>\<open>strtok_r\<close> in a loop.\<close>

function comma_tokens :: "string \<Rightarrow> string list" where
  "comma_tokens s = (case strtok s '','' of None \<Rightarrow> [] | Some (t, r) \<Rightarrow> t # comma_tokens r)"
  by pat_completeness simp_all

termination
  by (relation "measure length") (auto dest: strtok_shorter)

declare comma_tokens.simps [simp del]

text \<open>\<^verbatim>\<open>strtol\<close> with base 0: the prefix decides between octal, hexadecimal and decimal.\<close>

definition digit_of :: "char \<Rightarrow> nat" where
  "digit_of c =
     (let n = of_char c :: nat
      in if is_digit c then n - 48 else if 97 \<le> n \<and> n \<le> 122 then n - 87
         else if 65 \<le> n \<and> n \<le> 90 then n - 55 else 99)"

fun scan_base :: "nat \<Rightarrow> nat \<Rightarrow> string \<Rightarrow> nat" where
  "scan_base b acc [] = acc"
| "scan_base b acc (c # s) = (if digit_of c < b then scan_base b (acc * b + digit_of c) s else acc)"

definition strtol0 :: "string \<Rightarrow> int" where
  "strtol0 s =
     (let t = dropWhile isspace s; neg = starts_with t ''-'';
          u = (if neg \<or> starts_with t ''+'' then tl t else t);
          v = (if (starts_with u ''0x'' \<or> starts_with u ''0X'') \<and> 2 < length u \<and> digit_of (u ! 2) < 16
               then scan_base 16 0 (drop 2 u)
               else if starts_with u ''0'' then scan_base 8 0 u else scan_base 10 0 u)
      in saturate (if neg then - int v else int v))"

text \<open>
  The array of pointers to the tokens has five elements, one of them for the null pointer that
  ends the loop: with five tokens or more the loop writes behind it, which has no result.
\<close>

definition bg96_handle_cops ::
    "nat \<Rightarrow> string \<Rightarrow> 'a modem_world_scheme \<Rightarrow> (esp_err_t \<times> 'a modem_world_scheme) option" where
  "bg96_handle_cops a line = handle_result ''OK'' a line (\<lambda>w.
     if starts_with line ''+COPS'' then do {
       let p = comma_tokens line;
       let i = length p;
       if 5 \<le> i then None else do {
         (err, w) \<leftarrow> (if 3 \<le> i then store_text 64 32 a (p ! 2) w else Some (ESP_FAIL, w));
         w \<leftarrow> (if 4 \<le> i then dce_update a (\<lambda>d. d\<lparr>act := word_of_int (strtol0 (p ! 3))\<rparr>) w else Some w);
         Some (err, w)
       }
     } else Some (ESP_FAIL, w))"

definition bg96_handle_power_down ::
    "nat \<Rightarrow> string \<Rightarrow> 'a modem_world_scheme \<Rightarrow> (esp_err_t \<times> 'a modem_world_scheme) option" where
  "bg96_handle_power_down a line w =
     (if contains line ''OK'' then Some (ESP_OK, w)
      else if contains line ''POWERED DOWN'' then esp_modem_process_command_done a MODEM_STATE_SUCCESS w
      else Some (ESP_FAIL, w))"

text \<open>The handlers of \<^verbatim>\<open>sim800.c\<close> have the bodies of those of \<^verbatim>\<open>bg96.c\<close>, but for one.\<close>

definition sim800_handle_csq ::
    "nat \<Rightarrow> string \<Rightarrow> 'a modem_world_scheme \<Rightarrow> (esp_err_t \<times> 'a modem_world_scheme) option" where
  "sim800_handle_csq = bg96_handle_csq"

definition sim800_handle_cbc ::
    "nat \<Rightarrow> string \<Rightarrow> 'a modem_world_scheme \<Rightarrow> (esp_err_t \<times> 'a modem_world_scheme) option" where
  "sim800_handle_cbc = bg96_handle_cbc"

definition sim800_handle_exit_data_mode ::
    "nat \<Rightarrow> string \<Rightarrow> 'a modem_world_scheme \<Rightarrow> (esp_err_t \<times> 'a modem_world_scheme) option" where
  "sim800_handle_exit_data_mode = bg96_handle_exit_data_mode"

definition sim800_handle_atd_ppp ::
    "nat \<Rightarrow> string \<Rightarrow> 'a modem_world_scheme \<Rightarrow> (esp_err_t \<times> 'a modem_world_scheme) option" where
  "sim800_handle_atd_ppp = bg96_handle_atd_ppp"

definition sim800_handle_cgmm ::
    "nat \<Rightarrow> string \<Rightarrow> 'a modem_world_scheme \<Rightarrow> (esp_err_t \<times> 'a modem_world_scheme) option" where
  "sim800_handle_cgmm = bg96_handle_cgmm"

definition sim800_handle_cgsn ::
    "nat \<Rightarrow> string \<Rightarrow> 'a modem_world_scheme \<Rightarrow> (esp_err_t \<times> 'a modem_world_scheme) option" where
  "sim800_handle_cgsn = bg96_handle_cgsn"

definition sim800_handle_cimi ::
    "nat \<Rightarrow> string \<Rightarrow> 'a modem_world_scheme \<Rightarrow> (esp_err_t \<times> 'a modem_world_scheme) option" where
  "sim800_handle_cimi = bg96_handle_cimi"

definition sim800_handle_cops ::
    "nat \<Rightarrow> string \<Rightarrow> 'a modem_world_scheme \<Rightarrow> (esp_err_t \<times> 'a modem_world_scheme) option" where
  "sim800_handle_cops = bg96_handle_cops"

definition sim800_handle_power_down ::
    "nat \<Rightarrow> string \<Rightarrow> 'a modem_world_scheme \<Rightarrow> (esp_err_t \<times> 'a modem_world_scheme) option" where
  "sim800_handle_power_down a line w =
     (if contains line ''POWER DOWN'' then esp_modem_process_command_done a MODEM_STATE_SUCCESS w
      else Some (ESP_FAIL, w))"

definition sim7600_handle_cbc ::
    "nat \<Rightarrow> string \<Rightarrow> 'a modem_world_scheme \<Rightarrow> (esp_err_t \<times> 'a modem_world_scheme) option" where
  "sim7600_handle_cbc a line = handle_result ''OK'' a line (\<lambda>w.
     if starts_with line ''+CBC'' then
       (let vs = assign_vars (sscanf (map SLit ''+CBC:'' @ [SSpace, SInt, SLit CHR ''.'', SInt, SLit CHR ''V'']) line) [0, 0]
        in store_values a (\<lambda>cbc. [- 1, - 1, wrap32 (wrap32 (vs ! 0 * 1000) + vs ! 1)]) w)
     else Some (ESP_FAIL, w))"

text \<open>The call through the pointer \<^verbatim>\<open>handle_line\<close>.\<close>

fun call_handler ::
    "line_handler \<Rightarrow> nat \<Rightarrow> string \<Rightarrow> 'a modem_world_scheme \<Rightarrow> (esp_err_t \<times> 'a modem_world_scheme) option" where
  "call_handler Handle_response_default = esp_modem_dce_handle_response_default"
| "call_handler Handle_csq = bg96_handle_csq"
| "call_handler Handle_cbc = bg96_handle_cbc"
| "call_handler Handle_exit_data_mode = bg96_handle_exit_data_mode"
| "call_handler Handle_atd_ppp = bg96_handle_atd_ppp"
| "call_handler Handle_cgmm = bg96_handle_cgmm"
| "call_handler Handle_cgsn = bg96_handle_cgsn"
| "call_handler Handle_cimi = bg96_handle_cimi"
| "call_handler Handle_cops = bg96_handle_cops"
| "call_handler Handle_power_down = bg96_handle_power_down"
| "call_handler Handle_sim800_power_down = sim800_handle_power_down"
| "call_handler Handle_sim7600_cbc = sim7600_handle_cbc"

end
