(* ===== verification/Modem_Dte.thy ===== *)
theory Modem_Dte
  imports Modem_Lines
begin

text \<open>
  \<^verbatim>\<open>components/modem/src/esp_modem.c\<close>: the UART event task that collects the modem's lines, the
  commands that wait for them, and the change between command mode and PPP mode. A task that
  waits and the event task take turns: when the semaphore is given, the waiting task goes on
  before the next UART event. Reading on for the end of a line may last longer than the script of
  the wait: then the event task stays busy and handles no further event.
\<close>

section \<open>The event task\<close>

definition esp_dte_handle_line :: "string \<Rightarrow> 'a modem_world_scheme \<Rightarrow> (esp_err_t \<times> 'a modem_world_scheme) option" where
  "esp_dte_handle_line line w =
     (case dte_dce w of
        None \<Rightarrow> Some (ESP_FAIL, w)
      | Some a \<Rightarrow> do {
          dce \<leftarrow> dce_heap w a;
          if 2 < length line \<and> \<not> is_only_cr_lf line then
            (case handle_line dce of
               None \<Rightarrow> Some (ESP_OK, modem_post ESP_MODEM_EVENT_UNKNOWN line w)
             | Some h \<Rightarrow> do {
                 (r, w) \<leftarrow> call_handler h a line w;
                 if r = ESP_OK then Some (ESP_OK, w)
                 else Some (ESP_FAIL, modem_post ESP_MODEM_EVENT_UNKNOWN line w)
               })
          else Some (ESP_OK, w)
        })"

definition esp_handle_uart_pattern :: "int \<Rightarrow> 'a modem_world_scheme \<Rightarrow> 'a modem_world_scheme option" where
  "esp_handle_uart_pattern pos w = do {
     a \<leftarrow> dte_dce w;
     dce \<leftarrow> dce_heap w a;
     if dce_mode dce = MODEM_PPP_MODE then Some w
     else if pos \<noteq> - 1 then do {
       let read_len = (if pos < int (line_buffer_size w) - 1 then nat (pos + 1) else line_buffer_size w - 1);
       let (buffer, w) = uart_read_bytes read_len w;
       if buffer \<noteq> [] then map_option snd (esp_dte_handle_line (c_str buffer) w) else Some w
     }
     else Some (uart_flush w)
   }"

text \<open>Reading on until the line is complete; \<open>None\<close>: the results at hand do not end the loop.\<close>

fun read_on :: "nat \<Rightarrow> bool \<Rightarrow> string \<Rightarrow> char option list \<Rightarrow> string option" where
  "read_on limit processing buffer reads =
     (if length buffer < limit \<and> last buffer \<noteq> LF \<and> processing then
        (case reads of
           [] \<Rightarrow> None
         | None # reads \<Rightarrow> read_on limit processing buffer reads
         | Some c # reads \<Rightarrow> read_on limit processing (buffer @ [c]) reads)
      else Some buffer)"

declare read_on.simps [simp del]

definition esp_handle_uart_data :: "int \<Rightarrow> char option list \<Rightarrow> 'a modem_world_scheme \<Rightarrow> 'a modem_world_scheme option" where
  "esp_handle_uart_data pos reads w = do {
     a \<leftarrow> dte_dce w;
     dce \<leftarrow> dce_heap w a;
     let len = length (uart_rx w);
     if dce_mode dce \<noteq> MODEM_PPP_MODE \<and> len \<noteq> 0 then
       if - 1 < pos then esp_handle_uart_pattern pos w
       else do {
         let (buffer, w) = uart_read_bytes (min (line_buffer_size w - 1) len) w;
         case (if LF \<in> set (c_str buffer) then Some buffer
               else read_on (line_buffer_size w - 1) (dce_state dce = MODEM_STATE_PROCESSING) buffer reads) of
           None \<Rightarrow> Some (w\<lparr>uart_busy := True\<rparr>)
         | Some buffer \<Rightarrow>
             if handle_line dce \<noteq> None then map_option snd (esp_dte_handle_line (c_str buffer) w) else Some w
       }
     else do {
       let (buffer, w) = uart_read_bytes (min (line_buffer_size w) len) w;
       if buffer \<noteq> [] then
         (if receive_cb w then Some (w\<lparr>ppp_input := ppp_input w @ buffer\<rparr>) else None)
       else Some w
     }
   }"

text \<open>\<^verbatim>\<open>esp_event_loop_run\<close> with the handler \<^verbatim>\<open>app_pppos.c\<close> registers for every event.\<close>

definition esp_event_loop_run :: "'a modem_world_scheme \<Rightarrow> 'a modem_world_scheme" where
  "esp_event_loop_run w = fold (\<lambda>(e, s) w. modem_event_handler e w) (modem_queue w) (w\<lparr>modem_queue := []\<rparr>)"

definition uart_event_task_step :: "uart_item \<Rightarrow> 'a modem_world_scheme \<Rightarrow> 'a modem_world_scheme option" where
  "uart_event_task_step item w =
     (if uart_busy w then Some (w\<lparr>uart_rx := uart_rx w @ ui_new item\<rparr>)
      else do {
        let w = esp_event_loop_run (w\<lparr>uart_rx := uart_rx w @ ui_new item\<rparr>);
        case dte_dce w of
          None \<Rightarrow> Some (uart_flush w)
        | Some a \<Rightarrow>
            (case ui_type item of
               UART_DATA \<Rightarrow> esp_handle_uart_data (ui_pos item) (ui_more item) w
             | UART_FIFO_OVF \<Rightarrow> Some (uart_flush w)
             | UART_BUFFER_FULL \<Rightarrow> Some (uart_flush w)
             | UART_BREAK \<Rightarrow> Some w
             | UART_PARITY_ERR \<Rightarrow> Some w
             | UART_FRAME_ERR \<Rightarrow> Some w
             | UART_PATTERN_DET \<Rightarrow> esp_handle_uart_pattern (ui_pos item) w
             | UART_EVENT_OTHER \<Rightarrow> Some w)
      })"

section \<open>Commands\<close>

text \<open>\<^verbatim>\<open>xSemaphoreTake\<close> on the command semaphore, while the event task works on the items.\<close>

fun await_done :: "uart_item list \<Rightarrow> 'a modem_world_scheme \<Rightarrow> (bool \<times> 'a modem_world_scheme) option" where
  "await_done items w =
     (if process_sem w then Some (True, w\<lparr>process_sem := False\<rparr>)
      else case items of
             [] \<Rightarrow> Some (False, w)
           | i # items \<Rightarrow> do { w \<leftarrow> uart_event_task_step i w; await_done items w })"

declare await_done.simps [simp del]

definition next_wait :: "'a modem_world_scheme \<Rightarrow> uart_item list \<times> 'a modem_world_scheme" where
  "next_wait w = (uart_script w (uart_waits w), w\<lparr>uart_waits := Suc (uart_waits w)\<rparr>)"

text \<open>Without a modem object the code goes to its end, which writes through the null pointer.\<close>

definition esp_modem_dte_send_cmd ::
    "string \<Rightarrow> int \<Rightarrow> 'a modem_world_scheme \<Rightarrow> (esp_err_t \<times> 'a modem_world_scheme) option" where
  "esp_modem_dte_send_cmd command timeout w = do {
     a \<leftarrow> dte_dce w;
     w \<leftarrow> dce_update a (\<lambda>d. d\<lparr>dce_state := MODEM_STATE_PROCESSING\<rparr>) w;
     let w = uart_write_bytes uart_port command w;
     let (items, w) = next_wait w;
     (ok, w) \<leftarrow> await_done items w;
     let w = (if ok then w else vTaskDelay_ms timeout w);
     w \<leftarrow> dce_update a (\<lambda>d. d\<lparr>handle_line := None\<rparr>) w;
     Some (if ok then ESP_OK else ESP_FAIL, w)
   }"

definition esp_modem_dte_send_data :: "string \<Rightarrow> 'a modem_world_scheme \<Rightarrow> (int \<times> 'a modem_world_scheme) option" where
  "esp_modem_dte_send_data data w = do {
     a \<leftarrow> dte_dce w;
     dce \<leftarrow> dce_heap w a;
     if dce_mode dce = MODEM_TRANSITION_MODE then Some (- 1, w)
     else Some (int (length data), uart_write_bytes uart_port data w)
   }"

text \<open>\<open>new\<close>: what arrives within the time limit.\<close>

definition esp_modem_dte_send_wait ::
    "string \<Rightarrow> string \<Rightarrow> string \<Rightarrow> 'a modem_world_scheme \<Rightarrow> esp_err_t \<times> 'a modem_world_scheme" where
  "esp_modem_dte_send_wait data prompt new w =
     (let w = w\<lparr>pattern_det := False\<rparr>;
          w = uart_write_bytes uart_port data w;
          (buffer, w) = uart_read_bytes (length prompt) (w\<lparr>uart_rx := uart_rx w @ new\<rparr>);
          w = w\<lparr>pattern_det := True\<rparr>
      in (if length prompt \<le> length buffer \<and> buffer = prompt then ESP_OK else ESP_FAIL, w))"

text \<open>
  A command of a modem object: set the handler, send, and look at the outcome. Every function of
  the service and of the modules that only sends a command has this body.
\<close>

definition run_command ::
    "line_handler \<Rightarrow> string \<Rightarrow> int \<Rightarrow> nat \<Rightarrow> 'a modem_world_scheme \<Rightarrow> (esp_err_t \<times> 'a modem_world_scheme) option" where
  "run_command h command timeout a w = do {
     d \<leftarrow> dce_heap w a;
     w \<leftarrow> dce_update a (\<lambda>d. d\<lparr>handle_line := Some h\<rparr>) w;
     (r, w) \<leftarrow> (if dce_dte d then esp_modem_dte_send_cmd command timeout w else None);
     d \<leftarrow> dce_heap w a;
     Some (if r = ESP_OK \<and> dce_state d = MODEM_STATE_SUCCESS then ESP_OK else ESP_FAIL, w)
   }"

definition esp_modem_dce_sync :: "nat \<Rightarrow> 'a modem_world_scheme \<Rightarrow> (esp_err_t \<times> 'a modem_world_scheme) option" where
  "esp_modem_dce_sync = run_command Handle_response_default (''AT'' @ [CR]) MODEM_COMMAND_TIMEOUT_DEFAULT"

definition esp_modem_dce_echo ::
    "nat \<Rightarrow> bool \<Rightarrow> 'a modem_world_scheme \<Rightarrow> (esp_err_t \<times> 'a modem_world_scheme) option" where
  "esp_modem_dce_echo a on =
     run_command Handle_response_default ((if on then ''ATE1'' else ''ATE0'') @ [CR]) MODEM_COMMAND_TIMEOUT_DEFAULT a"

definition esp_modem_dce_store_profile ::
    "nat \<Rightarrow> 'a modem_world_scheme \<Rightarrow> (esp_err_t \<times> 'a modem_world_scheme) option" where
  "esp_modem_dce_store_profile =
     run_command Handle_response_default (''AT&W'' @ [CR]) MODEM_COMMAND_TIMEOUT_DEFAULT"

definition flow_number :: "modem_flow_ctrl_t \<Rightarrow> int" where
  "flow_number f = (case f of MODEM_FLOW_CONTROL_NONE \<Rightarrow> 0 | MODEM_FLOW_CONTROL_SW \<Rightarrow> 1 | MODEM_FLOW_CONTROL_HW \<Rightarrow> 2)"

definition esp_modem_dce_set_flow_ctrl ::
    "nat \<Rightarrow> modem_flow_ctrl_t \<Rightarrow> 'a modem_world_scheme \<Rightarrow> (esp_err_t \<times> 'a modem_world_scheme) option" where
  "esp_modem_dce_set_flow_ctrl a flow_ctrl w =
     (let command = ''AT+IFC='' @ fmt_d (flow_number (dte_flow_ctrl w)) @ '','' @ fmt_d (flow_number flow_ctrl) @ [CR]
      in if 16 \<le> length command then Some (ESP_FAIL, w)
         else run_command Handle_response_default command MODEM_COMMAND_TIMEOUT_DEFAULT a w)"

definition esp_modem_dce_define_pdp_context ::
    "nat \<Rightarrow> int \<Rightarrow> string \<Rightarrow> string \<Rightarrow> 'a modem_world_scheme \<Rightarrow> (esp_err_t \<times> 'a modem_world_scheme) option" where
  "esp_modem_dce_define_pdp_context a cid type apn w =
     (let q = [CHR 0x22]; command = ''AT+CGDCONT='' @ fmt_d cid @ '','' @ q @ type @ q @ '','' @ q @ apn @ q @ [CR]
      in if 64 \<le> length command then Some (ESP_FAIL, w)
         else run_command Handle_response_default command MODEM_COMMAND_TIMEOUT_DEFAULT a w)"

definition esp_modem_dce_hang_up :: "nat \<Rightarrow> 'a modem_world_scheme \<Rightarrow> (esp_err_t \<times> 'a modem_world_scheme) option" where
  "esp_modem_dce_hang_up = run_command Handle_response_default (''ATH'' @ [CR]) MODEM_COMMAND_TIMEOUT_HANG_UP"

end
