(* ===== verification/Modem_Dce.thy ===== *)
theory Modem_Dce
  imports Modem_Dte
begin

text \<open>
  The modem modules: \<^verbatim>\<open>bg96.c\<close> and what \<^verbatim>\<open>sim7600.c\<close> and \<^verbatim>\<open>sim800.c\<close> change of it,
  then the functions of \<^verbatim>\<open>esp_modem.c\<close> that use them: the change of mode, start and stop of PPP,
  creation and deletion of the terminal object.
\<close>

section \<open>Queries\<close>

text \<open>The variables of the caller are set before the command and read after it.\<close>

definition query_values ::
    "line_handler \<Rightarrow> string \<Rightarrow> int list \<Rightarrow> nat \<Rightarrow> 'a modem_world_scheme
     \<Rightarrow> (esp_err_t \<times> int list \<times> 'a modem_world_scheme) option" where
  "query_values h command vars a w = do {
     w \<leftarrow> dce_update a (\<lambda>d. d\<lparr>priv_resource := vars\<rparr>) w;
     (r, w) \<leftarrow> run_command h command MODEM_COMMAND_TIMEOUT_DEFAULT a w;
     d \<leftarrow> dce_heap w a;
     Some (r, priv_resource d, w)
   }"

definition bg96_get_signal_quality ::
    "int list \<Rightarrow> nat \<Rightarrow> 'a modem_world_scheme \<Rightarrow> (esp_err_t \<times> int list \<times> 'a modem_world_scheme) option" where
  "bg96_get_signal_quality = query_values Handle_csq (''AT+CSQ'' @ [CR])"

definition bg96_get_battery_status ::
    "int list \<Rightarrow> nat \<Rightarrow> 'a modem_world_scheme \<Rightarrow> (esp_err_t \<times> int list \<times> 'a modem_world_scheme) option" where
  "bg96_get_battery_status = query_values Handle_cbc (''AT+CBC'' @ [CR])"

definition sim7600_get_battery_status ::
    "int list \<Rightarrow> nat \<Rightarrow> 'a modem_world_scheme \<Rightarrow> (esp_err_t \<times> int list \<times> 'a modem_world_scheme) option" where
  "sim7600_get_battery_status = query_values Handle_sim7600_cbc (''AT+CBC'' @ [CR])"

definition call_get_battery_status ::
    "int list \<Rightarrow> nat \<Rightarrow> 'a modem_world_scheme \<Rightarrow> (esp_err_t \<times> int list \<times> 'a modem_world_scheme) option" where
  "call_get_battery_status vars a w = do {
     d \<leftarrow> dce_heap w a;
     case get_battery_status d of
       Cbc_battery \<Rightarrow> bg96_get_battery_status vars a w
     | Sim7600_battery \<Rightarrow> sim7600_get_battery_status vars a w
   }"

definition bg96_power_down :: "nat \<Rightarrow> 'a modem_world_scheme \<Rightarrow> (esp_err_t \<times> 'a modem_world_scheme) option" where
  "bg96_power_down = run_command Handle_power_down (''AT+QPOWD=1'' @ [CR]) MODEM_COMMAND_TIMEOUT_POWEROFF"

definition sim800_power_down :: "nat \<Rightarrow> 'a modem_world_scheme \<Rightarrow> (esp_err_t \<times> 'a modem_world_scheme) option" where
  "sim800_power_down = run_command Handle_sim800_power_down (''AT+CPOWD=1'' @ [CR]) MODEM_COMMAND_TIMEOUT_POWEROFF"

definition bg96_get_module_name :: "nat \<Rightarrow> 'a modem_world_scheme \<Rightarrow> (esp_err_t \<times> 'a modem_world_scheme) option" where
  "bg96_get_module_name = run_command Handle_cgmm (''AT+CGMM'' @ [CR]) MODEM_COMMAND_TIMEOUT_DEFAULT"

definition bg96_get_imei_number :: "nat \<Rightarrow> 'a modem_world_scheme \<Rightarrow> (esp_err_t \<times> 'a modem_world_scheme) option" where
  "bg96_get_imei_number = run_command Handle_cgsn (''AT+CGSN'' @ [CR]) MODEM_COMMAND_TIMEOUT_DEFAULT"

definition bg96_get_imsi_number :: "nat \<Rightarrow> 'a modem_world_scheme \<Rightarrow> (esp_err_t \<times> 'a modem_world_scheme) option" where
  "bg96_get_imsi_number = run_command Handle_cimi (''AT+CIMI'' @ [CR]) MODEM_COMMAND_TIMEOUT_DEFAULT"

definition bg96_get_operator_name :: "nat \<Rightarrow> 'a modem_world_scheme \<Rightarrow> (esp_err_t \<times> 'a modem_world_scheme) option" where
  "bg96_get_operator_name = run_command Handle_cops (''AT+COPS?'' @ [CR]) MODEM_COMMAND_TIMEOUT_OPERATOR"

text \<open>The functions of \<^verbatim>\<open>sim800.c\<close> with the same name have the same bodies.\<close>

definition sim800_get_signal_quality ::
    "int list \<Rightarrow> nat \<Rightarrow> 'a modem_world_scheme \<Rightarrow> (esp_err_t \<times> int list \<times> 'a modem_world_scheme) option" where
  "sim800_get_signal_quality = bg96_get_signal_quality"

definition sim800_get_battery_status ::
    "int list \<Rightarrow> nat \<Rightarrow> 'a modem_world_scheme \<Rightarrow> (esp_err_t \<times> int list \<times> 'a modem_world_scheme) option" where
  "sim800_get_battery_status = bg96_get_battery_status"

definition sim800_get_module_name ::
    "nat \<Rightarrow> 'a modem_world_scheme \<Rightarrow> (esp_err_t \<times> 'a modem_world_scheme) option" where
  "sim800_get_module_name = bg96_get_module_name"

definition sim800_get_imei_number ::
    "nat \<Rightarrow> 'a modem_world_scheme \<Rightarrow> (esp_err_t \<times> 'a modem_world_scheme) option" where
  "sim800_get_imei_number = bg96_get_imei_number"

definition sim800_get_imsi_number ::
    "nat \<Rightarrow> 'a modem_world_scheme \<Rightarrow> (esp_err_t \<times> 'a modem_world_scheme) option" where
  "sim800_get_imsi_number = bg96_get_imsi_number"

definition sim800_get_operator_name ::
    "nat \<Rightarrow> 'a modem_world_scheme \<Rightarrow> (esp_err_t \<times> 'a modem_world_scheme) option" where
  "sim800_get_operator_name = bg96_get_operator_name"

section \<open>The working mode\<close>

text \<open>\<^verbatim>\<open>dte->send_cmd\<close> with a handler set before it; the outcome is looked at by the caller.\<close>

definition send_with ::
    "line_handler \<Rightarrow> string \<Rightarrow> int \<Rightarrow> nat \<Rightarrow> 'a modem_world_scheme \<Rightarrow> (esp_err_t \<times> 'a modem_world_scheme) option" where
  "send_with h command timeout a w = do {
     d \<leftarrow> dce_heap w a;
     w \<leftarrow> dce_update a (\<lambda>d. d\<lparr>handle_line := Some h\<rparr>) w;
     if dce_dte d then esp_modem_dte_send_cmd command timeout w else None
   }"

definition succeeded :: "nat \<Rightarrow> 'a modem_world_scheme \<Rightarrow> bool option" where
  "succeeded a w = map_option (\<lambda>d. dce_state d = MODEM_STATE_SUCCESS) (dce_heap w a)"

definition enter_command_mode :: "nat \<Rightarrow> 'a modem_world_scheme \<Rightarrow> (esp_err_t \<times> 'a modem_world_scheme) option" where
  "enter_command_mode a w = do {
     (r, w) \<leftarrow> send_with Handle_exit_data_mode ''+++'' MODEM_COMMAND_TIMEOUT_MODE_CHANGE a w;
     (r, w) \<leftarrow> (if r \<noteq> ESP_OK
                then send_with Handle_response_default (''AT'' @ [CR]) MODEM_COMMAND_TIMEOUT_DEFAULT a w
                else Some (r, w));
     ok \<leftarrow> succeeded a w;
     if r = ESP_OK \<and> ok then do {
       w \<leftarrow> dce_update a (\<lambda>d. d\<lparr>dce_mode := MODEM_COMMAND_MODE\<rparr>) w;
       Some (ESP_OK, w)
     } else Some (ESP_FAIL, w)
   }"

definition enter_ppp_mode :: "string \<Rightarrow> nat \<Rightarrow> 'a modem_world_scheme \<Rightarrow> (esp_err_t \<times> 'a modem_world_scheme) option" where
  "enter_ppp_mode dial a w = do {
     (r, w) \<leftarrow> send_with Handle_atd_ppp dial MODEM_COMMAND_TIMEOUT_MODE_CHANGE a w;
     ok \<leftarrow> succeeded a w;
     (r, w) \<leftarrow> (if r = ESP_OK \<and> \<not> ok
                then send_with Handle_atd_ppp (''ATO'' @ [CR]) MODEM_COMMAND_TIMEOUT_MODE_CHANGE a w
                else Some (r, w));
     ok \<leftarrow> succeeded a w;
     if r = ESP_OK \<and> ok then do {
       w \<leftarrow> dce_update a (\<lambda>d. d\<lparr>dce_mode := MODEM_PPP_MODE\<rparr>) w;
       Some (ESP_OK, w)
     } else Some (ESP_FAIL, w)
   }"

definition bg96_set_working_mode ::
    "nat \<Rightarrow> modem_mode_t \<Rightarrow> 'a modem_world_scheme \<Rightarrow> (esp_err_t \<times> 'a modem_world_scheme) option" where
  "bg96_set_working_mode a mode w =
     (case mode of
        MODEM_COMMAND_MODE \<Rightarrow> enter_command_mode a (vTaskDelay_ms 1000 w)
      | MODEM_PPP_MODE \<Rightarrow> enter_ppp_mode (''ATD*99***1#'' @ [CR]) a w
      | MODEM_TRANSITION_MODE \<Rightarrow> Some (ESP_FAIL, w))"

text \<open>The handler is set before the delay here; it is the same one again after it.\<close>

definition sim800_set_working_mode ::
    "nat \<Rightarrow> modem_mode_t \<Rightarrow> 'a modem_world_scheme \<Rightarrow> (esp_err_t \<times> 'a modem_world_scheme) option" where
  "sim800_set_working_mode a mode w =
     (case mode of
        MODEM_COMMAND_MODE \<Rightarrow> do {
          w \<leftarrow> dce_update a (\<lambda>d. d\<lparr>handle_line := Some Handle_exit_data_mode\<rparr>) w;
          enter_command_mode a (vTaskDelay_ms 1000 w)
        }
      | MODEM_PPP_MODE \<Rightarrow> enter_ppp_mode (''ATD*99#'' @ [CR]) a w
      | MODEM_TRANSITION_MODE \<Rightarrow> Some (ESP_FAIL, w))"

definition call_set_working_mode ::
    "nat \<Rightarrow> modem_mode_t \<Rightarrow> 'a modem_world_scheme \<Rightarrow> (esp_err_t \<times> 'a modem_world_scheme) option" where
  "call_set_working_mode a mode w = do {
     d \<leftarrow> dce_heap w a;
     case kind d of Bg96 \<Rightarrow> bg96_set_working_mode a mode w | Sim800 \<Rightarrow> sim800_set_working_mode a mode w
   }"

definition esp_modem_dte_change_mode ::
    "modem_mode_t \<Rightarrow> 'a modem_world_scheme \<Rightarrow> (esp_err_t \<times> 'a modem_world_scheme) option" where
  "esp_modem_dte_change_mode new_mode w =
     (case dte_dce w of
        None \<Rightarrow> Some (ESP_FAIL, w)
      | Some a \<Rightarrow> do {
          d \<leftarrow> dce_heap w a;
          let current_mode = dce_mode d;
          if current_mode = new_mode then Some (ESP_FAIL, w)
          else do {
            w \<leftarrow> dce_update a (\<lambda>d. d\<lparr>dce_mode := MODEM_TRANSITION_MODE\<rparr>) w;
            if new_mode = MODEM_TRANSITION_MODE then Some (ESP_OK, w)
            else do {
              (r, w) \<leftarrow> call_set_working_mode a new_mode w;
              if r \<noteq> ESP_OK then do {
                w \<leftarrow> dce_update a (\<lambda>d. d\<lparr>dce_mode := current_mode\<rparr>) w;
                Some (ESP_FAIL, w)
              }
              else if new_mode = MODEM_PPP_MODE then Some (ESP_OK, w\<lparr>pattern_det := False, rx_intr := True\<rparr>)
              else Some (ESP_OK, uart_flush (w\<lparr>rx_intr := False, pattern_det := True\<rparr>))
            }
          }
        })"

definition CONFIG_EXAMPLE_COMPONENT_MODEM_APN :: string where
  "CONFIG_EXAMPLE_COMPONENT_MODEM_APN = ''CMNET''"

definition esp_modem_start_ppp :: "'a modem_world_scheme \<Rightarrow> (esp_err_t \<times> 'a modem_world_scheme) option" where
  "esp_modem_start_ppp w =
     (case dte_dce w of
        None \<Rightarrow> Some (ESP_FAIL, w)
      | Some a \<Rightarrow> do {
          (r, w) \<leftarrow> esp_modem_dce_define_pdp_context a 1 ''IP'' CONFIG_EXAMPLE_COMPONENT_MODEM_APN w;
          if r \<noteq> ESP_OK then Some (ESP_FAIL, w)
          else do {
            (r, w) \<leftarrow> esp_modem_dte_change_mode MODEM_PPP_MODE w;
            if r \<noteq> ESP_OK then Some (ESP_FAIL, w)
            else Some (ESP_OK, modem_post ESP_MODEM_EVENT_PPP_START [] w)
          }
        })"

text \<open>\<open>closed\<close>: whether the network interface reports its end within the time limit.\<close>

definition esp_modem_stop_ppp :: "bool \<Rightarrow> 'a modem_world_scheme \<Rightarrow> (esp_err_t \<times> 'a modem_world_scheme) option" where
  "esp_modem_stop_ppp closed w =
     (case dte_dce w of
        None \<Rightarrow> Some (ESP_FAIL, w)
      | Some a \<Rightarrow> do {
          (r, w) \<leftarrow> esp_modem_dte_change_mode MODEM_COMMAND_MODE w;
          if r \<noteq> ESP_OK then Some (ESP_FAIL, w)
          else do {
            let w = modem_post ESP_MODEM_EVENT_PPP_STOP [] w;
            (r, w) \<leftarrow> esp_modem_dce_hang_up a w;
            if r \<noteq> ESP_OK then Some (ESP_FAIL, w)
            else Some (ESP_OK, if exit_sem w \<or> closed then w\<lparr>exit_sem := False\<rparr> else vTaskDelay_ms 20000 w)
          }
        })"

definition esp_modem_notify_ppp_netif_closed :: "'a modem_world_scheme \<Rightarrow> esp_err_t \<times> 'a modem_world_scheme" where
  "esp_modem_notify_ppp_netif_closed w =
     (if exit_sem w then (ESP_FAIL, w) else (ESP_OK, w\<lparr>exit_sem := True\<rparr>))"

section \<open>The objects\<close>

definition new_dce :: "dce_kind \<Rightarrow> modem_dce_t" where
  "new_dce k = \<lparr>dce_text = replicate 96 (CHR 0x00), act = 0, dce_state = MODEM_STATE_PROCESSING,
     dce_mode = MODEM_COMMAND_MODE, dce_dte = True, handle_line = None, get_battery_status = Cbc_battery,
     kind = k, priv_resource = []\<rparr>"

text \<open>A sequence of steps, each of which must succeed.\<close>

fun all_ok :: "('w \<Rightarrow> (esp_err_t \<times> 'w) option) list \<Rightarrow> 'w \<Rightarrow> (bool \<times> 'w) option" where
  "all_ok [] w = Some (True, w)"
| "all_ok (f # fs) w = do { (r, w) \<leftarrow> f w; if r = ESP_OK then all_ok fs w else Some (False, w) }"

definition dce_setup :: "nat \<Rightarrow> ('a modem_world_scheme \<Rightarrow> (esp_err_t \<times> 'a modem_world_scheme) option) list" where
  "dce_setup a = [esp_modem_dce_sync a, esp_modem_dce_echo a False, bg96_get_module_name a,
     bg96_get_imei_number a, bg96_get_imsi_number a, bg96_get_operator_name a]"

definition dce_init :: "dce_kind \<Rightarrow> 'a modem_world_scheme \<Rightarrow> (nat option \<times> 'a modem_world_scheme) option" where
  "dce_init k w =
     (if \<not> heap_ok w (dce_next w) then Some (None, w)
      else do {
        let a = dce_next w;
        let w = w\<lparr>dce_heap := (dce_heap w)(a \<mapsto> new_dce k), dce_next := Suc a, dte_dce := Some a\<rparr>;
        (ok, w) \<leftarrow> all_ok (dce_setup a) w;
        Some (if ok then (Some a, w) else (None, w\<lparr>dce_heap := (dce_heap w)(a := None)\<rparr>))
      })"

definition bg96_init :: "'a modem_world_scheme \<Rightarrow> (nat option \<times> 'a modem_world_scheme) option" where
  "bg96_init = dce_init Bg96"

definition sim800_init :: "'a modem_world_scheme \<Rightarrow> (nat option \<times> 'a modem_world_scheme) option" where
  "sim800_init = dce_init Sim800"

text \<open>The method is set through the terminal's pointer, whatever \<^verbatim>\<open>bg96_init\<close> has returned.\<close>

definition sim7600_init :: "'a modem_world_scheme \<Rightarrow> (nat option \<times> 'a modem_world_scheme) option" where
  "sim7600_init w = do {
     (dce, w) \<leftarrow> bg96_init w;
     a \<leftarrow> dte_dce w;
     w \<leftarrow> dce_update a (\<lambda>d. d\<lparr>get_battery_status := Sim7600_battery\<rparr>) w;
     Some (dce, w)
   }"

definition bg96_deinit :: "nat \<Rightarrow> 'a modem_world_scheme \<Rightarrow> (esp_err_t \<times> 'a modem_world_scheme) option" where
  "bg96_deinit a w = do {
     d \<leftarrow> dce_heap w a;
     let w = (if dce_dte d then w\<lparr>dte_dce := None\<rparr> else w);
     Some (ESP_OK, w\<lparr>dce_heap := (dce_heap w)(a := None)\<rparr>)
   }"

definition sim800_deinit ::
    "nat \<Rightarrow> 'a modem_world_scheme \<Rightarrow> (esp_err_t \<times> 'a modem_world_scheme) option" where
  "sim800_deinit = bg96_deinit"

record esp_modem_dte_config_t =
  dc_flow_control :: modem_flow_ctrl_t
  dc_line_buffer_size :: nat

text \<open>
  \<open>api\<close>: whether the calls of the SDK the function checks succeed, by name. On a failure everything
  obtained so far is given back; the caller gets a null pointer, \<open>False\<close>.
\<close>

definition esp_modem_dte_init ::
    "(string \<Rightarrow> bool) \<Rightarrow> esp_modem_dte_config_t \<Rightarrow> 'a modem_world_scheme \<Rightarrow> bool \<times> 'a modem_world_scheme" where
  "esp_modem_dte_init api config w =
     (if \<not> api ''calloc esp_dte'' \<or> \<not> api ''calloc line'' then (False, w)
      else if \<not> api ''uart_param_config'' \<or> \<not> api ''uart_set_pin'' then (False, w)
      else if dc_flow_control config \<noteq> MODEM_FLOW_CONTROL_NONE \<and> \<not> api ''uart_set_flow_ctrl'' then (False, w)
      else if \<not> api ''uart_driver_install'' \<or> \<not> api ''uart_set_rx_timeout'' then (False, w)
      else if \<not> api ''uart_enable_pattern_det_baud_intr'' \<or> \<not> api ''uart_pattern_queue_reset''
      then (False, w\<lparr>rx_intr := False\<rparr>)
      else if \<not> api ''esp_event_loop_create'' \<or> \<not> api ''process_sem'' \<or> \<not> api ''exit_sem'' \<or> \<not> api ''uart_event_task''
      then (False, w\<lparr>rx_intr := False, pattern_det := False\<rparr>)
      else (True, w\<lparr>line_buffer_size := dc_line_buffer_size config, dte_flow_ctrl := dc_flow_control config,
                    dte_dce := None, uart_rx := [], uart_busy := False, pattern_det := True, rx_intr := False,
                    process_sem := False, exit_sem := False, modem_queue := [], receive_cb := False\<rparr>))"

definition esp_modem_dte_deinit :: "'a modem_world_scheme \<Rightarrow> (esp_err_t \<times> 'a modem_world_scheme) option" where
  "esp_modem_dte_deinit w =
     (case dte_dce w of
        None \<Rightarrow> Some (ESP_OK, w)
      | Some a \<Rightarrow> do { w \<leftarrow> dce_update a (\<lambda>d. d\<lparr>dce_dte := False\<rparr>) w; Some (ESP_OK, w) })"

end
