(* ===== verification/Modem_Frame.thy ===== *)
theory Modem_Frame
  imports Modem_Dce
begin

text \<open>
  What the event task and the commands leave alone, whatever the modem sends: which modem object
  the terminal is bound to, that it is allocated, its mode and its methods. From this follows that
  a command that only waits for a result always returns.
\<close>

section \<open>What no answer of the modem changes\<close>

definition dce_link :: "modem_dce_t \<Rightarrow> modem_mode_t \<times> bool \<times> dce_kind \<times> battery_method" where
  "dce_link d = (dce_mode d, dce_dte d, kind d, get_battery_status d)"

definition dce_elink :: "modem_dce_t \<Rightarrow> (modem_mode_t \<times> bool \<times> dce_kind \<times> battery_method) \<times> line_handler option" where
  "dce_elink d = (dce_link d, handle_line d)"

type_synonym dce_links = "modem_mode_t \<times> bool \<times> dce_kind \<times> battery_method"
type_synonym 'a link_bases = "nat option \<times> nat \<times> (nat \<Rightarrow> bool) \<times> nat \<times> (nat \<Rightarrow> uart_item list) \<times> app_network_t option \<times> bool \<times> modem_flow_ctrl_t \<times> 'a"

definition link_base :: "'a modem_world_scheme \<Rightarrow> 'a link_bases" where
  "link_base w = (dte_dce w, dce_next w, heap_ok w, line_buffer_size w, uart_script w,
     network_handle w, ppp_connect_bit w, dte_flow_ctrl w, modem_world.more w)"

definition link :: "'a modem_world_scheme \<Rightarrow> 'a link_bases \<times> (nat \<Rightarrow> dce_links option)" where
  "link w = (link_base w, \<lambda>a. map_option dce_link (dce_heap w a))"

definition elink :: "'a modem_world_scheme \<Rightarrow> 'a link_bases \<times> (nat \<Rightarrow> (dce_links \<times> line_handler option) option)" where
  "elink w = (link_base w, \<lambda>a. map_option dce_elink (dce_heap w a))"

lemma link_of_elink: "link w = (fst (elink w), \<lambda>a. map_option fst (snd (elink w) a))"
  by (simp add: link_def elink_def fun_eq_iff dce_elink_def option.map_comp comp_def)

lemma elink_link: "elink w' = elink w \<Longrightarrow> link w' = link w"
  by (simp add: link_of_elink)

definition keeps_link :: "('a modem_world_scheme \<Rightarrow> (esp_err_t \<times> 'a modem_world_scheme) option) \<Rightarrow> bool" where
  "keeps_link f \<longleftrightarrow> (\<forall>w r w'. f w = Some (r, w') \<longrightarrow> elink w' = elink w)"

lemma elink_update:
  assumes "\<And>d. dce_elink (f d) = dce_elink d" "dce_update a f w = Some w'"
  shows "elink w' = elink w"
  using assms by (auto simp: dce_update_def elink_def link_base_def fun_eq_iff split: bind_splits)

lemma elink_platform [simp]:
  "elink (w\<lparr>process_sem := b\<rparr>) = elink w" "elink (w\<lparr>uart_rx := s\<rparr>) = elink w" "elink (w\<lparr>uart_busy := b\<rparr>) = elink w"
  "elink (w\<lparr>modem_queue := q\<rparr>) = elink w" "elink (w\<lparr>ppp_input := s\<rparr>) = elink w" "elink (w\<lparr>uart_waits := n\<rparr>) = elink w"
  "elink (w\<lparr>pattern_det := b, rx_intr := c\<rparr>) = elink w" "elink (w\<lparr>rx_intr := c, pattern_det := b\<rparr>) = elink w"
  "elink (uart_write_bytes p s w) = elink w" "elink (vTaskDelay_ms t w) = elink w" "elink (modem_event_handler e w) = elink w"
  "elink (modem_post e s w) = elink w" "elink (uart_flush w) = elink w" "elink (snd (uart_read_bytes n w)) = elink w"
  by (simp_all add: elink_def link_base_def uart_write_bytes_def vTaskDelay_ms_def modem_event_handler_def modem_post_def
      uart_flush_def uart_read_bytes_def split: esp_modem_event.split)

lemma elink_fold_events: "elink (fold (\<lambda>(e, s) w. modem_event_handler e w) q w) = elink w"
  by (induction q arbitrary: w) auto

lemma elink_event_loop [simp]: "elink (esp_event_loop_run w) = elink w"
  by (simp add: esp_event_loop_run_def elink_fold_events)

lemma dce_elink_simps [simp]:
  "dce_elink (d\<lparr>dce_state := x\<rparr>) = dce_elink d" 
  "dce_elink (d\<lparr>dce_text := t\<rparr>) = dce_elink d" "dce_elink (d\<lparr>act := b\<rparr>) = dce_elink d"
  "dce_elink (d\<lparr>priv_resource := v\<rparr>) = dce_elink d"
  by (simp_all add: dce_elink_def dce_link_def)

lemma elink_updates:
  "dce_update a (\<lambda>d. d\<lparr>dce_state := x\<rparr>) w = Some w' \<Longrightarrow> elink w' = elink w"
  "dce_update a (\<lambda>d. d\<lparr>dce_text := t\<rparr>) w = Some w' \<Longrightarrow> elink w' = elink w"
  "dce_update a (\<lambda>d. d\<lparr>act := b\<rparr>) w = Some w' \<Longrightarrow> elink w' = elink w"
  "dce_update a (\<lambda>d. d\<lparr>priv_resource := f (priv_resource d)\<rparr>) w = Some w' \<Longrightarrow> elink w' = elink w"
  by (rule elink_update; simp)+

lemma keeps_done: "keeps_link (esp_modem_process_command_done a s)"
  by (auto simp: keeps_link_def esp_modem_process_command_done_def esp_modem_dte_process_cmd_done_def
      xSemaphoreGive_process_def dest: elink_updates split: bind_splits if_splits)

lemmas elink_done = keeps_done [unfolded keeps_link_def, rule_format]

lemma keeps_fail [simp]: "keeps_link (\<lambda>w. Some (r, w))"
  by (simp add: keeps_link_def)

lemma keeps_if: "keeps_link f \<Longrightarrow> keeps_link g \<Longrightarrow> keeps_link (\<lambda>w. if b then f w else g w)"
  by (simp add: keeps_link_def)

lemma keeps_result: "keeps_link g \<Longrightarrow> keeps_link (handle_result s a line g)"
  by (auto simp: keeps_link_def handle_result_def dest: elink_done)

lemma keeps_store_text: "keeps_link (store_text off n a s)"
  by (auto simp: keeps_link_def store_text_def Let_def dest: elink_updates split: bind_splits prod.splits if_splits)

lemmas elink_store_text = keeps_store_text [unfolded keeps_link_def, rule_format]

lemma keeps_store_values: "keeps_link (store_values a f)"
  by (auto simp: keeps_link_def store_values_def dest: elink_updates split: bind_splits)

lemma keeps_cops: "keeps_link (bg96_handle_cops a line)"
  unfolding bg96_handle_cops_def
proof (intro keeps_result keeps_if)
  show "keeps_link (\<lambda>w. let p = comma_tokens line; i = length p in if 5 \<le> i then None
      else (if 3 \<le> i then store_text 64 32 a (p ! 2) w else Some (ESP_FAIL, w)) \<bind> (\<lambda>(err, w).
        (if 4 \<le> i then dce_update a (\<lambda>d. d\<lparr>act := word_of_int (strtol0 (p ! 3))\<rparr>) w else Some w) \<bind> (\<lambda>w. Some (err, w))))"
    by (auto simp: keeps_link_def Let_def dest!: elink_updates elink_store_text split: bind_splits if_splits)
qed simp

lemma keeps_handler: "keeps_link (call_handler h a line)"
proof (cases h)
  case Handle_exit_data_mode
  then show ?thesis
    by (auto simp: bg96_handle_exit_data_mode_def keeps_link_def dest: elink_done)
next
  case Handle_power_down
  then show ?thesis
    by (auto simp: bg96_handle_power_down_def keeps_link_def dest: elink_done)
next
  case Handle_sim800_power_down
  then show ?thesis
    by (auto simp: sim800_handle_power_down_def keeps_link_def dest: elink_done)
qed (simp_all add: esp_modem_dce_handle_response_default_def bg96_handle_csq_def bg96_handle_cbc_def
    bg96_handle_atd_ppp_def bg96_handle_cgmm_def bg96_handle_cgsn_def bg96_handle_cimi_def keeps_cops
    sim7600_handle_cbc_def Let_def keeps_result keeps_if keeps_store_text keeps_store_values)

lemmas elink_handler = keeps_handler [unfolded keeps_link_def, rule_format]

lemma elink_handle_line: "esp_dte_handle_line line w = Some (r, w') \<Longrightarrow> elink w' = elink w"
  by (auto simp: esp_dte_handle_line_def dest!: elink_handler split: option.splits bind_splits if_splits)

lemma elink_handle_line_snd: "map_option snd (esp_dte_handle_line line w) = Some w' \<Longrightarrow> elink w' = elink w"
  by (auto dest: elink_handle_line)

lemma elink_pattern: "esp_handle_uart_pattern pos w = Some w' \<Longrightarrow> elink w' = elink w"
  by (auto simp: esp_handle_uart_pattern_def uart_read_bytes_def Let_def dest!: elink_handle_line
      split: bind_splits if_splits)

lemma elink_data: "esp_handle_uart_data pos reads w = Some w' \<Longrightarrow> elink w' = elink w"
  by (auto simp: esp_handle_uart_data_def uart_read_bytes_def Let_def dest!: elink_handle_line
      dest: elink_pattern split: bind_splits if_splits option.splits)

lemma elink_event_step: "uart_event_task_step i w = Some w' \<Longrightarrow> elink w' = elink w"
  by (auto simp: uart_event_task_step_def Let_def dest: elink_data elink_pattern
      split: if_splits option.splits uart_event_type.splits)

lemma elink_await: "await_done items w = Some (ok, w') \<Longrightarrow> elink w' = elink w"
proof (induction items arbitrary: w)
  case Nil
  then show ?case by (auto simp: await_done.simps [of "[]"] split: if_splits)
next
  case (Cons i items)
  then show ?case
    by (auto simp: await_done.simps [of "i # items"] dest: elink_event_step split: if_splits bind_splits)
qed

section \<open>What no command changes\<close>

lemmas link_platform [simp] = elink_platform [THEN elink_link]

lemma link_handler_update: "dce_update a (\<lambda>d. d\<lparr>handle_line := h\<rparr>) w = Some w' \<Longrightarrow> link w' = link w"
  by (auto simp: dce_update_def link_def link_base_def dce_link_def fun_eq_iff split: bind_splits)

lemma link_send_cmd: "esp_modem_dte_send_cmd c t w = Some (r, w') \<Longrightarrow> link w' = link w"
  by (auto simp: esp_modem_dte_send_cmd_def next_wait_def Let_def dest!: link_handler_update
      elink_updates [THEN elink_link] elink_await [THEN elink_link] split: bind_splits if_splits)

lemma link_run: "run_command h c t a w = Some (r, w') \<Longrightarrow> link w' = link w"
  by (auto simp: run_command_def dest!: link_handler_update link_send_cmd split: bind_splits if_splits)

lemma link_send_with: "send_with h c t a w = Some (r, w') \<Longrightarrow> link w' = link w"
  by (auto simp: send_with_def dest!: link_handler_update link_send_cmd split: bind_splits if_splits)


lemma link_parts:
  assumes "link w' = link w"
  shows "dte_dce w' = dte_dce w" "dce_next w' = dce_next w"
    "map_option dce_link (dce_heap w' a) = map_option dce_link (dce_heap w a)"
    "line_buffer_size w' = line_buffer_size w" "uart_script w' = uart_script w"
    "network_handle w' = network_handle w" "ppp_connect_bit w' = ppp_connect_bit w" "dte_flow_ctrl w' = dte_flow_ctrl w"
    "modem_world.more w' = modem_world.more w"
  using assms by (simp_all add: link_def link_base_def fun_eq_iff)

lemma link_block:
  assumes "link w' = link w" "dce_heap w a = Some d"
  shows "\<exists>d'. dce_heap w' a = Some d' \<and> dce_link d' = dce_link d"
  using link_parts(3) [OF assms(1), of a] assms(2) by auto

section \<open>Commands that only wait for a result return\<close>

text \<open>A block the terminal is bound to, outside PPP mode.\<close>

definition attached :: "nat \<Rightarrow> 'a modem_world_scheme \<Rightarrow> bool" where
  "attached a w \<longleftrightarrow> dte_dce w = Some a \<and>
     (case dce_heap w a of None \<Rightarrow> False | Some d \<Rightarrow> dce_dte d \<and> dce_mode d \<noteq> MODEM_PPP_MODE)"

lemma attached_link: "link w' = link w \<Longrightarrow> attached a w' = attached a w"
  using link_parts(1) [of w' w] link_parts(3) [of w' w a] by (auto simp: attached_def dce_link_def split: option.splits)

definition result_handler :: "line_handler option \<Rightarrow> bool" where
  "result_handler h \<longleftrightarrow> h \<in> {None, Some Handle_response_default, Some Handle_exit_data_mode, Some Handle_atd_ppp}"

definition listening :: "nat \<Rightarrow> 'a modem_world_scheme \<Rightarrow> bool" where
  "listening a w \<longleftrightarrow> attached a w \<and> (case dce_heap w a of None \<Rightarrow> False | Some d \<Rightarrow> result_handler (handle_line d))"

lemma elink_parts:
  assumes "elink w' = elink w"
  shows "map_option dce_elink (dce_heap w' a) = map_option dce_elink (dce_heap w a)"
  using assms by (simp add: elink_def fun_eq_iff)

lemma listening_elink:
  assumes "elink w' = elink w"
  shows "listening a w' = listening a w"
  using elink_parts [OF assms, of a] attached_link [OF elink_link [OF assms], of a]
  by (auto simp: listening_def dce_elink_def split: option.splits)

lemma command_done_total:
  "dce_heap w a = Some d \<Longrightarrow> dce_dte d \<Longrightarrow> \<exists>r. esp_modem_process_command_done a s w = Some r"
  by (simp add: esp_modem_process_command_done_def dce_update_def)

lemma result_handler_total:
  assumes "dce_heap w a = Some d" "dce_dte d" "result_handler (Some h)"
  shows "\<exists>r. call_handler h a line w = Some r"
  using assms(3) command_done_total [OF assms(1,2)]
  by (auto simp: result_handler_def esp_modem_dce_handle_response_default_def bg96_handle_atd_ppp_def
      bg96_handle_exit_data_mode_def handle_result_def)

lemma handle_line_total:
  assumes "listening a w"
  shows "\<exists>r. esp_dte_handle_line line w = Some r"
proof -
  obtain d where d: "dte_dce w = Some a" "dce_heap w a = Some d" "dce_dte d" "result_handler (handle_line d)"
    using assms by (auto simp: listening_def attached_def split: option.splits)
  show ?thesis
  proof (cases "handle_line d")
    case None
    then show ?thesis using d(1,2) by (simp add: esp_dte_handle_line_def)
  next
    case (Some h)
    then obtain r w1 where "call_handler h a line w = Some (r, w1)"
      using result_handler_total [OF d(2,3), of h line] d(4) by auto
    then show ?thesis using d(1,2) Some by (simp add: esp_dte_handle_line_def)
  qed
qed

lemma listening_read:
  assumes "listening a w"
  shows "\<exists>w'. map_option snd (esp_dte_handle_line line (w\<lparr>uart_rx := s\<rparr>)) = Some w'"
proof -
  have "listening a (w\<lparr>uart_rx := s\<rparr>)" using listening_elink [of "w\<lparr>uart_rx := s\<rparr>" w a] assms by simp
  then obtain r where "esp_dte_handle_line line (w\<lparr>uart_rx := s\<rparr>) = Some r" using handle_line_total by blast
  then show ?thesis by simp
qed

lemma listening_block:
  "listening a w \<Longrightarrow> \<exists>d. dte_dce w = Some a \<and> dce_heap w a = Some d \<and> dce_mode d \<noteq> MODEM_PPP_MODE"
  by (auto simp: listening_def attached_def split: option.splits)

lemma pattern_total: "listening a w \<Longrightarrow> \<exists>w'. esp_handle_uart_pattern pos w = Some w'"
  using listening_block [of a w] listening_read [of a w]
  by (auto simp: esp_handle_uart_pattern_def uart_read_bytes_def Let_def simp del: map_option_eq_Some)

lemma data_total: "listening a w \<Longrightarrow> \<exists>w'. esp_handle_uart_data pos reads w = Some w'"
  using listening_block [of a w] listening_read [of a w] pattern_total [of a w pos]
  by (auto simp: esp_handle_uart_data_def uart_read_bytes_def Let_def simp del: map_option_eq_Some
      split: option.split)

lemma event_step_total:
  assumes "listening a w"
  shows "\<exists>w'. uart_event_task_step i w = Some w'"
proof (cases "uart_busy w")
  case False
  let ?w = "esp_event_loop_run (w\<lparr>uart_rx := uart_rx w @ ui_new i\<rparr>)"
  have l: "listening a ?w" using listening_elink [of ?w w a] assms by simp
  show ?thesis
    using False listening_block [OF l] pattern_total [OF l, of "ui_pos i"] data_total [OF l, of "ui_pos i" "ui_more i"]
    by (cases "ui_type i") (auto simp: uart_event_task_step_def Let_def)
qed (simp add: uart_event_task_step_def)

lemma await_total: "listening a w \<Longrightarrow> \<exists>r. await_done items w = Some r"
proof (induction items arbitrary: w)
  case Nil
  then show ?case unfolding await_done.simps [of "[]"] by auto
next
  case (Cons i items)
  obtain w1 where w1: "uart_event_task_step i w = Some w1" using event_step_total [OF Cons.prems] by blast
  then have "listening a w1" using listening_elink [OF elink_event_step] Cons.prems by blast
  then show ?case using Cons.IH [of w1] w1 by (auto simp: await_done.simps [of "i # items"])
qed

lemma attached_block: "attached a w \<Longrightarrow> \<exists>d. dce_heap w a = Some d \<and> dce_dte d"
  by (auto simp: attached_def split: option.splits)

lemma listening_sent:
  assumes "attached a w" "result_handler (Some h)"
  shows "listening a (w\<lparr>dce_heap := (dce_heap w)(a \<mapsto> (the (dce_heap w a))\<lparr>handle_line := Some h, dce_state := s\<rparr>)\<rparr>)"
  using assms by (auto simp: listening_def attached_def split: option.splits)

lemma send_with_total:
  assumes "attached a w" "result_handler (Some h)"
  shows "\<exists>r w'. send_with h c t a w = Some (r, w') \<and> link w' = link w"
proof -
  obtain d where d: "dce_heap w a = Some d" "dce_dte d" "dte_dce w = Some a"
    using assms(1) by (auto simp: attached_def split: option.splits)
  let ?d = "d\<lparr>handle_line := Some h, dce_state := MODEM_STATE_PROCESSING\<rparr>"
  let ?w = "uart_write_bytes uart_port c (w\<lparr>dce_heap := (dce_heap w)(a \<mapsto> ?d)\<rparr>)"
  let ?v = "?w\<lparr>uart_waits := Suc (uart_waits ?w)\<rparr>"
  have "listening a (w\<lparr>dce_heap := (dce_heap w)(a \<mapsto> ?d)\<rparr>)" using listening_sent [OF assms] d(1) by simp
  then have "listening a ?v" by (simp add: listening_def attached_def uart_write_bytes_def)
  then obtain ok w1 where w1: "await_done (uart_script ?w (uart_waits ?w)) ?v = Some (ok, w1)"
    using await_total by fastforce
  have "\<exists>d1. dce_heap w1 a = Some d1"
    using link_block [OF elink_link [OF elink_await [OF w1]], of a ?d] by (auto simp: uart_write_bytes_def)
  then obtain r w' where "send_with h c t a w = Some (r, w')"
    using d w1 by (cases ok) (auto simp: send_with_def esp_modem_dte_send_cmd_def dce_update_def next_wait_def Let_def
        vTaskDelay_ms_def)
  then show ?thesis using link_send_with by blast
qed


end
