(* ===== verification/Modem_Answers.thy ===== *)
theory Modem_Answers
  imports Modem_Frame
begin

text \<open>
  The theorems about the modem driver: the change of mode settles, a command has the result the
  modem's lines give it, the identification is stored, and two defects of the code for modules
  that do not answer or answer too much.
\<close>

definition line_item :: "string \<Rightarrow> uart_item" where
  "line_item l = \<lparr>ui_type = UART_PATTERN_DET, ui_new = l, ui_pos = int (length l) - 1, ui_more = []\<rparr>"

section \<open>A modem to talk to\<close>

text \<open>Used by the witnesses: a module bound to the terminal, and what it sends during the waits.\<close>

definition sample_modem :: "(nat \<Rightarrow> string list) \<Rightarrow> modem_world" where
  "sample_modem script = network_world.extend sample_ppp
     \<lparr>dce_heap = [0 \<mapsto> new_dce Bg96], dce_next = 1, heap_ok = (\<lambda>_. True), dte_dce = Some 0,
      dte_flow_ctrl = MODEM_FLOW_CONTROL_NONE, line_buffer_size = 512, uart_rx = [], uart_busy = False,
      uart_script = (\<lambda>n. map line_item (script n)), uart_waits = 0, pattern_det = True, rx_intr = False,
      process_sem = False, exit_sem = False, modem_queue = [], receive_cb = True, ppp_input = []\<rparr>"

lemmas sample_modem_defs = sample_modem_def network_world.defs

lemma sample_modem_block:
  "dte_dce (sample_modem s) = Some 0" "dce_heap (sample_modem s) 0 = Some (new_dce Bg96)" "dce_dte (new_dce Bg96)"
  "length (dce_text (new_dce Bg96)) = 96" "attached 0 (sample_modem s)"
  by (simp_all add: sample_modem_defs new_dce_def attached_def)

section \<open>The change of mode\<close>

lemma succeeded_total: "attached a w \<Longrightarrow> \<exists>b. succeeded a w = Some b"
  by (auto simp: succeeded_def attached_def split: option.splits)

lemma mode_update:
  assumes "attached a w"
  shows "\<exists>w'. dce_update a (\<lambda>d. d\<lparr>dce_mode := m\<rparr>) w = Some w' \<and> dte_dce w' = Some a \<and>
    dce_heap w' a = map_option (\<lambda>d. d\<lparr>dce_mode := m\<rparr>) (dce_heap w a)"
  using assms by (auto simp: dce_update_def attached_def split: option.splits)

text \<open>A mode is entered with the result OK, or the block is as before with the result FAIL.\<close>

definition entered :: "modem_mode_t \<Rightarrow> nat \<Rightarrow> 'a modem_world_scheme \<Rightarrow> (esp_err_t \<times> 'a modem_world_scheme) option \<Rightarrow> bool" where
  "entered m a w r \<longleftrightarrow> (\<exists>w' d d'. dce_heap w a = Some d \<and> dce_heap w' a = Some d' \<and> dte_dce w' = Some a \<and>
     ((r = Some (ESP_OK, w') \<and> dce_link d' = dce_link (d\<lparr>dce_mode := m\<rparr>)) \<or>
      (r = Some (ESP_FAIL, w') \<and> dce_link d' = dce_link d)))"

lemma enter_end:
  assumes "attached a w" "link w1 = link w" "succeeded a w1 = Some ok"
  shows "entered m a w (if r = ESP_OK \<and> ok
      then dce_update a (\<lambda>d. d\<lparr>dce_mode := m\<rparr>) w1 \<bind> (\<lambda>w. Some (ESP_OK, w)) else Some (ESP_FAIL, w1))"
proof -
  obtain d where d: "dce_heap w a = Some d" "dte_dce w = Some a" using assms(1) by (auto simp: attached_def split: option.splits)
  obtain d1 where d1: "dce_heap w1 a = Some d1" "dce_link d1 = dce_link d" using link_block [OF assms(2) d(1)] by auto
  have "dte_dce w1 = Some a" using link_parts(1) [OF assms(2)] d(2) by simp
  then show ?thesis
    using d d1 by (auto simp: entered_def dce_update_def dce_link_def)
qed

lemma enter_command_entered:
  assumes "attached a w"
  shows "entered MODEM_COMMAND_MODE a w (enter_command_mode a w)"
proof -
  have h: "result_handler (Some Handle_exit_data_mode)" "result_handler (Some Handle_response_default)"
    by (simp_all add: result_handler_def)
  obtain r1 w1 where w1: "send_with Handle_exit_data_mode ''+++'' MODEM_COMMAND_TIMEOUT_MODE_CHANGE a w = Some (r1, w1)"
    "link w1 = link w" using send_with_total [OF assms h(1)] by blast
  have a1: "attached a w1" using attached_link [OF w1(2)] assms by blast
  obtain r2 w2 where w2: "send_with Handle_response_default (''AT'' @ [CR]) MODEM_COMMAND_TIMEOUT_DEFAULT a w1 = Some (r2, w2)"
    "link w2 = link w1" using send_with_total [OF a1 h(2)] by blast
  have a2: "attached a w2" using attached_link [OF w2(2)] a1 by blast
  obtain b1 b2 where b: "succeeded a w1 = Some b1" "succeeded a w2 = Some b2"
    using succeeded_total [OF a1] succeeded_total [OF a2] by auto
  show ?thesis
    using enter_end [OF assms w1(2) b(1), of MODEM_COMMAND_MODE r1]
      enter_end [OF assms trans [OF w2(2) w1(2)] b(2), of MODEM_COMMAND_MODE r2] w1(1) w2(1) b
    by (cases "r1 = ESP_OK") (simp_all add: enter_command_mode_def)
qed

lemma enter_ppp_entered:
  assumes "attached a w"
  shows "entered MODEM_PPP_MODE a w (enter_ppp_mode dial a w)"
proof -
  have h: "result_handler (Some Handle_atd_ppp)" by (simp add: result_handler_def)
  obtain r1 w1 where w1: "send_with Handle_atd_ppp dial MODEM_COMMAND_TIMEOUT_MODE_CHANGE a w = Some (r1, w1)"
    "link w1 = link w" using send_with_total [OF assms h] by blast
  have a1: "attached a w1" using attached_link [OF w1(2)] assms by blast
  obtain r2 w2 where w2: "send_with Handle_atd_ppp (''ATO'' @ [CR]) MODEM_COMMAND_TIMEOUT_MODE_CHANGE a w1 = Some (r2, w2)"
    "link w2 = link w1" using send_with_total [OF a1 h] by blast
  have a2: "attached a w2" using attached_link [OF w2(2)] a1 by blast
  obtain b1 b2 where b: "succeeded a w1 = Some b1" "succeeded a w2 = Some b2"
    using succeeded_total [OF a1] succeeded_total [OF a2] by auto
  show ?thesis
    using enter_end [OF assms w1(2) b(1), of MODEM_PPP_MODE r1]
      enter_end [OF assms trans [OF w2(2) w1(2)] b(2), of MODEM_PPP_MODE r2] w1(1) w2(1) b
    by (cases "r1 = ESP_OK \<and> \<not> b1") (auto simp: enter_ppp_mode_def)
qed

lemma entered_link:
  assumes "entered m a w1 r" "link w1 = link w"
  shows "entered m a w r"
proof -
  obtain w' d d' where h: "dce_heap w1 a = Some d" "dce_heap w' a = Some d'" "dte_dce w' = Some a"
    "(r = Some (ESP_OK, w') \<and> dce_link d' = dce_link (d\<lparr>dce_mode := m\<rparr>)) \<or> (r = Some (ESP_FAIL, w') \<and> dce_link d' = dce_link d)"
    using assms(1) by (auto simp: entered_def)
  obtain d0 where d0: "dce_heap w a = Some d0" "dce_link d0 = dce_link d"
    using link_block [OF assms(2) [symmetric] h(1)] by auto
  then have "dce_link (d0\<lparr>dce_mode := m\<rparr>) = dce_link (d\<lparr>dce_mode := m\<rparr>)" by (simp add: dce_link_def)
  then show ?thesis using h d0 by (auto simp: entered_def)
qed

lemma set_working_mode_entered:
  assumes "attached a w" "m \<noteq> MODEM_TRANSITION_MODE"
  shows "entered m a w (call_set_working_mode a m w)"
proof -
  obtain d where d: "dce_heap w a = Some d" using assms(1) by (auto simp: attached_def split: option.splits)
  have delay: "entered MODEM_COMMAND_MODE a v (enter_command_mode a (vTaskDelay_ms 1000 v))" if "attached a v" for v
  proof -
    have "attached a (vTaskDelay_ms 1000 v)" using that by (simp add: attached_link [of "vTaskDelay_ms 1000 v" v])
    from enter_command_entered [OF this] show ?thesis by (rule entered_link) simp
  qed
  let ?v = "w\<lparr>dce_heap := (dce_heap w)(a \<mapsto> d\<lparr>handle_line := Some Handle_exit_data_mode\<rparr>)\<rparr>"
  have u: "dce_update a (\<lambda>d. d\<lparr>handle_line := Some Handle_exit_data_mode\<rparr>) w = Some ?v"
    using d by (simp add: dce_update_def)
  have v: "attached a ?v" using attached_link [OF link_handler_update [OF u]] assms(1) by simp
  have sim: "entered MODEM_COMMAND_MODE a w (enter_command_mode a (vTaskDelay_ms 1000 ?v))"
    by (rule entered_link [OF delay [OF v] link_handler_update [OF u]])
  show ?thesis
  proof (cases m)
    case MODEM_COMMAND_MODE
    then show ?thesis using d u sim delay [OF assms(1)]
      by (cases "kind d") (simp_all add: call_set_working_mode_def bg96_set_working_mode_def sim800_set_working_mode_def)
  next
    case MODEM_PPP_MODE
    then show ?thesis using d enter_ppp_entered [OF assms(1)]
      by (cases "kind d") (simp_all add: call_set_working_mode_def bg96_set_working_mode_def sim800_set_working_mode_def)
  qed (use assms(2) in simp)
qed

text \<open>C33. The modem is never left between two modes. A change to command or PPP mode always returns; with
  the result OK the modem object is in the new mode, with the result FAIL it is back in the
  mode it had, whatever the modem sends meanwhile and for every module.\<close>

theorem modem_mode_settles:
  assumes "dte_dce w = Some a" "dce_heap w a = Some d" "dce_dte d" "new_mode \<noteq> MODEM_TRANSITION_MODE"
  shows "\<exists>r w' d'. esp_modem_dte_change_mode new_mode w = Some (r, w') \<and> dte_dce w' = Some a \<and>
    dce_heap w' a = Some d' \<and> r \<in> {ESP_OK, ESP_FAIL} \<and>
    dce_mode d' = (if r = ESP_OK then new_mode else dce_mode d)"
proof (cases "dce_mode d = new_mode")
  case True
  then show ?thesis using assms by (simp add: esp_modem_dte_change_mode_def)
next
  case False
  let ?d = "d\<lparr>dce_mode := MODEM_TRANSITION_MODE\<rparr>"
  let ?w = "w\<lparr>dce_heap := (dce_heap w)(a \<mapsto> ?d)\<rparr>"
  have "attached a ?w" using assms by (simp add: attached_def)
  from set_working_mode_entered [OF this assms(4)]
  obtain w1 d1 where w1: "dce_heap w1 a = Some d1" "dte_dce w1 = Some a"
    "(call_set_working_mode a new_mode ?w = Some (ESP_OK, w1) \<and> dce_link d1 = dce_link (?d\<lparr>dce_mode := new_mode\<rparr>)) \<or>
     call_set_working_mode a new_mode ?w = Some (ESP_FAIL, w1)"
    by (auto simp: entered_def)
  have u: "dce_update a (\<lambda>d. d\<lparr>dce_mode := MODEM_TRANSITION_MODE\<rparr>) w = Some ?w"
    using assms(2) by (simp add: dce_update_def)
  show ?thesis
    using w1(3)
  proof (elim disjE conjE)
    assume ok: "call_set_working_mode a new_mode ?w = Some (ESP_OK, w1)" "dce_link d1 = dce_link (?d\<lparr>dce_mode := new_mode\<rparr>)"
    then have "dce_mode d1 = new_mode" by (simp add: dce_link_def)
    then show ?thesis using False assms u ok(1) w1(1,2)
      by (cases "new_mode = MODEM_PPP_MODE") (simp_all add: esp_modem_dte_change_mode_def uart_flush_def)
  next
    assume "call_set_working_mode a new_mode ?w = Some (ESP_FAIL, w1)"
    then have "esp_modem_dte_change_mode new_mode w =
        Some (ESP_FAIL, w1\<lparr>dce_heap := (dce_heap w1)(a \<mapsto> d1\<lparr>dce_mode := dce_mode d\<rparr>)\<rparr>)"
      using False assms u w1(1) by (simp add: esp_modem_dte_change_mode_def) (simp add: dce_update_def)
    then show ?thesis using w1(2) by simp
  qed
qed

theorem modem_mode_settles_witness:
  "\<exists>r w' d'. esp_modem_dte_change_mode MODEM_PPP_MODE (sample_modem (\<lambda>_. [''CONNECT'' @ [CR, LF]])) = Some (r, w') \<and>
     dce_heap w' 0 = Some d' \<and> dce_mode d' = (if r = ESP_OK then MODEM_PPP_MODE else MODEM_COMMAND_MODE)"
  using modem_mode_settles [OF sample_modem_block(1,2,3), of MODEM_PPP_MODE "\<lambda>_. [''CONNECT'' @ [CR, LF]]"]
  by (auto simp: new_dce_def)

section \<open>A module that answers in lines\<close>

text \<open>A line of the modem: it ends in a line feed, has no NUL and fits into the buffer.\<close>

definition modem_line :: "nat \<Rightarrow> string \<Rightarrow> bool" where
  "modem_line n l \<longleftrightarrow> l \<noteq> [] \<and> last l = LF \<and> CHR 0x00 \<notin> set l \<and> length l < n"

text \<open>The first line that contains a result decides.\<close>

definition answered :: "string list \<Rightarrow> bool" where
  "answered ls = (case find (\<lambda>l. contains l ''OK'' \<or> contains l ''ERROR'') ls of None \<Rightarrow> False | Some l \<Rightarrow> contains l ''OK'')"

definition idle :: "nat \<Rightarrow> line_handler \<Rightarrow> 'a modem_world_scheme \<Rightarrow> bool" where
  "idle a h w \<longleftrightarrow> attached a w \<and> \<not> uart_busy w \<and> uart_rx w = [] \<and> \<not> process_sem w \<and>
     map_option handle_line (dce_heap w a) = Some (Some h)"

lemma event_loop_effect: "\<exists>b. esp_event_loop_run w = w\<lparr>modem_queue := [], ppp_stop_bit := b\<rparr>"
proof -
  have "\<exists>b. fold (\<lambda>(e, s) w. modem_event_handler e w) q v = v\<lparr>ppp_stop_bit := b\<rparr>"
    for q and v :: "'a modem_world_scheme"
  proof (induction q arbitrary: v)
    case Nil
    have "v = v\<lparr>ppp_stop_bit := ppp_stop_bit v\<rparr>" by simp
    then show ?case unfolding fold_Nil id_apply by blast
  next
    case (Cons p q)
    obtain e t where p: "p = (e, t)" by fastforce
    obtain c where "modem_event_handler e v = v\<lparr>ppp_stop_bit := c\<rparr>"
      by (cases e) (auto simp: modem_event_handler_def intro: that [of "ppp_stop_bit v"])
    then show ?case using Cons.IH [of "v\<lparr>ppp_stop_bit := c\<rparr>"] p by simp
  qed
  from this [of "modem_queue w" "w\<lparr>modem_queue := []\<rparr>"] show ?thesis by (simp add: esp_event_loop_run_def)
qed

lemma event_loop_frame [simp]:
  "uart_rx (esp_event_loop_run w) = uart_rx w" "process_sem (esp_event_loop_run w) = process_sem w"
  "uart_busy (esp_event_loop_run w) = uart_busy w" "dce_heap (esp_event_loop_run w) = dce_heap w"
  "dte_dce (esp_event_loop_run w) = dte_dce w" "line_buffer_size (esp_event_loop_run w) = line_buffer_size w"
  using event_loop_effect [of w] by auto

lemma c_str_clean: "CHR 0x00 \<notin> set l \<Longrightarrow> c_str l = l"
  by (auto simp: c_str_def takeWhile_eq_all_conv)

lemma line_step:
  assumes "idle a h w" "modem_line (line_buffer_size w) l"
  shows "uart_event_task_step (line_item l) w =
    map_option snd (esp_dte_handle_line l ((esp_event_loop_run (w\<lparr>uart_rx := l\<rparr>))\<lparr>uart_rx := []\<rparr>))"
proof -
  obtain d where d: "dte_dce w = Some a" "dce_heap w a = Some d" "dce_mode d \<noteq> MODEM_PPP_MODE"
    using assms(1) by (auto simp: idle_def attached_def split: option.splits)
  have l: "l \<noteq> []" "length l < line_buffer_size w" "c_str l = l"
    using assms(2) c_str_clean by (auto simp: modem_line_def)
  have "int (length l) - 1 \<noteq> - 1" "int (length l) - 1 < int (line_buffer_size w) - 1" "nat (int (length l) - 1 + 1) = length l"
    using l(1,2) by simp_all
  then show ?thesis
    using assms(1) d l by (simp add: uart_event_task_step_def line_item_def esp_handle_uart_pattern_def uart_read_bytes_def
        idle_def Let_def)
qed

lemma long_line:
  assumes "modem_line n l" "contains l ''OK'' \<or> contains l ''ERROR''"
  shows "2 < length l \<and> \<not> is_only_cr_lf l"
proof -
  obtain p where p: "p \<in> {''OK'', ''ERROR''}" "contains l p" using assms(2) by auto
  from p(2) obtain x y where l: "l = x @ p @ y" unfolding contains_def strstr_iff by blast
  have "y \<noteq> []" using assms(1) l p(1) by (auto simp: modem_line_def LF_def)
  then have "2 < length l" using l p(1) by (cases y) auto
  moreover have "\<not> is_only_cr_lf l" using l p(1) by (auto simp: is_only_cr_lf_def CR_def LF_def)
  ultimately show ?thesis by simp
qed


lemma default_step:
  assumes "idle a Handle_response_default w" "modem_line (line_buffer_size w) l"
  shows "\<exists>w' d'. uart_event_task_step (line_item l) w = Some w' \<and> dce_heap w' a = Some d' \<and>
    uart_rx w' = [] \<and> \<not> uart_busy w' \<and> line_buffer_size w' = line_buffer_size w \<and>
    process_sem w' = (contains l ''OK'' \<or> contains l ''ERROR'') \<and>
    (process_sem w' \<longrightarrow> dce_state d' = (if contains l ''OK'' then MODEM_STATE_SUCCESS else MODEM_STATE_FAIL))"
proof -
  obtain d where d: "dte_dce w = Some a" "dce_heap w a = Some d" "dce_dte d" "handle_line d = Some Handle_response_default"
    using assms(1) by (auto simp: idle_def attached_def split: option.splits)
  have w: "\<not> uart_busy w" "\<not> process_sem w" using assms(1) by (simp_all add: idle_def)
  show ?thesis
  proof (cases "contains l ''OK'' \<or> contains l ''ERROR''")
    case True
    then show ?thesis
      using d w long_line [OF assms(2)] unfolding line_step [OF assms]
      by (cases "contains l ''OK''") (simp_all add: esp_dte_handle_line_def esp_modem_dce_handle_response_default_def
          handle_result_def esp_modem_process_command_done_def dce_update_def esp_modem_dte_process_cmd_done_def
          xSemaphoreGive_process_def)
  next
    case False
    then show ?thesis
      using d w unfolding line_step [OF assms]
      by (cases "2 < length l \<and> \<not> is_only_cr_lf l") (auto simp: esp_dte_handle_line_def
          esp_modem_dce_handle_response_default_def handle_result_def modem_post_def)
  qed
qed

lemma default_await:
  assumes "idle a Handle_response_default w" "\<forall>l \<in> set ls. modem_line (line_buffer_size w) l"
  shows "\<exists>ok w' d'. await_done (map line_item ls) w = Some (ok, w') \<and> dce_heap w' a = Some d' \<and> \<not> process_sem w' \<and>
    (ok \<and> dce_state d' = MODEM_STATE_SUCCESS) = answered ls"
  using assms
proof (induction ls arbitrary: w)
  case Nil
  then show ?case
    by (auto simp: await_done.simps [of "[]"] idle_def attached_def answered_def split: option.splits)
next
  case (Cons l ls)
  obtain w1 d1 where w1: "uart_event_task_step (line_item l) w = Some w1" "dce_heap w1 a = Some d1"
    "uart_rx w1 = []" "\<not> uart_busy w1" "line_buffer_size w1 = line_buffer_size w"
    "process_sem w1 = (contains l ''OK'' \<or> contains l ''ERROR'')"
    "process_sem w1 \<longrightarrow> dce_state d1 = (if contains l ''OK'' then MODEM_STATE_SUCCESS else MODEM_STATE_FAIL)"
    using default_step [OF Cons.prems(1), of l] Cons.prems(2) by auto
  have step: "await_done (map line_item (l # ls)) w = await_done (map line_item ls) w1"
    using Cons.prems(1) w1(1) by (simp add: await_done.simps [of "line_item l # map line_item ls"] idle_def)
  show ?case
  proof (cases "process_sem w1")
    case True
    then have "await_done (map line_item ls) w1 = Some (True, w1\<lparr>process_sem := False\<rparr>)"
      by (simp add: await_done.simps [of _ w1])
    then show ?thesis using True step w1(2,6,7) by (auto simp: answered_def)
  next
    case False
    have e: "elink w1 = elink w" using elink_event_step [OF w1(1)] .
    have "map_option handle_line (dce_heap w1 a) = map_option handle_line (dce_heap w a)"
      using elink_parts [OF e, of a] by (cases "dce_heap w1 a"; cases "dce_heap w a") (simp_all add: dce_elink_def)
    then have "idle a Handle_response_default w1"
      using False w1(3,4) Cons.prems(1) attached_link [OF elink_link [OF e]] by (simp add: idle_def)
    from Cons.IH [OF this] show ?thesis
      using False step w1(5,6) Cons.prems(2) by (simp add: answered_def)
  qed
qed

lemma default_command:
  assumes "attached a w" "\<not> uart_busy w" "uart_rx w = []" "\<not> process_sem w"
    and "uart_script w (uart_waits w) = map line_item ls" "\<forall>l \<in> set ls. modem_line (line_buffer_size w) l"
  shows "\<exists>w'. run_command Handle_response_default c t a w = Some (if answered ls then ESP_OK else ESP_FAIL, w')"
proof -
  obtain d where d: "dce_heap w a = Some d" "dce_dte d" "dte_dce w = Some a"
    using assms(1) by (auto simp: attached_def split: option.splits)
  let ?d = "d\<lparr>handle_line := Some Handle_response_default, dce_state := MODEM_STATE_PROCESSING\<rparr>"
  let ?w = "uart_write_bytes uart_port c (w\<lparr>dce_heap := (dce_heap w)(a \<mapsto> ?d)\<rparr>)"
  let ?v = "?w\<lparr>uart_waits := Suc (uart_waits ?w)\<rparr>"
  have "idle a Handle_response_default ?v"
    using assms(1-4) d by (simp add: idle_def attached_def uart_write_bytes_def)
  then obtain ok w1 d1 where w1: "await_done (map line_item ls) ?v = Some (ok, w1)" "dce_heap w1 a = Some d1"
    "(ok \<and> dce_state d1 = MODEM_STATE_SUCCESS) = answered ls"
    using default_await [of a ?v ls] assms(6) by (auto simp: uart_write_bytes_def)
  have s: "uart_script ?w (uart_waits ?w) = map line_item ls" using assms(5) by (simp add: uart_write_bytes_def)
  show ?thesis
    using d w1 s by (cases ok) (auto simp: run_command_def esp_modem_dte_send_cmd_def dce_update_def next_wait_def
        Let_def vTaskDelay_ms_def)
qed

text \<open>C34. A command succeeds exactly when the modem says so. When the modem answers a synchronisation, an echo
  setting, the storing of the profile or a hang-up with some lines in time, the function returns OK exactly
  when the first line that contains OK or ERROR contains OK; unsolicited lines before it and
  whatever comes after it make no difference, and without such a line the result is FAIL.\<close>

theorem modem_command_result:
  assumes "attached a w" "\<not> uart_busy w" "uart_rx w = []" "\<not> process_sem w"
    and "uart_script w (uart_waits w) = map line_item ls" "\<forall>l \<in> set ls. modem_line (line_buffer_size w) l"
    and "f \<in> {esp_modem_dce_sync a, esp_modem_dce_echo a on, esp_modem_dce_store_profile a, esp_modem_dce_hang_up a}"
  shows "\<exists>w'. f w = Some (if answered ls then ESP_OK else ESP_FAIL, w')"
  using assms(7) default_command [OF assms(1-6)]
  by (auto simp: esp_modem_dce_sync_def esp_modem_dce_echo_def esp_modem_dce_store_profile_def esp_modem_dce_hang_up_def)


theorem modem_command_result_witness:
  "\<exists>w'. esp_modem_dce_sync 0 (sample_modem (\<lambda>_. [''+CREG: 1'' @ [CR, LF], ''OK'' @ [CR, LF]])) = Some (ESP_OK, w')"
proof -
  let ?ls = "[''+CREG: 1'' @ [CR, LF], ''OK'' @ [CR, LF]]"
  let ?w = "sample_modem (\<lambda>_. ?ls)"
  have w: "\<not> uart_busy ?w" "uart_rx ?w = []" "\<not> process_sem ?w" "uart_script ?w (uart_waits ?w) = map line_item ?ls"
    "line_buffer_size ?w = 512"
    by (simp_all add: sample_modem_defs)
  have l: "modem_line 512 (''+CREG: 1'' @ [CR, LF])" "modem_line 512 (''OK'' @ [CR, LF])" "answered ?ls"
    by code_simp+
  have "\<forall>l \<in> set ?ls. modem_line (line_buffer_size ?w) l" using l(1,2) w(5) by simp
  from modem_command_result [OF sample_modem_block(5) w(1-4) this, of "esp_modem_dce_sync 0" True] l(3) show ?thesis by simp
qed

section \<open>A module that does not answer\<close>

lemma all_ok_link:
  assumes "\<forall>f \<in> set fs. \<forall>w r w'. f w = Some (r, w') \<longrightarrow> link w' = link w" "all_ok fs w = Some (ok, w')"
  shows "link w' = link w"
  using assms
proof (induction fs arbitrary: w)
  case (Cons f fs)
  from Cons.prems(2) obtain r v where v: "f w = Some (r, v)" "(if r = ESP_OK then all_ok fs v else Some (False, v)) = Some (ok, w')"
    by (auto split: bind_splits)
  have "link v = link w" using Cons.prems(1) v(1) by auto
  then show ?case using Cons.IH [of v] Cons.prems(1) v(2) by (auto split: if_splits)
qed simp

lemma dce_setup_link: "\<forall>f \<in> set (dce_setup a). \<forall>w r w'. f w = Some (r, w') \<longrightarrow> link w' = link w"
  by (auto simp: dce_setup_def esp_modem_dce_sync_def esp_modem_dce_echo_def bg96_get_module_name_def
      bg96_get_imei_number_def bg96_get_imsi_number_def bg96_get_operator_name_def dest: link_run)

lemma dce_init_failed:
  assumes "dce_init k w = Some (None, w')" "heap_ok w (dce_next w)"
  shows "dte_dce w' = Some (dce_next w) \<and> dce_heap w' (dce_next w) = None"
proof -
  let ?a = "dce_next w"
  let ?w = "w\<lparr>dce_heap := (dce_heap w)(?a \<mapsto> new_dce k), dce_next := Suc ?a, dte_dce := Some ?a\<rparr>"
  obtain w1 where w1: "all_ok (dce_setup ?a) ?w = Some (False, w1)" "w' = w1\<lparr>dce_heap := (dce_heap w1)(?a := None)\<rparr>"
    using assms by (auto simp: dce_init_def Let_def split: bind_splits if_splits)
  have "dte_dce w1 = dte_dce ?w" using link_parts(1) [OF all_ok_link [OF dce_setup_link w1(1)]] .
  then show ?thesis using w1(2) by simp
qed

text \<open>C35. A modem that cannot be set up makes the driver write to freed memory: when \<^verbatim>\<open>bg96_init\<close> gives up
  and frees its object, \<^verbatim>\<open>sim7600_init\<close> still sets a method through the pointer the terminal kept, so
  it has no defined result.\<close>

theorem sim7600_init_after_failure:
  assumes "bg96_init w = Some (None, w')" "heap_ok w (dce_next w)"
  shows "sim7600_init w = None"
  using dce_init_failed [of Bg96 w w'] assms by (simp add: sim7600_init_def bg96_init_def dce_update_def)


theorem sim7600_init_after_failure_witness:
  "\<exists>w'. bg96_init (sample_modem (\<lambda>_. [])) = Some (None, w') \<and> sim7600_init (sample_modem (\<lambda>_. [])) = None"
proof -
  let ?w = "sample_modem (\<lambda>_. [])"
  let ?v = "?w\<lparr>dce_heap := (dce_heap ?w)(1 \<mapsto> new_dce Bg96), dce_next := 2, dte_dce := Some 1\<rparr>"
  have v: "attached 1 ?v" "\<not> uart_busy ?v" "uart_rx ?v = []" "\<not> process_sem ?v"
    "uart_script ?v (uart_waits ?v) = map line_item []"
    by (simp_all add: sample_modem_defs attached_def new_dce_def)
  have w: "heap_ok ?w (dce_next ?w)" "dce_next ?w = 1" by (simp_all add: sample_modem_defs)
  obtain w1 where "esp_modem_dce_sync 1 ?v = Some (ESP_FAIL, w1)"
    using default_command [OF v] by (auto simp: esp_modem_dce_sync_def answered_def)
  then have "\<exists>w'. bg96_init ?w = Some (None, w')"
    using w by (simp add: bg96_init_def dce_init_def dce_setup_def numeral_2_eq_2)
  then show ?thesis using sim7600_init_after_failure [OF _ w(1)] by blast
qed

section \<open>The text members\<close>

lemma nth_text_put:
  assumes "off + length s \<le> length t" "i < length t"
  shows "text_put off s t ! i = (if i < off then t ! i else if i < off + length s then s ! (i - off) else t ! i)"
  using assms by (auto simp: text_put_def nth_append)

lemma length_text_put: "off + length s \<le> length t \<Longrightarrow> length (text_put off s t) = length t"
  by (simp add: text_put_def)

text \<open>Reading a member back: the characters up to the first NUL.\<close>

lemma text_get_eq:
  assumes "off + length s < length t" "CHR 0x00 \<notin> set s" "t ! (off + length s) = CHR 0x00"
    and "\<forall>i < length s. t ! (off + i) = s ! i"
  shows "text_get off t = s"
proof -
  have "drop off t = s @ CHR 0x00 # drop (Suc (off + length s)) t"
  proof (rule nth_equalityI)
    show "length (drop off t) = length (s @ CHR 0x00 # drop (Suc (off + length s)) t)" using assms(1) by simp
  next
    fix i
    assume "i < length (drop off t)"
    then show "drop off t ! i = (s @ CHR 0x00 # drop (Suc (off + length s)) t) ! i"
      using assms(1,3,4) by (auto simp: nth_append nth_Cons' add.commute)
  qed
  then show ?thesis using assms(2) by (auto simp: text_get_def c_str_def takeWhile_append)
qed


lemma strip_line:
  fixes s :: string and n :: nat
  assumes "length t = 96" "off + n < 96" "length s < n" "CHR 0x00 \<notin> set s" "t ! (off + n) \<noteq> CR"
  defines "u \<equiv> text_put off (take (n - 1) (s @ [CR, LF]) @ [CHR 0x00]) t"
  shows "\<exists>v. strip_cr_lf_tail off (length s + 2) u = Some v \<and> length v = 96 \<and> text_get off v = s \<and>
    (\<forall>i < 96. i < off \<or> off + n \<le> i \<longrightarrow> v ! i = t ! i)"
proof -
  let ?o = "take (n - 1) (s @ [CR, LF]) @ [CHR 0x00]"
  have lo: "length ?o \<le> n" "length s < length ?o" using assms(3) by auto
  have fit: "off + length ?o \<le> length t" using lo assms(1,2) by simp
  have lu: "length u = 96" using length_text_put [OF fit] assms(1) by (simp add: u_def)
  have nth: "u ! i = (if i < off then t ! i else if i < off + length ?o then ?o ! (i - off) else t ! i)" if "i < 96" for i
    using nth_text_put [OF fit, of i] that assms(1) by (simp add: u_def)
  have in_s: "u ! (off + i) = s ! i" if "i < length s" for i
    using nth [of "off + i"] that lo assms(2,3) by (auto simp: nth_append min_def split: if_splits)
  show ?thesis
  proof (cases "length s = n - 1")
    case True
    then have e: "?o = s @ [CHR 0x00]" by simp
    have "u ! (off + length s) = CHR 0x00" "u ! (off + n) = t ! (off + n)"
      using nth [of "off + length s"] nth [of "off + n"] e True assms(2,3) by (auto simp: nth_append)
    moreover have "off + (length s + 2) - 2 = off + length s" "off + (length s + 2) - 1 = off + n" using True assms(3) by simp_all
    ultimately have "strip_cr_lf_tail off (length s + 2) u = Some u"
      using lu assms(2,3,5) by (auto simp: strip_cr_lf_tail_def CR_def)
    moreover have "text_get off u = s"
      by (rule text_get_eq) (use lu assms(2,3,4) in_s \<open>u ! (off + length s) = CHR 0x00\<close> in auto)
    moreover have "\<forall>i < 96. i < off \<or> off + n \<le> i \<longrightarrow> u ! i = t ! i" using nth lo(1) by auto
    ultimately show ?thesis using lu by blast
  next
    case False
    then have e: "u ! (off + length s) = CR"
      using nth [of "off + length s"] lo assms(2,3) by (auto simp: nth_append take_Cons' min_def split: if_splits)
    let ?v = "u[off + length s := CHR 0x00]"
    have "strip_cr_lf_tail off (length s + 2) u = Some ?v"
      using lu e assms(2,3) by (simp add: strip_cr_lf_tail_def)
    moreover have "text_get off ?v = s"
      by (rule text_get_eq) (use lu assms(2,3,4) in_s in auto)
    moreover have "\<forall>i < 96. i < off \<or> off + n \<le> i \<longrightarrow> ?v ! i = t ! i" using nth lo(1) assms(3) by (auto simp: nth_list_update)
    ultimately show ?thesis using lu by (metis length_list_update)
  qed
qed

lemma store_text_line:
  assumes "dce_heap w a = Some d" "length (dce_text d) = 96" "off + n < 96" "s \<noteq> []" "length s < n" "CHR 0x00 \<notin> set s"
    and "dce_text d ! (off + n) \<noteq> CR"
  shows "\<exists>w' t. store_text off n a (s @ [CR, LF]) w = Some (ESP_OK, w') \<and> dce_heap w' a = Some (d\<lparr>dce_text := t\<rparr>) \<and>
    length t = 96 \<and> text_get off t = s \<and> (\<forall>i < 96. i < off \<or> off + n \<le> i \<longrightarrow> t ! i = dce_text d ! i)"
  using strip_line [OF assms(2,3,5,6,7)] assms(1,4) by (auto simp: store_text_def snprintf_s_def dce_update_def Let_def)

text \<open>What the modem says of itself is what is stored: its name, the serial number and the subscriber number
  are kept without the line end, up to 31 and 15 characters, and the neighbouring members keep their
  content. A number of 15 digits makes the code look one character behind its member, so that
  character must not be a carriage return.\<close>

theorem modem_identity_stored:
  assumes "dce_heap w a = Some d" "length (dce_text d) = 96" "s \<noteq> []" "CHR 0x00 \<notin> set s"
    and "\<not> contains (s @ [CR, LF]) ''OK''" "\<not> contains (s @ [CR, LF]) ''ERROR''"
    and "(f, off, n) \<in> {(bg96_handle_cgsn, 0, 16), (bg96_handle_cimi, 16, 16), (bg96_handle_cgmm, 32, 32)}"
    and "length s < n" "dce_text d ! (off + n) \<noteq> CR"
  shows "\<exists>w' t. f a (s @ [CR, LF]) w = Some (ESP_OK, w') \<and> dce_heap w' a = Some (d\<lparr>dce_text := t\<rparr>) \<and>
    text_get off t = s \<and> (\<forall>i < 96. i < off \<or> off + n \<le> i \<longrightarrow> t ! i = dce_text d ! i)"
proof -
  have "off + n < 96" using assms(7) by auto
  from store_text_line [OF assms(1,2) this assms(3,8,4,9)] show ?thesis
    using assms(5-7) by (auto simp: bg96_handle_cgsn_def bg96_handle_cimi_def bg96_handle_cgmm_def handle_result_def)
qed

theorem modem_identity_stored_witness:
  "\<exists>w' t. bg96_handle_cgsn 0 (''867584031234567'' @ [CR, LF]) (sample_modem (\<lambda>_. [])) = Some (ESP_OK, w') \<and>
     dce_heap w' 0 = Some ((new_dce Bg96)\<lparr>dce_text := t\<rparr>) \<and> text_get 0 t = ''867584031234567''"
proof -
  have "\<not> contains (''867584031234567'' @ [CR, LF]) ''OK''" "\<not> contains (''867584031234567'' @ [CR, LF]) ''ERROR''"
    by code_simp+
  moreover have "dce_text (new_dce Bg96) ! (0 + 16) \<noteq> CR" by (simp add: new_dce_def CR_def)
  ultimately show ?thesis
    using modem_identity_stored [OF sample_modem_block(2) [of "\<lambda>_. []"] sample_modem_block(4), of "''867584031234567''" bg96_handle_cgsn 0 16] by auto
qed



end
