(* ===== verification/App_Pppos.thy ===== *)
theory App_Pppos
  imports Modem_Answers
begin

text \<open>
  \<^verbatim>\<open>main/app_pppos.c\<close> and the adapter \<^verbatim>\<open>esp_modem_netif.c\<close>: the task that sets the modem up,
  dials and waits for an address, and the calls between the modem driver and the network stack.
  The stack itself belongs to the SDK: the outcomes of its calls are the argument \<open>api\<close>, by
  call site, and the IP events it posts are an argument of the wait.
\<close>

text \<open>The functions of the network stack that the adapter registers for an event.\<close>

datatype netif_action =
  Esp_netif_action_start | Esp_netif_action_stop | Esp_netif_action_connected | Esp_netif_action_disconnected

record pppos_world = modem_world +
  ppp_dce :: "nat option"
  netif_actions :: "netif_action list"

section \<open>The adapter to the network stack\<close>

definition esp_modem_set_rx_cb :: "'a modem_world_scheme \<Rightarrow> esp_err_t \<times> 'a modem_world_scheme" where
  "esp_modem_set_rx_cb w = (ESP_OK, w\<lparr>receive_cb := True\<rparr>)"

definition esp_modem_netif_setup :: "(string \<Rightarrow> bool) \<Rightarrow> 'a modem_world_scheme \<Rightarrow> bool \<times> 'a modem_world_scheme" where
  "esp_modem_netif_setup api w =
     (if \<not> api ''calloc netif driver'' then (False, w)
      else case esp_modem_set_rx_cb w of (err, w) \<Rightarrow> if err \<noteq> ESP_OK then (False, w) else (True, w))"

definition register_action ::
    "(string \<Rightarrow> bool) \<Rightarrow> string \<Rightarrow> netif_action \<Rightarrow> 'a pppos_world_scheme \<Rightarrow> esp_err_t \<times> 'a pppos_world_scheme" where
  "register_action api event action w =
     (if api event then (ESP_OK, w\<lparr>netif_actions := action # netif_actions w\<rparr>) else (ESP_FAIL, w))"

text \<open>
  \<^verbatim>\<open>esp_modem_remove_event_handler\<close>: of the terminal's event loop, so only the first two actions. The SDK reports
  success for a handler that is not registered.
\<close>

definition esp_modem_remove_event_handler ::
    "(string \<Rightarrow> bool) \<Rightarrow> netif_action \<Rightarrow> 'a pppos_world_scheme \<Rightarrow> esp_err_t \<times> 'a pppos_world_scheme" where
  "esp_modem_remove_event_handler api action w =
     (if api ''unregister'' then (ESP_OK, w\<lparr>netif_actions := removeAll action (netif_actions w)\<rparr>) else (ESP_FAIL, w))"

definition esp_modem_netif_clear_default_handlers ::
    "(string \<Rightarrow> bool) \<Rightarrow> 'a pppos_world_scheme \<Rightarrow> esp_err_t \<times> 'a pppos_world_scheme" where
  "esp_modem_netif_clear_default_handlers api w =
     (case esp_modem_remove_event_handler api Esp_netif_action_start w of
        (ret, w) \<Rightarrow> if ret \<noteq> ESP_OK then (ESP_FAIL, w) else esp_modem_remove_event_handler api Esp_netif_action_stop w)"

text \<open>Every failed registration undoes the two of the terminal, and leaves the others.\<close>

definition esp_modem_netif_set_default_handlers ::
    "(string \<Rightarrow> bool) \<Rightarrow> 'a pppos_world_scheme \<Rightarrow> esp_err_t \<times> 'a pppos_world_scheme" where
  "esp_modem_netif_set_default_handlers api w =
     (let failed = (\<lambda>w. (ESP_FAIL, snd (esp_modem_netif_clear_default_handlers api w)));
          (ret, w) = register_action api ''PPP_START'' Esp_netif_action_start w
      in if ret \<noteq> ESP_OK then failed w
         else let (ret, w) = register_action api ''PPP_STOP'' Esp_netif_action_stop w
              in if ret \<noteq> ESP_OK then failed w
                 else let (ret, w) = register_action api ''GOT_IP'' Esp_netif_action_connected w
                      in if ret \<noteq> ESP_OK then failed w
                         else let (ret, w) = register_action api ''LOST_IP'' Esp_netif_action_disconnected w
                              in if ret \<noteq> ESP_OK then failed w else (ESP_OK, w))"

definition esp_modem_dte_transmit :: "string \<Rightarrow> 'a modem_world_scheme \<Rightarrow> (esp_err_t \<times> 'a modem_world_scheme) option" where
  "esp_modem_dte_transmit buffer w = do {
     (n, w) \<leftarrow> esp_modem_dte_send_data buffer w;
     Some (if n > 0 then ESP_OK else ESP_FAIL, w)
   }"

definition NETIF_PP_PHASE_OFFSET :: int where "NETIF_PP_PHASE_OFFSET = 0x100"

definition on_ppp_changed_netif :: "int \<Rightarrow> 'a modem_world_scheme \<Rightarrow> 'a modem_world_scheme" where
  "on_ppp_changed_netif event_id w =
     (if event_id < NETIF_PP_PHASE_OFFSET then snd (esp_modem_notify_ppp_netif_closed w) else w)"

definition esp_modem_post_attach_start ::
    "(string \<Rightarrow> bool) \<Rightarrow> 'a modem_world_scheme \<Rightarrow> (esp_err_t \<times> 'a modem_world_scheme) option" where
  "esp_modem_post_attach_start api w =
     (if \<not> api ''esp_netif_set_driver_config'' \<or> \<not> api ''register NETIF_PPP_STATUS'' then None
      else esp_modem_start_ppp w)"

section \<open>The task\<close>

definition ppp_config :: esp_modem_dte_config_t where
  "ppp_config = \<lparr>dc_flow_control = MODEM_FLOW_CONTROL_NONE, dc_line_buffer_size = 512\<rparr>"

text \<open>
  Before its loop. A failed \<^verbatim>\<open>ESP_ERROR_CHECK\<close> or assertion aborts, and a null terminal or
  adapter is dereferenced: no result.
\<close>

definition ppp_task_start :: "(string \<Rightarrow> bool) \<Rightarrow> 'a pppos_world_scheme \<Rightarrow> 'a pppos_world_scheme option" where
  "ppp_task_start api w =
     (let w = Power_On_Sim w in
      if \<not> api ''esp_netif_init'' \<or> \<not> api ''esp_event_loop_create_default'' \<or> \<not> api ''register IP_EVENT'' \<or>
         \<not> api ''register PPP_STATUS'' then None
      else do {
        let w = w\<lparr>ppp_connect_bit := False, ppp_stop_bit := False\<rparr>;
        let (dte, w) = esp_modem_dte_init api ppp_config w;
        if \<not> dte \<or> \<not> api ''set_event_handler'' \<or> \<not> api ''esp_netif_new'' then None
        else do {
          let (adapter, w) = esp_modem_netif_setup api w;
          if \<not> adapter then None
          else do {
            let w = snd (esp_modem_netif_set_default_handlers api w);
            n \<leftarrow> network_handle w;
            handle \<leftarrow> ppp_handle n;
            Some (set_ppp (handle\<lparr>ppp_is_connected := False\<rparr>) w)
          }
        }
      })"

text \<open>
  \<^verbatim>\<open>xEventGroupWaitBits\<close> with no time limit while the stack posts \<open>es\<close>; \<open>False\<close>: the task
  still waits when they have all been handled.
\<close>

fun wait_connect :: "ip_event list \<Rightarrow> 'a network_world_scheme \<Rightarrow> (bool \<times> 'a network_world_scheme) option" where
  "wait_connect es w =
     (if ppp_connect_bit w then Some (True, w\<lparr>ppp_connect_bit := False\<rparr>)
      else case es of
             [] \<Rightarrow> Some (False, w)
           | e # es \<Rightarrow> do { w \<leftarrow> on_ip_event e w; wait_connect es w })"

declare wait_connect.simps [simp del]

definition check :: "(esp_err_t \<times> 'w) option \<Rightarrow> 'w option" where
  "check r = do { (e, w) \<leftarrow> r; if e = ESP_OK then Some w else None }"

text \<open>One round of the loop of \<^verbatim>\<open>_ppp_task\<close>; the flag says whether the round has ended.\<close>

definition ppp_task_step ::
    "(string \<Rightarrow> bool) \<Rightarrow> ip_event list \<Rightarrow> 'a pppos_world_scheme \<Rightarrow> (bool \<times> 'a pppos_world_scheme) option" where
  "ppp_task_step api es w = do {
     n \<leftarrow> network_handle w;
     handle \<leftarrow> ppp_handle n;
     if ppp_is_connected handle then Some (True, vTaskDelay_ms 20000 w)
     else do {
       (dce, w) \<leftarrow> sim7600_init (w\<lparr>ppp_dce := None\<rparr>);
       let w = w\<lparr>ppp_dce := dce\<rparr>;
       case dce of
         None \<Rightarrow> Some (True, vTaskDelay_ms 10000 w)
       | Some a \<Rightarrow> do {
           w \<leftarrow> check (esp_modem_dce_set_flow_ctrl a MODEM_FLOW_CONTROL_NONE w);
           w \<leftarrow> check (esp_modem_dce_store_profile a w);
           (r, _, w) \<leftarrow> bg96_get_signal_quality [0, 0] a w;
           _ \<leftarrow> esp_error_check r;
           (r, _, w) \<leftarrow> call_get_battery_status [0, 0, 0] a w;
           _ \<leftarrow> esp_error_check r;
           (_, w) \<leftarrow> esp_modem_post_attach_start api w;
           wait_connect es w
         }
     }
   }"

definition app_ppp_destroy :: "(string \<Rightarrow> bool) \<Rightarrow> 'a pppos_world_scheme \<Rightarrow> (esp_err_t \<times> 'a pppos_world_scheme) option" where
  "app_ppp_destroy api w = do {
     a \<leftarrow> ppp_dce w;
     w \<leftarrow> check (bg96_power_down a w);
     w \<leftarrow> check (bg96_deinit a w);
     let w = snd (esp_modem_netif_clear_default_handlers api w);
     w \<leftarrow> check (esp_modem_dte_deinit w);
     Some (ESP_OK, w)
   }"

text \<open>Only the events of an address decide whether the wait ends.\<close>

lemma wait_connect_iff:
  assumes "network_handle w = Some n" "ppp_handle n = Some p" "\<not> ppp_connect_bit w"
  shows "\<exists>w'. wait_connect es w = Some (IP_EVENT_PPP_GOT_IP \<in> set es, w')"
  using assms
proof (induction es arbitrary: w n p)
  case Nil
  then show ?case by (simp add: wait_connect.simps [of "[]"])
next
  case (Cons e es)
  show ?case
  proof (cases "e = IP_EVENT_PPP_GOT_IP")
    case True
    then show ?thesis using Cons.prems
      by (simp add: wait_connect.simps [of "IP_EVENT_PPP_GOT_IP # es"] on_ip_event_def wait_connect.simps [of es] set_ppp_def)
  next
    case False
    show ?thesis
    proof (cases "e = IP_EVENT_PPP_LOST_IP")
      case True
      let ?p = "p\<lparr>ppp_is_connected := False\<rparr>"
      have "on_ip_event e w = Some (w\<lparr>network_handle := Some (n\<lparr>ppp_handle := Some ?p\<rparr>)\<rparr>)"
        using Cons.prems True by (simp add: on_ip_event_def set_ppp_def)
      then show ?thesis
        using Cons.IH [of "w\<lparr>network_handle := Some (n\<lparr>ppp_handle := Some ?p\<rparr>)\<rparr>" "n\<lparr>ppp_handle := Some ?p\<rparr>" ?p] Cons.prems(3) False
        by (auto simp: wait_connect.simps [of "e # es"])
    next
      case other: False
      then have "on_ip_event e w = Some w" using False Cons.prems by (cases e) (simp_all add: on_ip_event_def)
      then show ?thesis using Cons.IH [OF Cons.prems] Cons.prems(3) False by (auto simp: wait_connect.simps [of "e # es"])
    qed
  qed
qed

end
