(* ===== verification/Modem_Session.thy ===== *)
theory Modem_Session
  imports App_Pppos
begin

text \<open>
  A whole session with a modem that answers: the twelve commands of \<^verbatim>\<open>_ppp_task\<close> one after the
  other, from \<^verbatim>\<open>sim7600_init\<close> to the dialling. A reply is a list of lines, each of which either
  stores something in the modem object or ends the command; from that follows what one command
  does, and from the commands what a round of the task does.
\<close>

section \<open>One command and its reply\<close>

text \<open>The terminal bound to the object, the line idle.\<close>

definition ready :: "nat \<Rightarrow> modem_dce_t \<Rightarrow> 'a modem_world_scheme \<Rightarrow> bool" where
  "ready a d w \<longleftrightarrow> dte_dce w = Some a \<and> dce_heap w a = Some d \<and> dce_dte d \<and> dce_mode d \<noteq> MODEM_PPP_MODE \<and>
     \<not> uart_busy w \<and> uart_rx w = [] \<and> \<not> process_sem w"

text \<open>Waiting with a handler set.\<close>

definition waiting :: "nat \<Rightarrow> modem_dce_t \<Rightarrow> line_handler \<Rightarrow> 'a modem_world_scheme \<Rightarrow> bool" where
  "waiting a d h w \<longleftrightarrow> ready a d w \<and> handle_line d = Some h"

lemma waiting_idle: "waiting a d h w \<Longrightarrow> idle a h w"
  by (simp add: waiting_def ready_def idle_def attached_def)

text \<open>Lines that are handed to the handler.\<close>

definition shown :: "nat \<Rightarrow> string \<Rightarrow> bool" where
  "shown n l \<longleftrightarrow> modem_line n l \<and> 2 < length l \<and> \<not> is_only_cr_lf l"

definition after_read :: "string \<Rightarrow> 'a modem_world_scheme \<Rightarrow> 'a modem_world_scheme" where
  "after_read l w = (esp_event_loop_run (w\<lparr>uart_rx := l\<rparr>))\<lparr>uart_rx := []\<rparr>"

lemma waiting_after_read: "waiting a d h w \<Longrightarrow> waiting a d h (after_read l w)"
  by (simp add: waiting_def ready_def after_read_def)

lemma shown_step:
  assumes "waiting a d h w" "shown (line_buffer_size w) l"
  shows "uart_event_task_step (line_item l) w = map_option (\<lambda>(r, v). if r = ESP_OK then v
      else modem_post ESP_MODEM_EVENT_UNKNOWN l v) (call_handler h a l (after_read l w))"
proof -
  have "dte_dce (after_read l w) = Some a" "dce_heap (after_read l w) a = Some d" "handle_line d = Some h"
    using waiting_after_read [OF assms(1), of l] by (simp_all add: waiting_def ready_def)
  then show ?thesis
    using assms(2) line_step [OF waiting_idle [OF assms(1)], of l]
    by (cases "call_handler h a l (after_read l w)") (auto simp: shown_def esp_dte_handle_line_def after_read_def)
qed

text \<open>The two kinds of lines: one that stores something, and one that ends the command.\<close>

definition stores :: "line_handler \<Rightarrow> string \<Rightarrow> modem_dce_t \<Rightarrow> modem_dce_t \<Rightarrow> bool" where
  "stores h l d d' \<longleftrightarrow> dce_elink d' = dce_elink d \<and>
     (\<forall>a (w :: pppos_world). dce_heap w a = Some d \<longrightarrow>
        call_handler h a l w = Some (ESP_OK, w\<lparr>dce_heap := (dce_heap w)(a \<mapsto> d')\<rparr>))"

definition ends :: "line_handler \<Rightarrow> string \<Rightarrow> bool" where
  "ends h l \<longleftrightarrow> (\<forall>a (w :: pppos_world). call_handler h a l w = esp_modem_process_command_done a MODEM_STATE_SUCCESS w)"

lemma end_await:
  fixes w :: pppos_world
  assumes "waiting a d h w" "shown (line_buffer_size w) l" "ends h l"
  shows "\<exists>w'. await_done (line_item l # is) w = Some (True, w') \<and>
    ready a (d\<lparr>dce_state := MODEM_STATE_SUCCESS\<rparr>) w' \<and> uart_waits w' = uart_waits w"
proof -
  have r: "waiting a d h (after_read l w)" by (rule waiting_after_read [OF assms(1)])
  have u: "uart_waits (after_read l w) = uart_waits w"
    using event_loop_effect [of "w\<lparr>uart_rx := l\<rparr>"] by (auto simp: after_read_def)
  let ?v = "(after_read l w)\<lparr>dce_heap := (dce_heap (after_read l w))(a \<mapsto> d\<lparr>dce_state := MODEM_STATE_SUCCESS\<rparr>),
    process_sem := True\<rparr>"
  have "esp_modem_process_command_done a MODEM_STATE_SUCCESS (after_read l w) = Some (ESP_OK, ?v)"
    using r by (simp add: waiting_def ready_def esp_modem_process_command_done_def dce_update_def
        esp_modem_dte_process_cmd_done_def xSemaphoreGive_process_def)
  then have "uart_event_task_step (line_item l) w = Some ?v"
    using shown_step [OF assms(1,2)] assms(3) by (simp add: ends_def)
  then have "await_done (line_item l # is) w = Some (True, ?v\<lparr>process_sem := False\<rparr>)"
    using assms(1) by (simp add: await_done.simps [of "line_item l # is"] await_done.simps [of "is" ?v] waiting_def ready_def)
  then show ?thesis using r u by (simp add: waiting_def ready_def)
qed

lemma store_await:
  fixes w :: pppos_world
  assumes "waiting a d h w" "shown (line_buffer_size w) l" "stores h l d d'"
  shows "\<exists>w'. await_done (line_item l # is) w = await_done is w' \<and>
    waiting a d' h w' \<and> uart_waits w' = uart_waits w \<and> line_buffer_size w' = line_buffer_size w"
proof -
  have r: "waiting a d h (after_read l w)" by (rule waiting_after_read [OF assms(1)])
  have u: "uart_waits (after_read l w) = uart_waits w"
    using event_loop_effect [of "w\<lparr>uart_rx := l\<rparr>"] by (auto simp: after_read_def)
  let ?v = "(after_read l w)\<lparr>dce_heap := (dce_heap (after_read l w))(a \<mapsto> d')\<rparr>"
  have "call_handler h a l (after_read l w) = Some (ESP_OK, ?v)"
    using r assms(3) by (auto simp: stores_def waiting_def ready_def)
  then have "uart_event_task_step (line_item l) w = Some ?v" using shown_step [OF assms(1,2)] by simp
  then have "await_done (line_item l # is) w = await_done is ?v"
    using assms(1) by (simp add: await_done.simps [of "line_item l # is"] waiting_def ready_def)
  moreover have "waiting a d' h ?v"
    using r assms(3) by (simp add: waiting_def ready_def stores_def dce_elink_def dce_link_def)
  ultimately show ?thesis using u by (auto simp: after_read_def intro!: exI [of _ ?v])
qed


text \<open>Whether the modem's lines end a command with success, and what they leave in the object.\<close>

inductive reply :: "nat \<Rightarrow> line_handler \<Rightarrow> modem_dce_t \<Rightarrow> string list \<Rightarrow> modem_dce_t \<Rightarrow> bool" for n h where
  reply_end: "shown n l \<Longrightarrow> ends h l \<Longrightarrow> reply n h d [l] (d\<lparr>dce_state := MODEM_STATE_SUCCESS\<rparr>)"
| reply_store: "shown n l \<Longrightarrow> stores h l d d' \<Longrightarrow> reply n h d' ls d'' \<Longrightarrow> reply n h d (l # ls) d''"

lemma reply_await:
  fixes w :: pppos_world
  assumes "reply n h d ls d'" "waiting a d h w" "line_buffer_size w = n"
  shows "\<exists>w'. await_done (map line_item ls) w = Some (True, w') \<and> ready a d' w' \<and> uart_waits w' = uart_waits w"
  using assms
proof (induction arbitrary: w rule: reply.induct)
  case (reply_end l d)
  then show ?case using end_await [of a d h w l "[]"] by simp
next
  case (reply_store l d d1 ls d')
  obtain w1 where w1: "await_done (line_item l # map line_item ls) w = await_done (map line_item ls) w1"
    "waiting a d1 h w1" "uart_waits w1 = uart_waits w" "line_buffer_size w1 = line_buffer_size w"
    using store_await [of a d h w l d1 "map line_item ls"] reply_store.hyps(1,2) reply_store.prems by auto
  from reply_store.IH [OF w1(2)] show ?case using w1 reply_store.prems(2) by auto
qed

lemma reply_state: "reply n h d ls d' \<Longrightarrow> dce_state d' = MODEM_STATE_SUCCESS \<and> dce_link d' = dce_link d"
  by (induction rule: reply.induct) (auto simp: stores_def dce_elink_def dce_link_def)

definition sent :: "line_handler \<Rightarrow> modem_dce_t \<Rightarrow> modem_dce_t" where
  "sent h d = d\<lparr>handle_line := Some h, dce_state := MODEM_STATE_PROCESSING\<rparr>"

definition finished :: "modem_dce_t \<Rightarrow> modem_dce_t" where
  "finished d = d\<lparr>handle_line := None\<rparr>"

lemma send_with_reply:
  fixes w :: pppos_world
  assumes "ready a d w" "uart_script w (uart_waits w) = map line_item ls"
    and "reply (line_buffer_size w) h (sent h d) ls d'"
  shows "\<exists>w'. send_with h c t a w = Some (ESP_OK, w') \<and> ready a (finished d') w' \<and>
    uart_waits w' = Suc (uart_waits w) \<and> link w' = link w"
proof -
  let ?w = "uart_write_bytes uart_port c (w\<lparr>dce_heap := (dce_heap w)(a \<mapsto> sent h d)\<rparr>)"
  let ?v = "?w\<lparr>uart_waits := Suc (uart_waits ?w)\<rparr>"
  have "waiting a (sent h d) h ?v" "line_buffer_size ?v = line_buffer_size w"
    using assms(1) by (simp_all add: waiting_def ready_def sent_def uart_write_bytes_def)
  then obtain w1 where w1: "await_done (map line_item ls) ?v = Some (True, w1)" "ready a d' w1"
    "uart_waits w1 = uart_waits ?v"
    using reply_await [OF assms(3), of a ?v] by auto
  have s: "uart_script ?w (uart_waits ?w) = map line_item ls" using assms(2) by (simp add: uart_write_bytes_def)
  have "send_with h c t a w = Some (ESP_OK, w1\<lparr>dce_heap := (dce_heap w1)(a \<mapsto> finished d')\<rparr>)"
    using assms(1) w1(1,2) s
    by (simp add: send_with_def ready_def esp_modem_dte_send_cmd_def dce_update_def next_wait_def finished_def sent_def Let_def)
  moreover have "ready a (finished d') (w1\<lparr>dce_heap := (dce_heap w1)(a \<mapsto> finished d')\<rparr>)"
    using w1(2) by (simp add: ready_def finished_def)
  moreover have "uart_waits w1 = Suc (uart_waits w)" using w1(3) by (simp add: uart_write_bytes_def)
  ultimately show ?thesis using link_send_with [of h c t a w] by auto
qed

lemma run_command_send: "run_command h c t a w = do {
    (r, w) \<leftarrow> send_with h c t a w;
    d \<leftarrow> dce_heap w a;
    Some (if r = ESP_OK \<and> dce_state d = MODEM_STATE_SUCCESS then ESP_OK else ESP_FAIL, w)
  }"
  by (cases "dce_heap w a") (auto simp: run_command_def send_with_def dce_update_def)

section \<open>The lines of a session\<close>

definition crlf :: "string \<Rightarrow> string" where
  "crlf s = s @ [CR, LF]"

text \<open>A text without a result code, NUL or line end.\<close>

definition plain :: "string \<Rightarrow> bool" where
  "plain s \<longleftrightarrow> s \<noteq> [] \<and> CHR 0x00 \<notin> set s \<and> CR \<notin> set s \<and> LF \<notin> set s \<and>
     \<not> contains (crlf s) ''OK'' \<and> \<not> contains (crlf s) ''ERROR''"

lemma shown_crlf: "s \<noteq> [] \<Longrightarrow> CHR 0x00 \<notin> set s \<Longrightarrow> CR \<notin> set s \<Longrightarrow> LF \<notin> set s \<Longrightarrow> length s + 2 < n \<Longrightarrow> shown n (crlf s)"
  by (cases s) (auto simp: shown_def modem_line_def crlf_def is_only_cr_lf_def CR_def LF_def)

lemma ok_line: "contains (crlf ''OK'') ''OK''" "contains (crlf ''CONNECT'') ''CONNECT''"
  by code_simp+

definition ok_handlers :: "line_handler set" where
  "ok_handlers = {Handle_response_default, Handle_csq, Handle_cgmm, Handle_cgsn, Handle_cimi, Handle_cops, Handle_sim7600_cbc}"

lemma ends_ok: "h \<in> ok_handlers \<Longrightarrow> ends h (crlf ''OK'')"
  using ok_line(1) by (auto simp: ok_handlers_def ends_def handle_result_def esp_modem_dce_handle_response_default_def
      bg96_handle_csq_def bg96_handle_cgmm_def bg96_handle_cgsn_def bg96_handle_cimi_def bg96_handle_cops_def
      sim7600_handle_cbc_def)

lemma ends_connect: "ends Handle_atd_ppp (crlf ''CONNECT'')"
  using ok_line(2) by (simp add: ends_def handle_result_def bg96_handle_atd_ppp_def)

lemma shown_ok: "16 \<le> n \<Longrightarrow> shown n (crlf ''OK'')" "16 \<le> n \<Longrightarrow> shown n (crlf ''CONNECT'')"
  by (rule shown_crlf; simp add: CR_def LF_def)+

lemma reply_ok:
  "h \<in> ok_handlers \<Longrightarrow> 16 \<le> n \<Longrightarrow> reply n h d [crlf ''OK''] (d\<lparr>dce_state := MODEM_STATE_SUCCESS\<rparr>)"
  by (intro reply_end ends_ok shown_ok)

lemma reply_info:
  assumes "h \<in> ok_handlers" "16 \<le> n" "shown n l" "stores h l d d'"
  shows "reply n h d [l, crlf ''OK''] (d'\<lparr>dce_state := MODEM_STATE_SUCCESS\<rparr>)"
  by (rule reply_store [OF assms(3,4) reply_ok [OF assms(1,2)]])

lemma stores_values:
  "plain s \<Longrightarrow> starts_with (crlf s) ''+CSQ'' \<Longrightarrow> \<exists>v. stores Handle_csq (crlf s) d (d\<lparr>priv_resource := v\<rparr>)"
  "plain s \<Longrightarrow> starts_with (crlf s) ''+CBC'' \<Longrightarrow> \<exists>v. stores Handle_sim7600_cbc (crlf s) d (d\<lparr>priv_resource := v\<rparr>)"
  by (auto simp: stores_def plain_def bg96_handle_csq_def sim7600_handle_cbc_def handle_result_def store_values_def
      dce_update_def dce_elink_def dce_link_def Let_def)

lemma stores_text:
  assumes "plain s" "length (dce_text d) = 96" "off + n < 96" "length s < n" "dce_text d ! (off + n) \<noteq> CR"
    and "(h, off, n) \<in> {(Handle_cgsn, 0, 16), (Handle_cimi, 16, 16), (Handle_cgmm, 32, 32)}"
  shows "\<exists>v. stores h (crlf s) d (d\<lparr>dce_text := v\<rparr>) \<and> length v = 96 \<and> text_get off v = s \<and>
    (\<forall>i < 96. i < off \<or> off + n \<le> i \<longrightarrow> v ! i = dce_text d ! i)"
proof -
  obtain v where v: "strip_cr_lf_tail off (length s + 2)
      (text_put off (take (n - 1) (s @ [CR, LF]) @ [CHR 0x00]) (dce_text d)) = Some v" "length v = 96" "text_get off v = s"
    "\<forall>i < 96. i < off \<or> off + n \<le> i \<longrightarrow> v ! i = dce_text d ! i"
    using strip_line [OF assms(2-4) _ assms(5)] assms(1) by (auto simp: plain_def)
  have "store_text off n a (crlf s) w = Some (ESP_OK, w\<lparr>dce_heap := (dce_heap w)(a \<mapsto> d\<lparr>dce_text := v\<rparr>)\<rparr>)"
    if "dce_heap w a = Some d" for a and w :: pppos_world
    using that v(1) assms(1) by (simp add: store_text_def snprintf_s_def dce_update_def crlf_def plain_def Let_def)
  then have "stores h (crlf s) d (d\<lparr>dce_text := v\<rparr>)"
    using assms(1,6) by (auto simp: stores_def plain_def bg96_handle_cgsn_def bg96_handle_cimi_def bg96_handle_cgmm_def
        handle_result_def dce_elink_def dce_link_def)
  then show ?thesis using v by blast
qed

lemma strtok_comma: "x \<noteq> [] \<Longrightarrow> CHR '','' \<notin> set x \<Longrightarrow> strtok (x @ CHR '','' # y) '','' = Some (x, y)"
proof -
  assume a: "x \<noteq> []" "CHR '','' \<notin> set x"
  then have "dropWhile (\<lambda>c. c \<in> set '','') (x @ CHR '','' # y) = x @ CHR '','' # y" by (cases x) auto
  moreover have "takeWhile (\<lambda>c. c \<notin> set '','') (x @ CHR '','' # y) = x"
    "dropWhile (\<lambda>c. c \<notin> set '','') (x @ CHR '','' # y) = CHR '','' # y"
    using a(2) by (induction x) auto
  ultimately show ?thesis by (simp add: strtok_def Let_def)
qed

lemma strtok_last: "x \<noteq> [] \<Longrightarrow> CHR '','' \<notin> set x \<Longrightarrow> strtok x '','' = Some (x, [])"
proof -
  assume a: "x \<noteq> []" "CHR '','' \<notin> set x"
  then have "dropWhile (\<lambda>c. c \<in> set '','') x = x" by (cases x) auto
  moreover have "takeWhile (\<lambda>c. c \<notin> set '','') x = x" "dropWhile (\<lambda>c. c \<notin> set '','') x = []"
    using a(2) by (auto simp: takeWhile_eq_all_conv dropWhile_eq_Nil_conv)
  ultimately show ?thesis using a(1) by (simp add: strtok_def Let_def del: dropWhile_eq_Nil_conv)
qed

definition cops_line :: "string \<Rightarrow> string" where
  "cops_line oper = crlf (''+COPS: 0'' @ '','' @ ''0'' @ '','' @ oper @ '','' @ ''7'')"

lemma strtok_nil: "strtok [] d = None"
  by (simp add: strtok_def)

lemma comma_tokens_cons: "x \<noteq> [] \<Longrightarrow> CHR '','' \<notin> set x \<Longrightarrow> comma_tokens (x @ CHR '','' # y) = x # comma_tokens y"
  by (subst comma_tokens.simps) (simp add: strtok_comma)

lemma comma_tokens_last: "x \<noteq> [] \<Longrightarrow> CHR '','' \<notin> set x \<Longrightarrow> comma_tokens x = [x]"
  by (subst comma_tokens.simps) (simp add: strtok_last comma_tokens.simps [of "[]"] strtok_nil)

lemma cops_tokens:
  assumes "oper \<noteq> []" "CHR '','' \<notin> set oper"
  shows "comma_tokens (cops_line oper) = [''+COPS: 0'', ''0'', oper, ''7'' @ [CR, LF]]"
proof -
  have "cops_line oper = ''+COPS: 0'' @ CHR '','' # ''0'' @ CHR '','' # oper @ CHR '','' # ''7'' @ [CR, LF]"
    by (simp add: cops_line_def crlf_def)
  moreover have "comma_tokens (''7'' @ [CR, LF]) = [''7'' @ [CR, LF]]"
    by (rule comma_tokens_last) (simp_all add: CR_def LF_def)
  moreover have "comma_tokens (oper @ CHR '','' # ''7'' @ [CR, LF]) = oper # comma_tokens (''7'' @ [CR, LF])"
    by (rule comma_tokens_cons [OF assms])
  moreover have "comma_tokens (''0'' @ CHR '','' # y) = ''0'' # comma_tokens y"
    "comma_tokens (''+COPS: 0'' @ CHR '','' # y) = ''+COPS: 0'' # comma_tokens y" for y
    by (rule comma_tokens_cons; simp)+
  ultimately show ?thesis by (simp only:)
qed


text \<open>The operator's name is the third field of the answer; it has no line end to cut off.\<close>

lemma cut_nothing:
  assumes "length t = 96" "2 < length s" "length s < 32" "CR \<notin> set s"
  shows "strip_cr_lf_tail 64 (length s) (text_put 64 (s @ [CHR 0x00]) t) = Some (text_put 64 (s @ [CHR 0x00]) t)"
proof -
  let ?u = "text_put 64 (s @ [CHR 0x00]) t"
  have l: "length ?u = 96" using length_text_put [of 64 "s @ [CHR 0x00]" t] assms by simp
  have "?u ! (64 + length s - k) = s ! (length s - k)" if "1 \<le> k" "k \<le> 2" for k
    using nth_text_put [of 64 "s @ [CHR 0x00]" t "64 + length s - k"] assms that by (auto simp: nth_append)
  from this [of 1] this [of 2] have "?u ! (64 + length s - 1) = s ! (length s - 1)" "?u ! (64 + length s - 2) = s ! (length s - 2)"
    by simp_all
  moreover have "s ! (length s - 1) \<noteq> CR" "s ! (length s - 2) \<noteq> CR"
    using assms(2,4) nth_mem [of "length s - 1" s] nth_mem [of "length s - 2" s] by fastforce+
  ultimately show ?thesis using l assms(2,3) by (simp add: strip_cr_lf_tail_def)
qed

definition operator_ok :: "string \<Rightarrow> bool" where
  "operator_ok s \<longleftrightarrow> 2 < length s \<and> length s < 32 \<and> CHR '','' \<notin> set s \<and> CHR 0x00 \<notin> set s \<and> CR \<notin> set s \<and> LF \<notin> set s \<and>
     \<not> contains (cops_line s) ''OK'' \<and> \<not> contains (cops_line s) ''ERROR''"

lemma stores_cops:
  assumes "operator_ok s" "length (dce_text d) = 96"
  shows "\<exists>b. stores Handle_cops (cops_line s) d (d\<lparr>dce_text := text_put 64 (s @ [CHR 0x00]) (dce_text d), act := b\<rparr>)"
proof -
  let ?t = "text_put 64 (s @ [CHR 0x00]) (dce_text d)"
  have c: "comma_tokens (cops_line s) = [''+COPS: 0'', ''0'', s, ''7'' @ [CR, LF]]"
    using assms(1) by (intro cops_tokens) (auto simp: operator_ok_def)
  have i: "strip_cr_lf_tail 64 (length s) ?t = Some ?t" using assms by (intro cut_nothing) (auto simp: operator_ok_def)
  have st: "starts_with (cops_line s) ''+COPS''" by (simp add: cops_line_def crlf_def starts_with_def)
  have "store_text 64 32 a s w = Some (ESP_OK, w\<lparr>dce_heap := (dce_heap w)(a \<mapsto> d\<lparr>dce_text := ?t\<rparr>)\<rparr>)"
    if "dce_heap w a = Some d" for a and w :: pppos_world
    using that i assms(1) by (simp add: store_text_def snprintf_s_def dce_update_def operator_ok_def Let_def)
  then have "bg96_handle_cops a (cops_line s) w = Some (ESP_OK, w\<lparr>dce_heap := (dce_heap w)(a \<mapsto> d\<lparr>dce_text := ?t,
      act := word_of_int (strtol0 (''7'' @ [CR, LF]))\<rparr>)\<rparr>)" if "dce_heap w a = Some d" for a and w :: pppos_world
    using that assms(1) c st by (simp add: bg96_handle_cops_def handle_result_def operator_ok_def dce_update_def Let_def)
  then show ?thesis by (auto simp: stores_def dce_elink_def dce_link_def)
qed

lemma shown_cops: "operator_ok s \<Longrightarrow> 64 \<le> n \<Longrightarrow> shown n (cops_line s)"
  unfolding cops_line_def by (rule shown_crlf) (auto simp: operator_ok_def CR_def LF_def)

section \<open>One command after the other\<close>

text \<open>The \<open>k\<close>-th command since \<open>v\<close> is about to be sent.\<close>

definition at_command :: "pppos_world \<Rightarrow> nat \<Rightarrow> nat \<Rightarrow> modem_dce_t \<Rightarrow> pppos_world \<Rightarrow> bool" where
  "at_command v k a d w \<longleftrightarrow> ready a d w \<and> uart_waits w = uart_waits v + k \<and> link_base w = link_base v"

definition answer_at :: "pppos_world \<Rightarrow> nat \<Rightarrow> string list \<Rightarrow> bool" where
  "answer_at v k ls \<longleftrightarrow> uart_script v (uart_waits v + k) = map line_item ls"

lemma send_at:
  assumes "at_command v k a d w" "answer_at v k ls" "reply (line_buffer_size v) h (sent h d) ls d'"
  shows "\<exists>w'. send_with h c t a w = Some (ESP_OK, w') \<and> at_command v (Suc k) a (finished d') w'"
proof -
  have "uart_script w = uart_script v" "line_buffer_size w = line_buffer_size v" "ready a d w" "uart_waits w = uart_waits v + k"
    using assms(1) by (simp_all add: at_command_def link_base_def)
  then obtain w' where w': "send_with h c t a w = Some (ESP_OK, w')" "ready a (finished d') w'" "uart_waits w' = Suc (uart_waits w)"
    "link w' = link w"
    using send_with_reply [of a d w ls h d' c t] assms(2,3) by (auto simp: answer_at_def)
  moreover have "link_base w' = link_base v" using assms(1) w'(4) by (simp add: at_command_def link_def)
  ultimately show ?thesis using assms(1) by (simp add: at_command_def)
qed

lemma run_at:
  assumes "at_command v k a d w" "answer_at v k ls" "reply (line_buffer_size v) h (sent h d) ls d'"
  shows "\<exists>w'. run_command h c t a w = Some (ESP_OK, w') \<and> at_command v (Suc k) a (finished d') w'"
proof -
  obtain w' where w': "send_with h c t a w = Some (ESP_OK, w')" "at_command v (Suc k) a (finished d') w'"
    using send_at [OF assms] by blast
  moreover have "dce_state (finished d') = MODEM_STATE_SUCCESS" using reply_state [OF assms(3)] by (simp add: finished_def)
  ultimately show ?thesis by (simp add: run_command_send at_command_def ready_def)
qed

text \<open>What a step keeps of the object.\<close>

definition same_object :: "modem_dce_t \<Rightarrow> modem_dce_t \<Rightarrow> bool" where
  "same_object d d' \<longleftrightarrow> dce_link d' = dce_link d \<and> dce_text d' = dce_text d"

lemma run_ok:
  assumes "at_command v k a d w" "answer_at v k [crlf ''OK'']" "h \<in> ok_handlers" "16 \<le> line_buffer_size v"
  shows "\<exists>w' d'. run_command h c t a w = Some (ESP_OK, w') \<and> at_command v (Suc k) a d' w' \<and> same_object d d'"
  using run_at [OF assms(1,2) reply_ok [OF assms(3,4)], of c t]
  by (fastforce simp: same_object_def finished_def sent_def dce_link_def)

lemma run_info:
  assumes "at_command v k a d w" "answer_at v k [l, crlf ''OK'']" "h \<in> ok_handlers" "16 \<le> line_buffer_size v"
    and "shown (line_buffer_size v) l" "stores h l (sent h d) d1"
  shows "\<exists>w' d'. run_command h c t a w = Some (ESP_OK, w') \<and> at_command v (Suc k) a d' w' \<and>
    dce_link d' = dce_link d \<and> dce_text d' = dce_text d1"
proof -
  have "dce_link d1 = dce_link d" using assms(6) by (simp add: stores_def dce_elink_def sent_def dce_link_def)
  then show ?thesis
    using run_at [OF assms(1,2) reply_info [OF assms(3-6)], of c t] by (fastforce simp: finished_def dce_link_def)
qed

section \<open>The members of the object\<close>

definition member_is :: "nat \<Rightarrow> string \<Rightarrow> string \<Rightarrow> bool" where
  "member_is off s t \<longleftrightarrow> length t = 96 \<and> off + length s < 96 \<and> CHR 0x00 \<notin> set s \<and> t ! (off + length s) = CHR 0x00 \<and>
     (\<forall>i < length s. t ! (off + i) = s ! i)"

lemma member_get: "member_is off s t \<Longrightarrow> text_get off t = s"
  by (rule text_get_eq) (auto simp: member_is_def)

lemma member_of_get:
  assumes "length t = 96" "text_get off t = s" "off + length s < 96"
  shows "member_is off s t"
proof -
  let ?p = "\<lambda>c. c \<noteq> CHR 0x00"
  have s: "s = takeWhile ?p (drop off t)" using assms(2) by (simp add: text_get_def c_str_def)
  have "length (takeWhile ?p (drop off t)) < length (drop off t)" using assms(1,3) s by simp
  from nth_length_takeWhile [OF this] have "t ! (off + length s) = CHR 0x00" using assms(1,3) s by simp
  moreover have "t ! (off + i) = s ! i" if "i < length s" for i
    using that takeWhile_nth [of i ?p "drop off t"] assms(1,3) s by simp
  moreover have "CHR 0x00 \<notin> set s" using s by (auto dest: set_takeWhileD)
  ultimately show ?thesis using assms by (simp add: member_is_def)
qed

lemma member_keep:
  assumes "member_is off s t" "length t' = 96" "\<forall>i < 96. i < x \<or> x + n \<le> i \<longrightarrow> t' ! i = t ! i"
    and "off + length s < x \<or> x + n \<le> off"
  shows "member_is off s t'"
  using assms by (auto simp: member_is_def)

lemma run_text:
  assumes "at_command v k a d w" "answer_at v k [crlf s, crlf ''OK'']" "64 \<le> line_buffer_size v"
    and "plain s" "length (dce_text d) = 96" "length s < n" "dce_text d ! (off + n) \<noteq> CR"
    and "(h, off, n) \<in> {(Handle_cgsn, 0, 16), (Handle_cimi, 16, 16), (Handle_cgmm, 32, 32)}"
  shows "\<exists>w' d'. run_command h c t a w = Some (ESP_OK, w') \<and> at_command v (Suc k) a d' w' \<and> dce_link d' = dce_link d \<and>
    length (dce_text d') = 96 \<and> member_is off s (dce_text d') \<and>
    (\<forall>i < 96. i < off \<or> off + n \<le> i \<longrightarrow> dce_text d' ! i = dce_text d ! i)"
proof -
  have on: "off + n < 96" "h \<in> ok_handlers" "n \<le> 32" using assms(8) by (auto simp: ok_handlers_def)
  obtain u where u: "stores h (crlf s) (sent h d) ((sent h d)\<lparr>dce_text := u\<rparr>)" "length u = 96" "text_get off u = s"
    "\<forall>i < 96. i < off \<or> off + n \<le> i \<longrightarrow> u ! i = dce_text d ! i"
    using stores_text [of s "sent h d" off n h] assms(4-8) on by (auto simp: sent_def)
  have "shown (line_buffer_size v) (crlf s)" using assms(3,4,6) on(3) by (intro shown_crlf) (auto simp: plain_def)
  from run_info [OF assms(1,2) on(2) _ this u(1), of c t] assms(3)
  obtain w' d' where "run_command h c t a w = Some (ESP_OK, w')" "at_command v (Suc k) a d' w'"
    "dce_link d' = dce_link d" "dce_text d' = u"
    by auto
  moreover have "member_is off s u" using member_of_get [OF u(2,3)] on(1) assms(6) by simp
  ultimately show ?thesis using u(2,4) by blast
qed

lemma run_cops:
  assumes "at_command v k a d w" "answer_at v k [cops_line s, crlf ''OK'']" "64 \<le> line_buffer_size v"
    and "operator_ok s" "length (dce_text d) = 96"
  shows "\<exists>w' d'. run_command Handle_cops c t a w = Some (ESP_OK, w') \<and> at_command v (Suc k) a d' w' \<and>
    dce_link d' = dce_link d \<and> length (dce_text d') = 96 \<and> member_is 64 s (dce_text d') \<and>
    (\<forall>i < 96. i < 64 \<longrightarrow> dce_text d' ! i = dce_text d ! i)"
proof -
  let ?u = "text_put 64 (s @ [CHR 0x00]) (dce_text d)"
  have l: "length s < 32" "CHR 0x00 \<notin> set s" using assms(4) by (simp_all add: operator_ok_def)
  have n: "?u ! i = (if i < 64 then dce_text d ! i else if i < 64 + Suc (length s) then (s @ [CHR 0x00]) ! (i - 64) else dce_text d ! i)"
    if "i < 96" for i using nth_text_put [of 64 "s @ [CHR 0x00]" "dce_text d" i] that l assms(5) by simp
  have "member_is 64 s ?u"
    using l n length_text_put [of 64 "s @ [CHR 0x00]" "dce_text d"] assms(5) by (auto simp: member_is_def nth_append)
  moreover obtain b where "stores Handle_cops (cops_line s) (sent Handle_cops d) ((sent Handle_cops d)\<lparr>dce_text := ?u, act := b\<rparr>)"
    using stores_cops [OF assms(4), of "sent Handle_cops d"] assms(5) by (auto simp: sent_def)
  then obtain w' d' where "run_command Handle_cops c t a w = Some (ESP_OK, w')" "at_command v (Suc k) a d' w'"
    "dce_link d' = dce_link d" "dce_text d' = ?u"
    using run_info [OF assms(1,2) _ _ shown_cops [OF assms(4,3)], of Handle_cops "(sent Handle_cops d)\<lparr>dce_text := ?u, act := b\<rparr>" c t] assms(3)
    by (auto simp: ok_handlers_def)
  moreover have "length ?u = 96" "\<forall>i < 96. i < 64 \<longrightarrow> ?u ! i = dce_text d ! i" using calculation(1) n by (simp_all add: member_is_def)
  ultimately show ?thesis by (intro exI [of _ w'] exI [of _ d']) simp
qed

lemma query_at:
  assumes "at_command v k a d w" "answer_at v k [crlf s, crlf ''OK'']" "64 \<le> line_buffer_size v" "plain s" "length s < 32"
    and "(h = Handle_csq \<and> starts_with (crlf s) ''+CSQ'') \<or> (h = Handle_sim7600_cbc \<and> starts_with (crlf s) ''+CBC'')"
  shows "\<exists>w' d' vs. query_values h c vars a w = Some (ESP_OK, vs, w') \<and> at_command v (Suc k) a d' w' \<and> same_object d d'"
proof -
  let ?d = "d\<lparr>priv_resource := vars\<rparr>" and ?w = "w\<lparr>dce_heap := (dce_heap w)(a \<mapsto> d\<lparr>priv_resource := vars\<rparr>)\<rparr>"
  have at: "at_command v k a ?d ?w" using assms(1) by (auto simp: at_command_def ready_def link_base_def)
  obtain r where "stores h (crlf s) (sent h ?d) ((sent h ?d)\<lparr>priv_resource := r\<rparr>)"
    using stores_values [OF assms(4), of "sent h ?d"] assms(6) by blast
  moreover have "shown (line_buffer_size v) (crlf s)" using assms(3-5) by (intro shown_crlf) (auto simp: plain_def)
  moreover have "h \<in> ok_handlers" using assms(6) by (auto simp: ok_handlers_def)
  ultimately obtain w' d' where "run_command h c MODEM_COMMAND_TIMEOUT_DEFAULT a ?w = Some (ESP_OK, w')"
    "at_command v (Suc k) a d' w'" "dce_link d' = dce_link ?d" "dce_text d' = dce_text (sent h ?d)"
    using run_info [OF at assms(2), of h] assms(3) by fastforce
  then show ?thesis
    using assms(1) by (auto simp: query_values_def dce_update_def same_object_def at_command_def ready_def sent_def dce_link_def)
qed

section \<open>The whole session\<close>

text \<open>What the modem answers to the twelve commands, and which texts it may put into the answers.\<close>

record modem_answers =
  an_name :: string
  an_imei :: string
  an_imsi :: string
  an_oper :: string
  an_csq :: string
  an_cbc :: string

definition session_answers :: "modem_answers \<Rightarrow> string list list" where
  "session_answers m =
     [[crlf ''OK''], [crlf ''OK''], [crlf (an_name m), crlf ''OK''], [crlf (an_imei m), crlf ''OK''],
      [crlf (an_imsi m), crlf ''OK''], [cops_line (an_oper m), crlf ''OK''],
      [crlf ''OK''], [crlf ''OK''], [crlf (an_csq m), crlf ''OK''], [crlf (an_cbc m), crlf ''OK''],
      [crlf ''OK''], [crlf ''CONNECT'']]"

definition answers_ok :: "modem_answers \<Rightarrow> bool" where
  "answers_ok m \<longleftrightarrow> plain (an_name m) \<and> length (an_name m) < 32 \<and> plain (an_imei m) \<and> length (an_imei m) < 16 \<and>
     plain (an_imsi m) \<and> length (an_imsi m) < 16 \<and> operator_ok (an_oper m) \<and>
     plain (an_csq m) \<and> length (an_csq m) < 32 \<and> starts_with (crlf (an_csq m)) ''+CSQ'' \<and>
     plain (an_cbc m) \<and> length (an_cbc m) < 32 \<and> starts_with (crlf (an_cbc m)) ''+CBC''"

definition identity_is :: "modem_answers \<Rightarrow> modem_dce_t \<Rightarrow> bool" where
  "identity_is m d \<longleftrightarrow> member_is 0 (an_imei m) (dce_text d) \<and> member_is 16 (an_imsi m) (dce_text d) \<and>
     member_is 32 (an_name m) (dce_text d) \<and> member_is 64 (an_oper m) (dce_text d)"

lemma setup_at:
  assumes at: "at_command v 0 a d w" and blank: "dce_text d = replicate 96 (CHR 0x00)" and size: "64 \<le> line_buffer_size v"
    and ok: "answers_ok m" and ans: "\<forall>i < 6. answer_at v i (session_answers m ! i)"
  shows "\<exists>w' d'. all_ok (dce_setup a) w = Some (True, w') \<and> at_command v 6 a d' w' \<and> dce_link d' = dce_link d \<and> identity_is m d'"
proof -
  have an: "answer_at v 0 [crlf ''OK'']" "answer_at v 1 [crlf ''OK'']" "answer_at v 2 [crlf (an_name m), crlf ''OK'']"
    "answer_at v 3 [crlf (an_imei m), crlf ''OK'']" "answer_at v 4 [crlf (an_imsi m), crlf ''OK'']"
    "answer_at v 5 [cops_line (an_oper m), crlf ''OK'']"
    using ans [rule_format, of 0] ans [rule_format, of 1] ans [rule_format, of 2] ans [rule_format, of 3]
      ans [rule_format, of 4] ans [rule_format, of 5] by (simp_all add: session_answers_def eval_nat_numeral)
  have h: "Handle_response_default \<in> ok_handlers" "16 \<le> line_buffer_size v" using size by (simp_all add: ok_handlers_def)
  obtain w1 d1 where 1: "esp_modem_dce_sync a w = Some (ESP_OK, w1)" "at_command v 1 a d1 w1" "same_object d d1"
    using run_ok [OF at an(1) h, of "''AT'' @ [CR]" MODEM_COMMAND_TIMEOUT_DEFAULT] by (auto simp: esp_modem_dce_sync_def)
  obtain w2 d2 where 2: "esp_modem_dce_echo a False w1 = Some (ESP_OK, w2)" "at_command v 2 a d2 w2" "same_object d1 d2"
    using run_ok [OF 1(2) an(2) h, of "''ATE0'' @ [CR]" MODEM_COMMAND_TIMEOUT_DEFAULT] by (auto simp: esp_modem_dce_echo_def numeral_2_eq_2)
  have t2: "dce_text d2 = replicate 96 (CHR 0x00)" "dce_link d2 = dce_link d"
    using blank 1(3) 2(3) by (simp_all add: same_object_def)
  obtain w3 d3 where 3: "bg96_get_module_name a w2 = Some (ESP_OK, w3)" "at_command v 3 a d3 w3" "dce_link d3 = dce_link d2"
    "length (dce_text d3) = 96" "member_is 32 (an_name m) (dce_text d3)"
    "\<forall>i < 96. i < 32 \<or> 64 \<le> i \<longrightarrow> dce_text d3 ! i = dce_text d2 ! i"
    using run_text [OF 2(2) an(3) size, of 32 32 Handle_cgmm "''AT+CGMM'' @ [CR]" MODEM_COMMAND_TIMEOUT_DEFAULT] ok t2
    by (auto simp: bg96_get_module_name_def answers_ok_def eval_nat_numeral CR_def)
  have "dce_text d3 ! 16 \<noteq> CR" using 3(6) [rule_format, of 16] t2(1) by (simp add: CR_def)
  then obtain w4 d4 where 4: "bg96_get_imei_number a w3 = Some (ESP_OK, w4)" "at_command v 4 a d4 w4" "dce_link d4 = dce_link d3"
    "length (dce_text d4) = 96" "member_is 0 (an_imei m) (dce_text d4)" "\<forall>i < 96. 16 \<le> i \<longrightarrow> dce_text d4 ! i = dce_text d3 ! i"
    using run_text [OF 3(2) an(4) size, of 16 0 Handle_cgsn "''AT+CGSN'' @ [CR]" MODEM_COMMAND_TIMEOUT_DEFAULT] ok 3(4)
    by (auto simp: bg96_get_imei_number_def answers_ok_def)
  have n4: "member_is 32 (an_name m) (dce_text d4)" by (rule member_keep [OF 3(5) 4(4), of 0 16]) (use 4(6) in auto)
  have "dce_text d4 ! 32 = an_name m ! 0" "an_name m \<noteq> []" "CR \<notin> set (an_name m)"
    using n4 ok by (auto simp: member_is_def answers_ok_def plain_def)
  then have "dce_text d4 ! 32 \<noteq> CR" by (metis length_greater_0_conv nth_mem)
  then obtain w5 d5 where 5: "bg96_get_imsi_number a w4 = Some (ESP_OK, w5)" "at_command v 5 a d5 w5" "dce_link d5 = dce_link d4"
    "length (dce_text d5) = 96" "member_is 16 (an_imsi m) (dce_text d5)"
    "\<forall>i < 96. i < 16 \<or> 32 \<le> i \<longrightarrow> dce_text d5 ! i = dce_text d4 ! i"
    using run_text [OF 4(2) an(5) size, of 16 16 Handle_cimi "''AT+CIMI'' @ [CR]" MODEM_COMMAND_TIMEOUT_DEFAULT] ok 4(4)
    by (auto simp: bg96_get_imsi_number_def answers_ok_def)
  obtain w6 d6 where 6: "bg96_get_operator_name a w5 = Some (ESP_OK, w6)" "at_command v 6 a d6 w6" "dce_link d6 = dce_link d5"
    "length (dce_text d6) = 96" "member_is 64 (an_oper m) (dce_text d6)" "\<forall>i < 96. i < 64 \<longrightarrow> dce_text d6 ! i = dce_text d5 ! i"
    using run_cops [OF 5(2) an(6) size _ 5(4), of "''AT+COPS?'' @ [CR]" MODEM_COMMAND_TIMEOUT_OPERATOR] ok by (auto simp: bg96_get_operator_name_def answers_ok_def)
  have "member_is 0 (an_imei m) (dce_text d6)" "member_is 16 (an_imsi m) (dce_text d6)" "member_is 32 (an_name m) (dce_text d6)"
    using 4(5) 5(4,5,6) 6(4,6) n4 ok by (auto simp: member_is_def answers_ok_def)
  then have "identity_is m d6" "dce_link d6 = dce_link d" using 3(3) 4(3) 5(3) 6(3,5) t2(2) by (simp_all add: identity_is_def)
  then show ?thesis using 1(1) 2(1) 3(1) 4(1) 5(1) 6(1,2) by (auto simp: dce_setup_def)
qed

lemma dial_at:
  assumes "at_command v k a d w" "answer_at v k [crlf ''CONNECT'']" "64 \<le> line_buffer_size v" "kind d = Bg96"
  shows "\<exists>w' d'. esp_modem_dte_change_mode MODEM_PPP_MODE w = Some (ESP_OK, w') \<and> dce_heap w' a = Some d' \<and>
    dce_mode d' = MODEM_PPP_MODE \<and> dce_text d' = dce_text d \<and> link_base w' = link_base v"
proof -
  let ?d = "d\<lparr>dce_mode := MODEM_TRANSITION_MODE\<rparr>" and ?c = "''ATD*99***1#'' @ [CR]"
  let ?w = "w\<lparr>dce_heap := (dce_heap w)(a \<mapsto> ?d)\<rparr>"
  have at: "at_command v k a ?d ?w" using assms(1) by (auto simp: at_command_def ready_def link_base_def)
  have "reply (line_buffer_size v) Handle_atd_ppp (sent Handle_atd_ppp ?d) [crlf ''CONNECT'']
      ((sent Handle_atd_ppp ?d)\<lparr>dce_state := MODEM_STATE_SUCCESS\<rparr>)"
    using assms(3) by (intro reply_end ends_connect shown_ok(2)) simp
  from send_at [OF at assms(2) this, of ?c MODEM_COMMAND_TIMEOUT_MODE_CHANGE]
  obtain w' where w': "send_with Handle_atd_ppp ?c MODEM_COMMAND_TIMEOUT_MODE_CHANGE a ?w = Some (ESP_OK, w')"
    "dce_heap w' a = Some (finished ((sent Handle_atd_ppp ?d)\<lparr>dce_state := MODEM_STATE_SUCCESS\<rparr>))" "link_base w' = link_base v"
    by (auto simp: at_command_def ready_def)
  have "bg96_set_working_mode a MODEM_PPP_MODE ?w = Some (ESP_OK, w'\<lparr>dce_heap := (dce_heap w')(a \<mapsto>
      (finished ((sent Handle_atd_ppp ?d)\<lparr>dce_state := MODEM_STATE_SUCCESS\<rparr>))\<lparr>dce_mode := MODEM_PPP_MODE\<rparr>)\<rparr>)"
    using w'(1,2) by (simp add: bg96_set_working_mode_def enter_ppp_mode_def succeeded_def dce_update_def finished_def)
  then show ?thesis using assms(1,4) w'(3)
    by (simp add: esp_modem_dte_change_mode_def at_command_def ready_def dce_update_def call_set_working_mode_def
        finished_def sent_def link_base_def)
qed

lemma flow_command: "length (''AT+IFC='' @ fmt_d (flow_number f) @ '','' @ fmt_d (flow_number g) @ [CR]) < 16"
proof -
  have "length (fmt_d (flow_number x)) = 1" for x
  proof -
    have "length (fmt_d 0) = 1" "length (fmt_d 1) = 1" "length (fmt_d 2) = 1" by code_simp+
    then show ?thesis by (cases x) (simp_all add: flow_number_def)
  qed
  then show ?thesis by simp
qed

lemma pdp_command: "\<exists>c. esp_modem_dce_define_pdp_context a 1 ''IP'' CONFIG_EXAMPLE_COMPONENT_MODEM_APN w =
    run_command Handle_response_default c MODEM_COMMAND_TIMEOUT_DEFAULT a w"
proof -
  have "length (fmt_d 1) = 1" by code_simp
  then show ?thesis by (auto simp: esp_modem_dce_define_pdp_context_def CONFIG_EXAMPLE_COMPONENT_MODEM_APN_def Let_def)
qed

lemma start_at:
  assumes "at_command v k a d w" "answer_at v k [crlf ''OK'']" "answer_at v (Suc k) [crlf ''CONNECT'']"
    "64 \<le> line_buffer_size v" "kind d = Bg96"
  shows "\<exists>w' d'. esp_modem_start_ppp w = Some (ESP_OK, w') \<and> dce_heap w' a = Some d' \<and>
    dce_mode d' = MODEM_PPP_MODE \<and> dce_text d' = dce_text d \<and> link_base w' = link_base v"
proof -
  obtain c where c: "esp_modem_dce_define_pdp_context a 1 ''IP'' CONFIG_EXAMPLE_COMPONENT_MODEM_APN w =
      run_command Handle_response_default c MODEM_COMMAND_TIMEOUT_DEFAULT a w"
    using pdp_command [of a w] by blast
  obtain w1 d1 where 1: "run_command Handle_response_default c MODEM_COMMAND_TIMEOUT_DEFAULT a w = Some (ESP_OK, w1)"
    "at_command v (Suc k) a d1 w1" "same_object d d1"
    using run_ok [OF assms(1,2), of Handle_response_default c MODEM_COMMAND_TIMEOUT_DEFAULT] assms(4) by (auto simp: ok_handlers_def)
  have "kind d1 = Bg96" using 1(3) assms(5) by (simp add: same_object_def dce_link_def)
  then obtain w2 d2 where 2: "esp_modem_dte_change_mode MODEM_PPP_MODE w1 = Some (ESP_OK, w2)" "dce_heap w2 a = Some d2"
    "dce_mode d2 = MODEM_PPP_MODE" "dce_text d2 = dce_text d1" "link_base w2 = link_base v"
    using dial_at [OF 1(2) assms(3,4)] by blast
  have "dte_dce w = Some a" using assms(1) by (simp add: at_command_def ready_def)
  then have "esp_modem_start_ppp w = Some (ESP_OK, modem_post ESP_MODEM_EVENT_PPP_START [] w2)"
    using c 1(1) 2(1) by (simp add: esp_modem_start_ppp_def)
  then show ?thesis using 1(3) 2(2-) by (simp add: same_object_def modem_post_def link_base_def)
qed

text \<open>The state in which the task dials: no address yet, the line idle, memory for the object.\<close>

definition may_dial :: "pppos_world \<Rightarrow> bool" where
  "may_dial w \<longleftrightarrow> heap_ok w (dce_next w) \<and> \<not> uart_busy w \<and> uart_rx w = [] \<and> \<not> process_sem w \<and> \<not> ppp_connect_bit w \<and>
     64 \<le> line_buffer_size w \<and>
     (case network_handle w of None \<Rightarrow> False
      | Some n \<Rightarrow> (case ppp_handle n of None \<Rightarrow> False | Some p \<Rightarrow> \<not> ppp_is_connected p))"

lemma init_answers:
  assumes "may_dial w" "answers_ok m" "\<forall>i < 6. answer_at w i (session_answers m ! i)"
  shows "\<exists>w' d. sim7600_init w = Some (Some (dce_next w), w') \<and> ready (dce_next w) d w' \<and> uart_waits w' = uart_waits w + 6 \<and>
    link_base w' = link_base (w\<lparr>dce_next := Suc (dce_next w), dte_dce := Some (dce_next w)\<rparr>) \<and>
    kind d = Bg96 \<and> get_battery_status d = Sim7600_battery \<and> identity_is m d"
proof -
  let ?a = "dce_next w"
  let ?v = "w\<lparr>dce_heap := (dce_heap w)(?a \<mapsto> new_dce Bg96), dce_next := Suc ?a, dte_dce := Some ?a\<rparr>"
  have at: "at_command ?v 0 ?a (new_dce Bg96) ?v" using assms(1)
    by (simp add: at_command_def ready_def may_dial_def new_dce_def)
  have "\<forall>i < 6. answer_at ?v i (session_answers m ! i)" using assms(3) by (simp add: answer_at_def)
  then obtain w1 d1 where 1: "all_ok (dce_setup ?a) ?v = Some (True, w1)" "at_command ?v 6 ?a d1 w1"
    "dce_link d1 = dce_link (new_dce Bg96)" "identity_is m d1"
    using setup_at [OF at _ _ assms(2)] assms(1) by (auto simp: new_dce_def may_dial_def)
  let ?d = "d1\<lparr>get_battery_status := Sim7600_battery\<rparr>"
  have "dce_init Bg96 w = Some (Some ?a, w1)" using 1(1) assms(1) by (simp add: dce_init_def may_dial_def Let_def)
  moreover have "dte_dce w1 = Some ?a" "dce_heap w1 ?a = Some d1" using 1(2) by (simp_all add: at_command_def ready_def)
  ultimately have "sim7600_init w = Some (Some ?a, w1\<lparr>dce_heap := (dce_heap w1)(?a \<mapsto> ?d)\<rparr>)"
    by (simp add: sim7600_init_def bg96_init_def dce_update_def)
  moreover have "ready ?a ?d (w1\<lparr>dce_heap := (dce_heap w1)(?a \<mapsto> ?d)\<rparr>)" using 1(2) by (simp add: at_command_def ready_def)
  moreover have "kind d1 = Bg96" using 1(3) by (simp add: dce_link_def new_dce_def)
  ultimately show ?thesis using 1(2,4) by (auto simp: at_command_def link_base_def identity_is_def)
qed

lemma info_at:
  assumes at: "at_command v 0 a d v" and ok: "answers_ok m" and size: "64 \<le> line_buffer_size v"
    and ans: "\<forall>i < 4. answer_at v i (session_answers m ! (6 + i))" and battery: "get_battery_status d = Sim7600_battery"
  shows "\<exists>w1 w2 w3 w4 x y d'. esp_modem_dce_set_flow_ctrl a MODEM_FLOW_CONTROL_NONE v = Some (ESP_OK, w1) \<and>
    esp_modem_dce_store_profile a w1 = Some (ESP_OK, w2) \<and> bg96_get_signal_quality [0, 0] a w2 = Some (ESP_OK, x, w3) \<and>
    call_get_battery_status [0, 0, 0] a w3 = Some (ESP_OK, y, w4) \<and> at_command v 4 a d' w4 \<and> same_object d d'"
proof -
  have an: "answer_at v 0 [crlf ''OK'']" "answer_at v 1 [crlf ''OK'']" "answer_at v 2 [crlf (an_csq m), crlf ''OK'']"
    "answer_at v 3 [crlf (an_cbc m), crlf ''OK'']"
    using ans [rule_format, of 0] ans [rule_format, of 1] ans [rule_format, of 2] ans [rule_format, of 3]
    by (simp_all add: session_answers_def eval_nat_numeral)
  have h: "Handle_response_default \<in> ok_handlers" "16 \<le> line_buffer_size v" using size by (simp_all add: ok_handlers_def)
  let ?c = "''AT+IFC='' @ fmt_d (flow_number (dte_flow_ctrl v)) @ '','' @ fmt_d (flow_number MODEM_FLOW_CONTROL_NONE) @ [CR]"
  obtain w1 d1 where 1: "esp_modem_dce_set_flow_ctrl a MODEM_FLOW_CONTROL_NONE v = Some (ESP_OK, w1)"
    "at_command v 1 a d1 w1" "same_object d d1"
    using run_ok [OF at an(1) h, of ?c MODEM_COMMAND_TIMEOUT_DEFAULT] flow_command [of "dte_flow_ctrl v" MODEM_FLOW_CONTROL_NONE]
    by (auto simp: esp_modem_dce_set_flow_ctrl_def Let_def)
  obtain w2 d2 where 2: "esp_modem_dce_store_profile a w1 = Some (ESP_OK, w2)" "at_command v 2 a d2 w2" "same_object d1 d2"
    using run_ok [OF 1(2) an(2) h, of "''AT&W'' @ [CR]" MODEM_COMMAND_TIMEOUT_DEFAULT]
    by (auto simp: esp_modem_dce_store_profile_def numeral_2_eq_2)
  obtain w3 d3 x where 3: "bg96_get_signal_quality [0, 0] a w2 = Some (ESP_OK, x, w3)" "at_command v 3 a d3 w3" "same_object d2 d3"
    using query_at [OF 2(2) an(3) size, of Handle_csq "''AT+CSQ'' @ [CR]" "[0, 0]"] ok
    by (auto simp: bg96_get_signal_quality_def answers_ok_def numeral_3_eq_3 numeral_2_eq_2)
  have "dce_heap w3 a = Some d3" "get_battery_status d3 = Sim7600_battery"
    using 3(2,3) 1(3) 2(3) battery by (simp_all add: at_command_def ready_def same_object_def dce_link_def)
  moreover obtain w4 d4 y where 4: "query_values Handle_sim7600_cbc (''AT+CBC'' @ [CR]) [0, 0, 0] a w3 = Some (ESP_OK, y, w4)"
    "at_command v 4 a d4 w4" "same_object d3 d4"
    using query_at [OF 3(2) an(4) size, of Handle_sim7600_cbc "''AT+CBC'' @ [CR]" "[0, 0, 0]"] ok
    by (auto simp: answers_ok_def)
  ultimately have "call_get_battery_status [0, 0, 0] a w3 = Some (ESP_OK, y, w4)"
    by (simp add: call_get_battery_status_def sim7600_get_battery_status_def)
  moreover have "same_object d d4" using 1(3) 2(3) 3(3) 4(3) by (simp add: same_object_def)
  ultimately show ?thesis using 1(1) 2(1) 3(1) 4(2) by blast
qed

lemma on_ip_event_effect: "on_ip_event e w = Some w' \<Longrightarrow> \<exists>n b. w' = w\<lparr>network_handle := n, ppp_connect_bit := b\<rparr>"
  by (cases e) (auto simp: on_ip_event_def set_ppp_def split: bind_splits option.splits
      intro!: exI [of _ "network_handle w'"] exI [of _ "ppp_connect_bit w'"])

lemma wait_connect_effect:
  "wait_connect es w = Some (r, w') \<Longrightarrow> \<exists>n b. w' = w\<lparr>network_handle := n, ppp_connect_bit := b\<rparr>"
proof (induction es arbitrary: w)
  case Nil
  then have "w' = w \<or> w' = w\<lparr>ppp_connect_bit := False\<rparr>" by (auto simp: wait_connect.simps [of "[]"] split: if_splits)
  then show ?case by (intro exI [of _ "network_handle w"] exI [of _ "ppp_connect_bit w'"]) auto
next
  case (Cons e es)
  show ?case
  proof (cases "ppp_connect_bit w")
    case True
    then have "w' = w\<lparr>ppp_connect_bit := False\<rparr>" using Cons.prems by (simp add: wait_connect.simps [of "e # es"])
    then show ?thesis by (intro exI [of _ "network_handle w"] exI [of _ False]) simp
  next
    case False
    then obtain w1 where 1: "on_ip_event e w = Some w1" "wait_connect es w1 = Some (r, w')"
      using Cons.prems by (auto simp: wait_connect.simps [of "e # es"] split: bind_splits)
    obtain n b where w1: "w1 = w\<lparr>network_handle := n, ppp_connect_bit := b\<rparr>" using on_ip_event_effect [OF 1(1)] by blast
    obtain n' b' where "w' = w1\<lparr>network_handle := n', ppp_connect_bit := b'\<rparr>" using Cons.IH [OF 1(2)] by blast
    then show ?thesis using w1 by auto
  qed
qed

text \<open>
  C32. Whatever the modem is called: when it answers the twelve commands of the start, the task
  stores what it said of itself, brings it into PPP mode, and its round ends exactly when the
  network stack reports an address.
\<close>

theorem answering_modem_is_dialled:
  assumes "may_dial w" "answers_ok m" "\<forall>i < 12. answer_at w i (session_answers m ! i)"
    and "api ''esp_netif_set_driver_config''" "api ''register NETIF_PPP_STATUS''"
  shows "\<exists>w' d. ppp_task_step api es w = Some (IP_EVENT_PPP_GOT_IP \<in> set es, w') \<and> ppp_dce w' = Some (dce_next w) \<and>
    dce_heap w' (dce_next w) = Some d \<and> dce_mode d = MODEM_PPP_MODE \<and>
    text_get 0 (dce_text d) = an_imei m \<and> text_get 16 (dce_text d) = an_imsi m \<and>
    text_get 32 (dce_text d) = an_name m \<and> text_get 64 (dce_text d) = an_oper m"
proof -
  let ?a = "dce_next w" and ?w = "w\<lparr>ppp_dce := None\<rparr>"
  obtain n p where np: "network_handle w = Some n" "ppp_handle n = Some p" "\<not> ppp_is_connected p"
    and size: "64 \<le> line_buffer_size w" and bit: "\<not> ppp_connect_bit w"
    using assms(1) by (auto simp: may_dial_def split: option.splits)
  obtain w1 d1 where 1: "sim7600_init ?w = Some (Some ?a, w1)" "ready ?a d1 w1" "uart_waits w1 = uart_waits w + 6"
    "link_base w1 = link_base (?w\<lparr>dce_next := Suc ?a, dte_dce := Some ?a\<rparr>)"
    "kind d1 = Bg96" "get_battery_status d1 = Sim7600_battery" "identity_is m d1"
    using init_answers [of ?w m] assms(1-3) by (auto simp: may_dial_def answer_at_def)
  let ?v = "w1\<lparr>ppp_dce := Some ?a\<rparr>"
  have at: "at_command ?v 0 ?a d1 ?v" using 1(2) by (simp add: at_command_def ready_def)
  have v: "uart_script ?v = uart_script w" "line_buffer_size ?v = line_buffer_size w" "network_handle ?v = network_handle w"
    "\<not> ppp_connect_bit ?v" using 1(4) bit by (simp_all add: link_base_def)
  have later: "answer_at ?v k (session_answers m ! (6 + k))" if "k < 6" for k
    using assms(3) [rule_format, of "6 + k"] that v(1) 1(3) by (simp add: answer_at_def add.assoc)
  obtain w2 w3 w4 w5 x y d5 where 5: "esp_modem_dce_set_flow_ctrl ?a MODEM_FLOW_CONTROL_NONE ?v = Some (ESP_OK, w2)"
    "esp_modem_dce_store_profile ?a w2 = Some (ESP_OK, w3)" "bg96_get_signal_quality [0, 0] ?a w3 = Some (ESP_OK, x, w4)"
    "call_get_battery_status [0, 0, 0] ?a w4 = Some (ESP_OK, y, w5)" "at_command ?v 4 ?a d5 w5" "same_object d1 d5"
    using info_at [OF at assms(2) _ _ 1(6)] size v(2) later by fastforce
  have "answer_at ?v 4 [crlf ''OK'']" "answer_at ?v (Suc 4) [crlf ''CONNECT'']" "kind d5 = Bg96"
    using later [of 4] later [of 5] 1(5) 5(6) by (simp_all add: session_answers_def eval_nat_numeral same_object_def dce_link_def)
  then obtain w6 d6 where 6: "esp_modem_start_ppp w5 = Some (ESP_OK, w6)" "dce_heap w6 ?a = Some d6"
    "dce_mode d6 = MODEM_PPP_MODE" "dce_text d6 = dce_text d5" "link_base w6 = link_base ?v"
    using start_at [OF 5(5)] size v(2) by fastforce
  have "network_handle w6 = Some n" "\<not> ppp_connect_bit w6" "modem_world.more w6 = modem_world.more ?v"
    using 6(5) v(3,4) np(1) by (simp_all add: link_base_def)
  then obtain w7 where 7: "wait_connect es w6 = Some (IP_EVENT_PPP_GOT_IP \<in> set es, w7)" using wait_connect_iff np(2) by blast
  then obtain n' b where w7: "w7 = w6\<lparr>network_handle := n', ppp_connect_bit := b\<rparr>" using wait_connect_effect by blast
  have "ppp_task_step api es w = Some (IP_EVENT_PPP_GOT_IP \<in> set es, w7)"
    using np 1(1) 5(1-4) 6(1) 7 assms(4,5)
    by (simp add: ppp_task_step_def check_def esp_error_check_def esp_modem_post_attach_start_def)
  moreover have "ppp_dce w7 = Some ?a" using w7 \<open>modem_world.more w6 = modem_world.more ?v\<close> by (cases w6; cases w1) simp
  moreover have "identity_is m d6" using 1(7) 5(6) 6(4) by (simp add: identity_is_def same_object_def)
  ultimately show ?thesis using 6(2,3) w7 by (auto simp: identity_is_def dest!: member_get)
qed

definition sample_answers :: modem_answers where
  "sample_answers = \<lparr>an_name = ''SIMCOM_SIM7600E'', an_imei = ''867584030000001'', an_imsi = ''452040000000001'',
     an_oper = ''VIETTEL'', an_csq = ''+CSQ: 24,99'', an_cbc = ''+CBC: 3.891V''\<rparr>"

definition sample_dial :: pppos_world where
  "sample_dial = modem_world.extend ((sample_modem (\<lambda>n. session_answers sample_answers ! n))
       \<lparr>network_handle := Some \<lparr>is_using_wifi = False, net_is_connected = False,
          ppp_handle = Some \<lparr>ppp_run = False, ppp_is_connected = False\<rparr>\<rparr>, ppp_connect_bit := False\<rparr>)
     \<lparr>ppp_dce = None, netif_actions = []\<rparr>"

lemma sample_answers_ok: "answers_ok sample_answers"
  by code_simp

lemma sample_may_dial: "may_dial sample_dial"
  by (simp add: may_dial_def sample_dial_def modem_world.defs sample_modem_defs)

lemma sample_answers_given: "\<forall>i < 12. answer_at sample_dial i (session_answers sample_answers ! i)"
  by (simp add: answer_at_def sample_dial_def modem_world.defs sample_modem_defs)

theorem answering_modem_is_dialled_witness:
  "\<exists>w' d. ppp_task_step (\<lambda>_. True) [IP_EVENT_PPP_GOT_IP] sample_dial = Some (True, w') \<and>
     dce_heap w' 1 = Some d \<and> dce_mode d = MODEM_PPP_MODE \<and> text_get 64 (dce_text d) = ''VIETTEL''"
proof -
  have "dce_next sample_dial = 1" by (simp add: sample_dial_def modem_world.defs sample_modem_defs)
  then show ?thesis
    using answering_modem_is_dialled [OF sample_may_dial sample_answers_ok sample_answers_given, of "\<lambda>_. True" "[IP_EVENT_PPP_GOT_IP]"]
    by (auto simp: sample_answers_def)
qed

end
