(* ===== verification/Modem_Compat.thy ===== *)
theory Modem_Compat
  imports Modem_Session
begin

text \<open>
  \<^verbatim>\<open>components/modem/src/esp_modem_compat.c\<close>, the interface of earlier versions of the driver: it translates the
  events of the terminal and of the network stack into the old ones and posts them to the default event loop, where the
  handler of the application is registered. \<open>default_queue\<close> is what that loop has not delivered yet;
  \<open>user_events\<close> are the events the application's handler is registered for.
\<close>

section \<open>Events\<close>

datatype esp_modem_compat_event_t =
    MODEM_EVENT_PPP_START | MODEM_EVENT_PPP_CONNECT | MODEM_EVENT_PPP_DISCONNECT | MODEM_EVENT_PPP_STOP | MODEM_EVENT_UNKNOWN

record ppp_client_ip_info_t =
  ip_addr :: "32 word"
  netmask_addr :: "32 word"
  gw_addr :: "32 word"
  ns1_addr :: "32 word"
  ns2_addr :: "32 word"

text \<open>
  The event data of the network stack, and the addresses of its name servers by index: without one the call fails and
  leaves the caller's structure as it is, which holds \<open>stale_dns\<close>.
\<close>

record ip_event_got_ip_t =
  got_ip :: "32 word"
  got_netmask :: "32 word"
  got_gw :: "32 word"
  dns_server :: "nat \<Rightarrow> 32 word option"
  stale_dns :: "32 word"

record compat_world = pppos_world +
  default_queue :: "(esp_modem_compat_event_t \<times> ppp_client_ip_info_t option) list"
  user_events :: "esp_modem_compat_event_t list"
  translating :: bool
  ip_handler :: bool

definition CONFIG_ESP_SYSTEM_EVENT_QUEUE_SIZE :: nat where "CONFIG_ESP_SYSTEM_EVENT_QUEUE_SIZE = 32"

text \<open>\<^verbatim>\<open>esp_event_post\<close> with no time to wait: a full queue loses the event, and the result is ignored.\<close>

definition compat_post ::
    "esp_modem_compat_event_t \<Rightarrow> ppp_client_ip_info_t option \<Rightarrow> 'a compat_world_scheme \<Rightarrow> 'a compat_world_scheme" where
  "compat_post e info w =
     (if length (default_queue w) < CONFIG_ESP_SYSTEM_EVENT_QUEUE_SIZE
      then w\<lparr>default_queue := default_queue w @ [(e, info)]\<rparr> else w)"

definition on_modem_compat_handler :: "esp_modem_event \<Rightarrow> 'a compat_world_scheme \<Rightarrow> 'a compat_world_scheme" where
  "on_modem_compat_handler e w =
     compat_post
       (case e of
          ESP_MODEM_EVENT_PPP_START \<Rightarrow> MODEM_EVENT_PPP_START
        | ESP_MODEM_EVENT_PPP_STOP \<Rightarrow> MODEM_EVENT_PPP_STOP
        | ESP_MODEM_EVENT_UNKNOWN \<Rightarrow> MODEM_EVENT_UNKNOWN) None w"

text \<open>\<^verbatim>\<open>on_ip_event\<close> of this file: the address of name server 0 is asked for and stored as both.\<close>

definition on_ip_event_compat :: "ip_event \<Rightarrow> ip_event_got_ip_t \<Rightarrow> 'a compat_world_scheme \<Rightarrow> 'a compat_world_scheme" where
  "on_ip_event_compat event_id event w =
     (if event_id = IP_EVENT_PPP_GOT_IP then
        (let dns_info = (case dns_server event 0 of None \<Rightarrow> stale_dns event | Some addr \<Rightarrow> addr);
             ipinfo = \<lparr>ip_addr = got_ip event, netmask_addr = got_netmask event, gw_addr = got_gw event,
                       ns1_addr = dns_info, ns2_addr = dns_info\<rparr>
         in compat_post MODEM_EVENT_PPP_CONNECT (Some ipinfo) w)
      else if event_id = IP_EVENT_PPP_LOST_IP then compat_post MODEM_EVENT_PPP_DISCONNECT None w
      else w)"

section \<open>The interface\<close>

text \<open>Each registration is under \<^verbatim>\<open>ESP_ERROR_CHECK\<close>, the last one, with the terminal, is the result.\<close>

fun register_user ::
    "(string \<Rightarrow> bool) \<Rightarrow> (string \<times> esp_modem_compat_event_t) list \<Rightarrow> 'a compat_world_scheme \<Rightarrow> 'a compat_world_scheme option" where
  "register_user api [] w = Some w"
| "register_user api ((site, e) # es) w =
     (if api site then register_user api es (w\<lparr>user_events := user_events w @ [e]\<rparr>) else None)"

definition esp_modem_set_event_handler :: "(string \<Rightarrow> bool) \<Rightarrow> 'a compat_world_scheme \<Rightarrow> esp_err_t \<times> 'a compat_world_scheme" where
  "esp_modem_set_event_handler api w =
     (if api ''set_event_handler'' then (ESP_OK, w\<lparr>translating := True\<rparr>) else (ESP_FAIL, w))"

definition esp_modem_add_event_handler ::
    "(string \<Rightarrow> bool) \<Rightarrow> 'a compat_world_scheme \<Rightarrow> (esp_err_t \<times> 'a compat_world_scheme) option" where
  "esp_modem_add_event_handler api w = do {
     w \<leftarrow> register_user api
        [(''register START'', MODEM_EVENT_PPP_START), (''register CONNECT'', MODEM_EVENT_PPP_CONNECT),
         (''register DISCONNECT'', MODEM_EVENT_PPP_DISCONNECT), (''register STOP'', MODEM_EVENT_PPP_STOP)] w;
     Some (esp_modem_set_event_handler api w)
   }"

definition ESP_ERR_ESP_NETIF_DRIVER_ATTACH_FAILED :: esp_err_t where
  "ESP_ERR_ESP_NETIF_DRIVER_ATTACH_FAILED = ESP_ERR_OTHER 0x5008"

text \<open>
  The set-up: without an interface, or with a registration that fails, the program aborts, and without an adapter the
  default handlers are set through a null pointer; attaching it starts the dialling.
\<close>

definition esp_modem_setup_ppp ::
    "(string \<Rightarrow> bool) \<Rightarrow> 'a compat_world_scheme \<Rightarrow> (esp_err_t \<times> 'a compat_world_scheme) option" where
  "esp_modem_setup_ppp api w =
     (if \<not> api ''esp_netif_new'' \<or> \<not> api ''register IP_EVENT'' then None
      else do {
        let (adapter, w) = esp_modem_netif_setup api (w\<lparr>ip_handler := True\<rparr>);
        if \<not> adapter then None
        else do {
          let w = snd (esp_modem_netif_set_default_handlers api w);
          (r, w) \<leftarrow> esp_modem_post_attach_start api w;
          Some (if r = ESP_OK then ESP_OK else ESP_ERR_ESP_NETIF_DRIVER_ATTACH_FAILED, w)
        }
      })"

definition esp_modem_exit_ppp :: "bool \<Rightarrow> 'a compat_world_scheme \<Rightarrow> (esp_err_t \<times> 'a compat_world_scheme) option" where
  "esp_modem_exit_ppp = esp_modem_stop_ppp"

text \<open>The default loop delivers: each event goes to the application's handler if it is registered for it.\<close>

definition deliver ::
    "'a compat_world_scheme \<Rightarrow> (esp_modem_compat_event_t \<times> ppp_client_ip_info_t option) list \<times> 'a compat_world_scheme" where
  "deliver w = (filter (\<lambda>(e, _). e \<in> set (user_events w)) (default_queue w), w\<lparr>default_queue := []\<rparr>)"

section \<open>What the application sees\<close>

text \<open>What the two event loops hand to this file, and what one of it is for the application.\<close>

datatype compat_input = Terminal esp_modem_event | Stack ip_event ip_event_got_ip_t

definition compat_step :: "compat_input \<Rightarrow> 'a compat_world_scheme \<Rightarrow> 'a compat_world_scheme" where
  "compat_step i w =
     (case i of
        Terminal e \<Rightarrow> if translating w then on_modem_compat_handler e w else w
      | Stack e event \<Rightarrow> if ip_handler w then on_ip_event_compat e event w else w)"

definition translation :: "compat_input \<Rightarrow> (esp_modem_compat_event_t \<times> ppp_client_ip_info_t option) list" where
  "translation i =
     (case i of
        Terminal ESP_MODEM_EVENT_PPP_START \<Rightarrow> [(MODEM_EVENT_PPP_START, None)]
      | Terminal ESP_MODEM_EVENT_PPP_STOP \<Rightarrow> [(MODEM_EVENT_PPP_STOP, None)]
      | Terminal ESP_MODEM_EVENT_UNKNOWN \<Rightarrow> [(MODEM_EVENT_UNKNOWN, None)]
      | Stack IP_EVENT_PPP_GOT_IP event \<Rightarrow>
          (let dns_info = (case dns_server event 0 of None \<Rightarrow> stale_dns event | Some addr \<Rightarrow> addr)
           in [(MODEM_EVENT_PPP_CONNECT, Some \<lparr>ip_addr = got_ip event, netmask_addr = got_netmask event,
                 gw_addr = got_gw event, ns1_addr = dns_info, ns2_addr = dns_info\<rparr>)])
      | Stack IP_EVENT_PPP_LOST_IP event \<Rightarrow> [(MODEM_EVENT_PPP_DISCONNECT, None)]
      | Stack _ event \<Rightarrow> [])"

lemma compat_step_queue:
  assumes "translating w" "ip_handler w"
  shows "compat_step i w = w\<lparr>default_queue := default_queue w @
     (if length (default_queue w) < CONFIG_ESP_SYSTEM_EVENT_QUEUE_SIZE then translation i else [])\<rparr>"
  using assms by (auto simp: compat_step_def translation_def on_modem_compat_handler_def on_ip_event_compat_def compat_post_def Let_def
      split: compat_input.split esp_modem_event.split ip_event.split)

lemma compat_run_queue:
  assumes "translating w" "ip_handler w"
    and "length (default_queue w) + length (concat (map translation is)) \<le> CONFIG_ESP_SYSTEM_EVENT_QUEUE_SIZE"
  shows "fold compat_step is w = w\<lparr>default_queue := default_queue w @ concat (map translation is)\<rparr>"
  using assms
proof (induction "is" arbitrary: w)
  case (Cons i "is")
  have "compat_step i w = w\<lparr>default_queue := default_queue w @ translation i\<rparr>"
    using compat_step_queue [OF Cons.prems(1,2), of i] Cons.prems(3) by (cases "translation i") auto
  then show ?case using Cons.IH [of "w\<lparr>default_queue := default_queue w @ translation i\<rparr>"] Cons.prems by simp
qed simp

text \<open>
  After a successful registration the application gets, in order, one event for each event of the terminal and of the
  network stack that the old interface knows, as long as no more than 32 wait; the unknown answers of the modem, which are
  translated too, never reach it, since nothing is registered for them.
\<close>

theorem compat_delivers:
  assumes "esp_modem_add_event_handler api w = Some (ESP_OK, v)" "ip_handler w" "default_queue w = []" "user_events w = []"
    and "length (concat (map translation is)) \<le> CONFIG_ESP_SYSTEM_EVENT_QUEUE_SIZE"
  shows "fst (deliver (fold compat_step is v)) = filter (\<lambda>(e, _). e \<noteq> MODEM_EVENT_UNKNOWN) (concat (map translation is))"
proof -
  have v: "translating v" "ip_handler v" "default_queue v = []"
    "set (user_events v) = {MODEM_EVENT_PPP_START, MODEM_EVENT_PPP_CONNECT, MODEM_EVENT_PPP_DISCONNECT, MODEM_EVENT_PPP_STOP}"
    using assms(1-4) by (auto simp: esp_modem_add_event_handler_def esp_modem_set_event_handler_def split: if_splits)
  have "e \<in> set (user_events v) \<longleftrightarrow> e \<noteq> MODEM_EVENT_UNKNOWN" for e by (cases e) (simp_all add: v(4))
  then show ?thesis using compat_run_queue [OF v(1,2), of "is"] v(3) assms(5) by (simp add: deliver_def)
qed

text \<open>The second name server is never asked for: the application is given the first one twice.\<close>

theorem compat_name_servers:
  assumes "(e, Some info) \<in> set (translation i)"
  shows "ns2_addr info = ns1_addr info"
  using assms by (auto simp: translation_def Let_def split: compat_input.splits esp_modem_event.splits ip_event.splits)

end
