(* ===== verification/Protobuf_Size.thy ===== *)
theory Protobuf_Size
  imports User_Proto
begin

text \<open>
  The first pass over a message in \<^verbatim>\<open>protobuf-c.c\<close>: the size it will have when packed. Sizes
  are 32-bit unsigned integers as on the target. Which messages and descriptors are meant is made
  precise here too: a message is well typed when every field that is set holds a value of the
  field's type, a descriptor is valid when its field numbers are distinct and below \<open>2 ^ 29\<close> and only
  fields of scalar type are packed.
\<close>

section \<open>Well-typed messages\<close>

definition value_fits :: "(message \<Rightarrow> bool) \<Rightarrow> ptype \<Rightarrow> pval \<Rightarrow> bool" where
  "value_fits sub ty v =
     (case (ty, v) of
        (TYPE_BOOL, PBool b) \<Rightarrow> True
      | (TYPE_ENUM, P32 x) \<Rightarrow> True
      | (TYPE_INT32, P32 x) \<Rightarrow> True
      | (TYPE_UINT32, P32 x) \<Rightarrow> True
      | (TYPE_FLOAT, P32 x) \<Rightarrow> True
      | (TYPE_DOUBLE, P64 x) \<Rightarrow> True
      | (TYPE_STRING, PStr s) \<Rightarrow> True
      | (TYPE_MESSAGE d, PMsg m) \<Rightarrow> sub m
      | _ \<Rightarrow> False)"

definition field_fits :: "(message \<Rightarrow> bool) \<Rightarrow> plabel \<Rightarrow> ptype \<Rightarrow> pval option \<Rightarrow> bool" where
  "field_fits sub lab ty v =
     (case v of
        None \<Rightarrow> True
      | Some v \<Rightarrow>
          (case lab of
             LABEL_NONE \<Rightarrow> value_fits sub ty v
           | LABEL_REPEATED p \<Rightarrow> (case v of PRep vs \<Rightarrow> list_all (value_fits sub ty) vs | _ \<Rightarrow> False)))"

fun well_typed :: "ptype \<Rightarrow> message \<Rightarrow> bool" where
  "well_typed (TYPE_MESSAGE d) m = list_all (\<lambda>(i, lab, ty). field_fits (well_typed ty) lab ty (map_of m i)) d"
| "well_typed ty m = False"

definition label_ok :: "plabel \<Rightarrow> ptype \<Rightarrow> bool" where
  "label_ok lab ty = (case lab of LABEL_NONE \<Rightarrow> True | LABEL_REPEATED p \<Rightarrow> p \<longrightarrow> is_packable_type ty)"

fun valid_type :: "ptype \<Rightarrow> bool" where
  "valid_type (TYPE_MESSAGE d) \<longleftrightarrow> distinct (map fst d) \<and>
     list_all (\<lambda>(i, lab, ty). i < 2 ^ 29 \<and> label_ok lab ty \<and> valid_type ty) d"
| "valid_type ty \<longleftrightarrow> True"

text \<open>The tables of the program.\<close>

lemmas descriptor_defs = status_code_descriptor_def lane_state_descriptor_def device_state_descriptor_def
    card_config_descriptor_def mtfcphase_gate_config_descriptor_def hmtime_descriptor_def
    active_lamp_descriptor_def one_side_lamp_time_descriptor_def one_cycle_lamp_time_descriptor_def
    cycle_lamp_form_descriptor_def one_timeline_descriptor_def day_time_line_descriptor_def
    time_lamp_form_descriptor_def day_lamp_form_descriptor_def device_register_request_descriptor_def
    device_register_response_descriptor_def device_login_request_descriptor_def
    device_login_response_descriptor_def device_auth_message_descriptor_def device_log_update_descriptor_def
    state_on_change_device_message_descriptor_def device_update_configure_request_descriptor_def
    device_update_configure_response_descriptor_def ping_websocket_device_request_descriptor_def
    ping_websocket_device_response_descriptor_def device_update_schedule_request_descriptor_def
    device_update_schedule_response_descriptor_def update_coordinate_device_request_descriptor_def
    update_coordinate_device_response_descriptor_def announce_error_device_request_descriptor_def
    update_power_state_device_request_descriptor_def update_mode_device_request_descriptor_def
    update_meter_data_device_request_descriptor_def device_update_message_descriptor_def
    require_stream_device_request_descriptor_def require_stream_device_response_descriptor_def
    control_lane_device_request_descriptor_def control_lane_device_response_descriptor_def
    set_active_time_device_request_descriptor_def set_active_time_device_response_descriptor_def
    set_cycle_config_device_request_descriptor_def sync_time_device_request_descriptor_def
    sync_time_device_response_descriptor_def get_coordinate_device_request_descriptor_def
    get_coordinate_device_response_descriptor_def trigger_notify_user_device_request_descriptor_def
    trigger_notify_user_device_response_descriptor_def update_schedule_user_device_request_descriptor_def
    update_schedule_user_device_response_descriptor_def power_control_user_request_descriptor_def
    force_otaupdate_user_request_descriptor_def release_control_user_request_descriptor_def
    user_device_message_descriptor_def device_message_descriptor_def device_descriptor_def
    meter_item_descriptor_def sign_param_descriptor_def station_lane_light_config_descriptor_def
    station_descriptor_def accessory_descriptor_def account_descriptor_def user_login_request_descriptor_def
    user_login_response_descriptor_def get_access_token_user_request_descriptor_def
    get_access_token_user_response_descriptor_def auth_user_message_descriptor_def
    device_control_user_request_descriptor_def device_control_user_response_descriptor_def
    require_stream_user_request_descriptor_def require_stream_user_response_descriptor_def
    control_lane_user_request_descriptor_def control_lane_user_response_descriptor_def
    set_active_time_user_request_descriptor_def set_active_time_user_response_descriptor_def
    set_cycle_config_user_request_descriptor_def set_cycle_config_user_response_descriptor_def
    set_coordinate_user_request_descriptor_def set_coordinate_user_response_descriptor_def
    sync_time_user_request_descriptor_def sync_time_user_response_descriptor_def
    get_device_user_request_descriptor_def get_device_user_response_descriptor_def
    get_coordinate_user_request_descriptor_def get_coordinate_user_response_descriptor_def
    get_meter_in_day_user_request_descriptor_def get_meter_in_day_user_response_descriptor_def
    get_meter_in_month_user_request_descriptor_def get_meter_in_month_user_response_descriptor_def
    get_meter_in_year_user_request_descriptor_def get_meter_in_year_user_response_descriptor_def
    device_user_message_descriptor_def update_device_connection_state_descriptor_def
    channel_state_descriptor_def device_state_model_descriptor_def state_on_change_user_message_descriptor_def
    log_update_user_message_descriptor_def error_status_user_message_descriptor_def
    update_power_state_user_message_descriptor_def update_schedule_user_message_descriptor_def
    update_mode_user_message_descriptor_def device_onchange_user_message_descriptor_def
    get_station_user_request_descriptor_def get_station_user_response_descriptor_def
    get_station_list_user_request_descriptor_def get_station_list_user_response_descriptor_def
    add_station_user_request_descriptor_def add_station_user_response_descriptor_def
    set_sign_setting_user_request_descriptor_def set_sign_setting_user_response_descriptor_def
    get_latest_firmware_user_request_descriptor_def get_latest_firmware_user_response_descriptor_def
    get_log_file_user_request_descriptor_def get_log_file_user_response_descriptor_def
    delete_station_user_request_descriptor_def delete_station_user_response_descriptor_def
    edit_number_card_user_request_descriptor_def edit_number_card_user_response_descriptor_def
    update_error_handling_user_request_descriptor_def update_diary_log_user_request_descriptor_def
    update_diary_log_user_response_descriptor_def insert_accessory_user_request_descriptor_def
    insert_accessory_user_response_descriptor_def get_accessories_user_request_descriptor_def
    get_accessories_user_response_descriptor_def delete_accessory_user_request_descriptor_def
    delete_accessory_user_response_descriptor_def edit_accessory_user_request_descriptor_def
    edit_accessory_user_response_descriptor_def update_schedule_user_request_descriptor_def
    update_schedule_user_response_descriptor_def get_schedule_user_request_descriptor_def
    get_schedule_user_response_descriptor_def station_user_message_descriptor_def
    get_accounts_user_request_descriptor_def get_accounts_user_response_descriptor_def
    delete_account_user_request_descriptor_def delete_account_user_response_descriptor_def
    create_new_account_user_request_descriptor_def create_new_account_user_response_descriptor_def
    change_password_user_request_descriptor_def change_password_user_response_descriptor_def
    update_alert_info_user_request_descriptor_def update_alert_info_user_response_descriptor_def
    account_user_message_descriptor_def user_message_descriptor_def main_message_descriptor_def

lemma main_message_valid: "valid_type (TYPE_MESSAGE main_message_descriptor)"
  by (simp add: label_ok_def is_packable_type_def descriptor_defs)

section \<open>The sizes\<close>

definition get_tag_size :: "nat \<Rightarrow> 32 word" where
  "get_tag_size number =
     (if number < 2 ^ 4 then 1 else if number < 2 ^ 11 then 2 else if number < 2 ^ 18 then 3
      else if number < 2 ^ 25 then 4 else 5)"

definition uint32_size :: "32 word \<Rightarrow> 32 word" where
  "uint32_size v =
     (if v < 2 ^ 7 then 1 else if v < 2 ^ 14 then 2 else if v < 2 ^ 21 then 3
      else if v < 2 ^ 28 then 4 else 5)"

definition int32_size :: "32 word \<Rightarrow> 32 word" where
  "int32_size v =
     (if sint v < 0 then 10
      else if sint v < 2 ^ 7 then 1 else if sint v < 2 ^ 14 then 2 else if sint v < 2 ^ 21 then 3
      else if sint v < 2 ^ 28 then 4 else 5)"

definition value_size :: "(message \<Rightarrow> 32 word) \<Rightarrow> ptype \<Rightarrow> pval \<Rightarrow> 32 word" where
  "value_size sub ty v =
     (case (ty, v) of
        (TYPE_ENUM, P32 x) \<Rightarrow> int32_size x
      | (TYPE_INT32, P32 x) \<Rightarrow> int32_size x
      | (TYPE_UINT32, P32 x) \<Rightarrow> uint32_size x
      | (TYPE_FLOAT, P32 x) \<Rightarrow> 4
      | (TYPE_DOUBLE, P64 x) \<Rightarrow> 8
      | (TYPE_BOOL, PBool b) \<Rightarrow> 1
      | (TYPE_STRING, PStr s) \<Rightarrow> (let len = of_nat (length (c_str s)) in uint32_size len + len)
      | (TYPE_MESSAGE d, PMsg m) \<Rightarrow> (let subrv = sub m in uint32_size subrv + subrv)
      | _ \<Rightarrow> 0)"

definition required_field_get_packed_size :: "(message \<Rightarrow> 32 word) \<Rightarrow> nat \<Rightarrow> ptype \<Rightarrow> pval \<Rightarrow> 32 word" where
  "required_field_get_packed_size sub i ty v = get_tag_size i + value_size sub ty v"

definition unlabeled_field_get_packed_size :: "(message \<Rightarrow> 32 word) \<Rightarrow> nat \<Rightarrow> ptype \<Rightarrow> pval \<Rightarrow> 32 word" where
  "unlabeled_field_get_packed_size sub i ty v =
     (if field_is_zeroish ty v then 0 else required_field_get_packed_size sub i ty v)"

definition repeated_field_get_packed_size ::
    "(message \<Rightarrow> 32 word) \<Rightarrow> nat \<Rightarrow> bool \<Rightarrow> ptype \<Rightarrow> pval list \<Rightarrow> 32 word" where
  "repeated_field_get_packed_size sub i packed ty vs =
     (if vs = [] then 0
      else let header_size = (if packed then get_tag_size i else get_tag_size i * of_nat (length vs));
               rv = sum_list (map (value_size sub ty) vs);
               header_size = (if packed then header_size + uint32_size rv else header_size)
           in header_size + rv)"

definition field_get_packed_size :: "(message \<Rightarrow> 32 word) \<Rightarrow> nat \<Rightarrow> plabel \<Rightarrow> ptype \<Rightarrow> message \<Rightarrow> 32 word" where
  "field_get_packed_size sub i lab ty m =
     (case (lab, map_of m i) of
        (LABEL_NONE, Some v) \<Rightarrow> unlabeled_field_get_packed_size sub i ty v
      | (LABEL_REPEATED packed, Some (PRep vs)) \<Rightarrow> repeated_field_get_packed_size sub i packed ty vs
      | _ \<Rightarrow> 0)"

fun message_get_packed_size :: "ptype \<Rightarrow> message \<Rightarrow> 32 word" where
  "message_get_packed_size (TYPE_MESSAGE d) m =
     sum_list (map (\<lambda>(i, lab, ty). field_get_packed_size (message_get_packed_size ty) i lab ty m) d)"
| "message_get_packed_size ty m = 0"

definition protobuf_c_message_get_packed_size :: "descriptor \<Rightarrow> message \<Rightarrow> 32 word" where
  "protobuf_c_message_get_packed_size d m = message_get_packed_size (TYPE_MESSAGE d) m"

section \<open>The sizes are those of the packed message\<close>

lemma unat_exp: "n < 32 \<Longrightarrow> unat ((2 :: 32 word) ^ n) = 2 ^ n"
proof -
  assume "n < 32"
  then have "(2 :: nat) ^ n < 2 ^ 32" by (rule power_strict_increasing) simp
  then have "unat (of_nat (2 ^ n) :: 32 word) = 2 ^ n" by (simp only: unat_of_nat) simp
  then show ?thesis by simp
qed

lemma drop_7_less:
  fixes v :: "32 word"
  assumes "n + 7 < 32"
  shows "drop_bit 7 v < 2 ^ n \<longleftrightarrow> v < 2 ^ (n + 7)"
proof -
  have "unat (drop_bit 7 v) = unat v div 2 ^ 7" by (simp add: drop_bit_eq_div unat_div)
  moreover have "unat ((2 :: 32 word) ^ n) = 2 ^ n" "unat ((2 :: 32 word) ^ (n + 7)) = 2 ^ (n + 7)"
    using assms unat_exp by simp_all
  ultimately show ?thesis by (simp only: word_less_nat_alt) (simp add: div_less_iff_less_mult power_add)
qed

lemma length_varint:
  "length (varint_pack (Suc n) v) = (if v < 2 ^ 7 then 1 else Suc (length (varint_pack n (drop_bit 7 v))))"
  by (auto simp: not_le [symmetric])

lemma length_uint32_pack: "of_nat (length (uint32_pack v)) = uint32_size v" 
proof -
  have d: "drop_bit 7 v < 2 ^ 7 \<longleftrightarrow> v < 2 ^ 14" "drop_bit 7 (drop_bit 7 v) < 2 ^ 7 \<longleftrightarrow> v < 2 ^ 21"
    "drop_bit 7 (drop_bit 7 (drop_bit 7 v)) < 2 ^ 7 \<longleftrightarrow> v < 2 ^ 28"
    using drop_7_less [of 7 v] drop_7_less [of 7 "drop_bit 7 v"] drop_7_less [of 14 v]
      drop_7_less [of 7 "drop_bit 7 (drop_bit 7 v)"] drop_7_less [of 14 "drop_bit 7 v"] drop_7_less [of 21 v] by simp_all
  have "length (varint_pack (Suc (Suc (Suc (Suc 0)))) v) =
     (if v < 2 ^ 7 then 1 else if v < 2 ^ 14 then 2 else if v < 2 ^ 21 then 3 else if v < 2 ^ 28 then 4 else 5)"
    unfolding length_varint d by simp
  then show ?thesis by (simp add: uint32_pack_def uint32_size_def eval_nat_numeral)
qed

lemma uint32_pack_not_Nil [simp]: "uint32_pack v \<noteq> []"
  by (simp add: uint32_pack_def eval_nat_numeral)

lemma length_int32_pack: "of_nat (length (int32_pack v)) = int32_size v"
proof (cases "sint v < 0")
  case False
  then have "sint v = uint v" using uint_sint [of v] sint_less [of v] by (simp add: take_bit_int_eq_self)
  moreover have "uint v < 2 ^ n \<longleftrightarrow> v < 2 ^ n" if "n < 32" for n
  proof -
    have "uint ((2 :: 32 word) ^ n) = 2 ^ n" using unat_exp [OF that] by (metis of_nat_numeral of_nat_power uint_nat)
    then show ?thesis by (simp add: word_less_alt)
  qed
  from this [of 7] this [of 14] this [of 21] this [of 28] show ?thesis
    using calculation False length_uint32_pack [of v] by (simp add: int32_pack_def int32_size_def uint32_size_def)
qed (simp add: int32_pack_def int32_size_def)

lemma unat_tag: "i < 2 ^ 29 \<Longrightarrow> unat (push_bit 3 (of_nat i) :: 32 word) = 8 * i"
proof -
  assume i: "i < 2 ^ 29"
  have "push_bit 3 (of_nat i) = (of_nat (8 * i) :: 32 word)" by (simp add: push_bit_eq_mult mult.commute)
  then show ?thesis using i by (simp only: unat_of_nat) simp
qed

lemma length_tag_pack: "i < 2 ^ 29 \<Longrightarrow> of_nat (length (tag_pack i w)) = get_tag_size i"
proof -
  assume i: "i < 2 ^ 29"
  have "length (tag_pack i w) = length (uint32_pack (push_bit 3 (of_nat i)))"
    using uint32_pack_not_Nil by (auto simp: tag_pack_def split: list.split)
  moreover have "push_bit 3 (of_nat i) < (2 :: 32 word) ^ n \<longleftrightarrow> 8 * i < 2 ^ n" if "n < 32" for n
    unfolding word_less_nat_alt unat_tag [OF i] unat_exp [OF that] ..
  from this [of 7] this [of 14] this [of 21] this [of 28]
  have "uint32_size (push_bit 3 (of_nat i)) = get_tag_size i" by (simp add: uint32_size_def get_tag_size_def)
  ultimately show ?thesis using length_uint32_pack by metis
qed

lemma length_fixed: "length (fixed32_pack v) = 4" "length (fixed64_pack x) = 8" "length (boolean_pack b) = 1"
  by (simp_all add: fixed32_pack_def fixed64_pack_def boolean_pack_def)

lemma length_prefixed: "of_nat (length (prefixed bs)) = uint32_size (of_nat (length bs)) + of_nat (length bs)"
  by (simp add: prefixed_def length_uint32_pack)

lemma string_prefixed: "string_pack s = prefixed (bytes_of (c_str s))"
  by (simp add: string_pack_def prefixed_def)

lemmas length_packs = length_int32_pack length_uint32_pack length_fixed length_prefixed string_prefixed

text \<open>A value that fits its field.\<close>

lemma size_required:
  assumes "i < 2 ^ 29" "value_fits ok ty v" "\<And>m. ok m \<Longrightarrow> of_nat (length (sub m)) = ss m"
  shows "of_nat (length (required_field_pack sub i ty v)) = required_field_get_packed_size ss i ty v"
  using assms by (cases ty; cases v) (simp_all add: value_fits_def required_field_pack_def required_field_get_packed_size_def
      value_size_def length_tag_pack length_packs Let_def)

lemma size_element:
  "value_fits ok ty v \<Longrightarrow> is_packable_type ty \<Longrightarrow> of_nat (length (packed_element ty v)) = value_size ss ty v"
  by (cases ty; cases v) (simp_all add: value_fits_def packed_element_def is_packable_type_def value_size_def length_packs)

lemma size_repeated:
  assumes "i < 2 ^ 29" "list_all (value_fits ok ty) vs" "label_ok (LABEL_REPEATED p) ty"
    and "\<And>m. ok m \<Longrightarrow> of_nat (length (sub m)) = ss m"
  shows "of_nat (length (repeated_field_pack sub i p ty vs)) = repeated_field_get_packed_size ss i p ty vs"
proof (cases p)
  case True
  then have "of_nat (length (concat (map (packed_element ty) vs))) = sum_list (map (value_size ss ty) vs)"
    using assms(2,3) by (induction vs) (auto simp: size_element label_ok_def)
  then show ?thesis using True assms(1)
    by (simp add: repeated_field_pack_def repeated_field_get_packed_size_def length_tag_pack length_prefixed Let_def)
next
  case False
  have "of_nat (length (concat (map (required_field_pack sub i ty) vs))) =
      get_tag_size i * of_nat (length vs) + sum_list (map (value_size ss ty) vs)"
    using assms(2) by (induction vs)
      (auto simp: size_required [OF assms(1) _ assms(4)] required_field_get_packed_size_def algebra_simps)
  then show ?thesis using False by (auto simp: repeated_field_pack_def repeated_field_get_packed_size_def Let_def)
qed

lemma size_field:
  assumes "i < 2 ^ 29" "field_fits ok lab ty (map_of m i)" "label_ok lab ty"
    and "\<And>m. ok m \<Longrightarrow> of_nat (length (sub m)) = ss m"
  shows "of_nat (length (field_pack sub i lab ty m)) = field_get_packed_size ss i lab ty m"
proof (cases "map_of m i")
  case (Some v)
  then show ?thesis using assms size_required [OF assms(1) _ assms(4), of ok ty v]
    by (cases lab; cases v) (simp_all add: field_pack_def field_get_packed_size_def field_fits_def
        unlabeled_field_pack_def unlabeled_field_get_packed_size_def size_repeated)
qed (cases lab; simp add: field_pack_def field_get_packed_size_def)

lemma length_concat_word:
  "of_nat (length (concat (map f xs))) = (sum_list (map (\<lambda>x. of_nat (length (f x))) xs) :: 32 word)"
  by (induction xs) simp_all

lemma size_message:
  "valid_type ty \<Longrightarrow> well_typed ty m \<Longrightarrow> of_nat (length (message_pack ty m)) = message_get_packed_size ty m"
proof (induction ty arbitrary: m)
  case (TYPE_MESSAGE d)
  have "of_nat (length (field_pack (message_pack ty) i lab ty m)) = field_get_packed_size (message_get_packed_size ty) i lab ty m"
    if "(i, lab, ty) \<in> set d" for i lab ty
  proof (rule size_field [where ok = "well_typed ty"])
    show "i < 2 ^ 29" "field_fits (well_typed ty) lab ty (map_of m i)" "label_ok lab ty"
      using TYPE_MESSAGE.prems that by (auto simp: list_all_iff)
    show "of_nat (length (message_pack ty n)) = message_get_packed_size ty n" if "well_typed ty n" for n
      using TYPE_MESSAGE.IH \<open>(i, lab, ty) \<in> set d\<close> TYPE_MESSAGE.prems(1) that by (fastforce simp: list_all_iff)
  qed
  then have "map (\<lambda>(i, lab, ty). of_nat (length (field_pack (message_pack ty) i lab ty m))) d =
      map (\<lambda>(i, lab, ty). field_get_packed_size (message_get_packed_size ty) i lab ty m) d" by auto
  from arg_cong [OF this, of sum_list] show ?case by (simp add: length_concat_word case_prod_unfold)
qed simp_all

text \<open>C37. The size the library computes first is the number of bytes it then writes, modulo \<open>2 ^ 32\<close>, for every
  valid descriptor and every well-typed message, so a buffer of that size is filled exactly.\<close>

theorem packed_size_exact:
  assumes "valid_type (TYPE_MESSAGE d)" "well_typed (TYPE_MESSAGE d) m"
  shows "of_nat (length (protobuf_c_message_pack d m)) = protobuf_c_message_get_packed_size d m"
  unfolding protobuf_c_message_pack_def protobuf_c_message_get_packed_size_def by (rule size_message [OF assms])

definition sample_message :: message where
  "sample_message = [(2, PMsg [(1, PMsg [(1, PMsg [(1, PStr ''GW-C3B2A1''), (2, PStr ''1.0.1''), (4, P32 2)])])])]"

lemma sample_message_typed: "well_typed (TYPE_MESSAGE main_message_descriptor) sample_message"
  by (simp add: descriptor_defs sample_message_def field_fits_def value_fits_def)

theorem packed_size_exact_witness:
  "of_nat (length (protobuf_c_message_pack main_message_descriptor sample_message)) =
     protobuf_c_message_get_packed_size main_message_descriptor sample_message"
  by (rule packed_size_exact [OF main_message_valid sample_message_typed])

end
