(* ===== verification/Protobuf_Roundtrip.thy ===== *)
theory Protobuf_Roundtrip
  imports Protobuf_Size
begin

text \<open>
  Packing and unpacking in \<^verbatim>\<open>protobuf-c.c\<close> fit together. From below: the numbers of variable and
  fixed length, the tags, one field, packed fields, a message with its submessages. A field is
  described by the members the scanner finds in its bytes and by what the parser makes of
  them (\<open>carries\<close>); fields in sequence are then a list homomorphism.
\<close>

section \<open>Numbers of variable length\<close>

lemma bit_80: "bit (0x80 :: byte) i \<longleftrightarrow> i = 7" "bit (0x80 :: 32 word) i \<longleftrightarrow> i = 7"
proof -
  have "(0x80 :: byte) = 2 ^ 7" "(0x80 :: 32 word) = 2 ^ 7" by simp_all
  then show "bit (0x80 :: byte) i \<longleftrightarrow> i = 7" "bit (0x80 :: 32 word) i \<longleftrightarrow> i = 7"
    by (simp_all only: bit_exp_iff) (auto simp: possible_bit_def)
qed

lemma and_80: "b AND 0x80 = 0 \<longleftrightarrow> \<not> bit (b :: byte) 7"
proof -
  have "(0x80 :: byte) = 2 ^ 7" by simp
  then show ?thesis by (simp only: and_exp_eq_0_iff_not_bit)
qed

lemma small_bits: "(v :: 32 word) < 0x80 \<Longrightarrow> bit v i \<Longrightarrow> i < 7"
proof (rule ccontr)
  assume v: "v < 0x80" "bit v i" "\<not> i < 7"
  then have "unat v < 2 ^ 7" by (simp add: word_less_nat_alt)
  then have "take_bit 7 (unat v) = unat v" by (simp add: take_bit_nat_eq_self)
  moreover have "bit (unat v) i" using v(2) by (simp add: bit_unsigned_iff)
  ultimately show False using v(3) by (metis bit_take_bit_iff)
qed

text \<open>The first byte has the seven lowest bits and, when more follow, the mark.\<close>

lemma bit_byte: "bit (ucast (v :: 32 word) :: byte) i \<longleftrightarrow> i < 8 \<and> bit v i"
  unfolding bit_unsigned_iff by (auto simp: possible_bit_def)

lemma bit_of_byte: "bit (ucast (b :: byte) :: 32 word) i \<longleftrightarrow> bit b i"
  unfolding bit_unsigned_iff using bit_imp_le_length [of b i] by (auto simp: possible_bit_def)

lemma bit_shift32: "bit (push_bit s v :: 32 word) i \<longleftrightarrow> s \<le> i \<and> i < 32 \<and> bit v (i - s)"
  unfolding bit_push_bit_iff by (auto simp: possible_bit_def)

lemmas varint_bits = bit_and_iff bit_7F bit_80 bit_byte bit_of_byte bit_shift32 bit_or_iff bit_drop_bit_eq comp_def

lemma first_byte:
  fixes v :: "32 word"
  shows "bit (ucast (v OR 0x80) :: byte) 7" "v < 0x80 \<Longrightarrow> \<not> bit (ucast v :: byte) 7"
    "push_bit s (ucast ((ucast (v OR 0x80) :: byte) AND 0x7F)) OR push_bit (s + 7) (drop_bit 7 v) = push_bit s v"
    "v < 0x80 \<Longrightarrow> push_bit s (ucast ((ucast v :: byte) AND 0x7F)) = push_bit s v"
    "v < 0x80 \<Longrightarrow> ucast (ucast v :: byte) = v"
proof -
  show "bit (ucast (v OR 0x80) :: byte) 7" unfolding varint_bits by simp
  show "v < 0x80 \<Longrightarrow> \<not> bit (ucast v :: byte) 7" using small_bits [of v 7] by (simp only: bit_byte) blast
  show "push_bit s (ucast ((ucast (v OR 0x80) :: byte) AND 0x7F)) OR push_bit (s + 7) (drop_bit 7 v) = push_bit s v"
  proof (rule bit_eqI)
    fix i
    have "i - s = 7 + (i - (s + 7))" if "s + 7 \<le> i" using that by simp
    then show "bit (push_bit s (ucast ((ucast (v OR 0x80) :: byte) AND 0x7F)) OR push_bit (s + 7) (drop_bit 7 v)) i =
        bit (push_bit s v) i"
      unfolding varint_bits by (cases "s + 7 \<le> i") auto
  qed
  show "v < 0x80 \<Longrightarrow> push_bit s (ucast ((ucast v :: byte) AND 0x7F)) = push_bit s v"
    by (rule bit_eqI) (use small_bits [of v] in \<open>fastforce simp only: varint_bits\<close>)
  show "v < 0x80 \<Longrightarrow> ucast (ucast v :: byte) = v"
    by (rule bit_eqI) (use small_bits [of v] in \<open>fastforce simp only: varint_bits\<close>)
qed

text \<open>What is left after seven bits.\<close>

lemma drop_7_unat: "unat (drop_bit 7 (v :: 32 word)) < 2 ^ (7 * Suc n)" if "unat v < 2 ^ (7 * Suc (Suc n))"
proof -
  have "unat (drop_bit 7 v) = unat v div 2 ^ 7" by (simp add: drop_bit_eq_div unat_div)
  moreover have "(2 :: nat) ^ (7 * Suc (Suc n)) = 2 ^ (7 * Suc n) * 2 ^ 7" by (simp add: power_add)
  ultimately show ?thesis using that by (simp only: div_less_iff_less_mult zero_less_power)
qed

lemma small_unat: "unat (v :: 32 word) < 2 ^ (7 * Suc 0) \<Longrightarrow> v < 0x80"
  by (simp add: word_less_nat_alt)

lemma fits_35: "unat (v :: 32 word) < 2 ^ (7 * Suc 4)"
proof -
  have "unat v < 2 ^ LENGTH(32)" by (rule unsigned_less)
  then show ?thesis by simp
qed

lemma varint_pack_cases:
  "v < 0x80 \<Longrightarrow> varint_pack n v = [ucast v]"
  "\<not> v < 0x80 \<Longrightarrow> varint_pack (Suc n) v = ucast (v OR 0x80) # varint_pack n (drop_bit 7 v)"
  by (cases n) (auto simp: not_le [symmetric])

declare varint_pack.simps(2) [simp del]

lemma length_value_varint:
  "unat v < 2 ^ (7 * Suc n) \<Longrightarrow> length_value (Suc n) s (varint_pack n v @ r) = Some (push_bit s v, length (varint_pack n v))"
proof (induction n arbitrary: v s)
  case 0
  then show ?case using small_unat [of v] first_byte(2,4) [of v] by (simp add: and_80 Let_def)
next
  case (Suc n)
  show ?case
  proof (cases "v < 0x80")
    case True
    then show ?thesis using first_byte(2,4) [of v] by (simp add: and_80 Let_def varint_pack_cases)
  next
    case False
    then show ?thesis using Suc.IH [OF drop_7_unat [OF Suc.prems], of "s + 7"] first_byte(1) [of v] first_byte(3) [of s v]
      by (simp add: and_80 Let_def varint_pack_cases del: length_value.simps add: length_value.simps(3) [of "Suc n"])
  qed
qed

lemma tag_rest_varint:
  "unat v < 2 ^ (7 * Suc n) \<Longrightarrow> tag_rest (Suc n) s t (varint_pack n v @ r) = Some (t OR push_bit s v, r)"
proof (induction n arbitrary: v s t)
  case 0
  then show ?case using small_unat [of v] first_byte(2,5) [of v] by (simp add: and_80)
next
  case (Suc n)
  show ?case
  proof (cases "v < 0x80")
    case True
    then show ?thesis using first_byte(2,5) [of v] by (simp add: and_80 varint_pack_cases)
  next
    case False
    then show ?thesis using Suc.IH [OF drop_7_unat [OF Suc.prems], of "s + 7"] first_byte(1) [of v] first_byte(3) [of s v]
      by (simp add: and_80 varint_pack_cases or.assoc del: tag_rest.simps add: tag_rest.simps(3) [of "Suc n"])
  qed
qed

lemma varint_marks:
  "unat v < 2 ^ (7 * Suc n) \<Longrightarrow> \<exists>xs b. varint_pack n v = xs @ [b] \<and> (\<forall>x \<in> set xs. bit x 7) \<and> \<not> bit b 7 \<and> length xs \<le> n"
proof (induction n arbitrary: v)
  case 0
  then show ?case using small_unat [of v] first_byte(2) [of v] by simp
next
  case (Suc n)
  show ?case
  proof (cases "v < 0x80")
    case True
    then show ?thesis using first_byte(2) [of v] by (simp add: varint_pack_cases)
  next
    case False
    obtain xs b where "varint_pack n (drop_bit 7 v) = xs @ [b]" "\<forall>x \<in> set xs. bit x 7" "\<not> bit b 7" "length xs \<le> n"
      using Suc.IH [OF drop_7_unat [OF Suc.prems]] by blast
    then show ?thesis using False first_byte(1) [of v]
      by (intro exI [of _ "ucast (v OR 0x80) # xs"] exI [of _ b]) (simp add: varint_pack_cases)
  qed
qed

lemma scan_varint_marks:
  assumes "\<forall>x \<in> set xs. bit x 7" "\<not> bit b 7" "length xs < 10"
  shows "scan_varint (xs @ b # r) = Some (Suc (length xs))"
proof -
  have t: "take 10 (xs @ b # r) = xs @ b # take (9 - length xs) r"
    using assms(3) by (simp add: take_Cons' split: if_splits)
  have "takeWhile (\<lambda>b. b AND 0x80 \<noteq> 0) (xs @ b # take (9 - length xs) r) = xs"
    using assms(1,2) by (subst takeWhile_append2) (auto simp: and_80)
  then show ?thesis unfolding scan_varint_def t by simp
qed

lemma scan_uint32: "scan_varint (uint32_pack v @ r) = Some (length (uint32_pack v))"
proof -
  obtain xs b where "varint_pack 4 v = xs @ [b]" "\<forall>x \<in> set xs. bit x 7" "\<not> bit b 7" "length xs \<le> 4"
    using varint_marks [OF fits_35] by blast
  then show ?thesis using scan_varint_marks [of xs b r] by (simp add: uint32_pack_def)
qed

lemma length_value_uint32: "length_value 5 0 (uint32_pack v @ r) = Some (v, length (uint32_pack v))"
  using length_value_varint [OF fits_35, of 0 v r] by (simp add: uint32_pack_def eval_nat_numeral)

text \<open>The parser reads at most five bytes, the fifth without a mask.\<close>

definition parse_step :: "nat \<times> byte \<Rightarrow> 32 word \<Rightarrow> 32 word" where
  "parse_step = (\<lambda>(i, b) acc. acc OR push_bit (7 * i) (if i = 4 then ucast b else ucast (b AND 0x7F)))"

lemma parse_varint:
  "unat v < 2 ^ (7 * Suc n) \<Longrightarrow> k + n = 4 \<Longrightarrow>
   fold parse_step (zip [k..<5] (varint_pack n v)) acc = acc OR push_bit (7 * k) v"
proof (induction n arbitrary: v k acc)
  case 0
  then show ?case using small_unat [of v] first_byte(5) [of v] by (simp add: parse_step_def upt_conv_Cons)
next
  case (Suc n)
  then have k: "[k..<5] = k # [Suc k..<5]" "k \<noteq> 4" by (simp_all add: upt_conv_Cons)
  show ?case
  proof (cases "v < 0x80")
    case True
    then show ?thesis using k first_byte(4) [of v "7 * k"] by (simp add: varint_pack_cases parse_step_def)
  next
    case False
    then show ?thesis using k Suc.IH [OF drop_7_unat [OF Suc.prems(1)], of "Suc k"] Suc.prems(2) first_byte(3) [of "7 * k" v]
      by (simp add: varint_pack_cases parse_step_def or.assoc add.commute)
  qed
qed

lemma parse_uint32_fold: "parse_uint32 bs = fold parse_step (zip [0..<5] bs) 0"
  by (simp add: parse_uint32_def parse_step_def upt_rec eval_nat_numeral)

lemma parse_uint32_pack: "parse_uint32 (uint32_pack v) = v"
  using parse_varint [OF fits_35, of 0 v 0] by (simp add: parse_uint32_fold uint32_pack_def)

text \<open>A negative number takes ten bytes, of which the parser reads five.\<close>

lemma bit_chunk:
  fixes v :: "32 word"
  assumes "k \<le> 24"
  shows "bit (push_bit k (ucast ((ucast (signed_drop_bit k v OR 0x80) :: byte) AND 0x7F)) :: 32 word) i \<longleftrightarrow> k \<le> i \<and> i < k + 7 \<and> bit v i"
  unfolding varint_bits bit_signed_drop_bit_iff using assms by (auto simp: not_le)

lemma bit_last_chunk:
  fixes v :: "32 word"
  shows "bit (push_bit 28 (ucast (ucast (signed_drop_bit 28 v OR 0x80) :: byte)) :: 32 word) i \<longleftrightarrow> 28 \<le> i \<and> bit v i"
  unfolding varint_bits bit_signed_drop_bit_iff using bit_imp_le_length [of v i] by (auto simp: not_le)

lemma parse_negative:
  fixes v :: "32 word"
  assumes "sint v < 0"
  shows "parse_uint32 (int32_pack v) = v"
proof -
  let ?c = "\<lambda>k. push_bit k (ucast ((ucast (signed_drop_bit k v OR 0x80) :: byte) AND 0x7F)) :: 32 word"
  have "signed_drop_bit 0 v = v" by (rule bit_eqI) (simp add: bit_signed_drop_bit_iff)
  then have "parse_uint32 (int32_pack v) =
      ?c 0 OR ?c 7 OR ?c 14 OR ?c 21 OR push_bit 28 (ucast (ucast (signed_drop_bit 28 v OR 0x80) :: byte))"
    using assms by (simp add: parse_uint32_def int32_pack_def or.assoc)
  also have "\<dots> = v"
  proof (rule bit_eqI)
    fix i
    show "bit (?c 0 OR ?c 7 OR ?c 14 OR ?c 21 OR push_bit 28 (ucast (ucast (signed_drop_bit 28 v OR 0x80) :: byte))) i = bit v i"
      unfolding bit_or_iff bit_last_chunk using bit_chunk [of 0 v i] bit_chunk [of 7 v i] bit_chunk [of 14 v i] bit_chunk [of 21 v i]
      by auto
  qed
  finally show ?thesis .
qed

lemma parse_int32_pack: "parse_uint32 (int32_pack v) = v"
proof (cases "sint v < 0")
  case False
  then show ?thesis by (simp add: int32_pack_def parse_uint32_pack)
qed (rule parse_negative)

lemma scan_int32: "scan_varint (int32_pack v @ r) = Some (length (int32_pack v))"
proof (cases "sint v < 0")
  case True
  let ?xs = "[ucast (v OR 0x80), ucast (signed_drop_bit 7 v OR 0x80), ucast (signed_drop_bit 14 v OR 0x80),
    ucast (signed_drop_bit 21 v OR 0x80), ucast (signed_drop_bit 28 v OR 0x80), 0xFF, 0xFF, 0xFF, 0xFF] :: byte list"
  have "bit (0xFF :: byte) 7" "\<not> bit (0x01 :: byte) 7" by simp_all
  then have "\<forall>x \<in> set ?xs. bit x 7" using first_byte(1) by simp
  from scan_varint_marks [OF this \<open>\<not> bit (0x01 :: byte) 7\<close>, of r] show ?thesis
    using True by (simp add: int32_pack_def)
next
  case False
  then show ?thesis by (simp add: int32_pack_def scan_uint32)
qed

section \<open>Numbers of fixed length\<close>

lemma bit_byte64: "bit (ucast (v :: 64 word) :: byte) i \<longleftrightarrow> i < 8 \<and> bit v i"
  unfolding bit_unsigned_iff by (auto simp: possible_bit_def)

lemma bit_of_byte64: "bit (ucast (b :: byte) :: 64 word) i \<longleftrightarrow> bit b i"
  unfolding bit_unsigned_iff using bit_imp_le_length [of b i] by (auto simp: possible_bit_def)

lemma bit_shift64: "bit (push_bit s v :: 64 word) i \<longleftrightarrow> s \<le> i \<and> i < 64 \<and> bit v (i - s)"
  unfolding bit_push_bit_iff by (auto simp: possible_bit_def)

lemma bit_fixed32:
  "bit (push_bit k (ucast (ucast (drop_bit k v) :: byte)) :: 32 word) i \<longleftrightarrow> k \<le> i \<and> i < k + 8 \<and> bit (v :: 32 word) i"
  unfolding varint_bits using bit_imp_le_length [of v i] by (auto simp: less_diff_conv2)

lemma bit_fixed64:
  "bit (push_bit k (ucast (ucast (drop_bit k v) :: byte)) :: 64 word) i \<longleftrightarrow> k \<le> i \<and> i < k + 8 \<and> bit (v :: 64 word) i"
  unfolding bit_shift64 bit_of_byte64 bit_byte64 bit_drop_bit_eq comp_def
  using bit_imp_le_length [of v i] by (auto simp: less_diff_conv2)

lemma parse_fixed32: "parse_fixed_uint32 (fixed32_pack v) = v"
proof -
  let ?c = "\<lambda>k. push_bit k (ucast (ucast (drop_bit k v) :: byte)) :: 32 word"
  have "parse_fixed_uint32 (fixed32_pack v) = ?c 0 OR ?c 8 OR ?c 16 OR ?c 24"
    by (simp add: parse_fixed_uint32_def fixed32_pack_def or.assoc)
  also have "\<dots> = v"
  proof (rule bit_eqI)
    fix i
    show "bit (?c 0 OR ?c 8 OR ?c 16 OR ?c 24) i = bit v i"
      unfolding bit_or_iff bit_fixed32 using bit_imp_le_length [of v i] by auto
  qed
  finally show ?thesis .
qed

lemma parse_fixed64: "parse_fixed_uint64 (fixed64_pack v) = v"
proof -
  let ?c = "\<lambda>k. push_bit k (ucast (ucast (drop_bit k v) :: byte)) :: 64 word"
  have "parse_fixed_uint64 (fixed64_pack v) = ?c 0 OR ?c 8 OR ?c 16 OR ?c 24 OR ?c 32 OR ?c 40 OR ?c 48 OR ?c 56"
    by (simp add: parse_fixed_uint64_def fixed64_pack_def or.assoc)
  also have "\<dots> = v"
  proof (rule bit_eqI)
    fix i
    show "bit (?c 0 OR ?c 8 OR ?c 16 OR ?c 24 OR ?c 32 OR ?c 40 OR ?c 48 OR ?c 56) i = bit v i"
      unfolding bit_or_iff bit_fixed64 using bit_imp_le_length [of v i] by auto
  qed
  finally show ?thesis .
qed

section \<open>The tag of a field\<close>

lemma bit_7: "bit (7 :: byte) i \<longleftrightarrow> i < 3"
proof -
  have "(7 :: byte) = mask 3" by (simp add: mask_eq_exp_minus_1)
  then show ?thesis by (simp only: bit_mask_iff) (auto simp: possible_bit_def)
qed

lemma bit_wire: "w \<in> {WIRE_VARINT, WIRE_64BIT, WIRE_LENGTH_PREFIXED, WIRE_32BIT} \<Longrightarrow> bit w i \<Longrightarrow> i < 3"
proof -
  assume w: "w \<in> {WIRE_VARINT, WIRE_64BIT, WIRE_LENGTH_PREFIXED, WIRE_32BIT}" "bit w i"
  have "w AND 7 = w" using w(1) by (auto simp: wire_defs)
  then show ?thesis using w(2) by (metis bit_7 bit_and_iff)
qed

lemma low_wire:
  assumes "w \<in> {WIRE_VARINT, WIRE_64BIT, WIRE_LENGTH_PREFIXED, WIRE_32BIT}" "\<forall>j < 3. bit b j = bit w j"
  shows "b AND 7 = w"
proof (rule bit_eqI)
  fix j
  show "bit (b AND 7) j = bit w j" unfolding bit_and_iff bit_7 using assms bit_wire [of w j] by auto
qed

lemma bit_number:
  assumes "i < 2 ^ 29"
  shows "bit (of_nat i :: 32 word) j \<longleftrightarrow> bit i j" "bit i j \<Longrightarrow> j < 29"
proof -
  have t: "take_bit 29 i = i" using assms by (simp add: take_bit_nat_eq_self)
  show "bit i j \<Longrightarrow> j < 29" using t by (metis bit_take_bit_iff)
  have "unat (of_nat i :: 32 word) = i" using assms by (simp add: unat_of_nat)
  moreover have "bit (unat (of_nat i :: 32 word)) j \<longleftrightarrow> bit (of_nat i :: 32 word) j" unfolding bit_unsigned_iff by simp
  ultimately show "bit (of_nat i :: 32 word) j \<longleftrightarrow> bit i j" by simp
qed

lemma parse_tag:
  assumes i: "i < 2 ^ 29" and w: "w \<in> {WIRE_VARINT, WIRE_64BIT, WIRE_LENGTH_PREFIXED, WIRE_32BIT}"
  shows "parse_tag_and_wiretype (tag_pack i w @ r) = Some (of_nat i, w, r)"
proof -
  let ?x = "push_bit 3 (of_nat i) :: 32 word"
  note bw = bit_wire [OF w] and bn = bit_number [OF i]
  have bx: "bit ?x j \<longleftrightarrow> 3 \<le> j \<and> bit i (j - 3)" for j
    unfolding bit_shift32 bn(1) using bn(2) [of "j - 3"] by auto
  show ?thesis
  proof (cases "?x < 0x80")
    case True
    let ?b = "ucast ?x OR w :: byte"
    have bb: "bit ?b j \<longleftrightarrow> j < 8 \<and> 3 \<le> j \<and> bit i (j - 3) \<or> bit w j" for j unfolding bit_or_iff bit_byte bx by auto
    have "?b AND 0x80 = 0" using bb [of 7] small_bits [OF True, of 7] bx [of 7] bw [of 7] by (auto simp: and_80)
    moreover have "?b AND 7 = w" by (rule low_wire [OF w]) (use bb in auto)
    moreover have "drop_bit 3 (ucast (?b AND 0x7F)) = (of_nat i :: 32 word)"
    proof (rule bit_eqI)
      fix j
      have "bit i j \<Longrightarrow> j + 3 < 7" using small_bits [OF True, of "j + 3"] bx [of "j + 3"] by simp
      then show "bit (drop_bit 3 (ucast (?b AND 0x7F)) :: 32 word) j = bit (of_nat i :: 32 word) j"
        unfolding bit_drop_bit_eq comp_def bit_of_byte bit_and_iff bit_7F bb bn(1) using bw [of "3 + j"] by (auto simp: add.commute)
    qed
    ultimately show ?thesis using True
      by (simp add: tag_pack_def uint32_pack_def varint_pack_cases parse_tag_and_wiretype_def Let_def)
  next
    case False
    let ?b = "ucast (?x OR 0x80) OR w :: byte"
    have bb: "bit ?b j \<longleftrightarrow> j < 8 \<and> (3 \<le> j \<and> bit i (j - 3) \<or> j = 7) \<or> bit w j" for j unfolding bit_or_iff bit_byte bit_80 bx by auto
    have "?b AND 0x80 \<noteq> 0" using bb [of 7] by (simp add: and_80)
    moreover have "?b AND 7 = w" by (rule low_wire [OF w]) (use bb in auto)
    moreover have "unat (drop_bit 7 ?x) < 2 ^ (7 * Suc 3)" by (rule drop_7_unat) (use fits_35 [of ?x] in simp)
    from tag_rest_varint [OF this, of 4 _ r]
    have "tag_rest 4 4 t (varint_pack 3 (drop_bit 7 ?x) @ r) = Some (t OR push_bit 4 (drop_bit 7 ?x), r)" for t by simp
    moreover have "drop_bit 3 (ucast (?b AND 0x7F)) OR push_bit 4 (drop_bit 7 ?x) = (of_nat i :: 32 word)"
    proof (rule bit_eqI)
      fix j
      have "bit i (7 + (j - 4) - 3) = bit i j" if "4 \<le> j" using that by simp
      then show "bit (drop_bit 3 (ucast (?b AND 0x7F)) OR push_bit 4 (drop_bit 7 ?x) :: 32 word) j = bit (of_nat i :: 32 word) j"
        unfolding varint_bits bn(1)
        using bw [of "3 + j"] bn(2) [of j] by (cases "4 \<le> j") auto
    qed
    moreover have "uint32_pack ?x = ucast (?x OR 0x80) # varint_pack 3 (drop_bit 7 ?x)"
      using varint_pack_cases(2) [OF False, of 3] by (simp add: uint32_pack_def)
    ultimately show ?thesis by (simp add: tag_pack_def parse_tag_and_wiretype_def Let_def)
  qed
qed

section \<open>One field\<close>

lemma tag_pack_not_Nil [simp]: "tag_pack i w \<noteq> []"
  using uint32_pack_not_Nil by (auto simp: tag_pack_def split: list.split)

lemma scan_field:
  assumes "i < 2 ^ 29" "w \<in> {WIRE_VARINT, WIRE_64BIT, WIRE_LENGTH_PREFIXED, WIRE_32BIT}"
    and "scan_data w (data @ r) = Some (length data, pl)"
  shows "scan_members (tag_pack i w @ data @ r) =
    map_option (Cons \<lparr>sm_tag = of_nat i, sm_wire_type = w, sm_prefix_len = pl, sm_data = data\<rparr>) (scan_members r)"
proof -
  obtain b bs where b: "tag_pack i w @ data @ r = b # bs" by (cases "tag_pack i w") auto
  have "parse_tag_and_wiretype (b # bs) = Some (of_nat i, w, data @ r)" using parse_tag [OF assms(1,2), of "data @ r"] b by simp
  then show ?thesis using assms(3) b by (simp split: option.split)
qed

lemma scan_prefixed:
  assumes "length (prefixed bs) < 2 ^ 32"
  shows "scan_length_prefixed_data (prefixed bs @ r) = Some (length (prefixed bs), length (uint32_pack (of_nat (length bs))))"
proof -
  let ?u = "uint32_pack (of_nat (length bs))"
  have "unat (of_nat (length ?u) + of_nat (length bs) :: 32 word) = length ?u + length bs"
    using assms by (simp add: prefixed_def unat_of_nat flip: of_nat_add)
  moreover have "0 < length ?u" by simp
  ultimately show ?thesis
    using length_value_uint32 [of "of_nat (length bs)" "bs @ r"] by (simp add: scan_length_prefixed_data_def prefixed_def Let_def)
qed

definition wire_of :: "ptype \<Rightarrow> byte" where
  "wire_of ty = (case ty of TYPE_FLOAT \<Rightarrow> WIRE_32BIT | TYPE_DOUBLE \<Rightarrow> WIRE_64BIT | TYPE_STRING \<Rightarrow> WIRE_LENGTH_PREFIXED
     | TYPE_MESSAGE d \<Rightarrow> WIRE_LENGTH_PREFIXED | _ \<Rightarrow> WIRE_VARINT)"

definition content :: "(message \<Rightarrow> byte list) \<Rightarrow> pval \<Rightarrow> byte list" where
  "content sub v = (case v of PStr s \<Rightarrow> bytes_of (c_str s) | PMsg m \<Rightarrow> sub m | _ \<Rightarrow> [])"

definition value_bytes :: "(message \<Rightarrow> byte list) \<Rightarrow> ptype \<Rightarrow> pval \<Rightarrow> byte list" where
  "value_bytes sub ty v =
     (if wire_of ty = WIRE_LENGTH_PREFIXED then prefixed (content sub v) else packed_element ty v)"

definition member_of :: "(message \<Rightarrow> byte list) \<Rightarrow> nat \<Rightarrow> ptype \<Rightarrow> pval \<Rightarrow> scanned_member" where
  "member_of sub i ty v = \<lparr>sm_tag = of_nat i, sm_wire_type = wire_of ty,
     sm_prefix_len = (if wire_of ty = WIRE_LENGTH_PREFIXED then length (uint32_pack (of_nat (length (content sub v)))) else 0),
     sm_data = value_bytes sub ty v\<rparr>"

lemma wire_of_wires: "wire_of ty \<in> {WIRE_VARINT, WIRE_64BIT, WIRE_LENGTH_PREFIXED, WIRE_32BIT}"
  by (simp add: wire_of_def split: ptype.split)

lemma wire_packable: "wire_of ty = WIRE_LENGTH_PREFIXED \<longleftrightarrow> \<not> is_packable_type ty"
  by (cases ty) (simp_all add: wire_of_def is_packable_type_def wire_defs)

lemma required_pack: "value_fits ok ty v \<Longrightarrow> required_field_pack sub i ty v = tag_pack i (wire_of ty) @ value_bytes sub ty v"
  by (cases ty; cases v) (simp_all add: value_fits_def required_field_pack_def value_bytes_def wire_of_def content_def
      packed_element_def string_prefixed wire_defs)

lemma scan_boolean: "scan_varint (boolean_pack b @ r) = Some 1"
  using scan_varint_marks [of "[]" "if b then 1 else 0" r] by (simp add: boolean_pack_def)

lemma scan_value:
  assumes "value_fits ok ty v" "length (value_bytes sub ty v) < 2 ^ 32"
  shows "scan_data (wire_of ty) (value_bytes sub ty v @ r) = Some (length (value_bytes sub ty v), sm_prefix_len (member_of sub i ty v))"
proof (cases "wire_of ty = WIRE_LENGTH_PREFIXED")
  case True
  then show ?thesis using assms(2) scan_prefixed [of "content sub v" r]
    by (simp add: value_bytes_def member_of_def scan_data_def wire_defs)
next
  case False
  then show ?thesis using assms(1)
    by (cases ty; cases v) (simp_all add: value_fits_def value_bytes_def member_of_def scan_data_def wire_of_def wire_defs
        packed_element_def scan_int32 scan_uint32 length_fixed scan_boolean)
qed

text \<open>What is left of a value: a string ends at its first NUL.\<close>

definition canon_value :: "(message \<Rightarrow> message) \<Rightarrow> pval \<Rightarrow> pval" where
  "canon_value sub v = (case v of PStr s \<Rightarrow> PStr (c_str s) | PMsg m \<Rightarrow> PMsg (sub m) | _ \<Rightarrow> v)"

lemma parse_value:
  assumes "value_fits ok ty v" "\<And>m. v = PMsg m \<Longrightarrow> ok m \<Longrightarrow> unp (sub m) = Unpacked (can m)"
  shows "parse_required_member unp ty (member_of sub i ty v) None = Unpacked (canon_value can v)"
  using assms by (cases ty; cases v) (simp_all add: value_fits_def parse_required_member_def member_of_def wire_of_def wire_defs
      value_bytes_def packed_element_def canon_value_def parse_uint32_pack parse_int32_pack parse_fixed32 parse_fixed64
      parse_boolean_def boolean_pack_def payload_def prefixed_def content_def Let_def)

section \<open>Packed fields\<close>

lemma packed_varints_concat:
  assumes "\<And>x r. x \<in> set xs \<Longrightarrow> scan_varint (enc x @ r) = Some (length (enc x)) \<and> parse_uint32 (enc x) = x \<and> enc x \<noteq> []"
  shows "packed_varints (concat (map enc xs)) = Some xs"
  using assms
proof (induction xs)
  case (Cons x xs)
  note x = Cons.prems [of x]
  obtain b bs where b: "enc x @ concat (map enc xs) = b # bs" using x by (cases "enc x") auto
  have "scan_varint (b # bs) = Some (length (enc x))" using x [of "concat (map enc xs)"] b by simp
  moreover have "take (length (enc x)) (b # bs) = enc x" "drop (length (enc x)) (b # bs) = concat (map enc xs)"
    by (simp_all flip: b)
  ultimately have "packed_varints (b # bs) = map_option (Cons x) (packed_varints (concat (map enc xs)))"
    using x by simp
  then show ?case using Cons b by simp
qed simp

lemma chunks_concat:
  "\<forall>c \<in> set cs. length c = k \<Longrightarrow> chunks (length cs) k (concat cs) = cs \<and> length (concat cs) = length cs * k"
  by (induction cs) auto

lemma int32_pack_not_Nil: "int32_pack v \<noteq> []"
  by (simp add: int32_pack_def)

lemma values_shape:
  "value_fits ok ty v \<Longrightarrow> ty \<in> {TYPE_ENUM, TYPE_INT32, TYPE_UINT32, TYPE_FLOAT} \<Longrightarrow> \<exists>x. v = P32 x"
  "value_fits ok TYPE_DOUBLE v \<Longrightarrow> \<exists>x. v = P64 x" "value_fits ok TYPE_BOOL v \<Longrightarrow> \<exists>x. v = PBool x"
  by (cases v; auto simp: value_fits_def)+

lemma values_32: "list_all (value_fits ok ty) vs \<Longrightarrow> ty \<in> {TYPE_ENUM, TYPE_INT32, TYPE_UINT32, TYPE_FLOAT} \<Longrightarrow> \<exists>xs. vs = map P32 xs"
  and values_64: "list_all (value_fits ok TYPE_DOUBLE) vs \<Longrightarrow> \<exists>ys. vs = map P64 ys"
  and values_bool: "list_all (value_fits ok TYPE_BOOL) vs \<Longrightarrow> \<exists>zs. vs = map PBool zs"
  unfolding ex_map_conv list_all_iff using values_shape by blast+

lemma parse_packed:
  assumes "list_all (value_fits ok ty) vs" "is_packable_type ty"
  shows "parse_packed_repeated_member ty (concat (map (packed_element ty) vs)) = Unpacked vs"
proof -
  consider "ty \<in> {TYPE_ENUM, TYPE_INT32}" | "ty = TYPE_UINT32" | "ty = TYPE_FLOAT" | "ty = TYPE_DOUBLE" | "ty = TYPE_BOOL"
    using assms(2) by (cases ty) (auto simp: is_packable_type_def)
  then show ?thesis
  proof cases
    case 1
    then obtain xs where xs: "vs = map P32 xs" using values_32 [OF assms(1)] by auto
    have "packed_varints (concat (map int32_pack xs)) = Some xs"
      by (rule packed_varints_concat) (simp add: scan_int32 parse_int32_pack int32_pack_not_Nil)
    then show ?thesis using 1 xs by (auto simp: parse_packed_repeated_member_def packed_element_def comp_def)
  next
    case 2
    then obtain xs where xs: "vs = map P32 xs" using values_32 [OF assms(1)] by auto
    have "packed_varints (concat (map uint32_pack xs)) = Some xs"
      by (rule packed_varints_concat) (simp add: scan_uint32 parse_uint32_pack)
    then show ?thesis using 2 xs by (auto simp: parse_packed_repeated_member_def packed_element_def comp_def)
  next
    case 3
    then obtain xs where xs: "vs = map P32 xs" using values_32 [OF assms(1)] by auto
    have "\<forall>c \<in> set (map fixed32_pack xs). length c = 4" by (simp add: length_fixed)
    from chunks_concat [OF this] show ?thesis
      using 3 xs by (simp add: parse_packed_repeated_member_def packed_element_def comp_def parse_fixed32)
  next
    case 4
    then obtain xs where xs: "vs = map P64 xs" using values_64 assms(1) by auto
    have "\<forall>c \<in> set (map fixed64_pack xs). length c = 8" by (simp add: length_fixed)
    from chunks_concat [OF this] show ?thesis
      using 4 xs by (simp add: parse_packed_repeated_member_def packed_element_def comp_def parse_fixed64)
  next
    case 5
    then obtain xs where xs: "vs = map PBool xs" using values_bool assms(1) by auto
    have "concat (map boolean_pack xs) = map (\<lambda>b. if b then 1 else 0) xs" by (induction xs) (simp_all add: boolean_pack_def)
    then show ?thesis using 5 xs
      by (auto simp: parse_packed_repeated_member_def packed_element_def comp_def list_ex_iff)
  qed
qed

lemma canon_packed: "list_all (value_fits ok ty) vs \<Longrightarrow> is_packable_type ty \<Longrightarrow> map (canon_value can) vs = vs"
  by (induction vs) (cases ty; auto simp: value_fits_def is_packable_type_def canon_value_def split: pval.split)+

section \<open>A message\<close>

text \<open>
  The message that comes out again: the fields in the order of the table, without those that
  are not set or hold the default.
\<close>

definition canon_field :: "(message \<Rightarrow> message) \<Rightarrow> nat \<Rightarrow> plabel \<Rightarrow> ptype \<Rightarrow> message \<Rightarrow> message" where
  "canon_field sub i lab ty m =
     (case (lab, map_of m i) of
        (LABEL_NONE, Some v) \<Rightarrow> if field_is_zeroish ty v then [] else [(i, canon_value sub v)]
      | (LABEL_REPEATED p, Some (PRep vs)) \<Rightarrow> if vs = [] then [] else [(i, PRep (map (canon_value sub) vs))]
      | _ \<Rightarrow> [])"

fun canon :: "ptype \<Rightarrow> message \<Rightarrow> message" where
  "canon (TYPE_MESSAGE d) m = concat (map (\<lambda>(i, lab, ty). canon_field (canon ty) i lab ty m) d)"
| "canon ty m = m"

lemma parse_members_append:
  "parse_members fds (xs @ ys) m = ubind (parse_members fds xs m) (parse_members fds ys)"
proof (induction xs arbitrary: m)
  case (Cons x xs)
  then show ?case by (cases "parse_member fds x m") simp_all
qed simp

text \<open>What a field contributes to the bytes: members that the scanner finds and the parser turns into the field.\<close>

definition carries ::
    "(nat \<times> plabel \<times> ptype \<times> (byte list \<Rightarrow> message unpacked)) list \<Rightarrow> message \<Rightarrow> byte list \<Rightarrow> message \<Rightarrow> bool" where
  "carries fds acc bs m \<longleftrightarrow> (\<exists>sms. (\<forall>r. scan_members (bs @ r) = map_option (\<lambda>x. sms @ x) (scan_members r)) \<and>
     parse_members fds sms acc = Unpacked (acc @ m))"

lemma carries_Nil [intro]: "carries fds acc [] []"
proof -
  have "scan_members ([] @ r) = map_option (\<lambda>x. [] @ x) (scan_members r)" for r by (cases "scan_members r") simp_all
  moreover have "parse_members fds [] acc = Unpacked (acc @ [])" by simp
  ultimately show ?thesis unfolding carries_def by blast
qed

lemma carries_append:
  assumes "carries fds acc bs m" "carries fds (acc @ m) cs n"
  shows "carries fds acc (bs @ cs) (m @ n)"
proof -
  obtain xs where xs: "\<forall>r. scan_members (bs @ r) = map_option (\<lambda>x. xs @ x) (scan_members r)"
    "parse_members fds xs acc = Unpacked (acc @ m)" using assms(1) by (auto simp: carries_def)
  obtain ys where ys: "\<forall>r. scan_members (cs @ r) = map_option (\<lambda>x. ys @ x) (scan_members r)"
    "parse_members fds ys (acc @ m) = Unpacked ((acc @ m) @ n)" using assms(2) by (auto simp: carries_def)
  have "scan_members ((bs @ cs) @ r) = map_option (\<lambda>x. (xs @ ys) @ x) (scan_members r)" for r
    using xs(1) ys(1) by (cases "scan_members r") simp_all
  moreover have "parse_members fds (xs @ ys) acc = Unpacked (acc @ m @ n)" using xs(2) ys(2) by (simp add: parse_members_append)
  ultimately show ?thesis unfolding carries_def by blast
qed

lemma update_fresh: "i \<notin> fst ` set acc \<Longrightarrow> AList.update i y acc = acc @ [(i, y)]"
  by (induction acc) auto

lemma update_last: "i \<notin> fst ` set acc \<Longrightarrow> AList.update i y (acc @ [(i, x)]) = acc @ [(i, y)]"
  by (induction acc) auto

lemma map_of_fresh: "i \<notin> fst ` set acc \<Longrightarrow> map_of acc i = None"
  by (simp add: map_of_eq_None_iff)

lemma map_of_last: "i \<notin> fst ` set acc \<Longrightarrow> map_of (acc @ [(i, x)]) i = Some x"
  by (simp add: map_add_def map_of_fresh)

lemma add_fresh: "i \<notin> fst ` set acc \<Longrightarrow> ys \<noteq> [] \<Longrightarrow> add_elements i ys acc = acc @ [(i, PRep ys)]"
  by (simp add: add_elements_def map_of_fresh update_fresh)

lemma add_last: "i \<notin> fst ` set acc \<Longrightarrow> add_elements i ys (acc @ [(i, PRep xs)]) = acc @ [(i, PRep (xs @ ys))]"
  by (simp add: add_elements_def map_of_last update_last del: map_of_append)

lemma scan_required:
  assumes "i < 2 ^ 29" "value_fits ok ty v" "length (required_field_pack sub i ty v) < 2 ^ 32"
  shows "scan_members (required_field_pack sub i ty v @ r) = map_option (Cons (member_of sub i ty v)) (scan_members r)"
proof -
  have p: "required_field_pack sub i ty v = tag_pack i (wire_of ty) @ value_bytes sub ty v" by (rule required_pack [OF assms(2)])
  then have "length (value_bytes sub ty v) < 2 ^ 32" using assms(3) by simp
  from scan_field [OF assms(1) wire_of_wires scan_value [OF assms(2) this, of r i]]
  show ?thesis by (simp add: p member_of_def)
qed

lemma required_carries:
  assumes "i < 2 ^ 29" "value_fits ok ty v" "length (required_field_pack sub i ty v) < 2 ^ 32"
    and "find_field fds (of_nat i) = Some (i, LABEL_NONE, ty, unp)" "i \<notin> fst ` set acc"
    and "\<And>m. v = PMsg m \<Longrightarrow> ok m \<Longrightarrow> unp (sub m) = Unpacked (can m)"
  shows "carries fds acc (required_field_pack sub i ty v) [(i, canon_value can v)]"
  unfolding carries_def
proof (intro exI [of _ "[member_of sub i ty v]"] conjI allI)
  show "scan_members (required_field_pack sub i ty v @ r) = map_option (\<lambda>x. [member_of sub i ty v] @ x) (scan_members r)" for r
    using scan_required [OF assms(1-3), of r] by simp
  have "sm_tag (member_of sub i ty v) = of_nat i" by (simp add: member_of_def)
  then show "parse_members fds [member_of sub i ty v] acc = Unpacked (acc @ [(i, canon_value can v)])"
    using assms(4,5) parse_value [of ok ty v unp sub can i] assms(2,6) by (simp add: parse_member_def map_of_fresh update_fresh)
qed

lemma parse_element:
  assumes "value_fits ok ty v" "find_field fds (of_nat i) = Some (i, LABEL_REPEATED p, ty, unp)" "\<not> p"
    and "\<And>m. v = PMsg m \<Longrightarrow> ok m \<Longrightarrow> unp (sub m) = Unpacked (can m)"
  shows "parse_member fds (member_of sub i ty v) acc = Unpacked (add_elements i [canon_value can v] acc)"
proof -
  have "sm_tag (member_of sub i ty v) = of_nat i" "sm_wire_type (member_of sub i ty v) = wire_of ty" by (simp_all add: member_of_def)
  then show ?thesis using assms(2,3) parse_value [of ok ty v unp sub can i] assms(1,4)
    by (simp add: parse_member_def wire_packable)
qed

lemma parse_elements:
  assumes "list_all (value_fits ok ty) vs" "find_field fds (of_nat i) = Some (i, LABEL_REPEATED p, ty, unp)" "\<not> p"
    and "\<And>m. PMsg m \<in> set vs \<Longrightarrow> ok m \<Longrightarrow> unp (sub m) = Unpacked (can m)" "i \<notin> fst ` set acc"
  shows "parse_members fds (map (member_of sub i ty) vs) (acc @ [(i, PRep xs)]) =
    Unpacked (acc @ [(i, PRep (xs @ map (canon_value can) vs))])"
  using assms(1,4)
proof (induction vs arbitrary: xs)
  case (Cons v vs)
  have "parse_member fds (member_of sub i ty v) (acc @ [(i, PRep xs)]) = Unpacked (acc @ [(i, PRep (xs @ [canon_value can v]))])"
    using parse_element [of ok ty v fds i p unp sub can] Cons.prems assms(2,3,5)
    by (simp add: add_last)
  then show ?case using Cons.IH [of "xs @ [canon_value can v]"] Cons.prems by simp
qed simp

lemma scan_elements:
  assumes "i < 2 ^ 29" "list_all (value_fits ok ty) vs" "length (concat (map (required_field_pack sub i ty) vs)) < 2 ^ 32"
  shows "scan_members (concat (map (required_field_pack sub i ty) vs) @ r) = map_option (\<lambda>x. map (member_of sub i ty) vs @ x) (scan_members r)"
  using assms(2,3)
proof (induction vs)
  case Nil
  then show ?case by (cases "scan_members r") simp_all
next
  case (Cons v vs)
  then have "scan_members (concat (map (required_field_pack sub i ty) vs) @ r) = map_option (\<lambda>x. map (member_of sub i ty) vs @ x) (scan_members r)"
    by simp
  then show ?case using scan_required [OF assms(1), of ok ty v sub "concat (map (required_field_pack sub i ty) vs) @ r"] Cons.prems
    by (cases "scan_members r") simp_all
qed

lemma repeated_carries:
  assumes "i < 2 ^ 29" "list_all (value_fits ok ty) vs" "label_ok (LABEL_REPEATED p) ty"
    and "length (repeated_field_pack sub i p ty vs) < 2 ^ 32" "vs \<noteq> []"
    and "find_field fds (of_nat i) = Some (i, LABEL_REPEATED p, ty, unp)" "i \<notin> fst ` set acc"
    and "\<And>m. PMsg m \<in> set vs \<Longrightarrow> ok m \<Longrightarrow> unp (sub m) = Unpacked (can m)"
  shows "carries fds acc (repeated_field_pack sub i p ty vs) [(i, PRep (map (canon_value can) vs))]"
proof (cases p)
  case True
  let ?c = "concat (map (packed_element ty) vs)"
  let ?m = "\<lparr>sm_tag = of_nat i, sm_wire_type = WIRE_LENGTH_PREFIXED, sm_prefix_len = length (uint32_pack (of_nat (length ?c))), sm_data = prefixed ?c\<rparr>"
  have ty: "is_packable_type ty" using assms(3) True by (simp add: label_ok_def)
  have e: "repeated_field_pack sub i p ty vs = tag_pack i WIRE_LENGTH_PREFIXED @ prefixed ?c"
    using True assms(5) by (simp add: repeated_field_pack_def)
  have "scan_data WIRE_LENGTH_PREFIXED (prefixed ?c @ r) = Some (length (prefixed ?c), length (uint32_pack (of_nat (length ?c))))" for r
    using scan_prefixed [of ?c r] assms(4) e by (simp add: scan_data_def wire_defs)
  from scan_field [OF assms(1) _ this]
  have "scan_members ((tag_pack i WIRE_LENGTH_PREFIXED @ prefixed ?c) @ r) = map_option (\<lambda>x. [?m] @ x) (scan_members r)" for r by simp
  moreover have "parse_member fds ?m acc = Unpacked (add_elements i vs acc)"
    using True assms(6) parse_packed [OF assms(2) ty] by (simp add: parse_member_def payload_def prefixed_def)
  then have "parse_members fds [?m] acc = Unpacked (acc @ [(i, PRep (map (canon_value can) vs))])"
    using assms(5,7) canon_packed [OF assms(2) ty, of can] by (simp add: add_fresh)
  ultimately show ?thesis unfolding carries_def e by blast
next
  case False
  then have e: "repeated_field_pack sub i p ty vs = concat (map (required_field_pack sub i ty) vs)" by (simp add: repeated_field_pack_def)
  obtain v us where v: "vs = v # us" using assms(5) by (cases vs) auto
  have "parse_member fds (member_of sub i ty v) acc = Unpacked (acc @ [(i, PRep [canon_value can v])])"
    using parse_element [of ok ty v fds i p unp sub can acc] False assms(2,6-8) v by (simp add: add_fresh)
  then have "parse_members fds (map (member_of sub i ty) vs) acc = Unpacked (acc @ [(i, PRep (map (canon_value can) vs))])"
    using parse_elements [of ok ty us fds i p unp sub can acc "[canon_value can v]"] False assms(2,6-8) v by simp
  moreover have "\<forall>r. scan_members (concat (map (required_field_pack sub i ty) vs) @ r) = map_option (\<lambda>x. map (member_of sub i ty) vs @ x) (scan_members r)"
    using scan_elements [OF assms(1,2)] assms(4) e by simp
  ultimately show ?thesis unfolding carries_def e by blast
qed

lemma length_concat_ge: "x \<in> set xs \<Longrightarrow> length (f x) \<le> length (concat (map f xs))"
  by (induction xs) auto

text \<open>The packed submessages of a field are shorter than the field.\<close>

lemma sub_shorter:
  "value_fits ok ty (PMsg m) \<Longrightarrow> length (sub m) \<le> length (required_field_pack sub i ty (PMsg m))"
  by (cases ty) (simp_all add: value_fits_def required_field_pack_def prefixed_def)

lemma subs_shorter:
  "PMsg m \<in> set vs \<Longrightarrow> list_all (value_fits ok ty) vs \<Longrightarrow> label_ok (LABEL_REPEATED p) ty \<Longrightarrow>
   length (sub m) \<le> length (repeated_field_pack sub i p ty vs)"
proof -
  assume m: "PMsg m \<in> set vs" "list_all (value_fits ok ty) vs" "label_ok (LABEL_REPEATED p) ty"
  then have v: "value_fits ok ty (PMsg m)" by (simp add: list_all_iff)
  then have "\<not> p" using m(3) by (cases ty) (auto simp: value_fits_def label_ok_def is_packable_type_def)
  then show ?thesis
    using sub_shorter [OF v, of sub i] length_concat_ge [OF m(1), of "required_field_pack sub i ty"] by (simp add: repeated_field_pack_def)
qed

lemma field_carries:
  assumes "i < 2 ^ 29" "field_fits ok lab ty (map_of m i)" "label_ok lab ty" "length (field_pack sub i lab ty m) < 2 ^ 32"
    and "find_field fds (of_nat i) = Some (i, lab, ty, unp)" "i \<notin> fst ` set acc"
    and "\<And>m. ok m \<Longrightarrow> length (sub m) < 2 ^ 32 \<Longrightarrow> unp (sub m) = Unpacked (can m)"
  shows "carries fds acc (field_pack sub i lab ty m) (canon_field can i lab ty m)"
proof (cases "map_of m i")
  case None
  then show ?thesis by (cases lab) (simp_all add: field_pack_def canon_field_def carries_Nil)
next
  case (Some v)
  show ?thesis
  proof (cases lab)
    case LABEL_NONE
    show ?thesis
    proof (cases "field_is_zeroish ty v")
      case True
      then show ?thesis using Some LABEL_NONE by (simp add: field_pack_def canon_field_def unlabeled_field_pack_def carries_Nil)
    next
      case False
      have v: "value_fits ok ty v" using assms(2) Some LABEL_NONE by (simp add: field_fits_def)
      have f: "field_pack sub i lab ty m = required_field_pack sub i ty v"
        using Some LABEL_NONE False by (simp add: field_pack_def unlabeled_field_pack_def)
      have "carries fds acc (required_field_pack sub i ty v) [(i, canon_value can v)]"
        by (rule required_carries [OF assms(1) v, of sub fds unp acc can])
          (use assms(4-7) f LABEL_NONE v sub_shorter [of ok ty _ sub i] in \<open>auto intro: le_less_trans\<close>)
      then show ?thesis using f Some LABEL_NONE False by (simp add: canon_field_def)
    qed
  next
    case (LABEL_REPEATED p)
    then obtain vs where vs: "v = PRep vs" "list_all (value_fits ok ty) vs"
      using assms(2) Some by (cases v) (simp_all add: field_fits_def)
    have f: "field_pack sub i lab ty m = repeated_field_pack sub i p ty vs" using Some LABEL_REPEATED vs by (simp add: field_pack_def)
    show ?thesis
    proof (cases "vs = []")
      case True
      then show ?thesis using f Some LABEL_REPEATED vs by (simp add: canon_field_def repeated_field_pack_def carries_Nil)
    next
      case False
      have "carries fds acc (repeated_field_pack sub i p ty vs) [(i, PRep (map (canon_value can) vs))]"
        by (rule repeated_carries [OF assms(1) vs(2), of p sub fds unp acc can])
          (use assms(3-7) f LABEL_REPEATED vs False subs_shorter [of _ vs ok ty p sub i] in \<open>auto intro: le_less_trans\<close>)
      then show ?thesis using f Some LABEL_REPEATED vs False by (simp add: canon_field_def)
    qed
  qed
qed

lemma canon_field_keys: "fst ` set (canon_field can i lab ty m) \<subseteq> {i}"
  by (auto simp: canon_field_def split: plabel.splits option.splits pval.splits if_splits)

lemma fields_carry:
  assumes "\<And>i lab ty acc. (i, lab, ty) \<in> set ds \<Longrightarrow> i \<notin> fst ` set acc \<Longrightarrow>
      carries fds acc (field_pack (message_pack ty) i lab ty m) (canon_field (canon ty) i lab ty m)"
    and "distinct (map fst ds)" "fst ` set acc \<inter> fst ` set ds = {}"
  shows "carries fds acc (message_pack (TYPE_MESSAGE ds) m) (canon (TYPE_MESSAGE ds) m)"
  using assms
proof (induction ds arbitrary: acc)
  case Nil
  then show ?case by (simp add: carries_Nil)
next
  case (Cons f ds)
  obtain i lab ty where f: "f = (i, lab, ty)" by (cases f) auto
  let ?c = "canon_field (canon ty) i lab ty m"
  have "carries fds acc (field_pack (message_pack ty) i lab ty m) ?c"
    using Cons.prems(1) [of i lab ty acc] Cons.prems(3) f by auto
  moreover have "carries fds (acc @ ?c) (message_pack (TYPE_MESSAGE ds) m) (canon (TYPE_MESSAGE ds) m)"
  proof (rule Cons.IH)
    show "fst ` set (acc @ ?c) \<inter> fst ` set ds = {}"
      using Cons.prems(2,3) canon_field_keys [of "canon ty" i lab ty m] f by auto
  qed (use Cons.prems(1,2) in auto)
  ultimately show ?case using f carries_append by simp
qed

lemma find_field_table:
  assumes "distinct (map fst d)" "(i, lab, ty) \<in> set d" "i < 2 ^ 29"
  shows "find_field (map (\<lambda>(i, lab, ty). (i, lab, ty, g ty)) d) (of_nat i) = Some (i, lab, ty, g ty)"
proof -
  have u: "unat (of_nat i :: 32 word) = i" using assms(3) by (simp add: unat_of_nat)
  show ?thesis unfolding find_field_def u using assms(1,2)
    by (induction d) (auto simp: image_iff)
qed

lemma unpack_pack:
  "valid_type ty \<Longrightarrow> well_typed ty m \<Longrightarrow> length (message_pack ty m) < 2 ^ 32 \<Longrightarrow>
   message_unpack ty (message_pack ty m) = Unpacked (canon ty m)"
proof (induction ty arbitrary: m)
  case (TYPE_MESSAGE d)
  let ?fds = "map (\<lambda>(i, lab, ty). (i, lab, ty, message_unpack ty)) d"
  have "carries ?fds acc (field_pack (message_pack ty) i lab ty m) (canon_field (canon ty) i lab ty m)"
    if t: "(i, lab, ty) \<in> set d" and acc: "i \<notin> fst ` set acc" for i lab ty acc
  proof (rule field_carries [where ok = "well_typed ty" and unp = "message_unpack ty"])
    show i: "i < 2 ^ 29" and "label_ok lab ty" "field_fits (well_typed ty) lab ty (map_of m i)"
      using TYPE_MESSAGE.prems(1,2) t by (auto simp: list_all_iff)
    show "find_field ?fds (of_nat i) = Some (i, lab, ty, message_unpack ty)"
      using find_field_table [OF _ t i] TYPE_MESSAGE.prems(1) by simp
    have "length (field_pack (message_pack ty) i lab ty m) \<le> length (message_pack (TYPE_MESSAGE d) m)"
      using length_concat_ge [OF t, of "\<lambda>(i, lab, ty). field_pack (message_pack ty) i lab ty m"] by simp
    then show "length (field_pack (message_pack ty) i lab ty m) < 2 ^ 32" using TYPE_MESSAGE.prems(3) by linarith
    show "message_unpack ty (message_pack ty n) = Unpacked (canon ty n)"
      if "well_typed ty n" "length (message_pack ty n) < 2 ^ 32" for n
      using TYPE_MESSAGE.IH t that TYPE_MESSAGE.prems(1) by (fastforce simp: list_all_iff)
  qed (rule acc)
  then have "carries ?fds [] (message_pack (TYPE_MESSAGE d) m) (canon (TYPE_MESSAGE d) m)"
    by (rule fields_carry) (use TYPE_MESSAGE.prems(1) in simp_all)
  then obtain sms where "\<forall>r. scan_members (message_pack (TYPE_MESSAGE d) m @ r) = map_option (\<lambda>x. sms @ x) (scan_members r)"
    "parse_members ?fds sms [] = Unpacked (canon (TYPE_MESSAGE d) m)" by (auto simp: carries_def)
  moreover from this(1) [rule_format, of "[]"] have "scan_members (message_pack (TYPE_MESSAGE d) m) = Some sms" by simp
  ultimately show ?case by simp
qed simp_all

text \<open>C11. A packed message unpacks to itself: for every valid table and every well-typed message of fewer than \<open>2 ^ 32\<close>
  bytes the receiver gets the message with the fields in the order of the table, strings cut at their first NUL,
  and fields that hold the default value left out.\<close>

theorem protobuf_roundtrip:
  assumes "valid_type (TYPE_MESSAGE d)" "well_typed (TYPE_MESSAGE d) m" "length (protobuf_c_message_pack d m) < 2 ^ 32"
  shows "protobuf_c_message_unpack d (protobuf_c_message_pack d m) = Unpacked (canon (TYPE_MESSAGE d) m)"
  using unpack_pack [OF assms(1,2)] assms(3) by (simp add: protobuf_c_message_unpack_def protobuf_c_message_pack_def)

theorem protobuf_roundtrip_witness:
  "protobuf_c_message_unpack main_message_descriptor (protobuf_c_message_pack main_message_descriptor sample_message) =
     Unpacked sample_message"
proof -
  have "length (protobuf_c_message_pack main_message_descriptor sample_message) = 26" by code_simp
  moreover have "canon (TYPE_MESSAGE main_message_descriptor) sample_message = sample_message"
    by code_simp
  ultimately show ?thesis using protobuf_roundtrip [OF main_message_valid sample_message_typed] by simp
qed

end
