(* ===== verification/Protobuf_Types.thy ===== *)
theory Protobuf_Types
  imports Protobuf_Roundtrip
begin

text \<open>
  The parser of \<^verbatim>\<open>protobuf-c.c\<close> respects the tables: whatever it is given, the message it builds
  is well typed. The case that needs an argument of its own is a submessage that occurs twice,
  where the two are merged.
\<close>

lemma map_of_table:
  assumes "distinct (map fst d)" "(i, lab, ty) \<in> set d"
  shows "map_of (concat (map (\<lambda>(i, lab, ty). case F i lab ty of None \<Rightarrow> [] | Some v \<Rightarrow> [(i, v)]) d)) i = F i lab ty"
  using assms
proof (induction d)
  case (Cons f d)
  obtain j l t where f: "f = (j, l, t)" by (cases f) auto
  show ?case
  proof (cases "j = i")
    case True
    then have "l = lab" "t = ty" using Cons.prems f by (auto simp: image_iff)
    moreover have "map_of (concat (map (\<lambda>(i, lab, ty). case F i lab ty of None \<Rightarrow> [] | Some v \<Rightarrow> [(i, v)]) d)) i = None"
      using Cons.prems(1) f True by (auto simp: map_of_eq_None_iff image_iff split: option.splits)
    ultimately show ?thesis using f True by (simp add: map_add_def split: option.split)
  next
    case False
    then have "(i, lab, ty) \<in> set d" "distinct (map fst d)" using Cons.prems f by auto
    then show ?thesis using Cons.IH f False by (auto simp: map_add_def split: option.split)
  qed
qed simp

lemma merge_field_fits:
  assumes "field_fits ok lab ty e" "field_fits ok lab ty l" "\<And>a b. ok a \<Longrightarrow> ok b \<Longrightarrow> ok (sub a b)"
  shows "field_fits ok lab ty (merge_field sub lab ty e l)"
proof (cases lab)
  case LABEL_NONE
  then show ?thesis using assms
    by (cases ty; cases e; cases l) (auto simp: merge_field_def field_fits_def value_fits_def split: pval.splits)
next
  case (LABEL_REPEATED p)
  then show ?thesis using assms(1,2)
    by (cases e; cases l) (auto simp: merge_field_def field_fits_def split: pval.splits)
qed

lemma merge_typed:
  "valid_type ty \<Longrightarrow> well_typed ty em \<Longrightarrow> well_typed ty lm \<Longrightarrow> well_typed ty (merge_messages ty em lm)"
proof (induction ty arbitrary: em lm)
  case (TYPE_MESSAGE d)
  let ?F = "\<lambda>i lab ty. merge_field (merge_messages ty) lab ty (map_of em i) (map_of lm i)"
  have "field_fits (well_typed ty) lab ty (map_of (merge_messages (TYPE_MESSAGE d) em lm) i)" if t: "(i, lab, ty) \<in> set d" for i lab ty
  proof -
    have "map_of (merge_messages (TYPE_MESSAGE d) em lm) i = ?F i lab ty"
      using map_of_table [OF _ t, of ?F] TYPE_MESSAGE.prems(1) by simp
    moreover have "field_fits (well_typed ty) lab ty (?F i lab ty)"
    proof (rule merge_field_fits)
      show "field_fits (well_typed ty) lab ty (map_of em i)" "field_fits (well_typed ty) lab ty (map_of lm i)"
        using TYPE_MESSAGE.prems(2,3) t by (auto simp: list_all_iff)
      show "well_typed ty (merge_messages ty a b)" if "well_typed ty a" "well_typed ty b" for a b
        using TYPE_MESSAGE.IH t that TYPE_MESSAGE.prems(1) by (fastforce simp: list_all_iff)
    qed
    ultimately show ?thesis by simp
  qed
  then show ?case by (auto simp: list_all_iff)
qed simp_all

lemma ubind_Unpacked: "ubind x f = Unpacked y \<longleftrightarrow> (\<exists>z. x = Unpacked z \<and> f z = Unpacked y)"
  by (cases x) auto

lemma parse_required_typed:
  assumes "parse_required_member unp ty sm old = Unpacked v" "\<And>bs m. unp bs = Unpacked m \<Longrightarrow> ok m"
    and "field_fits ok LABEL_NONE ty old" "\<And>a b. ok a \<Longrightarrow> ok b \<Longrightarrow> ok (merge_messages ty a b)"
  shows "value_fits ok ty v"
  using assms by (cases ty) (auto simp: parse_required_member_def value_fits_def field_fits_def ubind_Unpacked Let_def
      split: if_splits option.splits pval.splits)

lemma parse_packed_typed:
  "parse_packed_repeated_member ty bs = Unpacked vs \<Longrightarrow> is_packable_type ty \<Longrightarrow> list_all (value_fits ok ty) vs"
  by (cases ty) (auto simp: parse_packed_repeated_member_def is_packable_type_def list_all_iff value_fits_def split: if_splits option.splits)

lemma add_elements_fits:
  "field_fits ok (LABEL_REPEATED p) ty (map_of m i) \<Longrightarrow> list_all (value_fits ok ty) vs \<Longrightarrow>
   field_fits ok (LABEL_REPEATED p) ty (map_of (add_elements i vs m) i)"
  by (auto simp: add_elements_def field_fits_def update_conv' split: option.splits pval.splits)

lemma add_elements_other: "j \<noteq> i \<Longrightarrow> map_of (add_elements i vs m) j = map_of m j"
  by (auto simp: add_elements_def update_conv' split: option.splits pval.splits)

lemma well_typed_iff:
  "well_typed (TYPE_MESSAGE d) m \<longleftrightarrow> (\<forall>i lab ty. (i, lab, ty) \<in> set d \<longrightarrow> field_fits (well_typed ty) lab ty (map_of m i))"
  by (auto simp: list_all_iff)

text \<open>The table with the parsers of the submessages.\<close>

abbreviation table :: "descriptor \<Rightarrow> (nat \<times> plabel \<times> ptype \<times> (byte list \<Rightarrow> message unpacked)) list" where
  "table d \<equiv> map (\<lambda>(i, lab, ty). (i, lab, ty, message_unpack ty)) d"

lemma parse_field_typed:
  assumes "valid_type ty" "label_ok lab ty" "\<And>bs n. unp bs = Unpacked n \<Longrightarrow> well_typed ty n"
    and "find_field fds (sm_tag sm) = Some (i, lab, ty, unp)" "parse_member fds sm m = Unpacked m'"
    and "field_fits (well_typed ty) lab ty (map_of m i)"
  shows "field_fits (well_typed ty) lab ty (map_of m' i) \<and> (\<forall>j. j \<noteq> i \<longrightarrow> map_of m' j = map_of m j)"
proof -
  note req = parse_required_typed [of unp ty sm _ _ "well_typed ty", OF _ assms(3) _ merge_typed [OF assms(1)]]
  show ?thesis
  proof (cases lab)
    case LABEL_NONE
    then obtain x where "parse_required_member unp ty sm (map_of m i) = Unpacked x" "m' = AList.update i x m"
      using assms(4,5) by (auto simp: parse_member_def ubind_Unpacked)
    then show ?thesis using req [of "map_of m i" x] assms(6) LABEL_NONE by (simp add: update_conv' field_fits_def)
  next
    case (LABEL_REPEATED p)
    have none: "field_fits (well_typed ty) LABEL_NONE ty None" by (simp add: field_fits_def)
    obtain vs where "m' = add_elements i vs m" "list_all (value_fits (well_typed ty) ty) vs"
      using assms(2,4,5) LABEL_REPEATED req [of None] none parse_packed_typed [of ty _ _ "well_typed ty"]
      by (auto simp: parse_member_def ubind_Unpacked label_ok_def split: if_splits)
    then show ?thesis using assms(6) LABEL_REPEATED by (simp add: add_elements_fits add_elements_other)
  qed
qed

lemma parse_member_typed:
  assumes valid: "valid_type (TYPE_MESSAGE d)"
    and sub: "\<And>i lab ty bs n. (i, lab, ty) \<in> set d \<Longrightarrow> message_unpack ty bs = Unpacked n \<Longrightarrow> well_typed ty n"
    and parsed: "parse_member (table d) sm m = Unpacked m'" and typed: "well_typed (TYPE_MESSAGE d) m"
  shows "well_typed (TYPE_MESSAGE d) m'"
proof (cases "find_field (table d) (sm_tag sm)")
  case None
  then show ?thesis using parsed typed by (simp add: parse_member_def)
next
  case (Some f)
  obtain i lab ty unp where f: "find_field (table d) (sm_tag sm) = Some (i, lab, ty, unp)" using Some by (cases f) auto
  have "(i, lab, ty, unp) \<in> set (table d)" by (rule find_field_in [OF f])
  then have t: "(i, lab, ty) \<in> set d" "unp = message_unpack ty" by auto
  have v: "valid_type ty" "label_ok lab ty" "distinct (map fst d)" using t(1) valid by (auto simp: list_all_iff)
  have "field_fits (well_typed ty) lab ty (map_of m' i) \<and> (\<forall>j. j \<noteq> i \<longrightarrow> map_of m' j = map_of m j)"
  proof (rule parse_field_typed [OF v(1,2) _ f parsed])
    show "well_typed ty n" if "unp bs = Unpacked n" for bs n using sub [OF t(1)] t(2) that by simp
    show "field_fits (well_typed ty) lab ty (map_of m i)" using typed t(1) unfolding well_typed_iff by blast
  qed
  moreover have "lab' = lab \<and> ty' = ty" if "(i, lab', ty') \<in> set d" for lab' ty'
    using eq_key_imp_eq_value [OF v(3) t(1) that] by simp
  ultimately show ?thesis using typed unfolding well_typed_iff by metis
qed

lemma unpack_typed: "valid_type ty \<Longrightarrow> message_unpack ty bs = Unpacked m \<Longrightarrow> well_typed ty m"
proof (induction ty arbitrary: bs m)
  case (TYPE_MESSAGE d)
  have sub: "well_typed ty n" if "(i, lab, ty) \<in> set d" "message_unpack ty bs = Unpacked n" for i lab ty bs n
    using TYPE_MESSAGE.IH that TYPE_MESSAGE.prems(1) by (fastforce simp: list_all_iff)
  have "well_typed (TYPE_MESSAGE d) m'" if "parse_members (table d) sms m = Unpacked m'" "well_typed (TYPE_MESSAGE d) m" for sms m m'
    using that
  proof (induction sms arbitrary: m)
    case (Cons sm sms)
    then obtain m1 where m1: "parse_member (table d) sm m = Unpacked m1" "parse_members (table d) sms m1 = Unpacked m'"
      by (auto simp: ubind_Unpacked)
    have "well_typed (TYPE_MESSAGE d) m1"
      by (rule parse_member_typed [OF TYPE_MESSAGE.prems(1) _ m1(1) Cons.prems(2)]) (rule sub)
    then show ?case by (rule Cons.IH [OF m1(2)])
  qed simp
  moreover obtain sms where "parse_members (table d) sms [] = Unpacked m" using TYPE_MESSAGE.prems(2) by (auto split: option.splits)
  moreover have "well_typed (TYPE_MESSAGE d) []" by (simp add: list_all_iff field_fits_def)
  ultimately show ?case by blast
qed simp_all

text \<open>C13. Whatever bytes arrive, a message that is unpacked has in every field a value of the type the table says, so
  that the program may read its members by that type.\<close>

theorem unpack_well_typed:
  assumes "valid_type (TYPE_MESSAGE d)" "protobuf_c_message_unpack d bs = Unpacked m"
  shows "well_typed (TYPE_MESSAGE d) m"
  using unpack_typed [OF assms(1)] assms(2) by (simp add: protobuf_c_message_unpack_def)

theorem unpack_well_typed_witness:
  "protobuf_c_message_unpack status_code_descriptor [0x10, 0x2A] = Unpacked [(2, P32 42)] \<and>
   well_typed (TYPE_MESSAGE status_code_descriptor) [(2, P32 42)]"
proof -
  have "protobuf_c_message_unpack status_code_descriptor [0x10, 0x2A] = Unpacked [(2, P32 42)]" by code_simp
  moreover have "valid_type (TYPE_MESSAGE status_code_descriptor)"
    by (simp add: status_code_descriptor_def label_ok_def)
  ultimately show ?thesis using unpack_well_typed by blast
qed

end
