(* ===== verification/Sent_Frames.thy ===== *)
theory Sent_Frames
  imports App_Ota Protobuf_Types
begin

text \<open>
  The frames of \<^verbatim>\<open>app_websocket.c\<close>: all messages it builds are packed into one buffer of
  \<^verbatim>\<open>WS_BUFFER_SIZE\<close> bytes without a check of the size. A bound on the packed length follows from the values
  alone (\<open>weight\<close>), whatever the table.
\<close>

section \<open>A bound on the length\<close>

fun weight :: "pval \<Rightarrow> nat" where
  "weight (P32 x) = 10"
| "weight (P64 x) = 8"
| "weight (PBool b) = 1"
| "weight (PStr s) = 5 + length s"
| "weight (PMsg m) = 5 + sum_list (map (\<lambda>(i, v). 5 + weight v) m)"
| "weight (PRep vs) = 5 + sum_list (map (\<lambda>v. 5 + weight v) vs)"

abbreviation message_weight :: "message \<Rightarrow> nat" where
  "message_weight m \<equiv> sum_list (map (\<lambda>(i, v). 5 + weight v) m)"

lemma length_uint32_le: "length (uint32_pack v) \<le> 5"
proof -
  have "length (varint_pack n v) \<le> Suc n" for n and v :: "32 word"
  proof (induction n arbitrary: v)
    case (Suc n)
    then show ?case by (cases "v < 0x80") (simp_all add: varint_pack_cases)
  qed simp
  from this [of 4 v] show ?thesis by (simp add: uint32_pack_def)
qed

lemma length_int32_le: "length (int32_pack v) \<le> 10"
  using length_uint32_le [of v] by (simp add: int32_pack_def)

lemma length_tag_le: "length (tag_pack i w) \<le> 5"
  using length_uint32_le [of "push_bit 3 (of_nat i)"] by (auto simp: tag_pack_def split: list.split)

lemma length_prefixed_le: "length (prefixed bs) \<le> 5 + length bs"
  using length_uint32_le [of "of_nat (length bs)"] by (simp add: prefixed_def)

lemma length_c_str: "length (c_str s) \<le> length s"
  by (simp add: c_str_def length_takeWhile_le)

lemma required_le:
  assumes "\<And>m. v = PMsg m \<Longrightarrow> length (sub m) \<le> message_weight m"
  shows "length (required_field_pack sub i ty v) \<le> 5 + weight v"
proof (cases v)
  case (P32 x)
  then show ?thesis
    using length_tag_le [of i WIRE_VARINT] length_tag_le [of i WIRE_32BIT] length_int32_le [of x] length_uint32_le [of x]
    by (cases ty) (simp_all add: required_field_pack_def length_fixed)
next
  case (P64 x)
  then show ?thesis using length_tag_le [of i] by (cases ty) (auto simp: required_field_pack_def length_fixed)
next
  case (PBool x)
  then show ?thesis using length_tag_le [of i] by (cases ty) (auto simp: required_field_pack_def length_fixed)
next
  case (PStr s)
  have "length (string_pack s) \<le> 5 + length s"
    using length_prefixed_le [of "bytes_of (c_str s)"] length_c_str [of s] by (simp add: string_prefixed)
  then show ?thesis using PStr length_tag_le [of i WIRE_LENGTH_PREFIXED] by (cases ty) (auto simp: required_field_pack_def)
next
  case (PMsg m)
  have "length (prefixed (sub m)) \<le> 5 + message_weight m" using length_prefixed_le [of "sub m"] assms [OF PMsg] by simp
  then show ?thesis using PMsg length_tag_le [of i WIRE_LENGTH_PREFIXED] by (cases ty) (auto simp: required_field_pack_def)
next
  case (PRep vs)
  then show ?thesis by (cases ty) (auto simp: required_field_pack_def)
qed

lemma element_le: "length (packed_element ty v) \<le> weight v"
  using length_int32_le length_uint32_le
  by (cases ty; cases v) (auto simp: packed_element_def length_fixed intro: order_trans [OF length_uint32_le])

lemma sum_list_concat_le:
  "(\<And>x. x \<in> set xs \<Longrightarrow> length (f x) \<le> g x) \<Longrightarrow> length (concat (map f xs)) \<le> sum_list (map g xs)"
proof (induction xs)
  case (Cons x xs)
  then show ?case using Cons.prems [of x] by (simp add: add_mono)
qed simp

lemma repeated_le:
  assumes "\<And>m. PMsg m \<in> set vs \<Longrightarrow> length (sub m) \<le> message_weight m"
  shows "length (repeated_field_pack sub i p ty vs) \<le> 5 + weight (PRep vs)"
proof (cases p)
  case True
  let ?c = "concat (map (packed_element ty) vs)"
  have "length ?c \<le> sum_list (map (\<lambda>v. 5 + weight v) vs)"
    by (rule sum_list_concat_le) (use element_le trans_le_add2 in blast)
  then show ?thesis using True length_tag_le [of i WIRE_LENGTH_PREFIXED] length_prefixed_le [of ?c] by (simp add: repeated_field_pack_def)
next
  case False
  have "length (concat (map (required_field_pack sub i ty) vs)) \<le> sum_list (map (\<lambda>v. 5 + weight v) vs)"
    by (rule sum_list_concat_le, rule required_le) (use assms in blast)
  then show ?thesis using False by (simp add: repeated_field_pack_def)
qed

lemma field_le:
  assumes "\<And>m. length (sub m) \<le> message_weight m"
  shows "length (field_pack sub i lab ty m) \<le> (case map_of m i of None \<Rightarrow> 0 | Some v \<Rightarrow> 5 + weight v)"
proof (cases "map_of m i")
  case None
  then show ?thesis by (cases lab) (simp_all add: field_pack_def)
next
  case (Some v)
  then show ?thesis using required_le [of v sub i ty] repeated_le [of _ sub i _ ty] assms
    by (cases lab; cases v) (simp_all add: field_pack_def unlabeled_field_pack_def)
qed

lemma sum_lookup_le:
  "distinct is \<Longrightarrow> (\<Sum>i\<leftarrow>is. case map_of m i of None \<Rightarrow> 0 | Some v \<Rightarrow> f v) \<le> (\<Sum>(i, v)\<leftarrow>m. (f v :: nat))"
proof (induction m)
  case Nil
  then show ?case by simp
next
  case (Cons a m)
  obtain j v where a: "a = (j, v)" by (cases a) auto
  let ?g = "\<lambda>i. case map_of m i of None \<Rightarrow> 0 | Some v \<Rightarrow> f v"
  have "(\<Sum>i\<leftarrow>is. case map_of (a # m) i of None \<Rightarrow> 0 | Some v \<Rightarrow> f v) \<le> f v + (\<Sum>i\<leftarrow>is. ?g i)"
    using Cons.prems
  proof (induction "is")
    case (Cons i "is")
    have "(\<Sum>i\<leftarrow>is. case map_of (a # m) i of None \<Rightarrow> 0 | Some v \<Rightarrow> f v) = (\<Sum>i\<leftarrow>is. ?g i)" if "i = j"
      using Cons.prems that a by (intro arg_cong [where f = sum_list] map_cong) auto
    then show ?case using Cons a by (cases "i = j") auto
  qed simp
  then show ?case using Cons a by simp
qed

lemma message_le: "valid_type ty \<Longrightarrow> length (message_pack ty m) \<le> message_weight m"
proof (induction ty arbitrary: m)
  case (TYPE_MESSAGE d)
  let ?g = "\<lambda>i. case map_of m i of None \<Rightarrow> 0 | Some v \<Rightarrow> 5 + weight v"
  have "length (concat (map (\<lambda>(i, lab, ty). field_pack (message_pack ty) i lab ty m) d)) \<le> (\<Sum>(i, lab, ty)\<leftarrow>d. ?g i)"
  proof (rule sum_list_concat_le)
    fix x
    assume x: "x \<in> set d"
    obtain i lab ty where t: "x = (i, lab, ty)" by (cases x) auto
    have "length (message_pack ty n) \<le> message_weight n" for n
      using TYPE_MESSAGE x t by (fastforce simp: list_all_iff)
    then show "length (case x of (i, lab, ty) \<Rightarrow> field_pack (message_pack ty) i lab ty m) \<le> (case x of (i, lab, ty) \<Rightarrow> ?g i)"
      using field_le [of "message_pack ty" i lab ty m] t by simp
  qed
  also have "(\<Sum>(i, lab, ty)\<leftarrow>d. ?g i) = (\<Sum>i\<leftarrow>map fst d. ?g i)" by (simp add: comp_def case_prod_unfold)
  also have "\<dots> \<le> message_weight m" using sum_lookup_le [of "map fst d" "\<lambda>v. 5 + weight v" m] TYPE_MESSAGE.prems by simp
  finally show ?case by simp
qed simp_all

section \<open>The messages of the firmware\<close>

definition WS_BUFFER_SIZE :: nat where "WS_BUFFER_SIZE = 1024 * 5"

inductive sent_message :: "app_websocket_t \<Rightarrow> message \<Rightarrow> bool" for h where
  sent_power_state: "sent_message h (power_state_message (device_id h) b)"
| sent_mode: "sent_message h (mode_message (device_id h) mode)"
| sent_meter: "sent_message h (meter_message (device_id h) d)"
| sent_active_time: "sent_message h (active_time_message (device_id h) t)"
| sent_register: "sent_message h (register_message h)"
| sent_login: "sent_message h (login_message h)"
| sent_ping: "sent_message h (ping_message h)"

lemmas message_defs = power_state_message_def mode_message_def meter_message_def active_time_message_def
  register_message_def login_message_def ping_message_def update_message_def auth_message_def str_field_def hm_time_def

text \<open>The texts the messages carry: the identity the cloud has given, the name and the version of the device.\<close>

definition texts_length :: "app_websocket_t \<Rightarrow> nat" where
  "texts_length h = (case device_id h of None \<Rightarrow> 0 | Some s \<Rightarrow> length s) + length (ws_hardware_id h) + length (firmware_version h)"

lemma sent_weight: "sent_message h m \<Longrightarrow> message_weight m \<le> texts_length h + 300"
  by (induction rule: sent_message.induct) (auto simp: message_defs texts_length_def split: option.split)

lemma sent_typed: "sent_message h m \<Longrightarrow> well_typed (TYPE_MESSAGE main_message_descriptor) m"
  by (induction rule: sent_message.induct)
    (auto simp: message_defs descriptor_defs field_fits_def value_fits_def split: option.split)

text \<open>C12. Every message the device sends fits its transmit buffer, which the code does not check, as long as the texts in it
  have at most 4096 characters together, and the receiver unpacks the message that was meant.\<close>

theorem sent_frames_received:
  assumes "sent_message h m" "texts_length h \<le> 4096"
  shows "length (main_message__pack m) \<le> WS_BUFFER_SIZE \<and>
    main_message__unpack (main_message__pack m) = Unpacked (canon (TYPE_MESSAGE main_message_descriptor) m)"
proof -
  have l: "length (main_message__pack m) \<le> 4396"
    using message_le [OF main_message_valid, of m] sent_weight [OF assms(1)] assms(2)
    by (simp only: main_message__pack_def protobuf_c_message_pack_def)
  moreover have "(4396 :: nat) < 2 ^ 32" by simp
  ultimately have "length (message_pack (TYPE_MESSAGE main_message_descriptor) m) < 2 ^ 32"
    by (simp only: main_message__pack_def protobuf_c_message_pack_def)
  from unpack_pack [OF main_message_valid sent_typed [OF assms(1)] this] l show ?thesis
    by (simp only: main_message__pack_def main_message__unpack_def protobuf_c_message_pack_def protobuf_c_message_unpack_def
        WS_BUFFER_SIZE_def) simp
qed

theorem sent_frames_received_witness:
  "length (main_message__pack (register_message sample_socket)) \<le> 5120 \<and>
   main_message__unpack (main_message__pack (register_message sample_socket)) =
     Unpacked (canon (TYPE_MESSAGE main_message_descriptor) (register_message sample_socket))"
proof -
  have "texts_length sample_socket \<le> 4096" by (simp add: texts_length_def sample_socket_def)
  from sent_frames_received [OF sent_register this] show ?thesis by (simp add: WS_BUFFER_SIZE_def)
qed

end
