(* ===== verification/Protobuf_Lookup.thy ===== *)
theory Protobuf_Lookup
  imports Protobuf "HOL-Library.Char_ord" "HOL-Library.List_Lexorder"
begin

text \<open>
  The binary searches of \<^verbatim>\<open>protobuf-c.c\<close>: a number in a table of ranges (\<^verbatim>\<open>int_range_lookup\<close>, which finds the
  field of a received tag and the value of an enumeration) and a name in a sorted index. Every search is shown to agree
  with a search through the whole table, for every table that is well formed. A range is its first number
  and the index of that number; the last entry of a table has the number of indices. \<open>None\<close> is an access outside the
  table.
\<close>

section \<open>Bisection\<close>

text \<open>The loop all searches share, over a comparison that says whether the place is below, at or above the one sought.\<close>

function bisect :: "(nat \<Rightarrow> int) \<Rightarrow> nat \<Rightarrow> nat \<Rightarrow> nat option" where
  "bisect cmp start n =
     (if 1 < n then
        let mid = start + n div 2
        in if cmp mid = 0 then Some mid
           else if cmp mid < 0 then bisect cmp (mid + 1) (start + n - (mid + 1))
           else bisect cmp start (mid - start)
      else if 0 < n \<and> cmp start = 0 then Some start
      else None)"
  by pat_completeness auto

termination by (relation "measure (\<lambda>(_, _, n). n)") auto

declare bisect.simps [simp del]

lemma bisect_correct:
  assumes "\<forall>i j. i < j \<longrightarrow> j < m \<longrightarrow> 0 \<le> cmp i \<longrightarrow> 0 < cmp j"
  shows "start + n \<le> m \<Longrightarrow> bisect cmp start n = Some k \<longleftrightarrow> start \<le> k \<and> k < start + n \<and> cmp k = 0"
proof (induction n arbitrary: start rule: less_induct)
  case (less n)
  show ?case
  proof (cases "1 < n")
    case False
    then consider "n = 0" | "n = 1" by linarith
    then show ?thesis by cases (auto simp: bisect.simps less_Suc_eq_le)
  next
    case True
    let ?mid = "start + n div 2"
    have m: "?mid < start + n" "?mid < m" "start \<le> ?mid" using True less.prems by linarith+
    have u: "bisect cmp start n =
        (if cmp ?mid = 0 then Some ?mid
         else if cmp ?mid < 0 then bisect cmp (?mid + 1) (start + n - (?mid + 1)) else bisect cmp start (?mid - start))"
      using True by (subst bisect.simps) (simp add: Let_def)
    have below: "cmp k < 0" if "k < ?mid" "cmp ?mid \<le> 0" using assms that m(2) by (metis not_le)
    have above: "0 < cmp k" if "?mid < k" "k < start + n" "0 \<le> cmp ?mid" using assms that less.prems by (meson order_less_le_trans)
    consider (at) "cmp ?mid = 0" | (lo) "cmp ?mid < 0" | (hi) "0 < cmp ?mid" by linarith
    then show ?thesis
    proof cases
      case at
      have "k = ?mid" if "k < start + n" "cmp k = 0" using that at below above by (cases k ?mid rule: linorder_cases) simp_all
      then show ?thesis using u at m by auto
    next
      case lo
      have s: "?mid + 1 + (start + n - (?mid + 1)) = start + n" "start + n - (?mid + 1) < n" using m by auto
      have "?mid + 1 \<le> k" if "cmp k = 0" using that lo below by (cases k ?mid rule: linorder_cases) simp_all
      then show ?thesis using u lo m less.IH [OF s(2), of "?mid + 1"] s(1) less.prems by auto
    next
      case hi
      have "k < ?mid" if "cmp k = 0" "k < start + n" using that hi above by (cases k ?mid rule: linorder_cases) simp_all
      then show ?thesis using u hi True m less.IH [of "?mid - start" start] less.prems by auto
    qed
  qed
qed

section \<open>Numbers\<close>

type_synonym ranges = "(int \<times> nat) list"

definition range_at :: "ranges \<Rightarrow> nat \<Rightarrow> (int \<times> int) option" where
  "range_at rs i = (if i + 1 < length rs
     then Some (fst (rs ! i), wrap32 (int (snd (rs ! (i + 1))) - int (snd (rs ! i)))) else None)"

function range_search :: "ranges \<Rightarrow> int \<Rightarrow> nat \<Rightarrow> nat \<Rightarrow> int option" where
  "range_search rs v start n =
     (if 1 < n then
        let mid = start + n div 2
        in case range_at rs mid of
             None \<Rightarrow> None
           | Some (first, sz) \<Rightarrow>
               if v < first then range_search rs v start (mid - start)
               else if v \<ge> first + sz then range_search rs v (mid + 1) (start + n - (mid + 1))
               else Some (v - first + int (snd (rs ! mid)))
      else if 0 < n then
        case range_at rs start of
          None \<Rightarrow> None
        | Some (first, sz) \<Rightarrow> Some (if first \<le> v \<and> v < wrap32 (first + sz) then v - first + int (snd (rs ! start)) else -1)
      else Some (-1))"
  by pat_completeness auto

termination by (relation "measure (\<lambda>(_, _, _, n). n)") auto

declare range_search.simps [simp del]

definition int_range_lookup :: "nat \<Rightarrow> ranges \<Rightarrow> int \<Rightarrow> int option" where
  "int_range_lookup n_ranges rs v = (if n_ranges = 0 then Some (-1) else range_search rs v 0 n_ranges)"

text \<open>A table of ranges that describes a list of numbers.\<close>

definition range_ok :: "nat list \<Rightarrow> ranges \<Rightarrow> nat \<Rightarrow> bool" where
  "range_ok ids rs i \<longleftrightarrow>
     (let first = fst (rs ! i); k = snd (rs ! i); k' = snd (rs ! (i + 1))
      in 0 \<le> first \<and> k < k' \<and> k' \<le> length ids \<and> first + int (k' - k) < 2 ^ 31 \<and>
         map int (take (k' - k) (drop k ids)) = map (\<lambda>j. first + int j) [0..<k' - k] \<and>
         (i + 2 < length rs \<longrightarrow> first + int (k' - k) \<le> fst (rs ! (i + 1))))"

definition ranges_ok :: "nat list \<Rightarrow> ranges \<Rightarrow> bool" where
  "ranges_ok ids rs \<longleftrightarrow> rs \<noteq> [] \<and> snd (rs ! 0) = 0 \<and> snd (last rs) = length ids \<and>
     list_all (range_ok ids rs) [0..<length rs - 1]"

lemma ranges_okD: "ranges_ok ids rs \<Longrightarrow> i + 1 < length rs \<Longrightarrow> range_ok ids rs i"
  by (simp add: ranges_ok_def list_all_iff)

abbreviation first_of :: "ranges \<Rightarrow> nat \<Rightarrow> int" where
  "first_of rs i \<equiv> fst (rs ! i)"

abbreviation size_of :: "ranges \<Rightarrow> nat \<Rightarrow> int" where
  "size_of rs i \<equiv> int (snd (rs ! (i + 1))) - int (snd (rs ! i))"

definition hit :: "ranges \<Rightarrow> int \<Rightarrow> nat \<Rightarrow> bool" where
  "hit rs v i \<longleftrightarrow> first_of rs i \<le> v \<and> v < first_of rs i + size_of rs i"

lemma range_facts:
  assumes "ranges_ok ids rs" "i + 1 < length rs"
  shows "0 \<le> first_of rs i" "0 < size_of rs i" "first_of rs i + size_of rs i < 2 ^ 31"
    "i + 2 < length rs \<Longrightarrow> first_of rs i + size_of rs i \<le> first_of rs (i + 1)"
    "range_at rs i = Some (first_of rs i, size_of rs i)"
proof -
  have r: "range_ok ids rs i" by (rule ranges_okD [OF assms])
  then show a: "0 \<le> first_of rs i" "0 < size_of rs i" "first_of rs i + size_of rs i < 2 ^ 31"
    "i + 2 < length rs \<Longrightarrow> first_of rs i + size_of rs i \<le> first_of rs (i + 1)"
    by (auto simp: range_ok_def Let_def of_nat_diff)
  then have "int_range (size_of rs i)" by (auto simp: int_range_def)
  then show "range_at rs i = Some (first_of rs i, size_of rs i)" using assms(2) by (simp add: range_at_def)
qed

lemma range_apart:
  assumes "ranges_ok ids rs"
  shows "i < j \<Longrightarrow> j + 1 < length rs \<Longrightarrow> first_of rs i + size_of rs i \<le> first_of rs j"
proof (induction j)
  case (Suc j)
  have n: "first_of rs j + size_of rs j \<le> first_of rs (Suc j)" "0 < size_of rs j"
    using range_facts [OF assms, of j] Suc.prems by simp_all
  show ?case
  proof (cases "i = j")
    case False
    then have "first_of rs i + size_of rs i \<le> first_of rs j" using Suc by simp
    then show ?thesis using n by linarith
  qed (use n in simp)
qed simp

definition range_cmp :: "ranges \<Rightarrow> int \<Rightarrow> nat \<Rightarrow> int" where
  "range_cmp rs v i = (if v < first_of rs i then 1 else if v \<ge> first_of rs i + size_of rs i then -1 else 0)"

lemma range_search_bisect:
  assumes "ranges_ok ids rs"
  shows "start + n < length rs \<Longrightarrow> range_search rs v start n =
    Some (case bisect (range_cmp rs v) start n of None \<Rightarrow> -1 | Some i \<Rightarrow> v - first_of rs i + int (snd (rs ! i)))"
proof (induction n arbitrary: start rule: less_induct)
  case (less n)
  show ?case
  proof (cases "1 < n")
    case False
    then consider "n = 0" | "n = 1" by linarith
    then show ?thesis
    proof cases
      case 2
      note f = range_facts [OF assms, of start]
      have "wrap32 (first_of rs start + size_of rs start) = first_of rs start + size_of rs start"
        using f less.prems 2 by (intro wrap32_id) (auto simp: int_range_def)
      then show ?thesis using f(5) less.prems 2 by (simp add: range_search.simps bisect.simps range_cmp_def)
    qed (simp add: range_search.simps bisect.simps)
  next
    case True
    let ?mid = "start + n div 2"
    have "?mid + 1 < length rs" using True less.prems by linarith
    note f = range_facts [OF assms this]
    have s: "n div 2 < n" "start + n - (?mid + 1) < n" "?mid + 1 + (start + n - (?mid + 1)) = start + n" using True by auto
    show ?thesis using True f(2,5) less.IH [OF s(1), of start] less.IH [OF s(2), of "?mid + 1"] s(3) less.prems
      by (subst range_search.simps, subst bisect.simps) (simp add: Let_def range_cmp_def [of rs v ?mid])
  qed
qed

lemma range_search_correct:
  assumes "ranges_ok ids rs" "start + n < length rs"
  shows "(\<forall>i. start \<le> i \<longrightarrow> i < start + n \<longrightarrow> hit rs v i \<longrightarrow>
       range_search rs v start n = Some (v - first_of rs i + int (snd (rs ! i)))) \<and>
    ((\<forall>i. start \<le> i \<longrightarrow> i < start + n \<longrightarrow> \<not> hit rs v i) \<longrightarrow> range_search rs v start n = Some (-1))"
proof -
  have mono: "0 < range_cmp rs v j" if "i < j" "j < length rs - 1" "0 \<le> range_cmp rs v i" for i j
  proof -
    have "j + 1 < length rs" "i + 1 < length rs" using that(1,2) by simp_all
    then show ?thesis using range_apart [OF assms(1) that(1)] range_facts(2) [OF assms(1), of i] that(3)
      by (simp add: range_cmp_def split: if_splits)
  qed
  have "range_cmp rs v k = 0 \<longleftrightarrow> hit rs v k" for k by (auto simp: range_cmp_def hit_def)
  then have c: "bisect (range_cmp rs v) start n = Some k \<longleftrightarrow> start \<le> k \<and> k < start + n \<and> hit rs v k" for k
    using bisect_correct [where cmp = "range_cmp rs v" and m = "length rs - 1", of start n k] mono assms(2) by simp
  show ?thesis unfolding range_search_bisect [OF assms]
  proof (intro conjI allI impI)
    fix i
    assume "start \<le> i" "i < start + n" "hit rs v i"
    then show "Some (case bisect (range_cmp rs v) start n of None \<Rightarrow> -1 | Some i \<Rightarrow> v - first_of rs i + int (snd (rs ! i))) =
        Some (v - first_of rs i + int (snd (rs ! i)))" using c [of i] by simp
  next
    assume "\<forall>i. start \<le> i \<longrightarrow> i < start + n \<longrightarrow> \<not> hit rs v i"
    then have "bisect (range_cmp rs v) start n = None" using c by (metis not_None_eq)
    then show "Some (case bisect (range_cmp rs v) start n of None \<Rightarrow> -1 | Some i \<Rightarrow> v - first_of rs i + int (snd (rs ! i))) =
        Some (-1)" by simp
  qed
qed

text \<open>The ranges cover the list, each number once.\<close>

lemma range_number:
  assumes "ranges_ok ids rs" "i + 1 < length rs" "snd (rs ! i) \<le> k" "k < snd (rs ! (i + 1))"
  shows "k < length ids" "int (ids ! k) = first_of rs i + int (k - snd (rs ! i))"
proof -
  let ?a = "snd (rs ! i)" and ?n = "snd (rs ! (i + 1)) - snd (rs ! i)"
  have r: "snd (rs ! (i + 1)) \<le> length ids" "map int (take ?n (drop ?a ids)) = map (\<lambda>j. first_of rs i + int j) [0..<?n]"
    using ranges_okD [OF assms(1,2)] by (simp_all add: range_ok_def Let_def)
  then show l: "k < length ids" using assms(4) by simp
  have "map int (take ?n (drop ?a ids)) ! (k - ?a) = int (ids ! k)" using assms(3,4) r(1) l by simp
  moreover have "map (\<lambda>j. first_of rs i + int j) [0..<?n] ! (k - ?a) = first_of rs i + int (k - ?a)"
    using assms(3,4) by (subst nth_map) (simp_all add: diff_less_mono)
  ultimately show "int (ids ! k) = first_of rs i + int (k - ?a)" using r(2) by simp
qed

lemma range_covers:
  assumes "ranges_ok ids rs" "k < length ids"
  obtains i where "i + 1 < length rs" "snd (rs ! i) \<le> k" "k < snd (rs ! (i + 1))"
proof -
  have r: "rs \<noteq> []" "snd (rs ! 0) = 0" "k < snd (rs ! (length rs - 1))"
    using assms by (auto simp: ranges_ok_def last_conv_nth)
  define j where "j = (LEAST j. k < snd (rs ! j))"
  have j: "k < snd (rs ! j)" "j \<le> length rs - 1" "\<And>i. i < j \<Longrightarrow> \<not> k < snd (rs ! i)"
    unfolding j_def using r(3) by (rule LeastI, rule Least_le) (auto dest: not_less_Least)
  then obtain i where "j = Suc i" using r(2) by (cases j) auto
  then have "i + 1 < length rs" "snd (rs ! i) \<le> k" "k < snd (rs ! (i + 1))" using j(1,2) j(3) [of i] r(1) by simp_all
  then show thesis by (rule that)
qed

lemma number_hit:
  assumes "ranges_ok ids rs" "k < length ids"
  obtains i where "i + 1 < length rs" "hit rs (int (ids ! k)) i" "int (ids ! k) - first_of rs i + int (snd (rs ! i)) = int k"
    "ids ! k < 2 ^ 31"
proof -
  obtain i where i: "i + 1 < length rs" "snd (rs ! i) \<le> k" "k < snd (rs ! (i + 1))" by (rule range_covers [OF assms])
  have n: "int (ids ! k) = first_of rs i + int (k - snd (rs ! i))" by (rule range_number(2) [OF assms(1) i])
  have "first_of rs i + size_of rs i < 2 ^ 31" by (rule range_facts(3) [OF assms(1) i(1)])
  then have "hit rs (int (ids ! k)) i" "int (ids ! k) < 2 ^ 31" "int (ids ! k) - first_of rs i + int (snd (rs ! i)) = int k"
    unfolding n hit_def using i(2,3) by (auto simp: of_nat_diff)
  then show thesis using that [OF i(1)] by simp
qed

lemma int_range_lookup_number:
  assumes "ranges_ok ids rs"
  shows "k < length ids \<Longrightarrow> int_range_lookup (length rs - 1) rs (int (ids ! k)) = Some (int k)"
    and "(\<forall>k < length ids. v \<noteq> int (ids ! k)) \<Longrightarrow> int_range_lookup (length rs - 1) rs v = Some (-1)"
proof -
  have rs: "0 + (length rs - 1) < length rs" using assms by (simp add: ranges_ok_def)
  note s = range_search_correct [OF assms rs]
  { assume k: "k < length ids"
    obtain i where i: "i + 1 < length rs" "hit rs (int (ids ! k)) i" "int (ids ! k) - first_of rs i + int (snd (rs ! i)) = int k"
      using number_hit [OF assms k] by metis
    then show "int_range_lookup (length rs - 1) rs (int (ids ! k)) = Some (int k)"
      using s [of "int (ids ! k)", THEN conjunct1, THEN spec, of i] by (simp add: int_range_lookup_def) }
  assume v: "\<forall>k < length ids. v \<noteq> int (ids ! k)"
  have "\<not> hit rs v i" if "i < length rs - 1" for i
  proof
    assume h: "hit rs v i"
    have i: "i + 1 < length rs" using that by simp
    let ?k = "snd (rs ! i) + nat (v - first_of rs i)"
    have "?k < snd (rs ! (i + 1))" using h range_facts(2) [OF assms i] by (auto simp: hit_def)
    from range_number [OF assms i _ this] have "?k < length ids" "int (ids ! ?k) = v" using h by (auto simp: hit_def)
    then show False using v by auto
  qed
  then show "int_range_lookup (length rs - 1) rs v = Some (-1)" using s [of v] by (auto simp: int_range_lookup_def)
qed

lemma ids_distinct: "ranges_ok ids rs \<Longrightarrow> distinct ids"
  using int_range_lookup_number(1) [of ids rs] by (metis distinct_conv_nth of_nat_eq_iff option.inject)

section \<open>The field of a tag\<close>

text \<open>The lookup of the unpacker: the tag is converted to a signed number.\<close>

definition field_lookup :: "ranges \<Rightarrow> 'f list \<Rightarrow> 32 word \<Rightarrow> 'f option option" where
  "field_lookup rs fs tag =
     do {
       field_index \<leftarrow> int_range_lookup (length rs - 1) rs (sint tag);
       if field_index < 0 then Some None
       else if nat field_index < length fs then Some (Some (fs ! nat field_index)) else None
     }"

lemma sint_number: "n < 2 ^ 31 \<Longrightarrow> sint (tag :: 32 word) = int n \<longleftrightarrow> unat tag = n"
proof -
  assume n: "n < 2 ^ 31"
  have "sint tag = int n" if "unat tag = n"
  proof -
    have "uint tag = int n" using that by (metis uint_nat)
    then show ?thesis using n by (simp add: sint_uint signed_take_bit_int_eq_self)
  qed
  moreover have "unat tag = n" if "sint tag = int n"
  proof -
    have "uint tag = int n" using that n by (simp add: uint_sint take_bit_int_eq_self)
    then show ?thesis by (simp add: unat_eq_nat_uint)
  qed
  ultimately show ?thesis by blast
qed

lemma find_nth: "distinct (map g xs) \<Longrightarrow> k < length xs \<Longrightarrow> find (\<lambda>x. g x = g (xs ! k)) xs = Some (xs ! k)"
  by (auto simp: find_Some_iff distinct_conv_nth intro!: exI [of _ k])

lemma field_lookup_find:
  assumes "ranges_ok (map fst fds) rs"
  shows "field_lookup rs fds tag = Some (find_field fds tag)"
proof (cases "\<exists>k < length fds. fst (fds ! k) = unat tag")
  case True
  then obtain k where k: "k < length fds" "fst (fds ! k) = unat tag" by blast
  then have "fst (fds ! k) < 2 ^ 31" using number_hit [OF assms, of k] by auto
  then have "sint tag = int (map fst fds ! k)" using k sint_number [of "fst (fds ! k)" tag] by simp
  then have "field_lookup rs fds tag = Some (Some (fds ! k))"
    using int_range_lookup_number(1) [OF assms, of k] k(1) by (simp add: field_lookup_def)
  moreover have "find_field fds tag = find (\<lambda>x. fst x = fst (fds ! k)) fds"
    using k(2) by (simp add: find_field_def case_prod_unfold)
  ultimately show ?thesis using find_nth [OF ids_distinct [OF assms] k(1)] by simp
next
  case False
  have "sint tag \<noteq> int (map fst fds ! k)" if "k < length fds" for k
  proof -
    have "fst (fds ! k) < 2 ^ 31" using number_hit [OF assms, of k] that by auto
    then show ?thesis using sint_number [of "fst (fds ! k)" tag] False that by auto
  qed
  then have "field_lookup rs fds tag = Some None"
    using int_range_lookup_number(2) [OF assms, of "sint tag"] by (simp add: field_lookup_def)
  moreover have "find_field fds tag = None" using False by (auto simp: find_field_def find_None_iff in_set_conv_nth case_prod_unfold)
  ultimately show ?thesis by simp
qed

section \<open>Names\<close>

text \<open>The order of \<^verbatim>\<open>strcmp\<close> is the lexicographic one on the codes of the characters.\<close>

definition strcmp :: "string \<Rightarrow> string \<Rightarrow> int" where
  "strcmp s t = (if s < t then -1 else if s = t then 0 else 1)"

function name_search :: "(nat \<Rightarrow> string) \<Rightarrow> string \<Rightarrow> nat \<Rightarrow> nat \<Rightarrow> nat option" where
  "name_search at name start count =
     (if 1 < count then
        let mid = start + count div 2; rv = strcmp (at mid) name
        in if rv = 0 then Some mid
           else if rv < 0 then name_search at name (mid + 1) (start + count - (mid + 1))
           else name_search at name start (mid - start)
      else if count = 0 then None
      else if strcmp (at start) name = 0 then Some start
      else None)"
  by pat_completeness auto

termination by (relation "measure (\<lambda>(_, _, _, n). n)") auto

declare name_search.simps [simp del]

text \<open>A table with an index of its names: the names in the order of the table, and the positions in the order of the
  names.\<close>

definition index_ok :: "string list \<Rightarrow> nat list \<Rightarrow> bool" where
  "index_ok names ix \<longleftrightarrow> length ix = length names \<and> list_all (\<lambda>i. i < length names) ix \<and>
     sorted_wrt (<) (map (\<lambda>i. names ! i) ix)"

definition get_by_name :: "string list \<Rightarrow> nat list \<Rightarrow> string \<Rightarrow> nat option" where
  "get_by_name names ix name = map_option (\<lambda>k. ix ! k) (name_search (\<lambda>k. names ! (ix ! k)) name 0 (length ix))"

lemma name_search_bisect: "name_search at name start n = bisect (\<lambda>k. strcmp (at k) name) start n"
proof (induction n arbitrary: start rule: less_induct)
  case (less n)
  show ?case
  proof (cases "1 < n")
    case True
    have s: "n div 2 < n" "start + n - (start + n div 2 + 1) < n" using True by auto
    show ?thesis using True less.IH [OF s(1)] less.IH [OF s(2)]
      by (subst name_search.simps, subst bisect.simps) (simp add: Let_def)
  qed (simp add: name_search.simps bisect.simps)
qed

lemma index_onto:
  assumes "index_ok names ix" "i < length names"
  obtains k where "k < length ix" "ix ! k = i"
proof -
  have ix: "length ix = length names" "set ix \<subseteq> {..<length names}" "distinct (map (\<lambda>i. names ! i) ix)"
    using assms(1) by (auto simp: index_ok_def list_all_iff strict_sorted_iff)
  then have "card (set ix) = length names" by (metis distinct_card distinct_map)
  then have "set ix = {..<length names}" using ix(2) by (intro card_subset_eq) simp_all
  then show thesis using assms(2) that by (metis in_set_conv_nth lessThan_iff)
qed

lemma indexed_search:
  assumes "index_ok names ix" "\<forall>k < length ix. at k = names ! (ix ! k)"
  shows "name_search at name 0 (length ix) = Some k \<longleftrightarrow> k < length ix \<and> at k = name"
    and "(\<exists>k. name_search at name 0 (length ix) = Some k \<and> ix ! k = i) \<longleftrightarrow> i < length names \<and> names ! i = name"
proof -
  have mono: "at k < at l" if "k < l" "l < length ix" for k l
    using assms that by (auto simp: index_ok_def sorted_wrt_iff_nth_less)
  have "0 < strcmp (at l) name" if "k < l" "l < length ix" "0 \<le> strcmp (at k) name" for k l
    using mono [OF that(1,2)] that(3) by (auto simp: strcmp_def split: if_splits)
  moreover have "strcmp (at k) name = 0 \<longleftrightarrow> at k = name" for k by (simp add: strcmp_def)
  ultimately show s: "name_search at name 0 (length ix) = Some k \<longleftrightarrow> k < length ix \<and> at k = name" for k
    using bisect_correct [where cmp = "\<lambda>k. strcmp (at k) name" and m = "length ix", of 0 "length ix" k]
    unfolding name_search_bisect by simp
  show "(\<exists>k. name_search at name 0 (length ix) = Some k \<and> ix ! k = i) \<longleftrightarrow> i < length names \<and> names ! i = name"
  proof
    assume "\<exists>k. name_search at name 0 (length ix) = Some k \<and> ix ! k = i"
    then show "i < length names \<and> names ! i = name" using s assms by (auto simp: index_ok_def list_all_length)
  next
    assume i: "i < length names \<and> names ! i = name"
    then obtain k where "k < length ix" "ix ! k = i" using index_onto [OF assms(1)] by blast
    then show "\<exists>k. name_search at name 0 (length ix) = Some k \<and> ix ! k = i" using s [of k] assms(2) i by auto
  qed
qed

lemma get_by_name_correct:
  assumes "index_ok names ix"
  shows "get_by_name names ix name = Some i \<longleftrightarrow> i < length names \<and> names ! i = name"
  using indexed_search(2) [OF assms, of "\<lambda>k. names ! (ix ! k)" name i] by (simp add: get_by_name_def)

section \<open>Tables\<close>

text \<open>What the generated table of a message has beside the types of its fields.\<close>

record message_index =
  field_names :: "string list"
  fields_sorted_by_name :: "nat list"
  field_ranges :: ranges

definition protobuf_c_message_descriptor_get_field_by_name :: "message_index option \<Rightarrow> string \<Rightarrow> nat option" where
  "protobuf_c_message_descriptor_get_field_by_name desc name =
     (case desc of
        None \<Rightarrow> None
      | Some x \<Rightarrow> get_by_name (field_names x) (fields_sorted_by_name x) name)"

definition protobuf_c_message_descriptor_get_field :: "message_index \<Rightarrow> 'f list \<Rightarrow> 32 word \<Rightarrow> 'f option option" where
  "protobuf_c_message_descriptor_get_field x fs v = field_lookup (field_ranges x) fs v"

definition message_index_ok :: "nat list \<Rightarrow> message_index \<Rightarrow> bool" where
  "message_index_ok ids x \<longleftrightarrow> length (field_names x) = length ids \<and> ranges_ok ids (field_ranges x) \<and>
     index_ok (field_names x) (fields_sorted_by_name x)"

text \<open>The table of an enumeration: names and numbers of the values, the names in order with the place of each value, and
  the ranges of the numbers.\<close>

record enum_table =
  enum_values :: "(string \<times> nat) list"
  values_by_name :: "(string \<times> nat) list"
  value_ranges :: ranges

definition protobuf_c_enum_descriptor_get_value_by_name :: "enum_table option \<Rightarrow> string \<Rightarrow> nat option" where
  "protobuf_c_enum_descriptor_get_value_by_name desc name =
     (case desc of
        None \<Rightarrow> None
      | Some x \<Rightarrow> map_option (\<lambda>k. snd (values_by_name x ! k))
          (name_search (\<lambda>k. fst (values_by_name x ! k)) name 0 (length (values_by_name x))))"

definition protobuf_c_enum_descriptor_get_value :: "enum_table \<Rightarrow> int \<Rightarrow> nat option option" where
  "protobuf_c_enum_descriptor_get_value x v =
     do {
       rv \<leftarrow> int_range_lookup (length (value_ranges x) - 1) (value_ranges x) v;
       Some (if rv < 0 then None else Some (nat rv))
     }"

definition enum_table_ok :: "enum_table \<Rightarrow> bool" where
  "enum_table_ok x \<longleftrightarrow> ranges_ok (map snd (enum_values x)) (value_ranges x) \<and>
     index_ok (map fst (enum_values x)) (map snd (values_by_name x)) \<and>
     map fst (values_by_name x) = map (\<lambda>i. map fst (enum_values x) ! i) (map snd (values_by_name x))"

lemma enum_by_name:
  assumes "enum_table_ok x"
  shows "protobuf_c_enum_descriptor_get_value_by_name (Some x) name = Some i \<longleftrightarrow>
    i < length (enum_values x) \<and> fst (enum_values x ! i) = name"
proof -
  let ?names = "map fst (enum_values x)" and ?ix = "map snd (values_by_name x)" and ?at = "\<lambda>k. fst (values_by_name x ! k)"
  have ok: "index_ok ?names ?ix" "map fst (values_by_name x) = map (\<lambda>i. ?names ! i) ?ix"
    using assms by (simp_all add: enum_table_ok_def)
  have at: "\<forall>k < length ?ix. ?at k = ?names ! (?ix ! k)"
  proof (intro allI impI)
    fix k
    assume "k < length ?ix"
    then show "?at k = ?names ! (?ix ! k)" using arg_cong [OF ok(2), of "\<lambda>l. l ! k"] by simp
  qed
  have "name_search ?at name 0 (length ?ix) = Some k \<and> snd (values_by_name x ! k) = i \<longleftrightarrow>
      name_search ?at name 0 (length ?ix) = Some k \<and> ?ix ! k = i" for k using indexed_search(1) [OF ok(1) at, of name k] by auto
  then show ?thesis using indexed_search(2) [OF ok(1) at, of name i]
    by (auto simp: protobuf_c_enum_descriptor_get_value_by_name_def)
qed

lemma enum_by_number:
  assumes "enum_table_ok x"
  shows "i < length (enum_values x) \<Longrightarrow> protobuf_c_enum_descriptor_get_value x (int (snd (enum_values x ! i))) = Some (Some i)"
    and "(\<forall>i < length (enum_values x). v \<noteq> int (snd (enum_values x ! i))) \<Longrightarrow> protobuf_c_enum_descriptor_get_value x v = Some None"
  using int_range_lookup_number [of "map snd (enum_values x)" "value_ranges x"] assms
  by (simp_all add: enum_table_ok_def protobuf_c_enum_descriptor_get_value_def)

end
