(* ===== verification/Proto_Index.thy ===== *)
theory Proto_Index
  imports Protobuf_Lookup User_Proto
begin

text \<open>
  The rest of the generated tables: for every message the names of its fields, the index sorted by name and the
  ranges of the field numbers, and the tables of the enumerations. Each is checked to be well formed, so the binary searches of
  \<open>Protobuf_Lookup\<close> find in it what is there.
\<close>

named_theorems tables \<open>well-formed generated tables\<close>

section \<open>Messages\<close>

definition device_register_request_index :: message_index where
  "device_register_request_index = \<lparr>
     field_names = [''hardwareId'', ''manToken'', ''deviceType'', ''numPhase'', ''firmwareVersion'',
                    ''cpuIMEI'', ''lat'', ''log'', ''gatewayVersion''],
     fields_sorted_by_name = [5, 2, 4, 8, 0, 6, 7, 1, 3],
     field_ranges = [(1, 0), (0, 9)]\<rparr>"

definition status_code_index :: message_index where
  "status_code_index = \<lparr>
     field_names = [''message'', ''code''],
     fields_sorted_by_name = [1, 0],
     field_ranges = [(1, 0), (0, 2)]\<rparr>"

definition device_register_response_index :: message_index where
  "device_register_response_index = \<lparr>
     field_names = [''deviceId'', ''statusCode''],
     fields_sorted_by_name = [0, 1],
     field_ranges = [(1, 0), (1000, 1), (0, 2)]\<rparr>"

definition device_login_request_index :: message_index where
  "device_login_request_index = \<lparr>
     field_names = [''deviceId'', ''cpuImage''],
     fields_sorted_by_name = [1, 0],
     field_ranges = [(1, 0), (0, 2)]\<rparr>"

definition device_login_response_index :: message_index where
  "device_login_response_index = \<lparr>
     field_names = [''statusCode''],
     fields_sorted_by_name = [0],
     field_ranges = [(1000, 0), (0, 1)]\<rparr>"

definition device_auth_message_index :: message_index where
  "device_auth_message_index = \<lparr>
     field_names = [''DeviceRegisterRequest'', ''deviceRegisterResponse'', ''deviceLoginRequest'',
                    ''deviceLoginResponse''],
     fields_sorted_by_name = [0, 2, 3, 1],
     field_ranges = [(1, 0), (0, 4)]\<rparr>"

definition device_log_update_index :: message_index where
  "device_log_update_index = \<lparr>
     field_names = [''deviceId'', ''message''],
     fields_sorted_by_name = [0, 1],
     field_ranges = [(1, 0), (0, 2)]\<rparr>"

definition lane_state_index :: message_index where
  "lane_state_index = \<lparr>
     field_names = [''walkingState'', ''lightState'', ''counter''],
     fields_sorted_by_name = [2, 1, 0],
     field_ranges = [(1, 0), (0, 3)]\<rparr>"

definition device_state_index :: message_index where
  "device_state_index = \<lparr>
     field_names = [''connectionState'', ''num_phase'', ''signal'', ''mapping'', ''countdown'', ''rtc_epoch'',
                    ''output_sensor'', ''walking_signal'', ''railway_signal'', ''cpu_active_mode'',
                    ''input_hardware'', ''input_software'', ''idx_time_form'', ''idx_timeline'',
                    ''idx_cycle_form'', ''laneState''],
     fields_sorted_by_name = [0, 4, 9, 14, 12, 13, 10, 11, 15, 3, 1, 6, 8, 5, 2, 7],
     field_ranges = [(1, 0), (0, 16)]\<rparr>"

definition state_on_change_device_message_index :: message_index where
  "state_on_change_device_message_index = \<lparr>
     field_names = [''deviceId'', ''update1Second''],
     fields_sorted_by_name = [0, 1],
     field_ranges = [(1, 0), (0, 2)]\<rparr>"

definition card_config_index :: message_index where
  "card_config_index = \<lparr>
     field_names = [''serialNumber'', ''imei'', ''phase'', ''isRailwayEnabled''],
     fields_sorted_by_name = [1, 3, 2, 0],
     field_ranges = [(1, 0), (0, 4)]\<rparr>"

definition mtfcphase_gate_config_index :: message_index where
  "mtfcphase_gate_config_index = \<lparr>
     field_names = [''pin''],
     fields_sorted_by_name = [0],
     field_ranges = [(1, 0), (0, 1)]\<rparr>"

definition device_update_configure_request_index :: message_index where
  "device_update_configure_request_index = \<lparr>
     field_names = [''deviceId'', ''type_cpu'', ''walking_mode_enable'', ''railway_mode_enable'',
                    ''power_meters_enable'', ''locked_hard_control_enable'', ''is_flashing'',
                    ''is_enable_out485_lamp_port'', ''railway_delay_on_time'', ''railway_delay_off_time'',
                    ''walking_time'', ''latitude'', ''longitude'', ''index_card'', ''phase_pin_config''],
     fields_sorted_by_name = [0, 13, 7, 6, 11, 5, 12, 14, 4, 9, 8, 3, 1, 2, 10],
     field_ranges = [(1, 0), (0, 15)]\<rparr>"

definition device_update_configure_response_index :: message_index where
  "device_update_configure_response_index = \<lparr>
     field_names = [''statusCode''],
     fields_sorted_by_name = [0],
     field_ranges = [(1000, 0), (0, 1)]\<rparr>"

definition ping_websocket_device_request_index :: message_index where
  "ping_websocket_device_request_index = \<lparr>
     field_names = [''deviceId''],
     fields_sorted_by_name = [0],
     field_ranges = [(1, 0), (0, 1)]\<rparr>"

definition ping_websocket_device_response_index :: message_index where
  "ping_websocket_device_response_index = \<lparr>
     field_names = [''statusCode''],
     fields_sorted_by_name = [0],
     field_ranges = [(1000, 0), (0, 1)]\<rparr>"

definition hmtime_index :: message_index where
  "hmtime_index = \<lparr>
     field_names = [''hour'', ''minute''],
     fields_sorted_by_name = [0, 1],
     field_ranges = [(1, 0), (0, 2)]\<rparr>"

definition active_lamp_index :: message_index where
  "active_lamp_index = \<lparr>
     field_names = [''begin'', ''end''],
     fields_sorted_by_name = [0, 1],
     field_ranges = [(1, 0), (0, 2)]\<rparr>"

definition one_side_lamp_time_index :: message_index where
  "one_side_lamp_time_index = \<lparr>
     field_names = [''t_green'', ''t_yellow'', ''t_red'', ''t_start_green'', ''t_end_green'',
                    ''t_start_yellow'', ''t_end_yellow''],
     fields_sorted_by_name = [4, 6, 0, 2, 3, 5, 1],
     field_ranges = [(1, 0), (0, 7)]\<rparr>"

definition one_cycle_lamp_time_index :: message_index where
  "one_cycle_lamp_time_index = \<lparr>
     field_names = [''num_side_used'', ''period_crossroads'', ''side'', ''clearance_time_crossroads'',
                    ''isModified''],
     fields_sorted_by_name = [3, 4, 0, 1, 2],
     field_ranges = [(1, 0), (0, 5)]\<rparr>"

definition cycle_lamp_form_index :: message_index where
  "cycle_lamp_form_index = \<lparr>
     field_names = [''index''],
     fields_sorted_by_name = [0],
     field_ranges = [(1, 0), (0, 1)]\<rparr>"

definition one_timeline_index :: message_index where
  "one_timeline_index = \<lparr>
     field_names = [''t_begin_apply'', ''index_cycle_form''],
     fields_sorted_by_name = [1, 0],
     field_ranges = [(1, 0), (0, 2)]\<rparr>"

definition day_time_line_index :: message_index where
  "day_time_line_index = \<lparr>
     field_names = [''selectPoint''],
     fields_sorted_by_name = [0],
     field_ranges = [(1, 0), (0, 1)]\<rparr>"

definition time_lamp_form_index :: message_index where
  "time_lamp_form_index = \<lparr>
     field_names = [''index''],
     fields_sorted_by_name = [0],
     field_ranges = [(1, 0), (0, 1)]\<rparr>"

definition day_lamp_form_index :: message_index where
  "day_lamp_form_index = \<lparr>
     field_names = [''index''],
     fields_sorted_by_name = [0],
     field_ranges = [(1, 0), (0, 1)]\<rparr>"

definition device_update_schedule_request_index :: message_index where
  "device_update_schedule_request_index = \<lparr>
     field_names = [''deviceId'', ''num_side'', ''active_time'', ''cycle'', ''time'', ''days''],
     fields_sorted_by_name = [2, 3, 5, 0, 1, 4],
     field_ranges = [(1, 0), (0, 6)]\<rparr>"

definition device_update_schedule_response_index :: message_index where
  "device_update_schedule_response_index = \<lparr>
     field_names = [''statusCode''],
     fields_sorted_by_name = [0],
     field_ranges = [(1000, 0), (0, 1)]\<rparr>"

definition update_coordinate_device_request_index :: message_index where
  "update_coordinate_device_request_index = \<lparr>
     field_names = [''deviceId'', ''lat'', ''log''],
     fields_sorted_by_name = [0, 1, 2],
     field_ranges = [(1, 0), (0, 3)]\<rparr>"

definition update_coordinate_device_response_index :: message_index where
  "update_coordinate_device_response_index = \<lparr>
     field_names = [''statusCode''],
     fields_sorted_by_name = [0],
     field_ranges = [(1000, 0), (0, 1)]\<rparr>"

definition announce_error_device_request_index :: message_index where
  "announce_error_device_request_index = \<lparr>
     field_names = [''deviceId'', ''message'', ''email'', ''phone''],
     fields_sorted_by_name = [0, 2, 1, 3],
     field_ranges = [(1, 0), (0, 4)]\<rparr>"

definition update_power_state_device_request_index :: message_index where
  "update_power_state_device_request_index = \<lparr>
     field_names = [''deviceId'', ''isOn''],
     fields_sorted_by_name = [0, 1],
     field_ranges = [(1, 0), (0, 2)]\<rparr>"

definition update_mode_device_request_index :: message_index where
  "update_mode_device_request_index = \<lparr>
     field_names = [''deviceId'', ''mode''],
     fields_sorted_by_name = [0, 1],
     field_ranges = [(1, 0), (0, 2)]\<rparr>"

definition update_meter_data_device_request_index :: message_index where
  "update_meter_data_device_request_index = \<lparr>
     field_names = [''deviceId'', ''v1'', ''v2'', ''v3'', ''i1'', ''i2'', ''i3'', ''p1'', ''p2'', ''p3'',
                    ''a1'', ''a2'', ''a3'', ''power''],
     fields_sorted_by_name = [10, 11, 12, 0, 4, 5, 6, 7, 8, 9, 13, 1, 2, 3],
     field_ranges = [(1, 0), (0, 14)]\<rparr>"

definition device_update_message_index :: message_index where
  "device_update_message_index = \<lparr>
     field_names = [''deviceLogUpdate'', ''stateOnChange'', ''deviceUpdateConfigureRequest'',
                    ''deviceUpdateConfigureResponse'', ''pingWebsocketDeviceRequest'',
                    ''pingWebsocketDeviceResponse'', ''deviceUpdateScheduleRequest'',
                    ''deviceUpdateScheduleResponse'', ''updateCoordinateDeviceRequest'',
                    ''updateCoordinateDeviceResponse'', ''announceErrorDeviceRequest'',
                    ''updatePowerStateDeviceRequest'', ''updateModeDeviceRequest'',
                    ''updateMeterDataDeviceRequest''],
     fields_sorted_by_name = [10, 0, 2, 3, 6, 7, 4, 5, 1, 8, 9, 13, 12, 11],
     field_ranges = [(1, 0), (0, 14)]\<rparr>"

definition require_stream_device_request_index :: message_index where
  "require_stream_device_request_index = \<lparr>
     field_names = [''deviceId'', ''enable''],
     fields_sorted_by_name = [0, 1],
     field_ranges = [(1, 0), (0, 2)]\<rparr>"

definition require_stream_device_response_index :: message_index where
  "require_stream_device_response_index = \<lparr>
     field_names = [''statusCode''],
     fields_sorted_by_name = [0],
     field_ranges = [(1000, 0), (0, 1)]\<rparr>"

definition control_lane_device_request_index :: message_index where
  "control_lane_device_request_index = \<lparr>
     field_names = [''deviceId'', ''laneIndex'', ''isPowerOn''],
     fields_sorted_by_name = [0, 2, 1],
     field_ranges = [(1, 0), (0, 3)]\<rparr>"

definition control_lane_device_response_index :: message_index where
  "control_lane_device_response_index = \<lparr>
     field_names = [''statusCode''],
     fields_sorted_by_name = [0],
     field_ranges = [(1000, 0), (0, 1)]\<rparr>"

definition set_active_time_device_request_index :: message_index where
  "set_active_time_device_request_index = \<lparr>
     field_names = [''deviceId'', ''activeLamp''],
     fields_sorted_by_name = [1, 0],
     field_ranges = [(1, 0), (0, 2)]\<rparr>"

definition set_active_time_device_response_index :: message_index where
  "set_active_time_device_response_index = \<lparr>
     field_names = [''statusCode''],
     fields_sorted_by_name = [0],
     field_ranges = [(1000, 0), (0, 1)]\<rparr>"

definition set_cycle_config_device_request_index :: message_index where
  "set_cycle_config_device_request_index = \<lparr>
     field_names = [''deviceId'', ''numPhase'', ''yellowTime'', ''clearanceTime'', ''greenTime''],
     fields_sorted_by_name = [3, 0, 4, 1, 2],
     field_ranges = [(1, 0), (0, 5)]\<rparr>"

definition sync_time_device_request_index :: message_index where
  "sync_time_device_request_index = \<lparr>
     field_names = [''deviceId''],
     fields_sorted_by_name = [0],
     field_ranges = [(1, 0), (0, 1)]\<rparr>"

definition sync_time_device_response_index :: message_index where
  "sync_time_device_response_index = \<lparr>
     field_names = [''statusCode''],
     fields_sorted_by_name = [0],
     field_ranges = [(1000, 0), (0, 1)]\<rparr>"

definition get_coordinate_device_request_index :: message_index where
  "get_coordinate_device_request_index = \<lparr>
     field_names = [''deviceId''],
     fields_sorted_by_name = [0],
     field_ranges = [(1, 0), (0, 1)]\<rparr>"

definition get_coordinate_device_response_index :: message_index where
  "get_coordinate_device_response_index = \<lparr>
     field_names = [''lat'', ''log'', ''statusCode''],
     fields_sorted_by_name = [0, 1, 2],
     field_ranges = [(1, 0), (1000, 2), (0, 3)]\<rparr>"

definition trigger_notify_user_device_request_index :: message_index where
  "trigger_notify_user_device_request_index = \<lparr>
     field_names = [''deviceId'', ''phone'', ''email'', ''message''],
     fields_sorted_by_name = [0, 2, 3, 1],
     field_ranges = [(1, 0), (0, 4)]\<rparr>"

definition trigger_notify_user_device_response_index :: message_index where
  "trigger_notify_user_device_response_index = \<lparr>
     field_names = [''statusCode''],
     fields_sorted_by_name = [0],
     field_ranges = [(1000, 0), (0, 1)]\<rparr>"

definition update_schedule_user_device_request_index :: message_index where
  "update_schedule_user_device_request_index = \<lparr>
     field_names = [''deviceId'', ''timeLampForm'', ''cycle'', ''days'', ''active_time''],
     fields_sorted_by_name = [4, 2, 3, 0, 1],
     field_ranges = [(1, 0), (0, 5)]\<rparr>"

definition update_schedule_user_device_response_index :: message_index where
  "update_schedule_user_device_response_index = \<lparr>
     field_names = [''statusCode''],
     fields_sorted_by_name = [0],
     field_ranges = [(1000, 0), (0, 1)]\<rparr>"

definition power_control_user_request_index :: message_index where
  "power_control_user_request_index = \<lparr>
     field_names = [''deviceId'', ''isPowerOn''],
     fields_sorted_by_name = [0, 1],
     field_ranges = [(1, 0), (0, 2)]\<rparr>"

definition force_otaupdate_user_request_index :: message_index where
  "force_otaupdate_user_request_index = \<lparr>
     field_names = [''deviceId''],
     fields_sorted_by_name = [0],
     field_ranges = [(1, 0), (0, 1)]\<rparr>"

definition release_control_user_request_index :: message_index where
  "release_control_user_request_index = \<lparr>
     field_names = [''deviceId''],
     fields_sorted_by_name = [0],
     field_ranges = [(1, 0), (0, 1)]\<rparr>"

definition user_device_message_index :: message_index where
  "user_device_message_index = \<lparr>
     field_names = [''requireStreamDeviceRequest'', ''requireStreamDeviceResponse'',
                    ''controlLaneDeviceRequest'', ''controlLaneDeviceResponse'',
                    ''setActiveTimeDeviceRequest'', ''setActiveTimeDeviceResponse'',
                    ''setCycleConfigDeviceRequest'', ''syncTimeDeviceRequest'', ''syncTimeDeviceResponse'',
                    ''getCoordinateDeviceRequest'', ''getCoordinateDeviceResponse'',
                    ''triggerNotifyUserDeviceRequest'', ''triggerNotifyUserDeviceResponse'',
                    ''updateScheduleUserDeviceRequest'', ''updateScheduleUserDeviceResponse'',
                    ''powerControlUserRequest'', ''forceOTAUpdateUserRequest'', ''releaseControlUserRequest''],
     fields_sorted_by_name = [2, 3, 16, 9, 10, 15, 17, 0, 1, 4, 5, 6, 7, 8, 11, 12, 13, 14],
     field_ranges = [(1, 0), (7, 4), (0, 18)]\<rparr>"

definition device_message_index :: message_index where
  "device_message_index = \<lparr>
     field_names = [''deviceAuthMessage'', ''deviceUpdateMessage'', ''userDeviceMessage''],
     fields_sorted_by_name = [0, 1, 2],
     field_ranges = [(1, 0), (0, 3)]\<rparr>"

definition user_login_request_index :: message_index where
  "user_login_request_index = \<lparr>
     field_names = [''userName'', ''password'', ''userId'', ''assignedStationId'', ''isWeb''],
     fields_sorted_by_name = [3, 4, 1, 2, 0],
     field_ranges = [(1, 0), (0, 5)]\<rparr>"

definition user_login_response_index :: message_index where
  "user_login_response_index = \<lparr>
     field_names = [''projectId'', ''userId'', ''role'', ''mapKey'', ''email'', ''phone'', ''statusCode''],
     fields_sorted_by_name = [4, 3, 5, 0, 2, 6, 1],
     field_ranges = [(1, 0), (1000, 6), (0, 7)]\<rparr>"

definition get_access_token_user_request_index :: message_index where
  "get_access_token_user_request_index = \<lparr>
     field_names = [],
     fields_sorted_by_name = [],
     field_ranges = [(0, 0)]\<rparr>"

definition get_access_token_user_response_index :: message_index where
  "get_access_token_user_response_index = \<lparr>
     field_names = [''accessToken'', ''statusCode''],
     fields_sorted_by_name = [0, 1],
     field_ranges = [(1, 0), (1000, 1), (0, 2)]\<rparr>"

definition auth_user_message_index :: message_index where
  "auth_user_message_index = \<lparr>
     field_names = [''userLoginRequest'', ''userLoginResponse'', ''getAccessTokenUserRequest'',
                    ''getAccessTokenUserResponse''],
     fields_sorted_by_name = [2, 3, 0, 1],
     field_ranges = [(1, 0), (0, 4)]\<rparr>"

definition device_control_user_request_index :: message_index where
  "device_control_user_request_index = \<lparr>
     field_names = [''deviceId'', ''isPowerOn''],
     fields_sorted_by_name = [0, 1],
     field_ranges = [(1, 0), (0, 2)]\<rparr>"

definition device_control_user_response_index :: message_index where
  "device_control_user_response_index = \<lparr>
     field_names = [],
     fields_sorted_by_name = [],
     field_ranges = [(0, 0)]\<rparr>"

definition require_stream_user_request_index :: message_index where
  "require_stream_user_request_index = \<lparr>
     field_names = [''deviceId'', ''enable'', ''isWeb''],
     fields_sorted_by_name = [0, 1, 2],
     field_ranges = [(1, 0), (0, 3)]\<rparr>"

definition require_stream_user_response_index :: message_index where
  "require_stream_user_response_index = \<lparr>
     field_names = [''statusCode''],
     fields_sorted_by_name = [0],
     field_ranges = [(1000, 0), (0, 1)]\<rparr>"

definition control_lane_user_request_index :: message_index where
  "control_lane_user_request_index = \<lparr>
     field_names = [''deviceId'', ''laneIndex'', ''isPowerOn''],
     fields_sorted_by_name = [0, 2, 1],
     field_ranges = [(1, 0), (0, 3)]\<rparr>"

definition control_lane_user_response_index :: message_index where
  "control_lane_user_response_index = \<lparr>
     field_names = [''statusCode''],
     fields_sorted_by_name = [0],
     field_ranges = [(1000, 0), (0, 1)]\<rparr>"

definition set_active_time_user_request_index :: message_index where
  "set_active_time_user_request_index = \<lparr>
     field_names = [''deviceId'', ''activeLamp''],
     fields_sorted_by_name = [1, 0],
     field_ranges = [(1, 0), (0, 2)]\<rparr>"

definition set_active_time_user_response_index :: message_index where
  "set_active_time_user_response_index = \<lparr>
     field_names = [''statusCode''],
     fields_sorted_by_name = [0],
     field_ranges = [(1000, 0), (0, 1)]\<rparr>"

definition set_cycle_config_user_request_index :: message_index where
  "set_cycle_config_user_request_index = \<lparr>
     field_names = [''deviceId'', ''numPhase'', ''yellowTime'', ''clearanceTime'', ''greenTime''],
     fields_sorted_by_name = [3, 0, 4, 1, 2],
     field_ranges = [(1, 0), (0, 5)]\<rparr>"

definition set_cycle_config_user_response_index :: message_index where
  "set_cycle_config_user_response_index = \<lparr>
     field_names = [],
     fields_sorted_by_name = [],
     field_ranges = [(0, 0)]\<rparr>"

definition set_coordinate_user_request_index :: message_index where
  "set_coordinate_user_request_index = \<lparr>
     field_names = [''deviceId'', ''coLat'', ''coLong''],
     fields_sorted_by_name = [1, 2, 0],
     field_ranges = [(1, 0), (0, 3)]\<rparr>"

definition set_coordinate_user_response_index :: message_index where
  "set_coordinate_user_response_index = \<lparr>
     field_names = [],
     fields_sorted_by_name = [],
     field_ranges = [(0, 0)]\<rparr>"

definition sync_time_user_request_index :: message_index where
  "sync_time_user_request_index = \<lparr>
     field_names = [''deviceId''],
     fields_sorted_by_name = [0],
     field_ranges = [(1, 0), (0, 1)]\<rparr>"

definition sync_time_user_response_index :: message_index where
  "sync_time_user_response_index = \<lparr>
     field_names = [''statusCode''],
     fields_sorted_by_name = [0],
     field_ranges = [(1000, 0), (0, 1)]\<rparr>"

definition get_device_user_request_index :: message_index where
  "get_device_user_request_index = \<lparr>
     field_names = [''deviceId'', ''hardwareId''],
     fields_sorted_by_name = [0, 1],
     field_ranges = [(1, 0), (0, 2)]\<rparr>"

definition device_index :: message_index where
  "device_index = \<lparr>
     field_names = [''deviceId'', ''deviceType'', ''deviceState'', ''stationName'', ''hardwareId'',
                    ''numPhase'', ''lat'', ''log''],
     fields_sorted_by_name = [0, 2, 1, 4, 6, 7, 5, 3],
     field_ranges = [(1, 0), (0, 8)]\<rparr>"

definition get_device_user_response_index :: message_index where
  "get_device_user_response_index = \<lparr>
     field_names = [''device'', ''statusCode''],
     fields_sorted_by_name = [0, 1],
     field_ranges = [(1, 0), (1000, 1), (0, 2)]\<rparr>"

definition get_coordinate_user_request_index :: message_index where
  "get_coordinate_user_request_index = \<lparr>
     field_names = [''deviceId'', ''hardwareId''],
     fields_sorted_by_name = [0, 1],
     field_ranges = [(1, 0), (0, 2)]\<rparr>"

definition get_coordinate_user_response_index :: message_index where
  "get_coordinate_user_response_index = \<lparr>
     field_names = [''lat'', ''log'', ''statusCode''],
     fields_sorted_by_name = [0, 1, 2],
     field_ranges = [(1, 0), (1000, 2), (0, 3)]\<rparr>"

definition get_meter_in_day_user_request_index :: message_index where
  "get_meter_in_day_user_request_index = \<lparr>
     field_names = [''deviceId'', ''date''],
     fields_sorted_by_name = [1, 0],
     field_ranges = [(1, 0), (0, 2)]\<rparr>"

definition meter_item_index :: message_index where
  "meter_item_index = \<lparr>
     field_names = [''index'', ''time'', ''data'', ''label''],
     fields_sorted_by_name = [2, 0, 3, 1],
     field_ranges = [(1, 0), (0, 4)]\<rparr>"

definition get_meter_in_day_user_response_index :: message_index where
  "get_meter_in_day_user_response_index = \<lparr>
     field_names = [''deviceId'', ''meterItems''],
     fields_sorted_by_name = [0, 1],
     field_ranges = [(1, 0), (0, 2)]\<rparr>"

definition get_meter_in_month_user_request_index :: message_index where
  "get_meter_in_month_user_request_index = \<lparr>
     field_names = [''deviceId'', ''month''],
     fields_sorted_by_name = [0, 1],
     field_ranges = [(1, 0), (0, 2)]\<rparr>"

definition get_meter_in_month_user_response_index :: message_index where
  "get_meter_in_month_user_response_index = \<lparr>
     field_names = [''deviceId'', ''meterItems''],
     fields_sorted_by_name = [0, 1],
     field_ranges = [(1, 0), (0, 2)]\<rparr>"

definition get_meter_in_year_user_request_index :: message_index where
  "get_meter_in_year_user_request_index = \<lparr>
     field_names = [''deviceId''],
     fields_sorted_by_name = [0],
     field_ranges = [(1, 0), (0, 1)]\<rparr>"

definition get_meter_in_year_user_response_index :: message_index where
  "get_meter_in_year_user_response_index = \<lparr>
     field_names = [''deviceId'', ''meterItems''],
     fields_sorted_by_name = [0, 1],
     field_ranges = [(1, 0), (0, 2)]\<rparr>"

definition device_user_message_index :: message_index where
  "device_user_message_index = \<lparr>
     field_names = [''deviceControlUserRequest'', ''deviceControlUserResponse'', ''requireStreamUserRequest'',
                    ''requireStreamUserResponse'', ''controlLaneUserRequest'', ''controlLaneUserResponse'',
                    ''setActiveTimeUserRequest'', ''setActiveTimeUserResponse'', ''setCycleConfigUserRequest'',
                    ''setCycleConfigUserResponse'', ''setCoordinateUserRequest'',
                    ''setCoordinateUserResponse'', ''syncTimeUserRequest'', ''syncTimeUserResponse'',
                    ''getDeviceUserRequest'', ''getDeviceUserResponse'', ''getCoordinateUserRequest'',
                    ''getCoordinateUserResponse'', ''getMeterInDayUserRequest'', ''getMeterInDayUserResponse'',
                    ''getMeterInMonthUserRequest'', ''getMeterInMonthUserResponse'',
                    ''getMeterInYearUserRequest'', ''getMeterInYearUserResponse''],
     fields_sorted_by_name = [4, 5, 0, 1, 16, 17, 14, 15, 18, 19, 20, 21, 22, 23, 2, 3, 6, 7, 10, 11, 8, 9, 12,
                              13],
     field_ranges = [(1, 0), (0, 24)]\<rparr>"

definition update_device_connection_state_index :: message_index where
  "update_device_connection_state_index = \<lparr>
     field_names = [''deviceId'', ''connectionState''],
     fields_sorted_by_name = [1, 0],
     field_ranges = [(1, 0), (0, 2)]\<rparr>"

definition channel_state_index :: message_index where
  "channel_state_index = \<lparr>
     field_names = [''index'', ''counter'', ''lightState'', ''walkingState'', ''mappingState''],
     fields_sorted_by_name = [1, 0, 2, 4, 3],
     field_ranges = [(1, 0), (0, 5)]\<rparr>"

definition device_state_model_index :: message_index where
  "device_state_model_index = \<lparr>
     field_names = [''connectionState'', ''num_phase'', ''signal'', ''mapping'', ''countdown'',
                    ''output_sensor'', ''walking_signal'', ''railway_signal'', ''cpu_active_mode'',
                    ''idx_time_form'', ''idx_timeline'', ''idx_cycle_form'', ''laneState'', ''cpuTime'',
                    ''laneActive'', ''cpuOnOff'', ''isWalkingSignalEnable'', ''isRailwaySignalEnable'',
                    ''cpuType'', ''sideTime'', ''clearanceTime'', ''activeBegin'', ''activeEnd'',
                    ''channelState''],
     fields_sorted_by_name = [21, 22, 23, 20, 0, 4, 15, 13, 18, 8, 11, 9, 10, 17, 16, 14, 12, 3, 1, 5, 7, 19,
                              2, 6],
     field_ranges = [(1, 0), (7, 5), (13, 9), (0, 24)]\<rparr>"

definition state_on_change_user_message_index :: message_index where
  "state_on_change_user_message_index = \<lparr>
     field_names = [''deviceId'', ''update1Second''],
     fields_sorted_by_name = [0, 1],
     field_ranges = [(1, 0), (0, 2)]\<rparr>"

definition log_update_user_message_index :: message_index where
  "log_update_user_message_index = \<lparr>
     field_names = [''deviceId'', ''message''],
     fields_sorted_by_name = [0, 1],
     field_ranges = [(1, 0), (0, 2)]\<rparr>"

definition error_status_user_message_index :: message_index where
  "error_status_user_message_index = \<lparr>
     field_names = [''deviceId'', ''errorStatus'', ''noteList''],
     fields_sorted_by_name = [0, 1, 2],
     field_ranges = [(1, 0), (0, 3)]\<rparr>"

definition update_power_state_user_message_index :: message_index where
  "update_power_state_user_message_index = \<lparr>
     field_names = [''deviceId'', ''isOn''],
     fields_sorted_by_name = [0, 1],
     field_ranges = [(1, 0), (0, 2)]\<rparr>"

definition update_schedule_user_message_index :: message_index where
  "update_schedule_user_message_index = \<lparr>
     field_names = [''deviceId'', ''activeBegin'', ''activeEnd''],
     fields_sorted_by_name = [1, 2, 0],
     field_ranges = [(1, 0), (0, 3)]\<rparr>"

definition update_mode_user_message_index :: message_index where
  "update_mode_user_message_index = \<lparr>
     field_names = [''deviceId'', ''mode''],
     fields_sorted_by_name = [0, 1],
     field_ranges = [(1, 0), (0, 2)]\<rparr>"

definition device_onchange_user_message_index :: message_index where
  "device_onchange_user_message_index = \<lparr>
     field_names = [''updateDeviceConnectionState'', ''deviceStateOnChange'', ''logUpdate'',
                    ''errorStatusUserMessage'', ''updatePowerStateUserMessage'', ''updateScheduleUserMessage'',
                    ''updateModeUserMessage''],
     fields_sorted_by_name = [1, 3, 2, 0, 6, 4, 5],
     field_ranges = [(1, 0), (0, 7)]\<rparr>"

definition get_station_user_request_index :: message_index where
  "get_station_user_request_index = \<lparr>
     field_names = [''stationId''],
     fields_sorted_by_name = [0],
     field_ranges = [(1, 0), (0, 1)]\<rparr>"

definition sign_param_index :: message_index where
  "sign_param_index = \<lparr>
     field_names = [''channel'', ''x'', ''y'', ''text''],
     fields_sorted_by_name = [0, 3, 1, 2],
     field_ranges = [(1, 0), (0, 4)]\<rparr>"

definition station_lane_light_config_index :: message_index where
  "station_lane_light_config_index = \<lparr>
     field_names = [''countdown'', ''trafficLight'', ''walking'', ''railway'', ''turnRight'', ''goAhead'',
                    ''turnLeft'', ''index'', ''label''],
     fields_sorted_by_name = [0, 5, 7, 8, 3, 1, 6, 4, 2],
     field_ranges = [(1, 0), (0, 9)]\<rparr>"

definition station_index :: message_index where
  "station_index = \<lparr>
     field_names = [''stationId'', ''name'', ''device'', ''stationLat'', ''stationLong'', ''numPhase'',
                    ''laneLightConfig'', ''background'', ''hardwareId'', ''firmware'', ''createDate'',
                    ''numCard'', ''errorStatus'', ''errorStatusNote'', ''connectionState'', ''isOn'',
                    ''activeBegin'', ''activeEnd'', ''meterItems'', ''deviceId'', ''mode''],
     fields_sorted_by_name = [16, 17, 7, 14, 10, 2, 19, 12, 13, 9, 8, 15, 6, 18, 20, 1, 11, 5, 0, 3, 4],
     field_ranges = [(1, 0), (0, 21)]\<rparr>"

definition get_station_user_response_index :: message_index where
  "get_station_user_response_index = \<lparr>
     field_names = [''station'', ''statusCode''],
     fields_sorted_by_name = [0, 1],
     field_ranges = [(1, 0), (0, 2)]\<rparr>"

definition get_station_list_user_request_index :: message_index where
  "get_station_list_user_request_index = \<lparr>
     field_names = [''projectId''],
     fields_sorted_by_name = [0],
     field_ranges = [(1, 0), (0, 1)]\<rparr>"

definition get_station_list_user_response_index :: message_index where
  "get_station_list_user_response_index = \<lparr>
     field_names = [''stations'', ''originLat'', ''originLong'', ''statusCode''],
     fields_sorted_by_name = [1, 2, 0, 3],
     field_ranges = [(1, 0), (1000, 3), (0, 4)]\<rparr>"

definition add_station_user_request_index :: message_index where
  "add_station_user_request_index = \<lparr>
     field_names = [''stationName'', ''hardwareId'', ''stationLat'', ''stationLong''],
     fields_sorted_by_name = [1, 2, 3, 0],
     field_ranges = [(1, 0), (0, 4)]\<rparr>"

definition add_station_user_response_index :: message_index where
  "add_station_user_response_index = \<lparr>
     field_names = [''statusCode''],
     fields_sorted_by_name = [0],
     field_ranges = [(1000, 0), (0, 1)]\<rparr>"

definition set_sign_setting_user_request_index :: message_index where
  "set_sign_setting_user_request_index = \<lparr>
     field_names = [''stationId'', ''channelRailway'', ''channelWalking'', ''channelTurnLeft'',
                    ''channelTurnRight'', ''channelGoAhead'', ''channelTrafficLight'', ''channelCounter'',
                    ''channelLabel'', ''backgroundSrc''],
     fields_sorted_by_name = [9, 7, 5, 8, 1, 6, 3, 4, 2, 0],
     field_ranges = [(1, 0), (0, 10)]\<rparr>"

definition set_sign_setting_user_response_index :: message_index where
  "set_sign_setting_user_response_index = \<lparr>
     field_names = [''statusCode''],
     fields_sorted_by_name = [0],
     field_ranges = [(1000, 0), (0, 1)]\<rparr>"

definition get_latest_firmware_user_request_index :: message_index where
  "get_latest_firmware_user_request_index = \<lparr>
     field_names = [],
     fields_sorted_by_name = [],
     field_ranges = [(0, 0)]\<rparr>"

definition get_latest_firmware_user_response_index :: message_index where
  "get_latest_firmware_user_response_index = \<lparr>
     field_names = [''latestFirmware'', ''latestAppVersion'', ''statusCode''],
     fields_sorted_by_name = [1, 0, 2],
     field_ranges = [(1, 0), (1000, 2), (0, 3)]\<rparr>"

definition get_log_file_user_request_index :: message_index where
  "get_log_file_user_request_index = \<lparr>
     field_names = [''stationId'', ''date''],
     fields_sorted_by_name = [1, 0],
     field_ranges = [(1, 0), (0, 2)]\<rparr>"

definition get_log_file_user_response_index :: message_index where
  "get_log_file_user_response_index = \<lparr>
     field_names = [''log'', ''statusCode''],
     fields_sorted_by_name = [0, 1],
     field_ranges = [(1, 0), (1000, 1), (0, 2)]\<rparr>"

definition delete_station_user_request_index :: message_index where
  "delete_station_user_request_index = \<lparr>
     field_names = [''stationId''],
     fields_sorted_by_name = [0],
     field_ranges = [(1, 0), (0, 1)]\<rparr>"

definition delete_station_user_response_index :: message_index where
  "delete_station_user_response_index = \<lparr>
     field_names = [''statusCode''],
     fields_sorted_by_name = [0],
     field_ranges = [(1000, 0), (0, 1)]\<rparr>"

definition edit_number_card_user_request_index :: message_index where
  "edit_number_card_user_request_index = \<lparr>
     field_names = [''stationId'', ''nCard''],
     fields_sorted_by_name = [1, 0],
     field_ranges = [(1, 0), (0, 2)]\<rparr>"

definition edit_number_card_user_response_index :: message_index where
  "edit_number_card_user_response_index = \<lparr>
     field_names = [''nCard'', ''statusCode''],
     fields_sorted_by_name = [0, 1],
     field_ranges = [(1, 0), (1000, 1), (0, 2)]\<rparr>"

definition update_error_handling_user_request_index :: message_index where
  "update_error_handling_user_request_index = \<lparr>
     field_names = [''stationId'', ''errorStatus''],
     fields_sorted_by_name = [1, 0],
     field_ranges = [(1, 0), (0, 2)]\<rparr>"

definition update_diary_log_user_request_index :: message_index where
  "update_diary_log_user_request_index = \<lparr>
     field_names = [''stationId'', ''message''],
     fields_sorted_by_name = [1, 0],
     field_ranges = [(1, 0), (0, 2)]\<rparr>"

definition update_diary_log_user_response_index :: message_index where
  "update_diary_log_user_response_index = \<lparr>
     field_names = [''fullLog'', ''statusCode''],
     fields_sorted_by_name = [0, 1],
     field_ranges = [(1, 0), (1000, 1), (0, 2)]\<rparr>"

definition accessory_index :: message_index where
  "accessory_index = \<lparr>
     field_names = [''id'', ''name'', ''model'', ''madeBy'', ''position'', ''installedPos'', ''installedDate'',
                    ''status'', ''stationId''],
     fields_sorted_by_name = [0, 6, 5, 3, 2, 1, 4, 8, 7],
     field_ranges = [(1, 0), (0, 9)]\<rparr>"

definition insert_accessory_user_request_index :: message_index where
  "insert_accessory_user_request_index = \<lparr>
     field_names = [''accessory''],
     fields_sorted_by_name = [0],
     field_ranges = [(1, 0), (0, 1)]\<rparr>"

definition insert_accessory_user_response_index :: message_index where
  "insert_accessory_user_response_index = \<lparr>
     field_names = [''accessories'', ''statusCode''],
     fields_sorted_by_name = [0, 1],
     field_ranges = [(1, 0), (1000, 1), (0, 2)]\<rparr>"

definition get_accessories_user_request_index :: message_index where
  "get_accessories_user_request_index = \<lparr>
     field_names = [''stationId''],
     fields_sorted_by_name = [0],
     field_ranges = [(1, 0), (0, 1)]\<rparr>"

definition get_accessories_user_response_index :: message_index where
  "get_accessories_user_response_index = \<lparr>
     field_names = [''accessories'', ''statusCode''],
     fields_sorted_by_name = [0, 1],
     field_ranges = [(1, 0), (1000, 1), (0, 2)]\<rparr>"

definition delete_accessory_user_request_index :: message_index where
  "delete_accessory_user_request_index = \<lparr>
     field_names = [''stationId'', ''accessoryId''],
     fields_sorted_by_name = [1, 0],
     field_ranges = [(1, 0), (0, 2)]\<rparr>"

definition delete_accessory_user_response_index :: message_index where
  "delete_accessory_user_response_index = \<lparr>
     field_names = [''accessories'', ''statusCode''],
     fields_sorted_by_name = [0, 1],
     field_ranges = [(1, 0), (1000, 1), (0, 2)]\<rparr>"

definition edit_accessory_user_request_index :: message_index where
  "edit_accessory_user_request_index = \<lparr>
     field_names = [''accessories''],
     fields_sorted_by_name = [0],
     field_ranges = [(1, 0), (0, 1)]\<rparr>"

definition edit_accessory_user_response_index :: message_index where
  "edit_accessory_user_response_index = \<lparr>
     field_names = [''accessories'', ''statusCode''],
     fields_sorted_by_name = [0, 1],
     field_ranges = [(1, 0), (1000, 1), (0, 2)]\<rparr>"

definition update_schedule_user_request_index :: message_index where
  "update_schedule_user_request_index = \<lparr>
     field_names = [''stationId'', ''timeLampForm'', ''cycle'', ''days''],
     fields_sorted_by_name = [2, 3, 0, 1],
     field_ranges = [(1, 0), (0, 4)]\<rparr>"

definition update_schedule_user_response_index :: message_index where
  "update_schedule_user_response_index = \<lparr>
     field_names = [''statusCode''],
     fields_sorted_by_name = [0],
     field_ranges = [(1000, 0), (0, 1)]\<rparr>"

definition get_schedule_user_request_index :: message_index where
  "get_schedule_user_request_index = \<lparr>
     field_names = [''stationId''],
     fields_sorted_by_name = [0],
     field_ranges = [(1, 0), (0, 1)]\<rparr>"

definition get_schedule_user_response_index :: message_index where
  "get_schedule_user_response_index = \<lparr>
     field_names = [''stationId'', ''timeLampForm'', ''cycle'', ''days'', ''statusCode''],
     fields_sorted_by_name = [2, 3, 0, 4, 1],
     field_ranges = [(1, 0), (1000, 4), (0, 5)]\<rparr>"

definition station_user_message_index :: message_index where
  "station_user_message_index = \<lparr>
     field_names = [''getStationUserRequest'', ''getStationUserResponse'', ''getStationListUserRequest'',
                    ''getStationListUserResponse'', ''addStationUserRequest'', ''addStationUserResponse'',
                    ''setSignSettingUserRequest'', ''setSignSettingUserResponse'',
                    ''getLatestFirmwareUserRequest'', ''getLatestFirmwareUserResponse'',
                    ''getLogFileUserRequest'', ''getLogFileUserResponse'', ''deleteStationUserRequest'',
                    ''deleteStationUserResponse'', ''editNumberCardUserRequest'',
                    ''editNumberCardUserResponse'', ''updateErrorHandlingUserRequest'',
                    ''updateDiaryLogUserRequest'', ''updateDiaryLogUserResponse'',
                    ''insertAccessoryUserRequest'', ''insertAccessoryUserResponse'',
                    ''getAccessoriesUserRequest'', ''getAccessoriesUserResponse'',
                    ''deleteAccessoryUserRequest'', ''deleteAccessoryUserResponse'',
                    ''editAccessoryUserRequest'', ''editAccessoryUserResponse'', ''updateScheduleUserRequest'',
                    ''updateScheduleUserResponse'', ''getScheduleUserRequest'', ''getScheduleUserResponse''],
     fields_sorted_by_name = [4, 5, 23, 24, 12, 13, 25, 26, 14, 15, 21, 22, 8, 9, 10, 11, 29, 30, 2, 3, 0, 1,
                              19, 20, 6, 7, 17, 18, 16, 27, 28],
     field_ranges = [(1, 0), (0, 31)]\<rparr>"

definition get_accounts_user_request_index :: message_index where
  "get_accounts_user_request_index = \<lparr>
     field_names = [''projectId''],
     fields_sorted_by_name = [0],
     field_ranges = [(1, 0), (0, 1)]\<rparr>"

definition account_index :: message_index where
  "account_index = \<lparr>
     field_names = [''userId'', ''userName'', ''role'', ''createDate'', ''isCurrentAccount''],
     fields_sorted_by_name = [3, 4, 2, 0, 1],
     field_ranges = [(1, 0), (0, 5)]\<rparr>"

definition get_accounts_user_response_index :: message_index where
  "get_accounts_user_response_index = \<lparr>
     field_names = [''accounts'', ''statusCode''],
     fields_sorted_by_name = [0, 1],
     field_ranges = [(1, 0), (1000, 1), (0, 2)]\<rparr>"

definition delete_account_user_request_index :: message_index where
  "delete_account_user_request_index = \<lparr>
     field_names = [''userId''],
     fields_sorted_by_name = [0],
     field_ranges = [(1, 0), (0, 1)]\<rparr>"

definition delete_account_user_response_index :: message_index where
  "delete_account_user_response_index = \<lparr>
     field_names = [''statusCode''],
     fields_sorted_by_name = [0],
     field_ranges = [(1000, 0), (0, 1)]\<rparr>"

definition create_new_account_user_request_index :: message_index where
  "create_new_account_user_request_index = \<lparr>
     field_names = [''userName'', ''password'', ''role''],
     fields_sorted_by_name = [1, 2, 0],
     field_ranges = [(1, 0), (0, 3)]\<rparr>"

definition create_new_account_user_response_index :: message_index where
  "create_new_account_user_response_index = \<lparr>
     field_names = [''statusCode''],
     fields_sorted_by_name = [0],
     field_ranges = [(1000, 0), (0, 1)]\<rparr>"

definition change_password_user_request_index :: message_index where
  "change_password_user_request_index = \<lparr>
     field_names = [''password'', ''newPassword''],
     fields_sorted_by_name = [1, 0],
     field_ranges = [(1, 0), (0, 2)]\<rparr>"

definition change_password_user_response_index :: message_index where
  "change_password_user_response_index = \<lparr>
     field_names = [''statusCode''],
     fields_sorted_by_name = [0],
     field_ranges = [(1000, 0), (0, 1)]\<rparr>"

definition update_alert_info_user_request_index :: message_index where
  "update_alert_info_user_request_index = \<lparr>
     field_names = [''email'', ''phone''],
     fields_sorted_by_name = [0, 1],
     field_ranges = [(1, 0), (0, 2)]\<rparr>"

definition update_alert_info_user_response_index :: message_index where
  "update_alert_info_user_response_index = \<lparr>
     field_names = [''email'', ''phone'', ''statusCode''],
     fields_sorted_by_name = [0, 1, 2],
     field_ranges = [(1, 0), (1000, 2), (0, 3)]\<rparr>"

definition account_user_message_index :: message_index where
  "account_user_message_index = \<lparr>
     field_names = [''getAccountsUserRequest'', ''getAccountsUserResponse'', ''deleteAccountUserRequest'',
                    ''deleteAccountUserResponse'', ''createNewAccountUserRequest'',
                    ''createNewAccountUserResponse'', ''changePasswordUserRequest'',
                    ''changePasswordUserResponse'', ''updateAlertInfoUserRequest'',
                    ''updateAlertInfoUserResponse''],
     fields_sorted_by_name = [6, 7, 4, 5, 2, 3, 0, 1, 8, 9],
     field_ranges = [(1, 0), (0, 10)]\<rparr>"

definition user_message_index :: message_index where
  "user_message_index = \<lparr>
     field_names = [''authUserMessage'', ''deviceUserMessage'', ''deviceOnchangeUserMessage'',
                    ''stationUserMessage'', ''accountUserMessage''],
     fields_sorted_by_name = [4, 0, 2, 1, 3],
     field_ranges = [(1, 0), (0, 5)]\<rparr>"

definition main_message_index :: message_index where
  "main_message_index = \<lparr>
     field_names = [''userMessage'', ''deviceMessage''],
     fields_sorted_by_name = [1, 0],
     field_ranges = [(1, 0), (0, 2)]\<rparr>"

definition message_tables :: "(descriptor \<times> message_index) list" where
  "message_tables =
     [(device_register_request_descriptor, device_register_request_index),
      (status_code_descriptor, status_code_index),
      (device_register_response_descriptor, device_register_response_index),
      (device_login_request_descriptor, device_login_request_index),
      (device_login_response_descriptor, device_login_response_index),
      (device_auth_message_descriptor, device_auth_message_index),
      (device_log_update_descriptor, device_log_update_index), (lane_state_descriptor, lane_state_index),
      (device_state_descriptor, device_state_index),
      (state_on_change_device_message_descriptor, state_on_change_device_message_index),
      (card_config_descriptor, card_config_index),
      (mtfcphase_gate_config_descriptor, mtfcphase_gate_config_index),
      (device_update_configure_request_descriptor, device_update_configure_request_index),
      (device_update_configure_response_descriptor, device_update_configure_response_index),
      (ping_websocket_device_request_descriptor, ping_websocket_device_request_index),
      (ping_websocket_device_response_descriptor, ping_websocket_device_response_index),
      (hmtime_descriptor, hmtime_index), (active_lamp_descriptor, active_lamp_index),
      (one_side_lamp_time_descriptor, one_side_lamp_time_index),
      (one_cycle_lamp_time_descriptor, one_cycle_lamp_time_index),
      (cycle_lamp_form_descriptor, cycle_lamp_form_index), (one_timeline_descriptor, one_timeline_index),
      (day_time_line_descriptor, day_time_line_index), (time_lamp_form_descriptor, time_lamp_form_index),
      (day_lamp_form_descriptor, day_lamp_form_index),
      (device_update_schedule_request_descriptor, device_update_schedule_request_index),
      (device_update_schedule_response_descriptor, device_update_schedule_response_index),
      (update_coordinate_device_request_descriptor, update_coordinate_device_request_index),
      (update_coordinate_device_response_descriptor, update_coordinate_device_response_index),
      (announce_error_device_request_descriptor, announce_error_device_request_index),
      (update_power_state_device_request_descriptor, update_power_state_device_request_index),
      (update_mode_device_request_descriptor, update_mode_device_request_index),
      (update_meter_data_device_request_descriptor, update_meter_data_device_request_index),
      (device_update_message_descriptor, device_update_message_index),
      (require_stream_device_request_descriptor, require_stream_device_request_index),
      (require_stream_device_response_descriptor, require_stream_device_response_index),
      (control_lane_device_request_descriptor, control_lane_device_request_index),
      (control_lane_device_response_descriptor, control_lane_device_response_index),
      (set_active_time_device_request_descriptor, set_active_time_device_request_index),
      (set_active_time_device_response_descriptor, set_active_time_device_response_index),
      (set_cycle_config_device_request_descriptor, set_cycle_config_device_request_index),
      (sync_time_device_request_descriptor, sync_time_device_request_index),
      (sync_time_device_response_descriptor, sync_time_device_response_index),
      (get_coordinate_device_request_descriptor, get_coordinate_device_request_index),
      (get_coordinate_device_response_descriptor, get_coordinate_device_response_index),
      (trigger_notify_user_device_request_descriptor, trigger_notify_user_device_request_index),
      (trigger_notify_user_device_response_descriptor, trigger_notify_user_device_response_index),
      (update_schedule_user_device_request_descriptor, update_schedule_user_device_request_index),
      (update_schedule_user_device_response_descriptor, update_schedule_user_device_response_index),
      (power_control_user_request_descriptor, power_control_user_request_index),
      (force_otaupdate_user_request_descriptor, force_otaupdate_user_request_index),
      (release_control_user_request_descriptor, release_control_user_request_index),
      (user_device_message_descriptor, user_device_message_index),
      (device_message_descriptor, device_message_index),
      (user_login_request_descriptor, user_login_request_index),
      (user_login_response_descriptor, user_login_response_index),
      (get_access_token_user_request_descriptor, get_access_token_user_request_index),
      (get_access_token_user_response_descriptor, get_access_token_user_response_index),
      (auth_user_message_descriptor, auth_user_message_index),
      (device_control_user_request_descriptor, device_control_user_request_index),
      (device_control_user_response_descriptor, device_control_user_response_index),
      (require_stream_user_request_descriptor, require_stream_user_request_index),
      (require_stream_user_response_descriptor, require_stream_user_response_index),
      (control_lane_user_request_descriptor, control_lane_user_request_index),
      (control_lane_user_response_descriptor, control_lane_user_response_index),
      (set_active_time_user_request_descriptor, set_active_time_user_request_index),
      (set_active_time_user_response_descriptor, set_active_time_user_response_index),
      (set_cycle_config_user_request_descriptor, set_cycle_config_user_request_index),
      (set_cycle_config_user_response_descriptor, set_cycle_config_user_response_index),
      (set_coordinate_user_request_descriptor, set_coordinate_user_request_index),
      (set_coordinate_user_response_descriptor, set_coordinate_user_response_index),
      (sync_time_user_request_descriptor, sync_time_user_request_index),
      (sync_time_user_response_descriptor, sync_time_user_response_index),
      (get_device_user_request_descriptor, get_device_user_request_index), (device_descriptor, device_index),
      (get_device_user_response_descriptor, get_device_user_response_index),
      (get_coordinate_user_request_descriptor, get_coordinate_user_request_index),
      (get_coordinate_user_response_descriptor, get_coordinate_user_response_index),
      (get_meter_in_day_user_request_descriptor, get_meter_in_day_user_request_index),
      (meter_item_descriptor, meter_item_index),
      (get_meter_in_day_user_response_descriptor, get_meter_in_day_user_response_index),
      (get_meter_in_month_user_request_descriptor, get_meter_in_month_user_request_index),
      (get_meter_in_month_user_response_descriptor, get_meter_in_month_user_response_index),
      (get_meter_in_year_user_request_descriptor, get_meter_in_year_user_request_index),
      (get_meter_in_year_user_response_descriptor, get_meter_in_year_user_response_index),
      (device_user_message_descriptor, device_user_message_index),
      (update_device_connection_state_descriptor, update_device_connection_state_index),
      (channel_state_descriptor, channel_state_index),
      (device_state_model_descriptor, device_state_model_index),
      (state_on_change_user_message_descriptor, state_on_change_user_message_index),
      (log_update_user_message_descriptor, log_update_user_message_index),
      (error_status_user_message_descriptor, error_status_user_message_index),
      (update_power_state_user_message_descriptor, update_power_state_user_message_index),
      (update_schedule_user_message_descriptor, update_schedule_user_message_index),
      (update_mode_user_message_descriptor, update_mode_user_message_index),
      (device_onchange_user_message_descriptor, device_onchange_user_message_index),
      (get_station_user_request_descriptor, get_station_user_request_index),
      (sign_param_descriptor, sign_param_index),
      (station_lane_light_config_descriptor, station_lane_light_config_index),
      (station_descriptor, station_index),
      (get_station_user_response_descriptor, get_station_user_response_index),
      (get_station_list_user_request_descriptor, get_station_list_user_request_index),
      (get_station_list_user_response_descriptor, get_station_list_user_response_index),
      (add_station_user_request_descriptor, add_station_user_request_index),
      (add_station_user_response_descriptor, add_station_user_response_index),
      (set_sign_setting_user_request_descriptor, set_sign_setting_user_request_index),
      (set_sign_setting_user_response_descriptor, set_sign_setting_user_response_index),
      (get_latest_firmware_user_request_descriptor, get_latest_firmware_user_request_index),
      (get_latest_firmware_user_response_descriptor, get_latest_firmware_user_response_index),
      (get_log_file_user_request_descriptor, get_log_file_user_request_index),
      (get_log_file_user_response_descriptor, get_log_file_user_response_index),
      (delete_station_user_request_descriptor, delete_station_user_request_index),
      (delete_station_user_response_descriptor, delete_station_user_response_index),
      (edit_number_card_user_request_descriptor, edit_number_card_user_request_index),
      (edit_number_card_user_response_descriptor, edit_number_card_user_response_index),
      (update_error_handling_user_request_descriptor, update_error_handling_user_request_index),
      (update_diary_log_user_request_descriptor, update_diary_log_user_request_index),
      (update_diary_log_user_response_descriptor, update_diary_log_user_response_index),
      (accessory_descriptor, accessory_index),
      (insert_accessory_user_request_descriptor, insert_accessory_user_request_index),
      (insert_accessory_user_response_descriptor, insert_accessory_user_response_index),
      (get_accessories_user_request_descriptor, get_accessories_user_request_index),
      (get_accessories_user_response_descriptor, get_accessories_user_response_index),
      (delete_accessory_user_request_descriptor, delete_accessory_user_request_index),
      (delete_accessory_user_response_descriptor, delete_accessory_user_response_index),
      (edit_accessory_user_request_descriptor, edit_accessory_user_request_index),
      (edit_accessory_user_response_descriptor, edit_accessory_user_response_index),
      (update_schedule_user_request_descriptor, update_schedule_user_request_index),
      (update_schedule_user_response_descriptor, update_schedule_user_response_index),
      (get_schedule_user_request_descriptor, get_schedule_user_request_index),
      (get_schedule_user_response_descriptor, get_schedule_user_response_index),
      (station_user_message_descriptor, station_user_message_index),
      (get_accounts_user_request_descriptor, get_accounts_user_request_index),
      (account_descriptor, account_index),
      (get_accounts_user_response_descriptor, get_accounts_user_response_index),
      (delete_account_user_request_descriptor, delete_account_user_request_index),
      (delete_account_user_response_descriptor, delete_account_user_response_index),
      (create_new_account_user_request_descriptor, create_new_account_user_request_index),
      (create_new_account_user_response_descriptor, create_new_account_user_response_index),
      (change_password_user_request_descriptor, change_password_user_request_index),
      (change_password_user_response_descriptor, change_password_user_response_index),
      (update_alert_info_user_request_descriptor, update_alert_info_user_request_index),
      (update_alert_info_user_response_descriptor, update_alert_info_user_response_index),
      (account_user_message_descriptor, account_user_message_index),
      (user_message_descriptor, user_message_index), (main_message_descriptor, main_message_index)]"

section \<open>Enumerations\<close>

definition meter_item_type_enum :: enum_table where
  "meter_item_type_enum = \<lparr>
     enum_values = [(''METER_ITEM_TYPE_HOUR'', 0), (''METER_ITEM_TYPE_DAY'', 1),
                    (''METER_ITEM_TYPE_MONTH'', 2)],
     values_by_name = [(''METER_ITEM_TYPE_DAY'', 1), (''METER_ITEM_TYPE_HOUR'', 0),
                       (''METER_ITEM_TYPE_MONTH'', 2)],
     value_ranges = [(0, 0), (0, 3)]\<rparr>"

definition device_type_enum :: enum_table where
  "device_type_enum = \<lparr>
     enum_values = [(''MTFC_AC'', 0), (''MTFC_DC_24'', 1), (''MTFC_DC_36'', 2), (''MTFC_DC_48'', 3),
                    (''MTFC_SOLAR'', 4), (''MTFC_SMS_CONTROLLER'', 5)],
     values_by_name = [(''MTFC_AC'', 0), (''MTFC_DC_24'', 1), (''MTFC_DC_36'', 2), (''MTFC_DC_48'', 3),
                       (''MTFC_SMS_CONTROLLER'', 5), (''MTFC_SOLAR'', 4)],
     value_ranges = [(0, 0), (0, 6)]\<rparr>"

definition account_role_enum :: enum_table where
  "account_role_enum = \<lparr>
     enum_values = [(''NONE'', 0), (''ADMIN'', 1), (''OPERATOR'', 2)],
     values_by_name = [(''ADMIN'', 1), (''NONE'', 0), (''OPERATOR'', 2)],
     value_ranges = [(0, 0), (0, 3)]\<rparr>"

definition connection_state_enum :: enum_table where
  "connection_state_enum = \<lparr>
     enum_values = [(''CONNECTION_OFFLINE'', 0), (''CONNECTION_ONLINE'', 1)],
     values_by_name = [(''CONNECTION_OFFLINE'', 0), (''CONNECTION_ONLINE'', 1)],
     value_ranges = [(0, 0), (0, 2)]\<rparr>"

definition mtfcmain_work_state_enum :: enum_table where
  "mtfcmain_work_state_enum = \<lparr>
     enum_values = [(''MTFC_STATE_off'', 0), (''MTFC_STATE_AUTO'', 1), (''MTFC_STATE_MANUAL'', 2),
                    (''MTFC_STATE_RAILWAY'', 3), (''MTFC_STATE_WALKING'', 4)],
     values_by_name = [(''MTFC_STATE_AUTO'', 1), (''MTFC_STATE_MANUAL'', 2), (''MTFC_STATE_RAILWAY'', 3),
                       (''MTFC_STATE_WALKING'', 4), (''MTFC_STATE_off'', 0)],
     value_ranges = [(0, 0), (0, 5)]\<rparr>"

definition pin_switch_profile_enum :: enum_table where
  "pin_switch_profile_enum = \<lparr>
     enum_values = [(''PIN_SWITCH_ONOFF'', 0), (''PIN_SWITCH_RAILWAY'', 1), (''PIN_SWITCH_WALKING'', 2),
                    (''PIN_SWITCH_T1'', 3), (''PIN_SWITCH_T2'', 4), (''PIN_SWITCH_T3'', 5),
                    (''PIN_SWITCH_T4'', 6), (''PIN_SWITCH_OP'', 7)],
     values_by_name = [(''PIN_SWITCH_ONOFF'', 0), (''PIN_SWITCH_OP'', 7), (''PIN_SWITCH_RAILWAY'', 1),
                       (''PIN_SWITCH_T1'', 3), (''PIN_SWITCH_T2'', 4), (''PIN_SWITCH_T3'', 5),
                       (''PIN_SWITCH_T4'', 6), (''PIN_SWITCH_WALKING'', 2)],
     value_ranges = [(0, 0), (0, 8)]\<rparr>"

definition pin_out_profile_enum :: enum_table where
  "pin_out_profile_enum = \<lparr>
     enum_values = [(''PIN_GREEN'', 0), (''PIN_YELLOW'', 1), (''PIN_RED'', 2), (''PIN_WALKING_GREEN'', 3),
                    (''PIN_WALKING_RED'', 4), (''PIN_OPTION_1'', 5), (''PIN_OPTION_2'', 6),
                    (''PIN_OPTION_3'', 7)],
     values_by_name = [(''PIN_GREEN'', 0), (''PIN_OPTION_1'', 5), (''PIN_OPTION_2'', 6), (''PIN_OPTION_3'', 7),
                       (''PIN_RED'', 2), (''PIN_WALKING_GREEN'', 3), (''PIN_WALKING_RED'', 4),
                       (''PIN_YELLOW'', 1)],
     value_ranges = [(0, 0), (0, 8)]\<rparr>"

definition traffic_light_state_enum :: enum_table where
  "traffic_light_state_enum = \<lparr>
     enum_values = [(''TRAFFIC_LIGHT_STATE_NONE'', 0), (''TRAFFIC_LIGHT_STATE_GREEN'', 1),
                    (''TRAFFIC_LIGHT_STATE_RED'', 2), (''TRAFFIC_LIGHT_STATE_YELLOW'', 3)],
     values_by_name = [(''TRAFFIC_LIGHT_STATE_GREEN'', 1), (''TRAFFIC_LIGHT_STATE_NONE'', 0),
                       (''TRAFFIC_LIGHT_STATE_RED'', 2), (''TRAFFIC_LIGHT_STATE_YELLOW'', 3)],
     value_ranges = [(0, 0), (0, 4)]\<rparr>"

definition walking_state_enum :: enum_table where
  "walking_state_enum = \<lparr>
     enum_values = [(''WALKING_STATE_OFF'', 0), (''WALKING_STATE_GREEN'', 1), (''WALKING_STATE_RED'', 2)],
     values_by_name = [(''WALKING_STATE_GREEN'', 1), (''WALKING_STATE_OFF'', 0), (''WALKING_STATE_RED'', 2)],
     value_ranges = [(0, 0), (0, 3)]\<rparr>"

definition enum_tables :: "enum_table list" where
  "enum_tables =
     [meter_item_type_enum, device_type_enum, account_role_enum, connection_state_enum,
      mtfcmain_work_state_enum, pin_switch_profile_enum, pin_out_profile_enum, traffic_light_state_enum,
      walking_state_enum]"

section \<open>The tables are well formed\<close>

lemma device_register_request_table [tables]: "message_index_ok (map fst device_register_request_descriptor) device_register_request_index"
  by (simp only: device_register_request_descriptor_def list.map fst_conv) code_simp

lemma status_code_table [tables]: "message_index_ok (map fst status_code_descriptor) status_code_index"
  by (simp only: status_code_descriptor_def list.map fst_conv) code_simp

lemma device_register_response_table [tables]: "message_index_ok (map fst device_register_response_descriptor) device_register_response_index"
  by (simp only: device_register_response_descriptor_def list.map fst_conv) code_simp

lemma device_login_request_table [tables]: "message_index_ok (map fst device_login_request_descriptor) device_login_request_index"
  by (simp only: device_login_request_descriptor_def list.map fst_conv) code_simp

lemma device_login_response_table [tables]: "message_index_ok (map fst device_login_response_descriptor) device_login_response_index"
  by (simp only: device_login_response_descriptor_def list.map fst_conv) code_simp

lemma device_auth_message_table [tables]: "message_index_ok (map fst device_auth_message_descriptor) device_auth_message_index"
  by (simp only: device_auth_message_descriptor_def list.map fst_conv) code_simp

lemma device_log_update_table [tables]: "message_index_ok (map fst device_log_update_descriptor) device_log_update_index"
  by (simp only: device_log_update_descriptor_def list.map fst_conv) code_simp

lemma lane_state_table [tables]: "message_index_ok (map fst lane_state_descriptor) lane_state_index"
  by (simp only: lane_state_descriptor_def list.map fst_conv) code_simp

lemma device_state_table [tables]: "message_index_ok (map fst device_state_descriptor) device_state_index"
  by (simp only: device_state_descriptor_def list.map fst_conv) code_simp

lemma state_on_change_device_message_table [tables]: "message_index_ok (map fst state_on_change_device_message_descriptor) state_on_change_device_message_index"
  by (simp only: state_on_change_device_message_descriptor_def list.map fst_conv) code_simp

lemma card_config_table [tables]: "message_index_ok (map fst card_config_descriptor) card_config_index"
  by (simp only: card_config_descriptor_def list.map fst_conv) code_simp

lemma mtfcphase_gate_config_table [tables]: "message_index_ok (map fst mtfcphase_gate_config_descriptor) mtfcphase_gate_config_index"
  by (simp only: mtfcphase_gate_config_descriptor_def list.map fst_conv) code_simp

lemma device_update_configure_request_table [tables]: "message_index_ok (map fst device_update_configure_request_descriptor) device_update_configure_request_index"
  by (simp only: device_update_configure_request_descriptor_def list.map fst_conv) code_simp

lemma device_update_configure_response_table [tables]: "message_index_ok (map fst device_update_configure_response_descriptor) device_update_configure_response_index"
  by (simp only: device_update_configure_response_descriptor_def list.map fst_conv) code_simp

lemma ping_websocket_device_request_table [tables]: "message_index_ok (map fst ping_websocket_device_request_descriptor) ping_websocket_device_request_index"
  by (simp only: ping_websocket_device_request_descriptor_def list.map fst_conv) code_simp

lemma ping_websocket_device_response_table [tables]: "message_index_ok (map fst ping_websocket_device_response_descriptor) ping_websocket_device_response_index"
  by (simp only: ping_websocket_device_response_descriptor_def list.map fst_conv) code_simp

lemma hmtime_table [tables]: "message_index_ok (map fst hmtime_descriptor) hmtime_index"
  by (simp only: hmtime_descriptor_def list.map fst_conv) code_simp

lemma active_lamp_table [tables]: "message_index_ok (map fst active_lamp_descriptor) active_lamp_index"
  by (simp only: active_lamp_descriptor_def list.map fst_conv) code_simp

lemma one_side_lamp_time_table [tables]: "message_index_ok (map fst one_side_lamp_time_descriptor) one_side_lamp_time_index"
  by (simp only: one_side_lamp_time_descriptor_def list.map fst_conv) code_simp

lemma one_cycle_lamp_time_table [tables]: "message_index_ok (map fst one_cycle_lamp_time_descriptor) one_cycle_lamp_time_index"
  by (simp only: one_cycle_lamp_time_descriptor_def list.map fst_conv) code_simp

lemma cycle_lamp_form_table [tables]: "message_index_ok (map fst cycle_lamp_form_descriptor) cycle_lamp_form_index"
  by (simp only: cycle_lamp_form_descriptor_def list.map fst_conv) code_simp

lemma one_timeline_table [tables]: "message_index_ok (map fst one_timeline_descriptor) one_timeline_index"
  by (simp only: one_timeline_descriptor_def list.map fst_conv) code_simp

lemma day_time_line_table [tables]: "message_index_ok (map fst day_time_line_descriptor) day_time_line_index"
  by (simp only: day_time_line_descriptor_def list.map fst_conv) code_simp

lemma time_lamp_form_table [tables]: "message_index_ok (map fst time_lamp_form_descriptor) time_lamp_form_index"
  by (simp only: time_lamp_form_descriptor_def list.map fst_conv) code_simp

lemma day_lamp_form_table [tables]: "message_index_ok (map fst day_lamp_form_descriptor) day_lamp_form_index"
  by (simp only: day_lamp_form_descriptor_def list.map fst_conv) code_simp

lemma device_update_schedule_request_table [tables]: "message_index_ok (map fst device_update_schedule_request_descriptor) device_update_schedule_request_index"
  by (simp only: device_update_schedule_request_descriptor_def list.map fst_conv) code_simp

lemma device_update_schedule_response_table [tables]: "message_index_ok (map fst device_update_schedule_response_descriptor) device_update_schedule_response_index"
  by (simp only: device_update_schedule_response_descriptor_def list.map fst_conv) code_simp

lemma update_coordinate_device_request_table [tables]: "message_index_ok (map fst update_coordinate_device_request_descriptor) update_coordinate_device_request_index"
  by (simp only: update_coordinate_device_request_descriptor_def list.map fst_conv) code_simp

lemma update_coordinate_device_response_table [tables]: "message_index_ok (map fst update_coordinate_device_response_descriptor) update_coordinate_device_response_index"
  by (simp only: update_coordinate_device_response_descriptor_def list.map fst_conv) code_simp

lemma announce_error_device_request_table [tables]: "message_index_ok (map fst announce_error_device_request_descriptor) announce_error_device_request_index"
  by (simp only: announce_error_device_request_descriptor_def list.map fst_conv) code_simp

lemma update_power_state_device_request_table [tables]: "message_index_ok (map fst update_power_state_device_request_descriptor) update_power_state_device_request_index"
  by (simp only: update_power_state_device_request_descriptor_def list.map fst_conv) code_simp

lemma update_mode_device_request_table [tables]: "message_index_ok (map fst update_mode_device_request_descriptor) update_mode_device_request_index"
  by (simp only: update_mode_device_request_descriptor_def list.map fst_conv) code_simp

lemma update_meter_data_device_request_table [tables]: "message_index_ok (map fst update_meter_data_device_request_descriptor) update_meter_data_device_request_index"
  by (simp only: update_meter_data_device_request_descriptor_def list.map fst_conv) code_simp

lemma device_update_message_table [tables]: "message_index_ok (map fst device_update_message_descriptor) device_update_message_index"
  by (simp only: device_update_message_descriptor_def list.map fst_conv) code_simp

lemma require_stream_device_request_table [tables]: "message_index_ok (map fst require_stream_device_request_descriptor) require_stream_device_request_index"
  by (simp only: require_stream_device_request_descriptor_def list.map fst_conv) code_simp

lemma require_stream_device_response_table [tables]: "message_index_ok (map fst require_stream_device_response_descriptor) require_stream_device_response_index"
  by (simp only: require_stream_device_response_descriptor_def list.map fst_conv) code_simp

lemma control_lane_device_request_table [tables]: "message_index_ok (map fst control_lane_device_request_descriptor) control_lane_device_request_index"
  by (simp only: control_lane_device_request_descriptor_def list.map fst_conv) code_simp

lemma control_lane_device_response_table [tables]: "message_index_ok (map fst control_lane_device_response_descriptor) control_lane_device_response_index"
  by (simp only: control_lane_device_response_descriptor_def list.map fst_conv) code_simp

lemma set_active_time_device_request_table [tables]: "message_index_ok (map fst set_active_time_device_request_descriptor) set_active_time_device_request_index"
  by (simp only: set_active_time_device_request_descriptor_def list.map fst_conv) code_simp

lemma set_active_time_device_response_table [tables]: "message_index_ok (map fst set_active_time_device_response_descriptor) set_active_time_device_response_index"
  by (simp only: set_active_time_device_response_descriptor_def list.map fst_conv) code_simp

lemma set_cycle_config_device_request_table [tables]: "message_index_ok (map fst set_cycle_config_device_request_descriptor) set_cycle_config_device_request_index"
  by (simp only: set_cycle_config_device_request_descriptor_def list.map fst_conv) code_simp

lemma sync_time_device_request_table [tables]: "message_index_ok (map fst sync_time_device_request_descriptor) sync_time_device_request_index"
  by (simp only: sync_time_device_request_descriptor_def list.map fst_conv) code_simp

lemma sync_time_device_response_table [tables]: "message_index_ok (map fst sync_time_device_response_descriptor) sync_time_device_response_index"
  by (simp only: sync_time_device_response_descriptor_def list.map fst_conv) code_simp

lemma get_coordinate_device_request_table [tables]: "message_index_ok (map fst get_coordinate_device_request_descriptor) get_coordinate_device_request_index"
  by (simp only: get_coordinate_device_request_descriptor_def list.map fst_conv) code_simp

lemma get_coordinate_device_response_table [tables]: "message_index_ok (map fst get_coordinate_device_response_descriptor) get_coordinate_device_response_index"
  by (simp only: get_coordinate_device_response_descriptor_def list.map fst_conv) code_simp

lemma trigger_notify_user_device_request_table [tables]: "message_index_ok (map fst trigger_notify_user_device_request_descriptor) trigger_notify_user_device_request_index"
  by (simp only: trigger_notify_user_device_request_descriptor_def list.map fst_conv) code_simp

lemma trigger_notify_user_device_response_table [tables]: "message_index_ok (map fst trigger_notify_user_device_response_descriptor) trigger_notify_user_device_response_index"
  by (simp only: trigger_notify_user_device_response_descriptor_def list.map fst_conv) code_simp

lemma update_schedule_user_device_request_table [tables]: "message_index_ok (map fst update_schedule_user_device_request_descriptor) update_schedule_user_device_request_index"
  by (simp only: update_schedule_user_device_request_descriptor_def list.map fst_conv) code_simp

lemma update_schedule_user_device_response_table [tables]: "message_index_ok (map fst update_schedule_user_device_response_descriptor) update_schedule_user_device_response_index"
  by (simp only: update_schedule_user_device_response_descriptor_def list.map fst_conv) code_simp

lemma power_control_user_request_table [tables]: "message_index_ok (map fst power_control_user_request_descriptor) power_control_user_request_index"
  by (simp only: power_control_user_request_descriptor_def list.map fst_conv) code_simp

lemma force_otaupdate_user_request_table [tables]: "message_index_ok (map fst force_otaupdate_user_request_descriptor) force_otaupdate_user_request_index"
  by (simp only: force_otaupdate_user_request_descriptor_def list.map fst_conv) code_simp

lemma release_control_user_request_table [tables]: "message_index_ok (map fst release_control_user_request_descriptor) release_control_user_request_index"
  by (simp only: release_control_user_request_descriptor_def list.map fst_conv) code_simp

lemma user_device_message_table [tables]: "message_index_ok (map fst user_device_message_descriptor) user_device_message_index"
  by (simp only: user_device_message_descriptor_def list.map fst_conv) code_simp

lemma device_message_table [tables]: "message_index_ok (map fst device_message_descriptor) device_message_index"
  by (simp only: device_message_descriptor_def list.map fst_conv) code_simp

lemma user_login_request_table [tables]: "message_index_ok (map fst user_login_request_descriptor) user_login_request_index"
  by (simp only: user_login_request_descriptor_def list.map fst_conv) code_simp

lemma user_login_response_table [tables]: "message_index_ok (map fst user_login_response_descriptor) user_login_response_index"
  by (simp only: user_login_response_descriptor_def list.map fst_conv) code_simp

lemma get_access_token_user_request_table [tables]: "message_index_ok (map fst get_access_token_user_request_descriptor) get_access_token_user_request_index"
  by (simp only: get_access_token_user_request_descriptor_def list.map fst_conv) code_simp

lemma get_access_token_user_response_table [tables]: "message_index_ok (map fst get_access_token_user_response_descriptor) get_access_token_user_response_index"
  by (simp only: get_access_token_user_response_descriptor_def list.map fst_conv) code_simp

lemma auth_user_message_table [tables]: "message_index_ok (map fst auth_user_message_descriptor) auth_user_message_index"
  by (simp only: auth_user_message_descriptor_def list.map fst_conv) code_simp

lemma device_control_user_request_table [tables]: "message_index_ok (map fst device_control_user_request_descriptor) device_control_user_request_index"
  by (simp only: device_control_user_request_descriptor_def list.map fst_conv) code_simp

lemma device_control_user_response_table [tables]: "message_index_ok (map fst device_control_user_response_descriptor) device_control_user_response_index"
  by (simp only: device_control_user_response_descriptor_def list.map fst_conv) code_simp

lemma require_stream_user_request_table [tables]: "message_index_ok (map fst require_stream_user_request_descriptor) require_stream_user_request_index"
  by (simp only: require_stream_user_request_descriptor_def list.map fst_conv) code_simp

lemma require_stream_user_response_table [tables]: "message_index_ok (map fst require_stream_user_response_descriptor) require_stream_user_response_index"
  by (simp only: require_stream_user_response_descriptor_def list.map fst_conv) code_simp

lemma control_lane_user_request_table [tables]: "message_index_ok (map fst control_lane_user_request_descriptor) control_lane_user_request_index"
  by (simp only: control_lane_user_request_descriptor_def list.map fst_conv) code_simp

lemma control_lane_user_response_table [tables]: "message_index_ok (map fst control_lane_user_response_descriptor) control_lane_user_response_index"
  by (simp only: control_lane_user_response_descriptor_def list.map fst_conv) code_simp

lemma set_active_time_user_request_table [tables]: "message_index_ok (map fst set_active_time_user_request_descriptor) set_active_time_user_request_index"
  by (simp only: set_active_time_user_request_descriptor_def list.map fst_conv) code_simp

lemma set_active_time_user_response_table [tables]: "message_index_ok (map fst set_active_time_user_response_descriptor) set_active_time_user_response_index"
  by (simp only: set_active_time_user_response_descriptor_def list.map fst_conv) code_simp

lemma set_cycle_config_user_request_table [tables]: "message_index_ok (map fst set_cycle_config_user_request_descriptor) set_cycle_config_user_request_index"
  by (simp only: set_cycle_config_user_request_descriptor_def list.map fst_conv) code_simp

lemma set_cycle_config_user_response_table [tables]: "message_index_ok (map fst set_cycle_config_user_response_descriptor) set_cycle_config_user_response_index"
  by (simp only: set_cycle_config_user_response_descriptor_def list.map fst_conv) code_simp

lemma set_coordinate_user_request_table [tables]: "message_index_ok (map fst set_coordinate_user_request_descriptor) set_coordinate_user_request_index"
  by (simp only: set_coordinate_user_request_descriptor_def list.map fst_conv) code_simp

lemma set_coordinate_user_response_table [tables]: "message_index_ok (map fst set_coordinate_user_response_descriptor) set_coordinate_user_response_index"
  by (simp only: set_coordinate_user_response_descriptor_def list.map fst_conv) code_simp

lemma sync_time_user_request_table [tables]: "message_index_ok (map fst sync_time_user_request_descriptor) sync_time_user_request_index"
  by (simp only: sync_time_user_request_descriptor_def list.map fst_conv) code_simp

lemma sync_time_user_response_table [tables]: "message_index_ok (map fst sync_time_user_response_descriptor) sync_time_user_response_index"
  by (simp only: sync_time_user_response_descriptor_def list.map fst_conv) code_simp

lemma get_device_user_request_table [tables]: "message_index_ok (map fst get_device_user_request_descriptor) get_device_user_request_index"
  by (simp only: get_device_user_request_descriptor_def list.map fst_conv) code_simp

lemma device_table [tables]: "message_index_ok (map fst device_descriptor) device_index"
  by (simp only: device_descriptor_def list.map fst_conv) code_simp

lemma get_device_user_response_table [tables]: "message_index_ok (map fst get_device_user_response_descriptor) get_device_user_response_index"
  by (simp only: get_device_user_response_descriptor_def list.map fst_conv) code_simp

lemma get_coordinate_user_request_table [tables]: "message_index_ok (map fst get_coordinate_user_request_descriptor) get_coordinate_user_request_index"
  by (simp only: get_coordinate_user_request_descriptor_def list.map fst_conv) code_simp

lemma get_coordinate_user_response_table [tables]: "message_index_ok (map fst get_coordinate_user_response_descriptor) get_coordinate_user_response_index"
  by (simp only: get_coordinate_user_response_descriptor_def list.map fst_conv) code_simp

lemma get_meter_in_day_user_request_table [tables]: "message_index_ok (map fst get_meter_in_day_user_request_descriptor) get_meter_in_day_user_request_index"
  by (simp only: get_meter_in_day_user_request_descriptor_def list.map fst_conv) code_simp

lemma meter_item_table [tables]: "message_index_ok (map fst meter_item_descriptor) meter_item_index"
  by (simp only: meter_item_descriptor_def list.map fst_conv) code_simp

lemma get_meter_in_day_user_response_table [tables]: "message_index_ok (map fst get_meter_in_day_user_response_descriptor) get_meter_in_day_user_response_index"
  by (simp only: get_meter_in_day_user_response_descriptor_def list.map fst_conv) code_simp

lemma get_meter_in_month_user_request_table [tables]: "message_index_ok (map fst get_meter_in_month_user_request_descriptor) get_meter_in_month_user_request_index"
  by (simp only: get_meter_in_month_user_request_descriptor_def list.map fst_conv) code_simp

lemma get_meter_in_month_user_response_table [tables]: "message_index_ok (map fst get_meter_in_month_user_response_descriptor) get_meter_in_month_user_response_index"
  by (simp only: get_meter_in_month_user_response_descriptor_def list.map fst_conv) code_simp

lemma get_meter_in_year_user_request_table [tables]: "message_index_ok (map fst get_meter_in_year_user_request_descriptor) get_meter_in_year_user_request_index"
  by (simp only: get_meter_in_year_user_request_descriptor_def list.map fst_conv) code_simp

lemma get_meter_in_year_user_response_table [tables]: "message_index_ok (map fst get_meter_in_year_user_response_descriptor) get_meter_in_year_user_response_index"
  by (simp only: get_meter_in_year_user_response_descriptor_def list.map fst_conv) code_simp

lemma device_user_message_table [tables]: "message_index_ok (map fst device_user_message_descriptor) device_user_message_index"
  by (simp only: device_user_message_descriptor_def list.map fst_conv) code_simp

lemma update_device_connection_state_table [tables]: "message_index_ok (map fst update_device_connection_state_descriptor) update_device_connection_state_index"
  by (simp only: update_device_connection_state_descriptor_def list.map fst_conv) code_simp

lemma channel_state_table [tables]: "message_index_ok (map fst channel_state_descriptor) channel_state_index"
  by (simp only: channel_state_descriptor_def list.map fst_conv) code_simp

lemma device_state_model_table [tables]: "message_index_ok (map fst device_state_model_descriptor) device_state_model_index"
  by (simp only: device_state_model_descriptor_def list.map fst_conv) code_simp

lemma state_on_change_user_message_table [tables]: "message_index_ok (map fst state_on_change_user_message_descriptor) state_on_change_user_message_index"
  by (simp only: state_on_change_user_message_descriptor_def list.map fst_conv) code_simp

lemma log_update_user_message_table [tables]: "message_index_ok (map fst log_update_user_message_descriptor) log_update_user_message_index"
  by (simp only: log_update_user_message_descriptor_def list.map fst_conv) code_simp

lemma error_status_user_message_table [tables]: "message_index_ok (map fst error_status_user_message_descriptor) error_status_user_message_index"
  by (simp only: error_status_user_message_descriptor_def list.map fst_conv) code_simp

lemma update_power_state_user_message_table [tables]: "message_index_ok (map fst update_power_state_user_message_descriptor) update_power_state_user_message_index"
  by (simp only: update_power_state_user_message_descriptor_def list.map fst_conv) code_simp

lemma update_schedule_user_message_table [tables]: "message_index_ok (map fst update_schedule_user_message_descriptor) update_schedule_user_message_index"
  by (simp only: update_schedule_user_message_descriptor_def list.map fst_conv) code_simp

lemma update_mode_user_message_table [tables]: "message_index_ok (map fst update_mode_user_message_descriptor) update_mode_user_message_index"
  by (simp only: update_mode_user_message_descriptor_def list.map fst_conv) code_simp

lemma device_onchange_user_message_table [tables]: "message_index_ok (map fst device_onchange_user_message_descriptor) device_onchange_user_message_index"
  by (simp only: device_onchange_user_message_descriptor_def list.map fst_conv) code_simp

lemma get_station_user_request_table [tables]: "message_index_ok (map fst get_station_user_request_descriptor) get_station_user_request_index"
  by (simp only: get_station_user_request_descriptor_def list.map fst_conv) code_simp

lemma sign_param_table [tables]: "message_index_ok (map fst sign_param_descriptor) sign_param_index"
  by (simp only: sign_param_descriptor_def list.map fst_conv) code_simp

lemma station_lane_light_config_table [tables]: "message_index_ok (map fst station_lane_light_config_descriptor) station_lane_light_config_index"
  by (simp only: station_lane_light_config_descriptor_def list.map fst_conv) code_simp

lemma station_table [tables]: "message_index_ok (map fst station_descriptor) station_index"
  by (simp only: station_descriptor_def list.map fst_conv) code_simp

lemma get_station_user_response_table [tables]: "message_index_ok (map fst get_station_user_response_descriptor) get_station_user_response_index"
  by (simp only: get_station_user_response_descriptor_def list.map fst_conv) code_simp

lemma get_station_list_user_request_table [tables]: "message_index_ok (map fst get_station_list_user_request_descriptor) get_station_list_user_request_index"
  by (simp only: get_station_list_user_request_descriptor_def list.map fst_conv) code_simp

lemma get_station_list_user_response_table [tables]: "message_index_ok (map fst get_station_list_user_response_descriptor) get_station_list_user_response_index"
  by (simp only: get_station_list_user_response_descriptor_def list.map fst_conv) code_simp

lemma add_station_user_request_table [tables]: "message_index_ok (map fst add_station_user_request_descriptor) add_station_user_request_index"
  by (simp only: add_station_user_request_descriptor_def list.map fst_conv) code_simp

lemma add_station_user_response_table [tables]: "message_index_ok (map fst add_station_user_response_descriptor) add_station_user_response_index"
  by (simp only: add_station_user_response_descriptor_def list.map fst_conv) code_simp

lemma set_sign_setting_user_request_table [tables]: "message_index_ok (map fst set_sign_setting_user_request_descriptor) set_sign_setting_user_request_index"
  by (simp only: set_sign_setting_user_request_descriptor_def list.map fst_conv) code_simp

lemma set_sign_setting_user_response_table [tables]: "message_index_ok (map fst set_sign_setting_user_response_descriptor) set_sign_setting_user_response_index"
  by (simp only: set_sign_setting_user_response_descriptor_def list.map fst_conv) code_simp

lemma get_latest_firmware_user_request_table [tables]: "message_index_ok (map fst get_latest_firmware_user_request_descriptor) get_latest_firmware_user_request_index"
  by (simp only: get_latest_firmware_user_request_descriptor_def list.map fst_conv) code_simp

lemma get_latest_firmware_user_response_table [tables]: "message_index_ok (map fst get_latest_firmware_user_response_descriptor) get_latest_firmware_user_response_index"
  by (simp only: get_latest_firmware_user_response_descriptor_def list.map fst_conv) code_simp

lemma get_log_file_user_request_table [tables]: "message_index_ok (map fst get_log_file_user_request_descriptor) get_log_file_user_request_index"
  by (simp only: get_log_file_user_request_descriptor_def list.map fst_conv) code_simp

lemma get_log_file_user_response_table [tables]: "message_index_ok (map fst get_log_file_user_response_descriptor) get_log_file_user_response_index"
  by (simp only: get_log_file_user_response_descriptor_def list.map fst_conv) code_simp

lemma delete_station_user_request_table [tables]: "message_index_ok (map fst delete_station_user_request_descriptor) delete_station_user_request_index"
  by (simp only: delete_station_user_request_descriptor_def list.map fst_conv) code_simp

lemma delete_station_user_response_table [tables]: "message_index_ok (map fst delete_station_user_response_descriptor) delete_station_user_response_index"
  by (simp only: delete_station_user_response_descriptor_def list.map fst_conv) code_simp

lemma edit_number_card_user_request_table [tables]: "message_index_ok (map fst edit_number_card_user_request_descriptor) edit_number_card_user_request_index"
  by (simp only: edit_number_card_user_request_descriptor_def list.map fst_conv) code_simp

lemma edit_number_card_user_response_table [tables]: "message_index_ok (map fst edit_number_card_user_response_descriptor) edit_number_card_user_response_index"
  by (simp only: edit_number_card_user_response_descriptor_def list.map fst_conv) code_simp

lemma update_error_handling_user_request_table [tables]: "message_index_ok (map fst update_error_handling_user_request_descriptor) update_error_handling_user_request_index"
  by (simp only: update_error_handling_user_request_descriptor_def list.map fst_conv) code_simp

lemma update_diary_log_user_request_table [tables]: "message_index_ok (map fst update_diary_log_user_request_descriptor) update_diary_log_user_request_index"
  by (simp only: update_diary_log_user_request_descriptor_def list.map fst_conv) code_simp

lemma update_diary_log_user_response_table [tables]: "message_index_ok (map fst update_diary_log_user_response_descriptor) update_diary_log_user_response_index"
  by (simp only: update_diary_log_user_response_descriptor_def list.map fst_conv) code_simp

lemma accessory_table [tables]: "message_index_ok (map fst accessory_descriptor) accessory_index"
  by (simp only: accessory_descriptor_def list.map fst_conv) code_simp

lemma insert_accessory_user_request_table [tables]: "message_index_ok (map fst insert_accessory_user_request_descriptor) insert_accessory_user_request_index"
  by (simp only: insert_accessory_user_request_descriptor_def list.map fst_conv) code_simp

lemma insert_accessory_user_response_table [tables]: "message_index_ok (map fst insert_accessory_user_response_descriptor) insert_accessory_user_response_index"
  by (simp only: insert_accessory_user_response_descriptor_def list.map fst_conv) code_simp

lemma get_accessories_user_request_table [tables]: "message_index_ok (map fst get_accessories_user_request_descriptor) get_accessories_user_request_index"
  by (simp only: get_accessories_user_request_descriptor_def list.map fst_conv) code_simp

lemma get_accessories_user_response_table [tables]: "message_index_ok (map fst get_accessories_user_response_descriptor) get_accessories_user_response_index"
  by (simp only: get_accessories_user_response_descriptor_def list.map fst_conv) code_simp

lemma delete_accessory_user_request_table [tables]: "message_index_ok (map fst delete_accessory_user_request_descriptor) delete_accessory_user_request_index"
  by (simp only: delete_accessory_user_request_descriptor_def list.map fst_conv) code_simp

lemma delete_accessory_user_response_table [tables]: "message_index_ok (map fst delete_accessory_user_response_descriptor) delete_accessory_user_response_index"
  by (simp only: delete_accessory_user_response_descriptor_def list.map fst_conv) code_simp

lemma edit_accessory_user_request_table [tables]: "message_index_ok (map fst edit_accessory_user_request_descriptor) edit_accessory_user_request_index"
  by (simp only: edit_accessory_user_request_descriptor_def list.map fst_conv) code_simp

lemma edit_accessory_user_response_table [tables]: "message_index_ok (map fst edit_accessory_user_response_descriptor) edit_accessory_user_response_index"
  by (simp only: edit_accessory_user_response_descriptor_def list.map fst_conv) code_simp

lemma update_schedule_user_request_table [tables]: "message_index_ok (map fst update_schedule_user_request_descriptor) update_schedule_user_request_index"
  by (simp only: update_schedule_user_request_descriptor_def list.map fst_conv) code_simp

lemma update_schedule_user_response_table [tables]: "message_index_ok (map fst update_schedule_user_response_descriptor) update_schedule_user_response_index"
  by (simp only: update_schedule_user_response_descriptor_def list.map fst_conv) code_simp

lemma get_schedule_user_request_table [tables]: "message_index_ok (map fst get_schedule_user_request_descriptor) get_schedule_user_request_index"
  by (simp only: get_schedule_user_request_descriptor_def list.map fst_conv) code_simp

lemma get_schedule_user_response_table [tables]: "message_index_ok (map fst get_schedule_user_response_descriptor) get_schedule_user_response_index"
  by (simp only: get_schedule_user_response_descriptor_def list.map fst_conv) code_simp

lemma station_user_message_table [tables]: "message_index_ok (map fst station_user_message_descriptor) station_user_message_index"
  by (simp only: station_user_message_descriptor_def list.map fst_conv) code_simp

lemma get_accounts_user_request_table [tables]: "message_index_ok (map fst get_accounts_user_request_descriptor) get_accounts_user_request_index"
  by (simp only: get_accounts_user_request_descriptor_def list.map fst_conv) code_simp

lemma account_table [tables]: "message_index_ok (map fst account_descriptor) account_index"
  by (simp only: account_descriptor_def list.map fst_conv) code_simp

lemma get_accounts_user_response_table [tables]: "message_index_ok (map fst get_accounts_user_response_descriptor) get_accounts_user_response_index"
  by (simp only: get_accounts_user_response_descriptor_def list.map fst_conv) code_simp

lemma delete_account_user_request_table [tables]: "message_index_ok (map fst delete_account_user_request_descriptor) delete_account_user_request_index"
  by (simp only: delete_account_user_request_descriptor_def list.map fst_conv) code_simp

lemma delete_account_user_response_table [tables]: "message_index_ok (map fst delete_account_user_response_descriptor) delete_account_user_response_index"
  by (simp only: delete_account_user_response_descriptor_def list.map fst_conv) code_simp

lemma create_new_account_user_request_table [tables]: "message_index_ok (map fst create_new_account_user_request_descriptor) create_new_account_user_request_index"
  by (simp only: create_new_account_user_request_descriptor_def list.map fst_conv) code_simp

lemma create_new_account_user_response_table [tables]: "message_index_ok (map fst create_new_account_user_response_descriptor) create_new_account_user_response_index"
  by (simp only: create_new_account_user_response_descriptor_def list.map fst_conv) code_simp

lemma change_password_user_request_table [tables]: "message_index_ok (map fst change_password_user_request_descriptor) change_password_user_request_index"
  by (simp only: change_password_user_request_descriptor_def list.map fst_conv) code_simp

lemma change_password_user_response_table [tables]: "message_index_ok (map fst change_password_user_response_descriptor) change_password_user_response_index"
  by (simp only: change_password_user_response_descriptor_def list.map fst_conv) code_simp

lemma update_alert_info_user_request_table [tables]: "message_index_ok (map fst update_alert_info_user_request_descriptor) update_alert_info_user_request_index"
  by (simp only: update_alert_info_user_request_descriptor_def list.map fst_conv) code_simp

lemma update_alert_info_user_response_table [tables]: "message_index_ok (map fst update_alert_info_user_response_descriptor) update_alert_info_user_response_index"
  by (simp only: update_alert_info_user_response_descriptor_def list.map fst_conv) code_simp

lemma account_user_message_table [tables]: "message_index_ok (map fst account_user_message_descriptor) account_user_message_index"
  by (simp only: account_user_message_descriptor_def list.map fst_conv) code_simp

lemma user_message_table [tables]: "message_index_ok (map fst user_message_descriptor) user_message_index"
  by (simp only: user_message_descriptor_def list.map fst_conv) code_simp

lemma main_message_table [tables]: "message_index_ok (map fst main_message_descriptor) main_message_index"
  by (simp only: main_message_descriptor_def list.map fst_conv) code_simp

lemma message_tables_ok: "list_all (\<lambda>(d, x). message_index_ok (map fst d) x) message_tables"
  by (simp add: message_tables_def tables)

lemma enum_tables_ok: "list_all enum_table_ok enum_tables"
  by code_simp

section \<open>What it shows\<close>

text \<open>The fields as the unpacker of a message has them.\<close>

definition unpack_fields :: "descriptor \<Rightarrow> (nat \<times> plabel \<times> ptype \<times> (byte list \<Rightarrow> message unpacked)) list" where
  "unpack_fields d = map (\<lambda>(i, lab, ty). (i, lab, ty, message_unpack ty)) d"

lemma unpack_fields_ids: "map fst (unpack_fields d) = map fst d"
  by (simp add: unpack_fields_def case_prod_unfold comp_def)



text \<open>The field of a name, in every generated table.\<close>

theorem name_lookup_correct:
  assumes "(d, x) \<in> set message_tables"
  shows "protobuf_c_message_descriptor_get_field_by_name (Some x) name = Some i \<longleftrightarrow> i < length d \<and> field_names x ! i = name"
proof -
  have "message_index_ok (map fst d) x" using message_tables_ok assms by (auto simp: list_all_iff)
  then show ?thesis using get_by_name_correct [of "field_names x" "fields_sorted_by_name x" name i]
    by (simp add: message_index_ok_def protobuf_c_message_descriptor_get_field_by_name_def)
qed

text \<open>The values of an enumeration, by number and by name.\<close>

theorem enum_lookup_correct:
  assumes "x \<in> set enum_tables" "i < length (enum_values x)"
  shows "protobuf_c_enum_descriptor_get_value x (int (snd (enum_values x ! i))) = Some (Some i) \<and>
    protobuf_c_enum_descriptor_get_value_by_name (Some x) (fst (enum_values x ! i)) = Some i"
proof -
  have "enum_table_ok x" using enum_tables_ok assms(1) by (simp add: list_all_iff)
  then show ?thesis using enum_by_number(1) [of x i] enum_by_name [of x "fst (enum_values x ! i)" i] assms(2) by simp
qed

end
