(* ===== verification/Protobuf_Buffer.thy ===== *)
theory Protobuf_Buffer
  imports Protobuf_Size
begin

text \<open>
  The second way \<^verbatim>\<open>protobuf-c.c\<close> packs a message: piece by piece into a virtual buffer, and the
  buffer the library brings along, which grows by doubling (\<^verbatim>\<open>protobuf_c_buffer_simple_append\<close>). A
  submessage is always packed into such a buffer first, one that starts with 256 bytes of the stack, so the
  library allocates memory here even when the caller's buffer never does.

  The outcomes of a call: it returns; it never ends (the doubling loop); it reads or writes outside an array; an
  assertion stops the program. Memory is an argument: \<open>malloc k n\<close> is what the \<open>k\<close>-th call for \<open>n\<close> bytes
  returns, with the bytes that happen to be there, and \<open>stack k\<close> the bytes of the \<open>k\<close>-th array on the
  stack before anything is written to it.
\<close>

section \<open>Outcomes and memory\<close>

datatype 'a outcome = Returned 'a | Endless | OutOfBounds | Aborted

fun obind :: "'a outcome \<Rightarrow> ('a \<Rightarrow> 'b outcome) \<Rightarrow> 'b outcome" where
  "obind (Returned x) f = f x"
| "obind Endless f = Endless"
| "obind OutOfBounds f = OutOfBounds"
| "obind Aborted f = Aborted"

record memory =
  malloc :: "nat \<Rightarrow> 32 word \<Rightarrow> byte list option"
  stack :: "nat \<Rightarrow> byte list"

text \<open>How often each was asked for memory so far, and the number of allocated blocks not freed.\<close>

record heap =
  mallocs :: nat
  frames :: nat
  live :: nat

definition do_alloc :: "memory \<Rightarrow> 32 word \<Rightarrow> heap \<Rightarrow> byte list option \<times> heap" where
  "do_alloc mem n h =
     (case malloc mem (mallocs h) n of
        None \<Rightarrow> (None, h\<lparr>mallocs := Suc (mallocs h)\<rparr>)
      | Some bs \<Rightarrow> (Some bs, h\<lparr>mallocs := Suc (mallocs h), live := Suc (live h)\<rparr>))"

definition do_free :: "heap \<Rightarrow> heap" where
  "do_free h = h\<lparr>live := live h - 1\<rparr>"

text \<open>\<^verbatim>\<open>memcpy(dst + p, src, n)\<close>.\<close>

definition memcpy :: "byte list \<Rightarrow> nat \<Rightarrow> byte list \<Rightarrow> nat \<Rightarrow> byte list outcome" where
  "memcpy dst p src n =
     (if n \<le> length src \<and> p + n \<le> length dst then Returned (take p dst @ take n src @ drop (p + n) dst)
      else OutOfBounds)"

section \<open>The simple buffer\<close>

record simple_buffer =
  alloced :: "32 word"
  len :: "32 word"
  data :: "byte list"
  must_free_data :: bool

text \<open>\<^verbatim>\<open>while (new_alloced < new_len) new_alloced += new_alloced;\<close> on 32-bit integers. No value is the loop that never ends.\<close>

partial_function (option) grow :: "32 word \<Rightarrow> 32 word \<Rightarrow> 32 word option" where
  "grow new_alloced new_len =
     (if new_alloced < new_len then grow (new_alloced + new_alloced) new_len else Some new_alloced)"

definition store :: "32 word \<Rightarrow> byte list \<Rightarrow> simple_buffer \<times> heap \<Rightarrow> (simple_buffer \<times> heap) outcome" where
  "store n bs s =
     (case s of (simp, h) \<Rightarrow>
        obind (memcpy (data simp) (unat (len simp)) bs (unat n)) (\<lambda>d.
          Returned (simp\<lparr>data := d, len := len simp + n\<rparr>, h)))"

definition protobuf_c_buffer_simple_append ::
    "memory \<Rightarrow> 32 word \<Rightarrow> byte list \<Rightarrow> simple_buffer \<times> heap \<Rightarrow> (simple_buffer \<times> heap) outcome" where
  "protobuf_c_buffer_simple_append mem n bs s =
     (case s of (simp, h) \<Rightarrow>
        let new_len = len simp + n in
        if new_len > alloced simp then
          (case grow (alloced simp * 2) new_len of
             None \<Rightarrow> Endless
           | Some new_alloced \<Rightarrow>
               (case do_alloc mem new_alloced h of
                  (None, h) \<Rightarrow> Returned (simp, h)
                | (Some new_data, h) \<Rightarrow>
                    obind (memcpy new_data 0 (data simp) (unat (len simp))) (\<lambda>d.
                      store n bs (simp\<lparr>data := d, alloced := new_alloced, must_free_data := True\<rparr>,
                                  if must_free_data simp then do_free h else h))))
        else store n bs (simp, h))"

definition buffer_simple_init :: "byte list \<Rightarrow> simple_buffer" where
  "buffer_simple_init bs = \<lparr>alloced = of_nat (length bs), len = 0, data = bs, must_free_data = False\<rparr>"

definition buffer_simple_clear :: "simple_buffer \<Rightarrow> heap \<Rightarrow> heap" where
  "buffer_simple_clear simp h = (if must_free_data simp then do_free h else h)"

section \<open>Packing into a virtual buffer\<close>

text \<open>
  A virtual buffer is its method \<open>app\<close>, on a state of its own and the heap. \<open>put\<close> appends bytes the
  function has put together in an array of its own, and gives their number.
\<close>

type_synonym 'b appender = "32 word \<Rightarrow> byte list \<Rightarrow> 'b \<times> heap \<Rightarrow> ('b \<times> heap) outcome"
type_synonym sub_packer = "message \<Rightarrow> simple_buffer \<times> heap \<Rightarrow> (32 word \<times> simple_buffer \<times> heap) outcome"

definition put :: "'b appender \<Rightarrow> byte list \<Rightarrow> 'b \<times> heap \<Rightarrow> (32 word \<times> 'b \<times> heap) outcome" where
  "put app bs s = obind (app (of_nat (length bs)) bs s) (\<lambda>s. Returned (of_nat (length bs), s))"

definition put_prefixed ::
    "'b appender \<Rightarrow> nat \<Rightarrow> 32 word \<Rightarrow> byte list \<Rightarrow> 'b \<times> heap \<Rightarrow> (32 word \<times> 'b \<times> heap) outcome" where
  "put_prefixed app i sublen bs s =
     obind (put app (tag_pack i WIRE_LENGTH_PREFIXED @ uint32_pack sublen) s) (\<lambda>(rv, s).
     obind (app sublen bs s) (\<lambda>s. Returned (rv + sublen, s)))"

definition pack_submessage ::
    "memory \<Rightarrow> 'b appender \<Rightarrow> sub_packer \<Rightarrow> nat \<Rightarrow> message \<Rightarrow> 'b \<times> heap \<Rightarrow> (32 word \<times> 'b \<times> heap) outcome" where
  "pack_submessage mem app sub i m s =
     (case s of (b, h) \<Rightarrow>
        obind (sub m (buffer_simple_init (stack mem (frames h)), h\<lparr>frames := Suc (frames h)\<rparr>)) (\<lambda>(sublen, simp, h).
        obind (put_prefixed app i sublen (data simp) (b, h)) (\<lambda>(rv, b, h).
          Returned (rv, b, buffer_simple_clear simp h))))"

definition required_field_pack_to_buffer ::
    "memory \<Rightarrow> 'b appender \<Rightarrow> sub_packer \<Rightarrow> nat \<Rightarrow> ptype \<Rightarrow> pval \<Rightarrow> 'b \<times> heap \<Rightarrow> (32 word \<times> 'b \<times> heap) outcome" where
  "required_field_pack_to_buffer mem app sub i ty v s =
     (case (ty, v) of
        (TYPE_ENUM, P32 x) \<Rightarrow> put app (tag_pack i WIRE_VARINT @ int32_pack x) s
      | (TYPE_INT32, P32 x) \<Rightarrow> put app (tag_pack i WIRE_VARINT @ int32_pack x) s
      | (TYPE_UINT32, P32 x) \<Rightarrow> put app (tag_pack i WIRE_VARINT @ uint32_pack x) s
      | (TYPE_FLOAT, P32 x) \<Rightarrow> put app (tag_pack i WIRE_32BIT @ fixed32_pack x) s
      | (TYPE_DOUBLE, P64 x) \<Rightarrow> put app (tag_pack i WIRE_64BIT @ fixed64_pack x) s
      | (TYPE_BOOL, PBool b) \<Rightarrow> put app (tag_pack i WIRE_VARINT @ boolean_pack b) s
      | (TYPE_STRING, PStr str) \<Rightarrow>
          put_prefixed app i (of_nat (length (c_str str))) (bytes_of (c_str str)) s
      | (TYPE_MESSAGE d, PMsg m) \<Rightarrow> pack_submessage mem app sub i m s
      | _ \<Rightarrow> Aborted)"

definition unlabeled_field_pack_to_buffer ::
    "memory \<Rightarrow> 'b appender \<Rightarrow> sub_packer \<Rightarrow> nat \<Rightarrow> ptype \<Rightarrow> pval \<Rightarrow> 'b \<times> heap \<Rightarrow> (32 word \<times> 'b \<times> heap) outcome" where
  "unlabeled_field_pack_to_buffer mem app sub i ty v s =
     (if field_is_zeroish ty v then Returned (0, s) else required_field_pack_to_buffer mem app sub i ty v s)"

definition get_packed_payload_length :: "ptype \<Rightarrow> pval list \<Rightarrow> 32 word" where
  "get_packed_payload_length ty vs =
     (case ty of
        TYPE_FLOAT \<Rightarrow> of_nat (length vs) * 4
      | TYPE_DOUBLE \<Rightarrow> of_nat (length vs) * 8
      | TYPE_BOOL \<Rightarrow> of_nat (length vs)
      | _ \<Rightarrow> fold (\<lambda>v rv. rv + (case (ty, v) of
                (TYPE_ENUM, P32 x) \<Rightarrow> int32_size x
              | (TYPE_INT32, P32 x) \<Rightarrow> int32_size x
              | (TYPE_UINT32, P32 x) \<Rightarrow> uint32_size x
              | _ \<Rightarrow> 0)) vs 0)"

text \<open>A loop that appends one piece after the other and adds up their lengths.\<close>

fun pack_each ::
    "('a \<Rightarrow> 's \<Rightarrow> (32 word \<times> 's) outcome) \<Rightarrow> 'a list \<Rightarrow> 32 word \<Rightarrow> 's \<Rightarrow> (32 word \<times> 's) outcome" where
  "pack_each f [] rv s = Returned (rv, s)"
| "pack_each f (x # xs) rv s = obind (f x s) (\<lambda>(n, s). pack_each f xs (rv + n) s)"

definition pack_buffer_packed_payload ::
    "'b appender \<Rightarrow> ptype \<Rightarrow> pval list \<Rightarrow> 'b \<times> heap \<Rightarrow> (32 word \<times> 'b \<times> heap) outcome" where
  "pack_buffer_packed_payload app ty vs s =
     (let array = concat (map (packed_element ty) vs); loop = pack_each (\<lambda>v. put app (packed_element ty v)) vs 0 s in
      case ty of
        TYPE_FLOAT \<Rightarrow> (let rv = of_nat (length vs) * 4 in obind (app rv array s) (\<lambda>s. Returned (rv, s)))
      | TYPE_DOUBLE \<Rightarrow> (let rv = of_nat (length vs) * 8 in obind (app rv array s) (\<lambda>s. Returned (rv, s)))
      | TYPE_BOOL \<Rightarrow> obind loop (\<lambda>(rv, s). Returned (of_nat (length vs), s))
      | _ \<Rightarrow> loop)"

definition repeated_field_pack_to_buffer ::
    "memory \<Rightarrow> 'b appender \<Rightarrow> sub_packer \<Rightarrow> nat \<Rightarrow> bool \<Rightarrow> ptype \<Rightarrow> pval list \<Rightarrow> 'b \<times> heap
     \<Rightarrow> (32 word \<times> 'b \<times> heap) outcome" where
  "repeated_field_pack_to_buffer mem app sub i packed ty vs s =
     (if vs = [] then Returned (0, s)
      else if packed then
        (let payload_len = get_packed_payload_length ty vs in
         obind (put app (tag_pack i WIRE_LENGTH_PREFIXED @ uint32_pack payload_len) s) (\<lambda>(rv, s).
         obind (pack_buffer_packed_payload app ty vs s) (\<lambda>(tmp, s).
           if tmp = payload_len then Returned (rv + payload_len, s) else Aborted)))
      else pack_each (required_field_pack_to_buffer mem app sub i ty) vs 0 s)"

definition field_pack_to_buffer ::
    "memory \<Rightarrow> 'b appender \<Rightarrow> message \<Rightarrow> nat \<times> plabel \<times> ptype \<times> sub_packer \<Rightarrow> 'b \<times> heap
     \<Rightarrow> (32 word \<times> 'b \<times> heap) outcome" where
  "field_pack_to_buffer mem app m f s =
     (case f of (i, lab, ty, sub) \<Rightarrow>
        (case (lab, map_of m i) of
           (LABEL_NONE, Some v) \<Rightarrow> unlabeled_field_pack_to_buffer mem app sub i ty v s
         | (LABEL_REPEATED packed, Some (PRep vs)) \<Rightarrow> repeated_field_pack_to_buffer mem app sub i packed ty vs s
         | _ \<Rightarrow> Returned (0, s)))"

text \<open>The packer of a submessage of each type, into a simple buffer.\<close>

fun submessage_packer :: "memory \<Rightarrow> ptype \<Rightarrow> sub_packer" where
  "submessage_packer mem (TYPE_MESSAGE d) m s =
     pack_each (field_pack_to_buffer mem (protobuf_c_buffer_simple_append mem) m)
       (map (\<lambda>(i, lab, ty). (i, lab, ty, submessage_packer mem ty)) d) 0 s"
| "submessage_packer mem ty m s = Aborted"

definition protobuf_c_message_pack_to_buffer ::
    "memory \<Rightarrow> 'b appender \<Rightarrow> descriptor \<Rightarrow> message \<Rightarrow> 'b \<times> heap \<Rightarrow> (32 word \<times> 'b \<times> heap) outcome" where
  "protobuf_c_message_pack_to_buffer mem app d m s =
     pack_each (field_pack_to_buffer mem app m) (map (\<lambda>(i, lab, ty). (i, lab, ty, submessage_packer mem ty)) d) 0 s"

declare submessage_packer.simps [simp del]

section \<open>The doubling loop\<close>

lemma grow_ends:
  assumes "0 < a" "unat n \<le> 2 ^ 31"
  shows "\<exists>v. grow a n = Some v \<and> n \<le> v \<and> a \<le> v"
  using assms(1)
proof (induction "unat n - unat a" arbitrary: a rule: less_induct)
  case less
  show ?case
  proof (cases "a < n")
    case True
    then have l: "unat a < unat n" "0 < unat a" using less.prems by (simp_all add: word_less_nat_alt)
    then have u: "unat (a + a) = 2 * unat a" using assms(2) by (subst unat_add_lem [THEN iffD1]) simp_all
    have "unat n - unat (a + a) < unat n - unat a" "0 < a + a" using l u by (simp_all only: word_less_nat_alt) simp_all
    from less.hyps [OF this] obtain v where v: "grow (a + a) n = Some v" "n \<le> v" "a + a \<le> v" by blast
    have "grow a n = Some v" by (subst grow.simps) (simp only: True if_True v(1))
    moreover have "a \<le> v" using v(3) u by (simp only: word_le_nat_alt)
    ultimately show ?thesis using v(2) by blast
  next
    case False
    then have "grow a n = Some a" by (subst grow.simps) simp
    then show ?thesis using False by (simp add: not_less)
  qed
qed

text \<open>From zero the loop never ends, whatever the length.\<close>

lemma grow_zero: "0 < n \<Longrightarrow> grow 0 n = None"
proof (rule ccontr)
  assume n: "0 < n" and "grow 0 n \<noteq> None"
  then obtain v where "grow 0 n = Some v" by auto
  have "a = 0 \<longrightarrow> m = n \<longrightarrow> False" if "grow a m = Some v" for a m v
    by (rule grow.raw_induct [OF _ that, where P = "\<lambda>a m v. a = 0 \<longrightarrow> m = n \<longrightarrow> False"]) (use n in \<open>auto split: if_splits\<close>)
  then show False using \<open>grow 0 n = Some v\<close> by blast
qed

section \<open>What a buffer promises\<close>

text \<open>
  \<open>writes\<close> says what a packing function has to do: in every good state of the buffer with enough room it returns
  the number of bytes it has appended, those bytes are the ones given, and no block of memory is lost: \<open>L\<close>
  is the number of allocated blocks that do not belong to the buffer.
\<close>

definition writes ::
    "(nat \<Rightarrow> 'b \<times> heap \<Rightarrow> bool) \<Rightarrow> ('b \<Rightarrow> byte list) \<Rightarrow> nat \<Rightarrow> ('b \<times> heap \<Rightarrow> (32 word \<times> 'b \<times> heap) outcome) \<Rightarrow> byte list
     \<Rightarrow> bool" where
  "writes ok content room f bs \<longleftrightarrow>
     (\<forall>L s. ok L s \<longrightarrow> length (content (fst s)) + length bs \<le> room \<longrightarrow>
        (\<exists>s'. f s = Returned (of_nat (length bs), s') \<and> ok L s' \<and> content (fst s') = content (fst s) @ bs))"

lemma writesI:
  assumes "\<And>L b h. ok L (b, h) \<Longrightarrow> length (content b) + length bs \<le> room \<Longrightarrow>
     \<exists>b' h'. f (b, h) = Returned (of_nat (length bs), b', h') \<and> ok L (b', h') \<and> content b' = content b @ bs"
  shows "writes ok content room f bs"
  unfolding writes_def using assms by fastforce

lemma writesE:
  assumes "writes ok content room f bs" "ok L (b, h)" "length (content b) + length bs \<le> room"
  obtains b' h' where "f (b, h) = Returned (of_nat (length bs), b', h')" "ok L (b', h')" "content b' = content b @ bs"
  using assms unfolding writes_def by fastforce

lemma writes_cong: "(\<And>s. f s = g s) \<Longrightarrow> writes ok content room f bs = writes ok content room g bs"
  by (simp add: writes_def)

lemma writes_nothing: "writes ok content room (\<lambda>s. Returned (0, s)) []"
  by (simp add: writes_def)

definition simple_ok :: "nat \<Rightarrow> simple_buffer \<times> heap \<Rightarrow> bool" where
  "simple_ok L s \<longleftrightarrow>
     (case s of (simp, h) \<Rightarrow> 0 < alloced simp \<and> len simp \<le> alloced simp \<and> length (data simp) = unat (alloced simp)
        \<and> live h = L + (if must_free_data simp then 1 else 0))"

definition simple_content :: "simple_buffer \<Rightarrow> byte list" where
  "simple_content simp = take (unat (len simp)) (data simp)"

abbreviation simple_writes where
  "simple_writes \<equiv> writes simple_ok simple_content (2 ^ 31)"

text \<open>The length of a packed field computed beforehand is that of the bytes appended.\<close>

lemma fold_add: "fold (\<lambda>v rv. rv + f v) vs (n :: 32 word) = n + sum_list (map f vs)"
  by (induction vs arbitrary: n) (simp_all add: add.assoc)

lemma packed_payload_length:
  assumes "is_packable_type ty" "list_all (value_fits fine ty) vs"
  shows "get_packed_payload_length ty vs = of_nat (length (concat (map (packed_element ty) vs)))"
proof -
  have "of_nat (length (concat (map (packed_element ty) vs))) = sum_list (map (value_size (\<lambda>_. 0) ty) vs)"
    using assms(2) by (induction vs) (simp_all add: size_element [where ok = fine, OF _ assms(1)])
  moreover have "\<forall>v \<in> set vs. value_fits fine ty v" using assms(2) by (simp add: list_all_iff)
  then have "sum_list (map (value_size (\<lambda>_. 0) ty) vs) = get_packed_payload_length ty vs"
    using assms(1) by (induction vs) (auto simp: get_packed_payload_length_def fold_add value_size_def is_packable_type_def
        value_fits_def algebra_simps split: ptype.splits pval.splits)
  ultimately show ?thesis by simp
qed

locale append_buffer =
  fixes app :: "'b appender" and ok :: "nat \<Rightarrow> 'b \<times> heap \<Rightarrow> bool" and content :: "'b \<Rightarrow> byte list" and room :: nat
  assumes app: "ok L (b, h) \<Longrightarrow> n \<le> length bs \<Longrightarrow> length (content b) + n \<le> room \<Longrightarrow>
      \<exists>b' h'. app (of_nat n) bs (b, h) = Returned (b', h') \<and> ok L (b', h') \<and> content b' = content b @ take n bs"
    and account: "ok L (b, h) \<Longrightarrow> L \<le> live h"
    and other_blocks: "ok L (b, h) \<Longrightarrow> live h' + L = live h + L' \<Longrightarrow> ok L' (b, h')"
    and room: "room \<le> 2 ^ 31"
begin

lemma writes_put: "writes ok content room (put app bs) bs"
proof (rule writesI)
  fix L b h assume "ok L (b, h)" "length (content b) + length bs \<le> room"
  from app [OF this(1) order_refl this(2)] obtain b' h' where
    "app (of_nat (length bs)) bs (b, h) = Returned (b', h')" "ok L (b', h')" "content b' = content b @ bs" by auto
  then show "\<exists>b' h'. put app bs (b, h) = Returned (of_nat (length bs), b', h') \<and> ok L (b', h') \<and> content b' = content b @ bs"
    by (simp add: put_def)
qed

lemma writes_put_prefixed:
  assumes "n \<le> length bs"
  shows "writes ok content room (put_prefixed app i (of_nat n) bs) (tag_pack i WIRE_LENGTH_PREFIXED @ prefixed (take n bs))"
proof (rule writesI)
  let ?hd = "tag_pack i WIRE_LENGTH_PREFIXED @ uint32_pack (of_nat n)"
  have p: "tag_pack i WIRE_LENGTH_PREFIXED @ prefixed (take n bs) = ?hd @ take n bs"
    using assms by (simp add: prefixed_def min_absorb2)
  fix L b h assume *: "ok L (b, h)" "length (content b) + length (tag_pack i WIRE_LENGTH_PREFIXED @ prefixed (take n bs)) \<le> room"
  then have l: "length (content b) + (length ?hd + n) \<le> room" unfolding p using assms by (simp add: min_absorb2)
  then have "length (content b) + length ?hd \<le> room" by simp
  from writesE [OF writes_put *(1) this] obtain b1 h1 where
    1: "put app ?hd (b, h) = Returned (of_nat (length ?hd), b1, h1)" "ok L (b1, h1)" "content b1 = content b @ ?hd" .
  then have "length (content b1) + n \<le> room" using l by simp
  from app [OF 1(2) assms this] obtain b2 h2 where
    "app (of_nat n) bs (b1, h1) = Returned (b2, h2)" "ok L (b2, h2)" "content b2 = content b1 @ take n bs" by blast
  then show "\<exists>b' h'. put_prefixed app i (of_nat n) bs (b, h) =
        Returned (of_nat (length (tag_pack i WIRE_LENGTH_PREFIXED @ prefixed (take n bs))), b', h') \<and> ok L (b', h') \<and>
        content b' = content b @ tag_pack i WIRE_LENGTH_PREFIXED @ prefixed (take n bs)"
    unfolding p using 1 assms by (simp add: put_prefixed_def min_absorb2)
qed

lemma writes_each:
  assumes "\<forall>x \<in> set xs. writes ok content room (f x) (g x)"
  shows "writes ok content room (pack_each f xs 0) (concat (map g xs))"
proof -
  have "\<exists>b' h'. pack_each f xs rv (b, h) = Returned (rv + of_nat (length (concat (map g xs))), b', h') \<and> ok L (b', h') \<and>
        content b' = content b @ concat (map g xs)"
    if "ok L (b, h)" "length (content b) + length (concat (map g xs)) \<le> room" for L b h rv
    using assms that
  proof (induction xs arbitrary: rv b h)
    case (Cons x xs)
    then have "writes ok content room (f x) (g x)" "length (content b) + length (g x) \<le> room" by simp_all
    from writesE [OF this(1) Cons.prems(2) this(2)] obtain b1 h1 where 1: "f x (b, h) = Returned (of_nat (length (g x)), b1, h1)" "ok L (b1, h1)"
      "content b1 = content b @ g x" .
    have "length (content b1) + length (concat (map g xs)) \<le> room" using Cons.prems(3) 1(3) by simp
    moreover have "\<forall>x \<in> set xs. writes ok content room (f x) (g x)" using Cons.prems(1) by simp
    ultimately obtain b2 h2 where "pack_each f xs (rv + of_nat (length (g x))) (b1, h1) =
        Returned (rv + of_nat (length (g x)) + of_nat (length (concat (map g xs))), b2, h2)" "ok L (b2, h2)"
      "content b2 = content b1 @ concat (map g xs)" using Cons.IH [OF _ 1(2)] by blast
    then show ?case using 1 by (simp add: add.assoc)
  qed simp
  from this [where rv = 0] show ?thesis by (intro writesI) simp
qed

lemma writes_submessage:
  assumes sub: "simple_writes (sub m) bs" and st: "\<forall>k. length (stack mem k) = 256"
  shows "writes ok content room (pack_submessage mem app sub i m) (tag_pack i WIRE_LENGTH_PREFIXED @ prefixed bs)"
proof (rule writesI)
  let ?all = "tag_pack i WIRE_LENGTH_PREFIXED @ prefixed bs"
  fix L b h assume *: "ok L (b, h)" "length (content b) + length ?all \<le> room"
  let ?s = "buffer_simple_init (stack mem (frames h))" and ?h = "h\<lparr>frames := Suc (frames h)\<rparr>"
  have "simple_ok (live h) (?s, ?h)" "simple_content ?s = []"
    by (simp_all add: simple_ok_def buffer_simple_init_def st simple_content_def)
  moreover have "length bs \<le> 2 ^ 31" using *(2) room by (simp add: prefixed_def)
  ultimately obtain simp h1 where 1: "sub m (?s, ?h) = Returned (of_nat (length bs), simp, h1)"
    "simple_ok (live h) (simp, h1)" "simple_content simp = bs" using writesE [OF sub, of "live h" ?s ?h] by auto
  let ?k = "if must_free_data simp then 1 else 0"
  have live1: "live h1 = live h + ?k" using 1(2) by (simp add: simple_ok_def)
  have bs: "take (length bs) (data simp) = bs" "length bs \<le> length (data simp)"
    using 1(2,3) by (auto simp: simple_ok_def simple_content_def word_le_nat_alt)
  have "ok (L + ?k) (b, h1)" using other_blocks [OF *(1)] live1 by simp
  with writesE [OF writes_put_prefixed [OF bs(2), of i, unfolded bs(1)] _ *(2)] obtain b2 h2 where
    2: "put_prefixed app i (of_nat (length bs)) (data simp) (b, h1) = Returned (of_nat (length ?all), b2, h2)"
    "ok (L + ?k) (b2, h2)" "content b2 = content b @ ?all" by metis
  have "ok L (b2, buffer_simple_clear simp h2)"
    by (rule other_blocks [OF 2(2)]) (use account [OF 2(2)] in \<open>auto simp: buffer_simple_clear_def do_free_def\<close>)
  then show "\<exists>b' h'. pack_submessage mem app sub i m (b, h) = Returned (of_nat (length ?all), b', h') \<and> ok L (b', h') \<and>
      content b' = content b @ ?all"
    using 1 2 by (simp add: pack_submessage_def)
qed

text \<open>The value of a field, an element, the fields of a message.\<close>

lemma writes_required:
  assumes "value_fits fine ty v" "\<forall>m. fine m \<longrightarrow> simple_writes (sub m) (pk m)" "\<forall>k. length (stack mem k) = 256"
  shows "writes ok content room (required_field_pack_to_buffer mem app sub i ty v) (required_field_pack pk i ty v)"
proof -
  have "writes ok content room (put_prefixed app i (of_nat (length (c_str s))) (bytes_of (c_str s)))
      (tag_pack i WIRE_LENGTH_PREFIXED @ prefixed (bytes_of (c_str s)))" for s
    using writes_put_prefixed [of "length (c_str s)" "bytes_of (c_str s)" i] by simp
  moreover have "writes ok content room (pack_submessage mem app sub i m) (tag_pack i WIRE_LENGTH_PREFIXED @ prefixed (pk m))"
    if "fine m" for m using writes_submessage assms(2,3) that by blast
  ultimately show ?thesis using assms(1) writes_put
    by (cases ty; cases v) (simp_all add: value_fits_def required_field_pack_to_buffer_def required_field_pack_def
        string_prefixed writes_cong [OF required_field_pack_to_buffer_def])
qed

lemma writes_packed_payload:
  assumes "is_packable_type ty" "list_all (value_fits fine ty) vs"
  shows "writes ok content room (pack_buffer_packed_payload app ty vs) (concat (map (packed_element ty) vs))"
proof -
  let ?bs = "concat (map (packed_element ty) vs)"
  note len = packed_payload_length [OF assms]
  have loop: "writes ok content room (pack_each (\<lambda>v. put app (packed_element ty v)) vs 0) ?bs"
    by (rule writes_each) (simp add: writes_put)
  have whole: "pack_buffer_packed_payload app ty vs = put app ?bs" if "ty = TYPE_FLOAT \<or> ty = TYPE_DOUBLE"
    using that len by (intro ext) (auto simp: pack_buffer_packed_payload_def put_def get_packed_payload_length_def Let_def)
  have bool: "writes ok content room (pack_buffer_packed_payload app ty vs) ?bs" if "ty = TYPE_BOOL"
    using loop that len by (fastforce simp: writes_def pack_buffer_packed_payload_def get_packed_payload_length_def Let_def)
  have other: "pack_buffer_packed_payload app ty vs = pack_each (\<lambda>v. put app (packed_element ty v)) vs 0"
    if "ty = TYPE_ENUM \<or> ty = TYPE_INT32 \<or> ty = TYPE_UINT32"
    using that by (intro ext) (auto simp: pack_buffer_packed_payload_def Let_def)
  show ?thesis using assms(1) whole bool other loop writes_put by (cases ty) (simp_all add: is_packable_type_def)
qed

lemma writes_unlabeled:
  assumes "value_fits fine ty v" "\<forall>m. fine m \<longrightarrow> simple_writes (sub m) (pk m)" "\<forall>k. length (stack mem k) = 256"
  shows "writes ok content room (unlabeled_field_pack_to_buffer mem app sub i ty v) (unlabeled_field_pack pk i ty v)"
proof -
  have "unlabeled_field_pack_to_buffer mem app sub i ty v =
      (if field_is_zeroish ty v then \<lambda>s. Returned (0, s) else required_field_pack_to_buffer mem app sub i ty v)"
    by (intro ext) (simp add: unlabeled_field_pack_to_buffer_def)
  then show ?thesis using writes_required [OF assms] by (simp add: unlabeled_field_pack_def writes_nothing)
qed

lemma writes_repeated:
  assumes "list_all (value_fits fine ty) vs" "label_ok (LABEL_REPEATED p) ty"
    and "\<forall>m. fine m \<longrightarrow> simple_writes (sub m) (pk m)" "\<forall>k. length (stack mem k) = 256"
  shows "writes ok content room (repeated_field_pack_to_buffer mem app sub i p ty vs) (repeated_field_pack pk i p ty vs)"
proof (cases "p \<and> vs \<noteq> []")
  case True
  then have ty: "is_packable_type ty" using assms(2) by (simp add: label_ok_def)
  let ?bs = "concat (map (packed_element ty) vs)"
  let ?hd = "tag_pack i WIRE_LENGTH_PREFIXED @ uint32_pack (of_nat (length ?bs))"
  have p: "repeated_field_pack pk i p ty vs = ?hd @ ?bs" using True by (simp add: repeated_field_pack_def prefixed_def)
  show ?thesis unfolding p
  proof (rule writesI)
    fix L b h assume *: "ok L (b, h)" "length (content b) + length (?hd @ ?bs) \<le> room"
    then have "length (content b) + length ?hd \<le> room" by simp
    from writesE [OF writes_put *(1) this] obtain b1 h1 where
      1: "put app ?hd (b, h) = Returned (of_nat (length ?hd), b1, h1)" "ok L (b1, h1)" "content b1 = content b @ ?hd" .
    then have "length (content b1) + length ?bs \<le> room" using *(2) by simp
    from writesE [OF writes_packed_payload [OF ty assms(1)] 1(2) this] obtain b2 h2 where
      "pack_buffer_packed_payload app ty vs (b1, h1) = Returned (of_nat (length ?bs), b2, h2)" "ok L (b2, h2)"
      "content b2 = content b1 @ ?bs" .
    then show "\<exists>b' h'. repeated_field_pack_to_buffer mem app sub i p ty vs (b, h) =
        Returned (of_nat (length (?hd @ ?bs)), b', h') \<and> ok L (b', h') \<and> content b' = content b @ ?hd @ ?bs"
      using 1 True packed_payload_length [OF ty assms(1)] by (simp add: repeated_field_pack_to_buffer_def Let_def)
  qed
next
  case False
  then have "repeated_field_pack_to_buffer mem app sub i p ty vs = pack_each (required_field_pack_to_buffer mem app sub i ty) vs 0"
    by (intro ext) (auto simp: repeated_field_pack_to_buffer_def)
  moreover have "repeated_field_pack pk i p ty vs = concat (map (required_field_pack pk i ty) vs)"
    using False by (auto simp: repeated_field_pack_def)
  moreover have "\<forall>v \<in> set vs. writes ok content room (required_field_pack_to_buffer mem app sub i ty v) (required_field_pack pk i ty v)"
    using writes_required [OF _ assms(3,4)] assms(1) by (simp add: list_all_iff)
  ultimately show ?thesis using writes_each [of vs] by simp
qed

lemma writes_field:
  assumes "field_fits fine lab ty (map_of m i)" "label_ok lab ty"
    and "\<forall>m. fine m \<longrightarrow> simple_writes (sub m) (pk m)" "\<forall>k. length (stack mem k) = 256"
  shows "writes ok content room (field_pack_to_buffer mem app m (i, lab, ty, sub)) (field_pack pk i lab ty m)"
proof (cases "map_of m i")
  case None
  then have "field_pack_to_buffer mem app m (i, lab, ty, sub) = (\<lambda>s. Returned (0, s))"
    by (intro ext) (simp add: field_pack_to_buffer_def split: plabel.split)
  then show ?thesis using None by (simp add: field_pack_def writes_nothing split: plabel.split)
next
  case (Some v)
  show ?thesis
  proof (cases lab)
    case LABEL_NONE
    then have "field_pack_to_buffer mem app m (i, lab, ty, sub) = unlabeled_field_pack_to_buffer mem app sub i ty v"
      using Some by (intro ext) (simp add: field_pack_to_buffer_def)
    then show ?thesis using Some LABEL_NONE assms writes_unlabeled by (simp add: field_pack_def field_fits_def)
  next
    case (LABEL_REPEATED p)
    then obtain vs where v: "v = PRep vs" "list_all (value_fits fine ty) vs"
      using assms(1) Some by (auto simp: field_fits_def split: pval.splits)
    then have "field_pack_to_buffer mem app m (i, lab, ty, sub) = repeated_field_pack_to_buffer mem app sub i p ty vs"
      using Some LABEL_REPEATED by (intro ext) (simp add: field_pack_to_buffer_def)
    then show ?thesis using Some v(1) LABEL_REPEATED assms(2) writes_repeated [OF v(2) _ assms(3,4), of p i]
      by (simp add: field_pack_def)
  qed
qed

lemma writes_fields:
  assumes "valid_type (TYPE_MESSAGE d)" "well_typed (TYPE_MESSAGE d) m" "\<forall>k. length (stack mem k) = 256"
    and "\<forall>(i, lab, ty) \<in> set d. \<forall>m. well_typed ty m \<longrightarrow> simple_writes (sub ty m) (message_pack ty m)"
  shows "writes ok content room (pack_each (field_pack_to_buffer mem app m) (map (\<lambda>(i, lab, ty). (i, lab, ty, sub ty)) d) 0)
      (message_pack (TYPE_MESSAGE d) m)"
proof -
  let ?fs = "map (\<lambda>(i, lab, ty). (i, lab, ty, sub ty)) d"
  have "writes ok content room (field_pack_to_buffer mem app m f) ((\<lambda>(i, lab, ty, _). field_pack (message_pack ty) i lab ty m) f)"
    if "f \<in> set ?fs" for f
  proof -
    from that obtain i lab ty where f: "f = (i, lab, ty, sub ty)" "(i, lab, ty) \<in> set d" by auto
    then have "field_fits (well_typed ty) lab ty (map_of m i)" "label_ok lab ty"
      "\<forall>m. well_typed ty m \<longrightarrow> simple_writes (sub ty m) (message_pack ty m)"
      using assms(1,2,4) by (auto simp: list_all_iff)
    from writes_field [OF this assms(3)] show ?thesis unfolding f(1) by simp
  qed
  then have "writes ok content room (pack_each (field_pack_to_buffer mem app m) ?fs 0)
      (concat (map (\<lambda>(i, lab, ty, _). field_pack (message_pack ty) i lab ty m) ?fs))" by (intro writes_each) blast
  moreover have "map (\<lambda>(i, lab, ty, _). field_pack (message_pack ty) i lab ty m) ?fs =
      map (\<lambda>(i, lab, ty). field_pack (message_pack ty) i lab ty m) d" by auto
  ultimately show ?thesis by (simp only: message_pack.simps)
qed

end

section \<open>The simple buffer keeps the promise\<close>

text \<open>Memory that never runs out, whatever bytes are in it.\<close>

definition enough_memory :: "(nat \<Rightarrow> nat \<Rightarrow> byte) \<Rightarrow> (nat \<Rightarrow> nat \<Rightarrow> byte) \<Rightarrow> memory" where
  "enough_memory junk stale =
     \<lparr>malloc = \<lambda>k n. Some (map (junk k) [0..<unat n]), stack = \<lambda>k. map (stale k) [0..<256]\<rparr>"

lemma store_fits:
  assumes "simple_ok L (simp, h)" "n \<le> length bs" "unat (len simp) + n \<le> unat (alloced simp)"
  shows "\<exists>b' h'. store (of_nat n) bs (simp, h) = Returned (b', h') \<and> simple_ok L (b', h') \<and>
     simple_content b' = simple_content simp @ take n bs"
proof -
  have n: "unat (of_nat n :: 32 word) = n" using assms(3) unsigned_less [of "alloced simp", where ?'a = nat]
    by (simp add: unat_of_nat)
  have l: "unat (len simp + of_nat n) = unat (len simp) + n"
    using assms(3) unsigned_less [of "alloced simp", where ?'a = nat] by (subst unat_add_lem [THEN iffD1]) (simp_all add: n)
  show ?thesis using assms n l
    by (simp add: store_def memcpy_def simple_ok_def simple_content_def word_le_nat_alt)
qed

lemma append_simple:
  assumes "simple_ok L (simp, h)" "n \<le> length bs" "length (simple_content simp) + n \<le> 2 ^ 31"
  shows "\<exists>b' h'. protobuf_c_buffer_simple_append (enough_memory junk stale) (of_nat n) bs (simp, h) = Returned (b', h') \<and>
     simple_ok L (b', h') \<and> simple_content b' = simple_content simp @ take n bs"
proof -
  note ok = assms(1) [unfolded simple_ok_def prod.case]
  have c: "length (simple_content simp) = unat (len simp)"
    using ok by (simp add: simple_content_def word_le_nat_alt)
  have n: "unat (of_nat n :: 32 word) = n" using assms(3) by (simp add: unat_of_nat)
  have l: "unat (len simp + of_nat n) = unat (len simp) + n"
    using assms(3) c by (subst unat_add_lem [THEN iffD1]) (simp_all add: n)
  show ?thesis
  proof (cases "len simp + of_nat n > alloced simp")
    case False
    then have "unat (len simp) + n \<le> unat (alloced simp)" using l by (simp add: word_less_nat_alt)
    from store_fits [OF assms(1,2) this] False show ?thesis by (simp add: protobuf_c_buffer_simple_append_def)
  next
    case True
    then have a: "unat (alloced simp) < 2 ^ 31" using l assms(3) c by (simp add: word_less_nat_alt)
    then have "unat (alloced simp + alloced simp) = 2 * unat (alloced simp)"
      by (subst unat_add_lem [THEN iffD1]) simp_all
    then have "0 < alloced simp * 2" "alloced simp \<le> alloced simp * 2" using ok
      by (simp_all add: word_less_nat_alt word_le_nat_alt mult.commute mult_2)
    with grow_ends [of "alloced simp * 2" "len simp + of_nat n"] l c assms(3) obtain v where
      v: "grow (alloced simp * 2) (len simp + of_nat n) = Some v" "len simp + of_nat n \<le> v" "alloced simp \<le> v"
      by fastforce
    let ?d = "simple_content simp @ drop (unat (len simp)) (map (junk (mallocs h)) [0..<unat v])"
    let ?b = "simp\<lparr>data := ?d, alloced := v, must_free_data := True\<rparr>"
    let ?h = "h\<lparr>mallocs := Suc (mallocs h), live := Suc (live h)\<rparr>"
    have lv: "unat (len simp) + n \<le> unat v" using v(2) l by (simp add: word_le_nat_alt)
    have "memcpy (map (junk (mallocs h)) [0..<unat v]) 0 (data simp) (unat (len simp)) = Returned ?d"
      using lv ok by (simp add: memcpy_def simple_content_def word_le_nat_alt)
    then have 1: "protobuf_c_buffer_simple_append (enough_memory junk stale) (of_nat n) bs (simp, h) =
        store (of_nat n) bs (?b, if must_free_data simp then do_free ?h else ?h)"
      using True v(1) by (simp add: protobuf_c_buffer_simple_append_def do_alloc_def enough_memory_def Let_def)
    have "0 < v" using v(3) ok by (auto intro: less_le_trans)
    then have "simple_ok L (?b, if must_free_data simp then do_free ?h else ?h)"
      using ok lv c by (simp add: simple_ok_def do_free_def word_le_nat_alt)
    moreover have "simple_content ?b = simple_content simp" using c by (simp add: simple_content_def [of ?b])
    ultimately show ?thesis unfolding 1 using store_fits [of L ?b _ n bs] assms(2) lv by simp
  qed
qed

interpretation simple: append_buffer "protobuf_c_buffer_simple_append (enough_memory junk stale)" simple_ok simple_content
    "2 ^ 31" for junk stale
proof unfold_locales
  show "\<exists>b' h'. protobuf_c_buffer_simple_append (enough_memory junk stale) (of_nat n) bs (b, h) = Returned (b', h') \<and>
      simple_ok L (b', h') \<and> simple_content b' = simple_content b @ take n bs"
    if "simple_ok L (b, h)" "n \<le> length bs" "length (simple_content b) + n \<le> 2 ^ 31" for L b h n bs
    using append_simple that .
qed (simp_all add: simple_ok_def)

lemma submessage_writes:
  "valid_type ty \<Longrightarrow> well_typed ty m \<Longrightarrow>
    simple_writes (submessage_packer (enough_memory junk stale) ty m) (message_pack ty m)"
proof (induction ty arbitrary: m)
  case (TYPE_MESSAGE d)
  have "\<forall>(i, lab, ty) \<in> set d. \<forall>m. well_typed ty m \<longrightarrow>
      simple_writes (submessage_packer (enough_memory junk stale) ty m) (message_pack ty m)"
    using TYPE_MESSAGE.IH TYPE_MESSAGE.prems(1) by (fastforce simp: list_all_iff)
  from simple.writes_fields [OF TYPE_MESSAGE.prems _ this] show ?case
    by (subst writes_cong [OF submessage_packer.simps(1)]) (simp add: enough_memory_def)
qed simp_all

lemma sample_message_short: "length (protobuf_c_message_pack main_message_descriptor sample_message) \<le> 100"
  by code_simp

text \<open>C38. Packing a message into the library's buffer appends exactly the bytes \<^verbatim>\<open>protobuf_c_message_pack\<close>
  writes, and returns their number, for every valid descriptor, every well-typed message and every buffer with an array
  of at least one byte, as long as memory is not exhausted and the result is at most \<open>2 ^ 31\<close> bytes: the buffer grows as needed, the
  loop that doubles its size ends, nothing is read or written outside an array, and every block of memory but the
  buffer's own is freed again.\<close>

theorem pack_to_buffer_exact:
  assumes "valid_type (TYPE_MESSAGE d)" "well_typed (TYPE_MESSAGE d) m" "simple_ok L (simp, h)"
    and "length (simple_content simp) + length (protobuf_c_message_pack d m) \<le> 2 ^ 31"
  shows "\<exists>simp' h'. protobuf_c_message_pack_to_buffer (enough_memory junk stale)
        (protobuf_c_buffer_simple_append (enough_memory junk stale)) d m (simp, h) =
        Returned (of_nat (length (protobuf_c_message_pack d m)), simp', h') \<and> simple_ok L (simp', h') \<and>
     simple_content simp' = simple_content simp @ protobuf_c_message_pack d m"
proof -
  have "\<forall>(i, lab, ty) \<in> set d. \<forall>m. well_typed ty m \<longrightarrow>
      simple_writes (submessage_packer (enough_memory junk stale) ty m) (message_pack ty m)"
    using submessage_writes assms(1) by (fastforce simp: list_all_iff)
  from simple.writes_fields [OF assms(1,2) _ this] assms(3,4) show ?thesis
    unfolding protobuf_c_message_pack_to_buffer_def protobuf_c_message_pack_def writes_def by (auto simp: enough_memory_def)
qed

theorem pack_to_buffer_exact_witness:
  "\<exists>simp' h'. protobuf_c_message_pack_to_buffer (enough_memory (\<lambda>_ _. 0) (\<lambda>_ _. 255))
        (protobuf_c_buffer_simple_append (enough_memory (\<lambda>_ _. 0) (\<lambda>_ _. 255))) main_message_descriptor sample_message
        (buffer_simple_init [1, 2, 3, 4, 5, 6, 7, 8], \<lparr>mallocs = 0, frames = 0, live = 7\<rparr>) =
        Returned (of_nat (length (protobuf_c_message_pack main_message_descriptor sample_message)), simp', h') \<and>
     simple_ok 7 (simp', h') \<and>
     simple_content simp' = simple_content (buffer_simple_init [1, 2, 3, 4, 5, 6, 7, 8]) @
       protobuf_c_message_pack main_message_descriptor sample_message"
  by (rule pack_to_buffer_exact [OF main_message_valid sample_message_typed])
    (use sample_message_short in \<open>simp_all add: simple_ok_def buffer_simple_init_def simple_content_def\<close>)

section \<open>Where it fails\<close>

text \<open>A buffer that starts empty never returns from its first append: the doubling of zero is zero.\<close>

theorem append_empty_endless:
  assumes "alloced simp = 0" "0 < len simp + n"
  shows "protobuf_c_buffer_simple_append mem n bs (simp, h) = Endless"
  using assms by (simp add: protobuf_c_buffer_simple_append_def grow_zero)

text \<open>An append for which there is no memory does nothing, and the caller is not told.\<close>

lemma append_without_memory:
  assumes "\<forall>k n. malloc mem k n = None" "alloced simp < len simp + n" "grow (alloced simp * 2) (len simp + n) \<noteq> None"
  shows "protobuf_c_buffer_simple_append mem n bs (simp, h) = Returned (simp, h\<lparr>mallocs := Suc (mallocs h)\<rparr>)"
  using assms by (auto simp: protobuf_c_buffer_simple_append_def do_alloc_def)

text \<open>
  When the scratch buffer of a submessage cannot grow, its bytes are lost but still counted, and that many bytes are then
  copied from the 256 of the array: here a text of 300 characters.
\<close>

definition no_memory :: memory where
  "no_memory = \<lparr>malloc = \<lambda>_ _. None, stack = \<lambda>_. replicate 256 0\<rparr>"

definition long_name :: message where
  "long_name = [(1, PMsg [(1, PStr (replicate 300 CHR ''x''))])]"

lemma sample_headers:
  "tag_pack (Suc 0) WIRE_LENGTH_PREFIXED = [0x0A]" "uint32_pack 300 = [0xAC, 0x02]" "uint32_pack 303 = [0xAF, 0x02]"
  by code_simp+

lemma sample_grow: "grow 512 303 = Some 512"
  by (subst grow.simps) simp

theorem submessage_overread:
  "protobuf_c_message_pack_to_buffer no_memory (protobuf_c_buffer_simple_append no_memory)
     [(1, LABEL_NONE, TYPE_MESSAGE [(1, LABEL_NONE, TYPE_STRING)])] long_name
     (buffer_simple_init (replicate 1024 0), \<lparr>mallocs = 0, frames = 0, live = 0\<rparr>) = OutOfBounds"
proof -
  have "c_str (replicate 300 CHR ''x'') = replicate 300 CHR ''x''" by (simp add: c_str_def)
  then show ?thesis
    by (simp add: protobuf_c_message_pack_to_buffer_def long_name_def field_pack_to_buffer_def unlabeled_field_pack_to_buffer_def
        field_is_zeroish_def required_field_pack_to_buffer_def pack_submessage_def submessage_packer.simps buffer_simple_init_def
        no_memory_def put_prefixed_def put_def sample_headers protobuf_c_buffer_simple_append_def store_def memcpy_def
        sample_grow do_alloc_def)
qed

end
