(* ===== verification/Modbus_Crc.thy ===== *)
theory Modbus_Crc
  imports Prelude
begin

text \<open>
  \<^verbatim>\<open>freemodbus/modbus/rtu/mbcrc.c\<close>: the check sum of a Modbus frame, computed byte by byte with two
  tables. The reference is the definition of the Modbus standard, bit by bit with the polynomial
  \<open>0xA001\<close>.
\<close>

section \<open>The code\<close>

definition aucCRCHi :: "byte list" where
  "aucCRCHi =
     [0x00, 0xC1, 0x81, 0x40, 0x01, 0xC0, 0x80, 0x41, 0x01, 0xC0, 0x80, 0x41, 0x00, 0xC1, 0x81, 0x40,
      0x01, 0xC0, 0x80, 0x41, 0x00, 0xC1, 0x81, 0x40, 0x00, 0xC1, 0x81, 0x40, 0x01, 0xC0, 0x80, 0x41,
      0x01, 0xC0, 0x80, 0x41, 0x00, 0xC1, 0x81, 0x40, 0x00, 0xC1, 0x81, 0x40, 0x01, 0xC0, 0x80, 0x41,
      0x00, 0xC1, 0x81, 0x40, 0x01, 0xC0, 0x80, 0x41, 0x01, 0xC0, 0x80, 0x41, 0x00, 0xC1, 0x81, 0x40,
      0x01, 0xC0, 0x80, 0x41, 0x00, 0xC1, 0x81, 0x40, 0x00, 0xC1, 0x81, 0x40, 0x01, 0xC0, 0x80, 0x41,
      0x00, 0xC1, 0x81, 0x40, 0x01, 0xC0, 0x80, 0x41, 0x01, 0xC0, 0x80, 0x41, 0x00, 0xC1, 0x81, 0x40,
      0x00, 0xC1, 0x81, 0x40, 0x01, 0xC0, 0x80, 0x41, 0x01, 0xC0, 0x80, 0x41, 0x00, 0xC1, 0x81, 0x40,
      0x01, 0xC0, 0x80, 0x41, 0x00, 0xC1, 0x81, 0x40, 0x00, 0xC1, 0x81, 0x40, 0x01, 0xC0, 0x80, 0x41,
      0x01, 0xC0, 0x80, 0x41, 0x00, 0xC1, 0x81, 0x40, 0x00, 0xC1, 0x81, 0x40, 0x01, 0xC0, 0x80, 0x41,
      0x00, 0xC1, 0x81, 0x40, 0x01, 0xC0, 0x80, 0x41, 0x01, 0xC0, 0x80, 0x41, 0x00, 0xC1, 0x81, 0x40,
      0x00, 0xC1, 0x81, 0x40, 0x01, 0xC0, 0x80, 0x41, 0x01, 0xC0, 0x80, 0x41, 0x00, 0xC1, 0x81, 0x40,
      0x01, 0xC0, 0x80, 0x41, 0x00, 0xC1, 0x81, 0x40, 0x00, 0xC1, 0x81, 0x40, 0x01, 0xC0, 0x80, 0x41,
      0x00, 0xC1, 0x81, 0x40, 0x01, 0xC0, 0x80, 0x41, 0x01, 0xC0, 0x80, 0x41, 0x00, 0xC1, 0x81, 0x40,
      0x01, 0xC0, 0x80, 0x41, 0x00, 0xC1, 0x81, 0x40, 0x00, 0xC1, 0x81, 0x40, 0x01, 0xC0, 0x80, 0x41,
      0x01, 0xC0, 0x80, 0x41, 0x00, 0xC1, 0x81, 0x40, 0x00, 0xC1, 0x81, 0x40, 0x01, 0xC0, 0x80, 0x41,
      0x00, 0xC1, 0x81, 0x40, 0x01, 0xC0, 0x80, 0x41, 0x01, 0xC0, 0x80, 0x41, 0x00, 0xC1, 0x81, 0x40]"

definition aucCRCLo :: "byte list" where
  "aucCRCLo =
     [0x00, 0xC0, 0xC1, 0x01, 0xC3, 0x03, 0x02, 0xC2, 0xC6, 0x06, 0x07, 0xC7, 0x05, 0xC5, 0xC4, 0x04,
      0xCC, 0x0C, 0x0D, 0xCD, 0x0F, 0xCF, 0xCE, 0x0E, 0x0A, 0xCA, 0xCB, 0x0B, 0xC9, 0x09, 0x08, 0xC8,
      0xD8, 0x18, 0x19, 0xD9, 0x1B, 0xDB, 0xDA, 0x1A, 0x1E, 0xDE, 0xDF, 0x1F, 0xDD, 0x1D, 0x1C, 0xDC,
      0x14, 0xD4, 0xD5, 0x15, 0xD7, 0x17, 0x16, 0xD6, 0xD2, 0x12, 0x13, 0xD3, 0x11, 0xD1, 0xD0, 0x10,
      0xF0, 0x30, 0x31, 0xF1, 0x33, 0xF3, 0xF2, 0x32, 0x36, 0xF6, 0xF7, 0x37, 0xF5, 0x35, 0x34, 0xF4,
      0x3C, 0xFC, 0xFD, 0x3D, 0xFF, 0x3F, 0x3E, 0xFE, 0xFA, 0x3A, 0x3B, 0xFB, 0x39, 0xF9, 0xF8, 0x38,
      0x28, 0xE8, 0xE9, 0x29, 0xEB, 0x2B, 0x2A, 0xEA, 0xEE, 0x2E, 0x2F, 0xEF, 0x2D, 0xED, 0xEC, 0x2C,
      0xE4, 0x24, 0x25, 0xE5, 0x27, 0xE7, 0xE6, 0x26, 0x22, 0xE2, 0xE3, 0x23, 0xE1, 0x21, 0x20, 0xE0,
      0xA0, 0x60, 0x61, 0xA1, 0x63, 0xA3, 0xA2, 0x62, 0x66, 0xA6, 0xA7, 0x67, 0xA5, 0x65, 0x64, 0xA4,
      0x6C, 0xAC, 0xAD, 0x6D, 0xAF, 0x6F, 0x6E, 0xAE, 0xAA, 0x6A, 0x6B, 0xAB, 0x69, 0xA9, 0xA8, 0x68,
      0x78, 0xB8, 0xB9, 0x79, 0xBB, 0x7B, 0x7A, 0xBA, 0xBE, 0x7E, 0x7F, 0xBF, 0x7D, 0xBD, 0xBC, 0x7C,
      0xB4, 0x74, 0x75, 0xB5, 0x77, 0xB7, 0xB6, 0x76, 0x72, 0xB2, 0xB3, 0x73, 0xB1, 0x71, 0x70, 0xB0,
      0x50, 0x90, 0x91, 0x51, 0x93, 0x53, 0x52, 0x92, 0x96, 0x56, 0x57, 0x97, 0x55, 0x95, 0x94, 0x54,
      0x9C, 0x5C, 0x5D, 0x9D, 0x5F, 0x9F, 0x9E, 0x5E, 0x5A, 0x9A, 0x9B, 0x5B, 0x99, 0x59, 0x58, 0x98,
      0x88, 0x48, 0x49, 0x89, 0x4B, 0x8B, 0x8A, 0x4A, 0x4E, 0x8E, 0x8F, 0x4F, 0x8D, 0x4D, 0x4C, 0x8C,
      0x44, 0x84, 0x85, 0x45, 0x87, 0x47, 0x46, 0x86, 0x82, 0x42, 0x43, 0x83, 0x41, 0x81, 0x80, 0x40]"

text \<open>One round of the loop, on the pair of \<open>ucCRCHi\<close> and \<open>ucCRCLo\<close>.\<close>

definition crc_round :: "byte \<Rightarrow> byte \<times> byte \<Rightarrow> byte \<times> byte" where
  "crc_round b = (\<lambda>(ucCRCHi, ucCRCLo).
     (let iIndex = unat (ucCRCLo XOR b)
      in (aucCRCLo ! iIndex, ucCRCHi XOR aucCRCHi ! iIndex)))"

definition usMBCRC16 :: "byte list \<Rightarrow> 16 word" where
  "usMBCRC16 pucFrame =
     (case fold crc_round pucFrame (0xFF, 0xFF) of (ucCRCHi, ucCRCLo) \<Rightarrow> push_bit 8 (ucast ucCRCHi) OR ucast ucCRCLo)"

section \<open>The reference\<close>

definition crc_bit :: "16 word \<Rightarrow> 16 word" where
  "crc_bit c = (if bit c 0 then drop_bit 1 c XOR 0xA001 else drop_bit 1 c)"

definition crc_byte :: "byte \<Rightarrow> 16 word \<Rightarrow> 16 word" where
  "crc_byte b c = (crc_bit ^^ 8) (c XOR ucast b)"

definition crc16 :: "byte list \<Rightarrow> 16 word" where
  "crc16 bs = fold crc_byte bs 0xFFFF"

section \<open>The two agree\<close>


text \<open>Both are linear for exclusive or: a table is built from its entries for single bits by doubling.\<close>

definition doubled :: "byte list \<Rightarrow> byte list" where
  "doubled vs = fold (\<lambda>v t. t @ map (\<lambda>x. x XOR v) t) vs [0]"

lemma tables_doubled:
  "aucCRCHi = doubled [0xC1, 0x81, 0x01, 0x01, 0x01, 0x01, 0x01, 0x01]"
  "aucCRCLo = doubled [0xC0, 0xC1, 0xC3, 0xC6, 0xCC, 0xD8, 0xF0, 0xA0]"
  by (simp_all add: aucCRCHi_def aucCRCLo_def doubled_def)

lemma of_nat_xor:
  assumes "i < 2 ^ n" "n < 8"
  shows "of_nat (2 ^ n + i) = (of_nat i XOR 2 ^ n :: byte)"
proof -
  have "\<not> bit i n" using assms(1) by (simp add: bit_iff_odd)
  then have "\<not> bit (of_nat i :: byte) n" by (simp add: bit_of_nat_iff)
  then have "of_nat i AND (2 :: byte) ^ n = 0" by (simp add: and_exp_eq_0_iff_not_bit)
  from disjunctive_add_eq_xor [OF this] show ?thesis by (simp add: add.commute)
qed

lemma doubled_linear:
  fixes f :: "byte \<Rightarrow> byte"
  assumes "f 0 = 0" "\<And>x y. f (x XOR y) = f x XOR f y"
  shows "n \<le> 8 \<Longrightarrow> doubled (map (\<lambda>k. f (2 ^ k)) [0..<n]) = map (\<lambda>i. f (of_nat i)) [0..<2 ^ n]"
proof (induction n)
  case 0
  then show ?case by (simp add: doubled_def assms(1))
next
  case (Suc n)
  have "[0..<2 ^ Suc n] = [0..<2 ^ n] @ map (\<lambda>i. 2 ^ n + i) [0..<2 ^ n]"
    by (rule nth_equalityI) (auto simp: nth_append)
  moreover have "f (of_nat (2 ^ n + i)) = f (of_nat i) XOR f (2 ^ n)" if "i < 2 ^ n" for i
    using of_nat_xor [OF that] Suc.prems assms(2) by simp
  ultimately show ?case using Suc by (simp add: doubled_def)
qed

lemma crc_bit_linear: "crc_bit (x XOR y) = crc_bit x XOR crc_bit y"
  by (auto simp: crc_bit_def bit_xor_iff ac_simps)

lemma crc_bits_linear: "(crc_bit ^^ n) (x XOR y) = (crc_bit ^^ n) x XOR (crc_bit ^^ n) y"
  by (induction n) (simp_all add: crc_bit_linear)

lemma crc_bits_zero: "(crc_bit ^^ n) 0 = 0"
  by (induction n) (simp_all add: crc_bit_def)

lemma crc_bits_8:
  "(crc_bit ^^ 8) x = crc_bit (crc_bit (crc_bit (crc_bit (crc_bit (crc_bit (crc_bit (crc_bit x)))))))"
  by (simp add: eval_nat_numeral)

lemma table_entry:
  fixes b :: byte
  shows "aucCRCHi ! unat b = ucast ((crc_bit ^^ 8) (ucast b))"
    and "aucCRCLo ! unat b = ucast (drop_bit 8 ((crc_bit ^^ 8) (ucast b)))"
proof -
  define lo :: "byte \<Rightarrow> byte" where "lo b = ucast ((crc_bit ^^ 8) (ucast b))" for b
  define hi :: "byte \<Rightarrow> byte" where "hi b = ucast (drop_bit 8 ((crc_bit ^^ 8) (ucast b)))" for b
  have xor: "ucast (x XOR y) = (ucast x XOR ucast y :: 16 word)" "ucast (v XOR w) = (ucast v XOR ucast w :: byte)"
    for x y :: byte and v w :: "16 word"
    by (auto intro!: bit_word_eqI simp: bit_simps)
  have l: "lo 0 = 0" "hi 0 = 0" "lo (x XOR y) = lo x XOR lo y" "hi (x XOR y) = hi x XOR hi y" for x y
    by (simp_all add: lo_def hi_def crc_bits_zero crc_bits_linear xor)
  have "[0..<8] = [0, 1, 2, 3, 4, 5, 6, 7]" by (simp add: upt_rec)
  then have "map (\<lambda>k. lo (2 ^ k)) [0..<8] = [0xC1, 0x81, 0x01, 0x01, 0x01, 0x01, 0x01, 0x01]"
    "map (\<lambda>k. hi (2 ^ k)) [0..<8] = [0xC0, 0xC1, 0xC3, 0xC6, 0xCC, 0xD8, 0xF0, 0xA0]"
    by (simp_all add: lo_def hi_def crc_bits_8 crc_bit_def)
  then have "aucCRCHi = doubled (map (\<lambda>k. lo (2 ^ k)) [0..<8])" "aucCRCLo = doubled (map (\<lambda>k. hi (2 ^ k)) [0..<8])"
    by (simp_all only: tables_doubled)
  then have e: "aucCRCHi = map (\<lambda>i. lo (of_nat i)) [0..<256]" "aucCRCLo = map (\<lambda>i. hi (of_nat i)) [0..<256]"
    using doubled_linear [of lo 8] doubled_linear [of hi 8] l by simp_all
  have nth: "map (\<lambda>i. f (of_nat i)) [0..<256] ! unat b = f b" for f :: "byte \<Rightarrow> byte"
  proof -
    have "unat b < 256" using unsigned_less [of b] by simp
    then have "[0..<256] ! unat b = unat b" "unat b < length [0..<256]"
      by (simp_all only: nth_upt [of 0 "unat b" 256, simplified] length_upt) simp
    then show ?thesis by (simp only: nth_map) simp
  qed
  show "aucCRCHi ! unat b = ucast ((crc_bit ^^ 8) (ucast b))"
    "aucCRCLo ! unat b = ucast (drop_bit 8 ((crc_bit ^^ 8) (ucast b)))"
    unfolding e nth [of lo] nth [of hi] by (simp_all only: lo_def hi_def)
qed

text \<open>The pair of bytes as one word, and a round on it.\<close>

definition crc_word :: "byte \<times> byte \<Rightarrow> 16 word" where
  "crc_word = (\<lambda>(hi, lo). push_bit 8 (ucast hi) OR ucast lo)"

lemma crc_bits_high: "(crc_bit ^^ 8) (push_bit 8 (ucast (h :: byte))) = ucast h"
proof -
  have s: "crc_bit (push_bit (Suc n) (ucast h)) = push_bit n (ucast h)" if "n < 8" for n
  proof -
    have "\<not> bit (push_bit (Suc n) (ucast h :: 16 word)) 0" by (simp add: bit_push_bit_iff del: push_bit_Suc)
    moreover have "drop_bit 1 (push_bit (Suc n) (ucast h)) = (push_bit n (ucast h) :: 16 word)"
      using that by (intro bit_word_eqI) (auto simp: bit_push_bit_iff bit_drop_bit_eq bit_ucast_iff Suc_diff_le
          dest: bit_imp_le_length simp del: push_bit_Suc)
    ultimately show ?thesis by (simp add: crc_bit_def)
  qed
  have "(crc_bit ^^ n) (push_bit n (ucast h)) = ucast h" if "n \<le> 8" for n
    using that
  proof (induction n)
    case (Suc n)
    have "(crc_bit ^^ Suc n) (push_bit (Suc n) (ucast h)) = (crc_bit ^^ n) (crc_bit (push_bit (Suc n) (ucast h)))"
      by (simp only: funpow_Suc_right comp_apply)
    then show ?case using s [of n] Suc by simp
  qed simp
  from this [of 8] show ?thesis by simp
qed

lemma split_word: "crc_word (hi, lo) XOR ucast b = push_bit 8 (ucast hi) XOR (ucast (lo XOR b) :: 16 word)"
  by (rule bit_word_eqI) (auto simp: crc_word_def bit_simps dest: bit_imp_le_length)

lemma crc_round_byte: "crc_word (crc_round b s) = crc_byte b (crc_word s)"
proof (cases s)
  case (Pair hi lo)
  let ?t = "(crc_bit ^^ 8) (ucast (lo XOR b))"
  have "crc_word (ucast (drop_bit 8 ?t), hi XOR ucast ?t) = ucast hi XOR ?t"
    by (rule bit_word_eqI) (auto simp: crc_word_def bit_simps dest: bit_imp_le_length)
  then show ?thesis
    using Pair by (simp add: crc_round_def Let_def table_entry crc_byte_def split_word crc_bits_linear crc_bits_high)
qed

lemma crc_rounds: "crc_word (fold crc_round bs s) = fold crc_byte bs (crc_word s)"
  by (induction bs arbitrary: s) (simp_all add: crc_round_byte)

lemma crc_agrees: "usMBCRC16 bs = crc16 bs"
proof -
  have "crc_word (0xFF, 0xFF) = 0xFFFF" by (simp add: crc_word_def)
  then show ?thesis using crc_rounds [of bs "(0xFF, 0xFF)"]
    by (simp add: usMBCRC16_def crc16_def crc_word_def)
qed


section \<open>What the check sum detects\<close>

lemma crc_bit_inj: "inj crc_bit"
proof (rule injI)
  fix x y
  assume "crc_bit x = crc_bit y"
  then have z: "crc_bit (x XOR y) = 0" by (simp add: crc_bit_linear)
  have "\<not> bit (x XOR y) 0"
  proof
    assume b: "bit (x XOR y) 0"
    have "bit (crc_bit (x XOR y)) 15" unfolding crc_bit_def if_P [OF b] by (auto simp: bit_simps dest: bit_imp_le_length)
    then show False using z by simp
  qed
  moreover from this have "drop_bit 1 (x XOR y) = 0" using z by (simp add: crc_bit_def)
  then have "\<not> bit (x XOR y) (Suc n)" for n by (metis bit_0_eq bit_drop_bit_eq bot_apply bot_bool_def comp_apply plus_1_eq_Suc)
  ultimately have "\<not> bit (x XOR y) n" for n by (cases n) simp_all
  then show "x = y" by (intro bit_word_eqI) (simp add: bit_xor_iff)
qed

lemma crc_bits_inj: "(crc_bit ^^ n) x = (crc_bit ^^ n) y \<longleftrightarrow> x = y"
  using crc_bit_inj by (induction n) (auto dest: injD)

lemma xor_cancel: "(a XOR c = b XOR c) \<longleftrightarrow> (a :: 'a :: len word) = b"
proof
  assume "a XOR c = b XOR c"
  then have "(a XOR c) XOR c = (b XOR c) XOR c" by simp
  then show "a = b" by (simp add: xor.assoc)
qed simp

lemma crc_byte_same: "crc_byte b c = crc_byte b' c' \<longleftrightarrow> c XOR ucast b = c' XOR ucast b'"
  by (simp add: crc_byte_def crc_bits_inj)

lemma fold_crc_same: "fold crc_byte bs c = fold crc_byte bs c' \<longleftrightarrow> c = c'"
  by (induction bs arbitrary: c c') (simp_all add: crc_byte_same xor_cancel)

lemma crc16_damaged:
  assumes "b \<noteq> b'"
  shows "crc16 (us @ b # vs) \<noteq> crc16 (us @ b' # vs)"
proof -
  have "ucast b \<noteq> (ucast b' :: 16 word)" 
  proof
    assume "ucast b = (ucast b' :: 16 word)"
    then have "bit (ucast b :: 16 word) n = bit (ucast b' :: 16 word) n" for n by simp
    then have u: "(n < 16 \<and> bit b n) = (n < 16 \<and> bit b' n)" for n by (simp add: bit_ucast_iff)
    have "bit b n = bit b' n" if "n < 8" for n using u [of n] that by simp
    then show False using assms by (auto intro: bit_word_eqI)
  qed
  moreover have "c XOR ucast b = c XOR ucast b' \<longleftrightarrow> ucast b = (ucast b' :: 16 word)" for c :: "16 word"
    using xor_cancel [of "ucast b" c "ucast b'"] by (simp add: xor.commute)
  ultimately show ?thesis by (simp add: crc16_def fold_crc_same crc_byte_same)
qed

text \<open>A frame followed by its check sum, low byte first, has the check sum zero.\<close>

definition crc_bytes :: "16 word \<Rightarrow> byte list" where
  "crc_bytes c = [ucast c, ucast (drop_bit 8 c)]"

lemma crc16_appended: "crc16 (bs @ crc_bytes (crc16 bs)) = 0"
proof -
  let ?c = "crc16 bs"
  let ?h = "ucast (drop_bit 8 ?c) :: byte"
  have "?c XOR ucast (ucast ?c :: byte) = push_bit 8 (ucast ?h)"
    by (rule bit_word_eqI) (auto simp: bit_simps)
  then have "crc_byte (ucast ?c) ?c = ucast ?h" by (simp add: crc_byte_def crc_bits_high)
  moreover have "crc_byte ?h (ucast ?h) = 0" by (simp add: crc_byte_def crc_bits_zero)
  ultimately show ?thesis by (simp add: crc16_def crc_bytes_def)
qed

section \<open>What it shows\<close>

text \<open>C17. The check sum computed with the two tables is the one the Modbus standard defines bit by bit, on every
  sequence of bytes.\<close>

theorem crc_tables_correct: "usMBCRC16 pucFrame = crc16 pucFrame"
  by (rule crc_agrees)

end
