(* ===== verification/Modbus_Rtu.thy ===== *)
theory Modbus_Rtu
  imports Modbus_Crc C_Lib
begin

text \<open>
  The Modbus master of \<^verbatim>\<open>esp-idf/components/freemodbus\<close> as the energy meter uses it: RTU framing
  (\<^verbatim>\<open>mbrtu_m.c\<close>), the event loop (\<^verbatim>\<open>mb_m.c\<close>, \<^verbatim>\<open>portevent_m.c\<close>), the serial port
  (\<^verbatim>\<open>portserial_m.c\<close>) and the request for input registers (\<^verbatim>\<open>mbfuncinput_m.c\<close>). The static
  variables of these files are one record. The event group is a set of events; \<open>line_out\<close> has the bytes of the
  current frame that are on the line. \<open>None\<close> is a failed assertion or an access outside a buffer. The handlers of the
  functions this program never requests are an argument. The stack is enabled, and the serial driver accepts every byte
  and sends it within the time the code waits for it.
\<close>

section \<open>State\<close>

datatype eMBMasterRcvState = STATE_M_RX_INIT | STATE_M_RX_IDLE | STATE_M_RX_RCV | STATE_M_RX_ERROR

datatype eMBMasterSndState = STATE_M_TX_IDLE | STATE_M_TX_XMIT | STATE_M_TX_XFWR

datatype eMBErrorCode =
    MB_ENOERR | MB_ENOREG | MB_EINVAL | MB_EPORTERR | MB_ENORES | MB_EIO | MB_EILLSTATE | MB_ETIMEDOUT

datatype eMBMasterReqErrCode =
    MB_MRE_NO_ERR | MB_MRE_NO_REG | MB_MRE_ILL_ARG | MB_MRE_REV_DATA | MB_MRE_TIMEDOUT | MB_MRE_MASTER_BUSY
  | MB_MRE_EXE_FUN

datatype eMBMasterEventType =
    EV_MASTER_READY | EV_MASTER_FRAME_RECEIVED | EV_MASTER_EXECUTE | EV_MASTER_FRAME_SENT | EV_MASTER_FRAME_TRANSMIT
  | EV_MASTER_ERROR_PROCESS | EV_MASTER_PROCESS_SUCCESS | EV_MASTER_ERROR_RESPOND_TIMEOUT
  | EV_MASTER_ERROR_RECEIVE_DATA | EV_MASTER_ERROR_EXECUTE_FUNCTION

datatype eMBMasterErrorEventType = EV_ERROR_RESPOND_TIMEOUT | EV_ERROR_RECEIVE_DATA | EV_ERROR_EXECUTE_FUNCTION

datatype eMBMasterTimerMode = MB_TMODE_T35 | MB_TMODE_RESPOND_TIMEOUT | MB_TMODE_CONVERT_DELAY

text \<open>An exception code is a byte, since the code takes it from a received frame.\<close>

type_synonym eMBException = byte

definition MB_EX_NONE :: eMBException where "MB_EX_NONE = 0"
definition MB_EX_ILLEGAL_FUNCTION :: eMBException where "MB_EX_ILLEGAL_FUNCTION = 1"
definition MB_EX_ILLEGAL_DATA_ADDRESS :: eMBException where "MB_EX_ILLEGAL_DATA_ADDRESS = 2"
definition MB_EX_ILLEGAL_DATA_VALUE :: eMBException where "MB_EX_ILLEGAL_DATA_VALUE = 3"
definition MB_EX_SLAVE_DEVICE_FAILURE :: eMBException where "MB_EX_SLAVE_DEVICE_FAILURE = 4"
definition MB_EX_SLAVE_BUSY :: eMBException where "MB_EX_SLAVE_BUSY = 6"
definition MB_FUNC_READ_INPUT_REGISTER :: byte where "MB_FUNC_READ_INPUT_REGISTER = 4"
definition MB_FUNC_ERROR :: byte where "MB_FUNC_ERROR = 128"
definition MB_SER_PDU_SIZE_MAX :: nat where "MB_SER_PDU_SIZE_MAX = 256"
definition MB_RTU_SER_PDU_SIZE_MIN :: nat where "MB_RTU_SER_PDU_SIZE_MIN = 4"
definition MB_MASTER_TOTAL_SLAVE_NUM :: byte where "MB_MASTER_TOTAL_SLAVE_NUM = 247"
definition MB_SERIAL_RESP_LEN_MIN :: nat where "MB_SERIAL_RESP_LEN_MIN = 4"
definition MB_SERIAL_BUF_SIZE :: nat where "MB_SERIAL_BUF_SIZE = 256"

text \<open>Where the static pointer \<open>ucMBFrame\<close> of the event loop points.\<close>

datatype frame_pointer = FrameNull | FrameReceived | FrameSent

record mb_master =
  eRcvState :: eMBMasterRcvState
  eSndState :: eMBMasterSndState
  ucMasterRcvBuf :: "byte list"
  usMasterRcvBufferPos :: nat
  ucMasterSndBuf :: "byte list"
  usMasterSendPDULength :: nat
  pucMasterSndBufferCur :: nat
  usMasterSndBufferCount :: nat
  ucMBMasterDestAddress :: byte
  eMBMasterCurErrorType :: eMBMasterErrorEventType
  eMasterCurTimerMode :: eMBMasterTimerMode
  xFrameIsBroadcast :: bool
  ucMBFrame :: frame_pointer
  ucRcvAddress :: byte
  usLength :: nat
  bTxStateEnabled :: bool
  bRxStateEnabled :: bool
  xEventGroupMasterHdl :: "eMBMasterEventType set"
  xSemaphorMasterHdl :: bool
  mbm_reg_buffer :: "byte list"
  mbm_reg_buffer_size :: nat
  line_out :: "byte list"

definition xMBMasterPortEventPost :: "eMBMasterEventType \<Rightarrow> mb_master \<Rightarrow> mb_master" where
  "xMBMasterPortEventPost eEvent m = m\<lparr>xEventGroupMasterHdl := insert eEvent (xEventGroupMasterHdl m)\<rparr>"

definition vMBMasterPortSerialEnable :: "bool \<Rightarrow> bool \<Rightarrow> mb_master \<Rightarrow> mb_master" where
  "vMBMasterPortSerialEnable bRxEnable bTxEnable m = m\<lparr>bTxStateEnabled := bTxEnable, bRxStateEnabled := bRxEnable\<rparr>"

definition vMBMasterRunResRelease :: "mb_master \<Rightarrow> mb_master" where
  "vMBMasterRunResRelease m = m\<lparr>xSemaphorMasterHdl := True\<rparr>"

section \<open>Framing\<close>

definition eMBMasterRTUStart :: "mb_master \<Rightarrow> mb_master" where
  "eMBMasterRTUStart m =
     (vMBMasterPortSerialEnable True False (m\<lparr>eRcvState := STATE_M_RX_IDLE\<rparr>))\<lparr>eMasterCurTimerMode := MB_TMODE_T35\<rparr>"

definition eMBMasterRTUReceive :: "mb_master \<Rightarrow> (eMBErrorCode \<times> mb_master) option" where
  "eMBMasterRTUReceive m =
     (if \<not> usMasterRcvBufferPos m < MB_SER_PDU_SIZE_MAX then None
      else Some
        (if MB_RTU_SER_PDU_SIZE_MIN \<le> usMasterRcvBufferPos m
            \<and> usMBCRC16 (take (usMasterRcvBufferPos m) (ucMasterRcvBuf m)) = 0
         then (MB_ENOERR, m\<lparr>ucRcvAddress := ucMasterRcvBuf m ! 0, usLength := usMasterRcvBufferPos m - 1 - 2,
                 ucMBFrame := FrameReceived\<rparr>)
         else (MB_EIO, m)))"

text \<open>The frame of address, protocol data and check sum is in \<open>ucMasterSndBuf\<close>, from its first byte.\<close>

definition eMBMasterRTUSend :: "byte \<Rightarrow> nat \<Rightarrow> mb_master \<Rightarrow> (eMBErrorCode \<times> mb_master) option" where
  "eMBMasterRTUSend ucSlaveAddress usLen m =
     (if ucSlaveAddress > MB_MASTER_TOTAL_SLAVE_NUM then Some (MB_EINVAL, m)
      else if eRcvState m = STATE_M_RX_IDLE then
        let buf = (ucMasterSndBuf m)[0 := ucSlaveAddress];
            count = 1 + usLen;
            usCRC16 = usMBCRC16 (take count buf);
            buf = buf[count := ucast (usCRC16 AND 0xFF)];
            buf = buf[count + 1 := ucast (drop_bit 8 usCRC16)]
        in if length buf \<le> count + 1 then None
           else Some (MB_ENOERR, vMBMasterPortSerialEnable False True
              (m\<lparr>ucMasterSndBuf := buf, pucMasterSndBufferCur := 0, usMasterSndBufferCount := count + 2,
                eSndState := STATE_M_TX_XMIT, line_out := []\<rparr>))
      else Some (MB_EIO, m))"

definition xMBMasterRTUReceiveFSM :: "byte \<Rightarrow> mb_master \<Rightarrow> mb_master option" where
  "xMBMasterRTUReceiveFSM ucByte m =
     (if eSndState m = STATE_M_TX_XMIT then None
      else Some (case eRcvState m of
         STATE_M_RX_INIT \<Rightarrow> m\<lparr>eMasterCurTimerMode := MB_TMODE_T35\<rparr>
       | STATE_M_RX_ERROR \<Rightarrow> m\<lparr>eMasterCurTimerMode := MB_TMODE_T35\<rparr>
       | STATE_M_RX_IDLE \<Rightarrow>
           m\<lparr>eSndState := STATE_M_TX_IDLE, ucMasterRcvBuf := (ucMasterRcvBuf m)[0 := ucByte],
             usMasterRcvBufferPos := 1, eRcvState := STATE_M_RX_RCV, eMasterCurTimerMode := MB_TMODE_T35\<rparr>
       | STATE_M_RX_RCV \<Rightarrow>
           (if usMasterRcvBufferPos m < MB_SER_PDU_SIZE_MAX then
              m\<lparr>ucMasterRcvBuf := (ucMasterRcvBuf m)[usMasterRcvBufferPos m := ucByte],
                usMasterRcvBufferPos := usMasterRcvBufferPos m + 1\<rparr>
            else m\<lparr>eRcvState := STATE_M_RX_ERROR\<rparr>)\<lparr>eMasterCurTimerMode := MB_TMODE_T35\<rparr>))"

text \<open>The result says whether the port shall call again.\<close>

definition xMBMasterRTUTransmitFSM :: "mb_master \<Rightarrow> (bool \<times> mb_master) option" where
  "xMBMasterRTUTransmitFSM m =
     (if eRcvState m \<noteq> STATE_M_RX_IDLE then None
      else Some (case eSndState m of
         STATE_M_TX_XFWR \<Rightarrow> (False, m)
       | STATE_M_TX_IDLE \<Rightarrow> (True, m)
       | STATE_M_TX_XMIT \<Rightarrow>
           if usMasterSndBufferCount m \<noteq> 0 then
             (True, m\<lparr>line_out := line_out m @ [ucMasterSndBuf m ! pucMasterSndBufferCur m],
                pucMasterSndBufferCur := pucMasterSndBufferCur m + 1,
                usMasterSndBufferCount := usMasterSndBufferCount m - 1\<rparr>)
           else
             let broadcast = (ucMasterSndBuf m ! 0 = 0)
             in (True, m\<lparr>xFrameIsBroadcast := broadcast, eSndState := STATE_M_TX_XFWR,
                   eMasterCurTimerMode := (if broadcast then MB_TMODE_CONVERT_DELAY else MB_TMODE_RESPOND_TIMEOUT)\<rparr>)))"

definition xMBMasterRTUTimerExpired :: "mb_master \<Rightarrow> mb_master" where
  "xMBMasterRTUTimerExpired m =
     (let m = (case eRcvState m of
                 STATE_M_RX_INIT \<Rightarrow> xMBMasterPortEventPost EV_MASTER_READY m
               | STATE_M_RX_RCV \<Rightarrow> xMBMasterPortEventPost EV_MASTER_FRAME_RECEIVED m
               | STATE_M_RX_ERROR \<Rightarrow>
                   xMBMasterPortEventPost EV_MASTER_ERROR_PROCESS (m\<lparr>eMBMasterCurErrorType := EV_ERROR_RECEIVE_DATA\<rparr>)
               | STATE_M_RX_IDLE \<Rightarrow> m);
          m = m\<lparr>eRcvState := STATE_M_RX_IDLE\<rparr>;
          m = (if eSndState m = STATE_M_TX_XFWR \<and> \<not> xFrameIsBroadcast m
               then xMBMasterPortEventPost EV_MASTER_ERROR_PROCESS (m\<lparr>eMBMasterCurErrorType := EV_ERROR_RESPOND_TIMEOUT\<rparr>)
               else m);
          m = m\<lparr>eSndState := STATE_M_TX_IDLE\<rparr>
      in if eMasterCurTimerMode m = MB_TMODE_CONVERT_DELAY then xMBMasterPortEventPost EV_MASTER_EXECUTE m else m)"

text \<open>The serial port: it calls the transmitter until it has no more to send, at most \<open>MB_SERIAL_BUF_SIZE\<close> times,
  and hands a received block of bytes to the receiver.\<close>

fun transmit :: "nat \<Rightarrow> mb_master \<Rightarrow> mb_master option" where
  "transmit 0 m = Some m"
| "transmit (Suc n) m =
     (case xMBMasterRTUTransmitFSM m of
        None \<Rightarrow> None
      | Some (True, m) \<Rightarrow> transmit n m
      | Some (False, m) \<Rightarrow> Some m)"

definition xMBMasterPortSerialTxPoll :: "mb_master \<Rightarrow> (bool \<times> mb_master) option" where
  "xMBMasterPortSerialTxPoll m =
     (if bTxStateEnabled m then
        do { m \<leftarrow> transmit MB_SERIAL_BUF_SIZE m; Some (True, vMBMasterPortSerialEnable True False m) }
      else Some (False, m))"

fun receive :: "byte list \<Rightarrow> mb_master \<Rightarrow> mb_master option" where
  "receive [] m = Some m"
| "receive (b # bs) m = do { m \<leftarrow> xMBMasterRTUReceiveFSM b m; receive bs m }"

definition vMBMasterPortSerialRxPoll :: "byte list \<Rightarrow> mb_master \<Rightarrow> mb_master option" where
  "vMBMasterPortSerialRxPoll bs m =
     (if bRxStateEnabled m \<and> MB_SERIAL_RESP_LEN_MIN < length bs then receive (take MB_SERIAL_BUF_SIZE bs) m else Some m)"

section \<open>The request for input registers\<close>

text \<open>The registers arrive high byte first and are stored low byte first, which is how the processor reads them.\<close>

fun transfer :: "nat \<Rightarrow> byte list \<Rightarrow> nat \<Rightarrow> byte list \<Rightarrow> byte list option" where
  "transfer 0 src k dst = Some dst"
| "transfer (Suc n) (hi # lo # src) k dst =
     (if k + 1 < length dst then transfer n src (k + 2) (dst[k := lo, k + 1 := hi]) else None)"
| "transfer (Suc n) src k dst = None"

definition eMBRegInputCBSerialMaster :: "byte list \<Rightarrow> nat \<Rightarrow> mb_master \<Rightarrow> (eMBErrorCode \<times> mb_master) option" where
  "eMBRegInputCBSerialMaster pucRegBuffer usNRegs m =
     (if 1 \<le> usNRegs \<and> mbm_reg_buffer_size m = usNRegs then
        do { buf \<leftarrow> transfer usNRegs pucRegBuffer 0 (mbm_reg_buffer m); Some (MB_ENOERR, m\<lparr>mbm_reg_buffer := buf\<rparr>) }
      else Some (MB_ENOREG, m))"

definition prveMBError2Exception :: "eMBErrorCode \<Rightarrow> eMBException" where
  "prveMBError2Exception eErrorCode =
     (case eErrorCode of
        MB_ENOERR \<Rightarrow> MB_EX_NONE
      | MB_ENOREG \<Rightarrow> MB_EX_ILLEGAL_DATA_ADDRESS
      | MB_ETIMEDOUT \<Rightarrow> MB_EX_SLAVE_BUSY
      | _ \<Rightarrow> MB_EX_SLAVE_DEVICE_FAILURE)"

text \<open>The protocol data of the current frame, and two bytes as a number.\<close>

definition frame_pdu :: "mb_master \<Rightarrow> byte list" where
  "frame_pdu m = (if ucMBFrame m = FrameSent then drop 1 (ucMasterSndBuf m) else drop 1 (ucMasterRcvBuf m))"

definition be16 :: "byte \<Rightarrow> byte \<Rightarrow> nat" where
  "be16 hi lo = unat hi * 256 + unat lo"

definition eMBMasterFuncReadInputRegister :: "mb_master \<Rightarrow> (eMBException \<times> mb_master) option" where
  "eMBMasterFuncReadInputRegister m =
     (if xFrameIsBroadcast m then Some (MB_EX_NONE, m)
      else if 1 + 1 \<le> usLength m then
        let snd = drop 1 (ucMasterSndBuf m);
            usRegCount = be16 (snd ! 3) (snd ! 4)
        in if 1 \<le> usRegCount \<and> 2 * usRegCount = unat (frame_pdu m ! 1) then
             do {
               (eRegStatus, m) \<leftarrow> eMBRegInputCBSerialMaster (drop 2 (frame_pdu m)) usRegCount m;
               Some (if eRegStatus \<noteq> MB_ENOERR then prveMBError2Exception eRegStatus else MB_EX_NONE, m)
             }
           else Some (MB_EX_ILLEGAL_DATA_VALUE, m)
      else Some (MB_EX_ILLEGAL_DATA_VALUE, m))"

section \<open>The event loop\<close>

definition MB_EVENT_POLL_MASK :: "eMBMasterEventType set" where
  "MB_EVENT_POLL_MASK = {EV_MASTER_READY, EV_MASTER_FRAME_RECEIVED, EV_MASTER_EXECUTE, EV_MASTER_FRAME_SENT,
     EV_MASTER_FRAME_TRANSMIT, EV_MASTER_ERROR_PROCESS}"

type_synonym function_handler = "mb_master \<Rightarrow> (eMBException \<times> mb_master) option"

definition xMasterFuncHandlers :: "(byte \<Rightarrow> function_handler option) \<Rightarrow> byte \<Rightarrow> function_handler option" where
  "xMasterFuncHandlers others ucFunctionCode =
     (if ucFunctionCode = MB_FUNC_READ_INPUT_REGISTER then Some eMBMasterFuncReadInputRegister
      else others ucFunctionCode)"

definition poll_frame_received :: "mb_master \<Rightarrow> mb_master option" where
  "poll_frame_received m =
     do {
       (eStatus, m) \<leftarrow> eMBMasterRTUReceive m;
       Some (if eStatus = MB_ENOERR \<and> ucRcvAddress m = ucMBMasterDestAddress m
             then xMBMasterPortEventPost EV_MASTER_EXECUTE m
             else xMBMasterPortEventPost EV_MASTER_ERROR_PROCESS (m\<lparr>eMBMasterCurErrorType := EV_ERROR_RECEIVE_DATA\<rparr>))
     }"

text \<open>A broadcast runs the handler once for every slave.\<close>

fun broadcast_handler :: "function_handler \<Rightarrow> nat \<Rightarrow> eMBException \<Rightarrow> mb_master \<Rightarrow> (eMBException \<times> mb_master) option" where
  "broadcast_handler handler 0 e m = Some (e, m)"
| "broadcast_handler handler (Suc n) e m =
     do {
       (e, m) \<leftarrow> handler (m\<lparr>ucMBMasterDestAddress := MB_MASTER_TOTAL_SLAVE_NUM - of_nat n\<rparr>);
       broadcast_handler handler n e m
     }"

definition poll_execute :: "(byte \<Rightarrow> function_handler option) \<Rightarrow> mb_master \<Rightarrow> mb_master option" where
  "poll_execute others m =
     (if ucMBFrame m = FrameNull then Some (m\<lparr>xEventGroupMasterHdl := xEventGroupMasterHdl m - MB_EVENT_POLL_MASK\<rparr>)
      else
        let ucFunctionCode = frame_pdu m ! 0
        in do {
             (eException, m) \<leftarrow>
               (if ucFunctionCode AND MB_FUNC_ERROR \<noteq> 0 then Some (frame_pdu m ! 1, m)
                else case xMasterFuncHandlers others ucFunctionCode of
                  None \<Rightarrow> Some (MB_EX_ILLEGAL_FUNCTION, m)
                | Some handler \<Rightarrow>
                    if xFrameIsBroadcast m
                    then broadcast_handler handler 247 MB_EX_ILLEGAL_FUNCTION (m\<lparr>usLength := usMasterSendPDULength m\<rparr>)
                    else handler m);
             Some (if eException \<noteq> MB_EX_NONE
                   then xMBMasterPortEventPost EV_MASTER_ERROR_PROCESS
                          (m\<lparr>eMBMasterCurErrorType := EV_ERROR_EXECUTE_FUNCTION\<rparr>)
                   else vMBMasterRunResRelease (xMBMasterPortEventPost EV_MASTER_PROCESS_SUCCESS m))
           })"

definition poll_frame_transmit :: "mb_master \<Rightarrow> mb_master option" where
  "poll_frame_transmit m =
     map_option snd (eMBMasterRTUSend (ucMBMasterDestAddress m) (usMasterSendPDULength m) (m\<lparr>ucMBFrame := FrameSent\<rparr>))"

definition poll_error_process :: "mb_master \<Rightarrow> mb_master" where
  "poll_error_process m =
     vMBMasterRunResRelease (xMBMasterPortEventPost
       (case eMBMasterCurErrorType m of
          EV_ERROR_RESPOND_TIMEOUT \<Rightarrow> EV_MASTER_ERROR_RESPOND_TIMEOUT
        | EV_ERROR_RECEIVE_DATA \<Rightarrow> EV_MASTER_ERROR_RECEIVE_DATA
        | EV_ERROR_EXECUTE_FUNCTION \<Rightarrow> EV_MASTER_ERROR_EXECUTE_FUNCTION) (m\<lparr>ucMBFrame := FrameSent\<rparr>))"

text \<open>One event is handled per call, the others are put back.\<close>

definition take_event :: "eMBMasterEventType \<Rightarrow> mb_master \<Rightarrow> mb_master" where
  "take_event e m = m\<lparr>xEventGroupMasterHdl := xEventGroupMasterHdl m - {e}\<rparr>"

definition eMBMasterPoll :: "(byte \<Rightarrow> function_handler option) \<Rightarrow> mb_master \<Rightarrow> mb_master option" where
  "eMBMasterPoll others m =
     (let eEvent = xEventGroupMasterHdl m in
      if EV_MASTER_READY \<in> eEvent then Some (take_event EV_MASTER_READY m)
      else if EV_MASTER_FRAME_RECEIVED \<in> eEvent then poll_frame_received (take_event EV_MASTER_FRAME_RECEIVED m)
      else if EV_MASTER_EXECUTE \<in> eEvent then poll_execute others (take_event EV_MASTER_EXECUTE m)
      else if EV_MASTER_FRAME_TRANSMIT \<in> eEvent then poll_frame_transmit (take_event EV_MASTER_FRAME_TRANSMIT m)
      else if EV_MASTER_FRAME_SENT \<in> eEvent then Some (take_event EV_MASTER_FRAME_SENT m)
      else if EV_MASTER_ERROR_PROCESS \<in> eEvent then Some (poll_error_process (take_event EV_MASTER_ERROR_PROCESS m))
      else Some m)"

definition modbus_master_task_step :: "(byte \<Rightarrow> function_handler option) \<Rightarrow> mb_master \<Rightarrow> mb_master option" where
  "modbus_master_task_step others m =
     do {
       m \<leftarrow> eMBMasterPoll others m;
       (xSentState, m) \<leftarrow> xMBMasterPortSerialTxPoll m;
       Some (if xSentState then xMBMasterPortEventPost EV_MASTER_FRAME_SENT m else m)
     }"

text \<open>The task runs whenever one of its events is pending.\<close>

fun master_runs :: "(byte \<Rightarrow> function_handler option) \<Rightarrow> nat \<Rightarrow> mb_master \<Rightarrow> mb_master option" where
  "master_runs others 0 m = Some m"
| "master_runs others (Suc n) m =
     (if xEventGroupMasterHdl m \<inter> MB_EVENT_POLL_MASK = {} then Some m
      else do { m \<leftarrow> modbus_master_task_step others m; master_runs others n m })"

declare master_runs.simps(2) [simp del]

lemmas runs_Suc = master_runs.simps(2)

section \<open>A request and its answer\<close>

definition eMBMasterReqReadInputRegister_start ::
    "byte \<Rightarrow> nat \<Rightarrow> nat \<Rightarrow> mb_master \<Rightarrow> (eMBMasterReqErrCode \<times> mb_master) option" where
  "eMBMasterReqReadInputRegister_start ucSndAddr usRegAddr usNRegs m =
     (if ucSndAddr > MB_MASTER_TOTAL_SLAVE_NUM then Some (MB_MRE_ILL_ARG, m)
      else if \<not> xSemaphorMasterHdl m then Some (MB_MRE_MASTER_BUSY, m)
      else
        let pdu = [MB_FUNC_READ_INPUT_REGISTER, of_nat (usRegAddr div 256), of_nat usRegAddr,
                   of_nat (usNRegs div 256), of_nat usNRegs]
        in if length (ucMasterSndBuf m) < 1 + length pdu then None
           else Some (MB_MRE_NO_ERR, xMBMasterPortEventPost EV_MASTER_FRAME_TRANSMIT
                  (m\<lparr>xSemaphorMasterHdl := False, ucMBMasterDestAddress := ucSndAddr,
                    ucMasterSndBuf := take 1 (ucMasterSndBuf m) @ pdu @ drop (1 + length pdu) (ucMasterSndBuf m),
                    usMasterSendPDULength := length pdu\<rparr>)))"

definition eMBMasterWaitRequestFinish :: "mb_master \<Rightarrow> (eMBMasterReqErrCode \<times> mb_master) option" where
  "eMBMasterWaitRequestFinish m =
     (let uxBits = xEventGroupMasterHdl m \<inter> {EV_MASTER_PROCESS_SUCCESS, EV_MASTER_ERROR_RESPOND_TIMEOUT,
            EV_MASTER_ERROR_RECEIVE_DATA, EV_MASTER_ERROR_EXECUTE_FUNCTION};
          m = m\<lparr>xEventGroupMasterHdl := xEventGroupMasterHdl m - uxBits\<rparr>
      in if EV_MASTER_PROCESS_SUCCESS \<in> uxBits then Some (MB_MRE_NO_ERR, m)
         else if EV_MASTER_ERROR_RESPOND_TIMEOUT \<in> uxBits then Some (MB_MRE_TIMEDOUT, m)
         else if EV_MASTER_ERROR_RECEIVE_DATA \<in> uxBits then Some (MB_MRE_REV_DATA, m)
         else if EV_MASTER_ERROR_EXECUTE_FUNCTION \<in> uxBits then Some (MB_MRE_EXE_FUN, m)
         else None)"

text \<open>What the line brings: nothing, or a block of bytes; a timer expires after either. The answer may depend on the
  bytes of the request. Three runs of the task are enough on each side of the answer: transmit and sent before it;
  received, execute and an error after it.\<close>

type_synonym answer = "byte list option"

definition line_answer :: "answer \<Rightarrow> mb_master \<Rightarrow> mb_master option" where
  "line_answer a m =
     do {
       m \<leftarrow> (case a of None \<Rightarrow> Some m | Some bs \<Rightarrow> vMBMasterPortSerialRxPoll bs m);
       Some (xMBMasterRTUTimerExpired m)
     }"

definition eMBMasterReqReadInputRegister ::
    "(byte \<Rightarrow> function_handler option) \<Rightarrow> (byte list \<Rightarrow> answer) \<Rightarrow> byte \<Rightarrow> nat \<Rightarrow> nat \<Rightarrow> mb_master \<Rightarrow>
       (eMBMasterReqErrCode \<times> mb_master) option" where
  "eMBMasterReqReadInputRegister others slave ucSndAddr usRegAddr usNRegs m =
     do {
       (eErrStatus, m) \<leftarrow> eMBMasterReqReadInputRegister_start ucSndAddr usRegAddr usNRegs m;
       if eErrStatus \<noteq> MB_MRE_NO_ERR then Some (eErrStatus, m)
       else do {
         m \<leftarrow> master_runs others 3 m;
         m \<leftarrow> line_answer (slave (line_out m)) m;
         m \<leftarrow> master_runs others 3 m;
         eMBMasterWaitRequestFinish m
       }
     }"

section \<open>What a request does\<close>

definition idle :: "mb_master \<Rightarrow> bool" where
  "idle m \<longleftrightarrow> eRcvState m = STATE_M_RX_IDLE \<and> eSndState m = STATE_M_TX_IDLE \<and> xEventGroupMasterHdl m = {} \<and>
     xSemaphorMasterHdl m \<and> \<not> bTxStateEnabled m \<and> bRxStateEnabled m \<and>
     length (ucMasterRcvBuf m) = 256 \<and> length (ucMasterSndBuf m) = 253"

definition rtu_frame :: "byte list \<Rightarrow> byte list" where
  "rtu_frame bs = bs @ crc_bytes (crc16 bs)"

definition request_frame :: "byte \<Rightarrow> nat \<Rightarrow> nat \<Rightarrow> byte list" where
  "request_frame addr r n = rtu_frame [addr, 4, of_nat (r div 256), of_nat r, of_nat (n div 256), of_nat n]"

lemma transmit_all:
  assumes "eRcvState m = STATE_M_RX_IDLE" "eSndState m = STATE_M_TX_XMIT" "c + 2 \<le> n"
    and "usMasterSndBufferCount m = c" "pucMasterSndBufferCur m + c \<le> length (ucMasterSndBuf m)"
    and "ucMasterSndBuf m ! 0 \<noteq> 0"
  shows "transmit n m = Some (m\<lparr>line_out := line_out m @ take c (drop (pucMasterSndBufferCur m) (ucMasterSndBuf m)),
    pucMasterSndBufferCur := pucMasterSndBufferCur m + c, usMasterSndBufferCount := 0, xFrameIsBroadcast := False,
    eSndState := STATE_M_TX_XFWR, eMasterCurTimerMode := MB_TMODE_RESPOND_TIMEOUT\<rparr>)"
  using assms
proof (induction c arbitrary: n m)
  case 0
  then obtain k where "n = Suc (Suc k)" by (metis add_2_eq_Suc' le_Suc_ex plus_nat.simps(1) add_Suc_shift add.commute)
  then show ?case using 0 by (simp add: xMBMasterRTUTransmitFSM_def)
next
  case (Suc c)
  then obtain k where n: "n = Suc k" by (cases n) auto
  let ?m = "m\<lparr>line_out := line_out m @ [ucMasterSndBuf m ! pucMasterSndBufferCur m],
    pucMasterSndBufferCur := pucMasterSndBufferCur m + 1, usMasterSndBufferCount := c\<rparr>"
  have "transmit n m = transmit k ?m" using Suc.prems n by (simp add: xMBMasterRTUTransmitFSM_def)
  moreover have "drop (pucMasterSndBufferCur m) (ucMasterSndBuf m) =
      ucMasterSndBuf m ! pucMasterSndBufferCur m # drop (Suc (pucMasterSndBufferCur m)) (ucMasterSndBuf m)"
    using Suc.prems by (simp add: Cons_nth_drop_Suc)
  ultimately show ?case using Suc.prems n Suc.IH [of ?m k] by simp
qed

text \<open>The state between request and answer.\<close>

definition awaits :: "byte \<Rightarrow> nat \<Rightarrow> mb_master \<Rightarrow> bool" where
  "awaits addr n m \<longleftrightarrow> eRcvState m = STATE_M_RX_IDLE \<and> eSndState m = STATE_M_TX_XFWR \<and> xEventGroupMasterHdl m = {} \<and>
     \<not> bTxStateEnabled m \<and> bRxStateEnabled m \<and> \<not> xFrameIsBroadcast m \<and> eMasterCurTimerMode m = MB_TMODE_RESPOND_TIMEOUT \<and>
     length (ucMasterRcvBuf m) = 256 \<and> length (ucMasterSndBuf m) = 253 \<and> ucMBMasterDestAddress m = addr \<and>
     ucMasterSndBuf m ! 4 = of_nat (n div 256) \<and> ucMasterSndBuf m ! 5 = of_nat n"

lemma sucs: "Suc (Suc (Suc (Suc (Suc 0)))) = 5" "Suc (Suc (Suc (Suc (Suc (Suc 0))))) = 6"
  by simp_all

lemma start_request:
  assumes "idle m" "addr \<le> 247"
  shows "eMBMasterReqReadInputRegister_start addr r n m = Some (MB_MRE_NO_ERR,
    m\<lparr>xSemaphorMasterHdl := False, ucMBMasterDestAddress := addr,
      ucMasterSndBuf := take 1 (ucMasterSndBuf m) @ [4, of_nat (r div 256), of_nat r, of_nat (n div 256), of_nat n] @
        drop 6 (ucMasterSndBuf m),
      usMasterSendPDULength := 5, xEventGroupMasterHdl := {EV_MASTER_FRAME_TRANSMIT}\<rparr>)"
  using assms
  by (simp add: eMBMasterReqReadInputRegister_start_def idle_def MB_MASTER_TOTAL_SLAVE_NUM_def not_less
      MB_FUNC_READ_INPUT_REGISTER_def xMBMasterPortEventPost_def Let_def sucs del: Suc_eq_plus1)

lemma send_request:
  assumes "eRcvState m = STATE_M_RX_IDLE" "length (ucMasterSndBuf m) = 253" "usMasterSendPDULength m = 5"
    and "addr \<le> 247" "addr \<noteq> 0" "ucMBMasterDestAddress m = addr"
    and "ucMasterSndBuf m = x # pdu @ rest" "length pdu = 5"
  shows "\<exists>m'. poll_frame_transmit m = Some m' \<and> bTxStateEnabled m' \<and>
    transmit MB_SERIAL_BUF_SIZE m' = Some (m'\<lparr>line_out := rtu_frame (addr # pdu), pucMasterSndBufferCur := 8,
      usMasterSndBufferCount := 0, xFrameIsBroadcast := False, eSndState := STATE_M_TX_XFWR,
      eMasterCurTimerMode := MB_TMODE_RESPOND_TIMEOUT\<rparr>) \<and>
    m' = m\<lparr>ucMBFrame := FrameSent, ucMasterSndBuf := rtu_frame (addr # pdu) @ drop 2 rest, pucMasterSndBufferCur := 0,
      usMasterSndBufferCount := 8, eSndState := STATE_M_TX_XMIT, line_out := [], bTxStateEnabled := True,
      bRxStateEnabled := False\<rparr>"
proof -
  let ?crc = "crc16 (addr # pdu)"
  obtain a b rest' where r: "rest = a # b # rest'" using assms(2,7,8) by (cases rest; cases "tl rest") auto
  obtain p q s u v where p: "pdu = [p, q, s, u, v]" using assms(8) by (auto simp: numeral_eq_Suc length_Suc_conv)
  have c: "ucast (?crc AND 0xFF) = (ucast ?crc :: byte)"
  proof -
    have e: "(0xFF :: 16 word) = mask 8" by (simp add: mask_eq_exp_minus_1)
    show ?thesis unfolding e by (intro bit_word_eqI) (auto simp: bit_simps)
  qed
  let ?m = "m\<lparr>ucMBFrame := FrameSent, ucMasterSndBuf := rtu_frame (addr # pdu) @ drop 2 rest, pucMasterSndBufferCur := 0,
      usMasterSndBufferCount := 8, eSndState := STATE_M_TX_XMIT, line_out := [], bTxStateEnabled := True,
      bRxStateEnabled := False\<rparr>"
  have "poll_frame_transmit m = Some ?m"
    using assms c r p
    by (simp add: poll_frame_transmit_def eMBMasterRTUSend_def MB_MASTER_TOTAL_SLAVE_NUM_def not_less Let_def
        crc_agrees rtu_frame_def crc_bytes_def vMBMasterPortSerialEnable_def)
  moreover have "transmit MB_SERIAL_BUF_SIZE ?m = Some (?m\<lparr>line_out := rtu_frame (addr # pdu), pucMasterSndBufferCur := 8,
      usMasterSndBufferCount := 0, xFrameIsBroadcast := False, eSndState := STATE_M_TX_XFWR,
      eMasterCurTimerMode := MB_TMODE_RESPOND_TIMEOUT\<rparr>)"
    using transmit_all [of ?m 8 MB_SERIAL_BUF_SIZE] assms p
    by (simp add: MB_SERIAL_BUF_SIZE_def rtu_frame_def crc_bytes_def)
  ultimately show ?thesis by simp
qed

lemma request_sent:
  assumes "idle m" "addr \<le> 247" "addr \<noteq> 0"
  shows "\<exists>m0 m1. eMBMasterReqReadInputRegister_start addr r n m = Some (MB_MRE_NO_ERR, m0) \<and>
    master_runs others 3 m0 = Some m1 \<and> awaits addr n m1 \<and> line_out m1 = request_frame addr r n \<and>
    mbm_reg_buffer m1 = mbm_reg_buffer m \<and> mbm_reg_buffer_size m1 = mbm_reg_buffer_size m"
proof -
  let ?pdu = "[4, of_nat (r div 256), of_nat r, of_nat (n div 256), of_nat n] :: byte list"
  obtain m0 where m0: "eMBMasterReqReadInputRegister_start addr r n m = Some (MB_MRE_NO_ERR, m0)"
    "m0 = m\<lparr>xSemaphorMasterHdl := False, ucMBMasterDestAddress := addr,
      ucMasterSndBuf := take 1 (ucMasterSndBuf m) @ ?pdu @ drop 6 (ucMasterSndBuf m),
      usMasterSendPDULength := 5, xEventGroupMasterHdl := {EV_MASTER_FRAME_TRANSMIT}\<rparr>"
    using start_request [OF assms(1,2)] by simp
  obtain x rest where b: "ucMasterSndBuf m = x # rest" using assms(1) by (cases "ucMasterSndBuf m") (auto simp: idle_def)
  let ?t = "take_event EV_MASTER_FRAME_TRANSMIT m0"
  have "\<exists>m'. poll_frame_transmit ?t = Some m' \<and> bTxStateEnabled m' \<and>
    transmit MB_SERIAL_BUF_SIZE m' = Some (m'\<lparr>line_out := rtu_frame (addr # ?pdu), pucMasterSndBufferCur := 8,
      usMasterSndBufferCount := 0, xFrameIsBroadcast := False, eSndState := STATE_M_TX_XFWR,
      eMasterCurTimerMode := MB_TMODE_RESPOND_TIMEOUT\<rparr>) \<and>
    m' = ?t\<lparr>ucMBFrame := FrameSent, ucMasterSndBuf := rtu_frame (addr # ?pdu) @ drop 2 (drop 5 rest), pucMasterSndBufferCur := 0,
      usMasterSndBufferCount := 8, eSndState := STATE_M_TX_XMIT, line_out := [], bTxStateEnabled := True,
      bRxStateEnabled := False\<rparr>"
    by (rule send_request [where x = x]) (use assms b in \<open>simp_all add: m0(2) take_event_def idle_def\<close>)
  then obtain m' where m': "poll_frame_transmit ?t = Some m'" "bTxStateEnabled m'"
    "transmit MB_SERIAL_BUF_SIZE m' = Some (m'\<lparr>line_out := rtu_frame (addr # ?pdu), pucMasterSndBufferCur := 8,
      usMasterSndBufferCount := 0, xFrameIsBroadcast := False, eSndState := STATE_M_TX_XFWR,
      eMasterCurTimerMode := MB_TMODE_RESPOND_TIMEOUT\<rparr>)"
    "m' = ?t\<lparr>ucMBFrame := FrameSent, ucMasterSndBuf := rtu_frame (addr # ?pdu) @ drop 2 (drop 5 rest), pucMasterSndBufferCur := 0,
      usMasterSndBufferCount := 8, eSndState := STATE_M_TX_XMIT, line_out := [], bTxStateEnabled := True,
      bRxStateEnabled := False\<rparr>" by blast
  let ?m1 = "m'\<lparr>line_out := rtu_frame (addr # ?pdu), pucMasterSndBufferCur := 8, usMasterSndBufferCount := 0,
      xFrameIsBroadcast := False, eSndState := STATE_M_TX_XFWR, eMasterCurTimerMode := MB_TMODE_RESPOND_TIMEOUT,
      bTxStateEnabled := False, bRxStateEnabled := True\<rparr>"
  have "modbus_master_task_step others m0 = Some (xMBMasterPortEventPost EV_MASTER_FRAME_SENT ?m1)"
    using m' by (simp add: modbus_master_task_step_def eMBMasterPoll_def m0(2) xMBMasterPortSerialTxPoll_def
        vMBMasterPortSerialEnable_def)
  moreover have "modbus_master_task_step others (xMBMasterPortEventPost EV_MASTER_FRAME_SENT ?m1) = Some ?m1"
    using m'(4) by (simp add: modbus_master_task_step_def eMBMasterPoll_def m0(2) xMBMasterPortSerialTxPoll_def
        take_event_def xMBMasterPortEventPost_def)
  ultimately have "master_runs others 3 m0 = Some ?m1"
    using m'(4) by (simp add: numeral_3_eq_3 runs_Suc m0(2) MB_EVENT_POLL_MASK_def xMBMasterPortEventPost_def take_event_def)
  moreover have "awaits addr n ?m1"
    using m'(4) m0(2) assms b by (simp add: awaits_def idle_def take_event_def rtu_frame_def crc_bytes_def)
  moreover have "line_out ?m1 = request_frame addr r n" by (simp add: request_frame_def)
  moreover have "mbm_reg_buffer ?m1 = mbm_reg_buffer m" "mbm_reg_buffer_size ?m1 = mbm_reg_buffer_size m"
    using m'(4) m0(2) by (simp_all add: take_event_def)
  ultimately show ?thesis using m0(1) by blast
qed

text \<open>The answer.\<close>

lemma receive_more:
  assumes "eRcvState m = STATE_M_RX_RCV" "eSndState m = STATE_M_TX_IDLE" "eMasterCurTimerMode m = MB_TMODE_T35"
    and "usMasterRcvBufferPos m + length bs \<le> 256" "length (ucMasterRcvBuf m) = 256"
  shows "receive bs m = Some (m\<lparr>ucMasterRcvBuf := take (usMasterRcvBufferPos m) (ucMasterRcvBuf m) @ bs @
    drop (usMasterRcvBufferPos m + length bs) (ucMasterRcvBuf m), usMasterRcvBufferPos := usMasterRcvBufferPos m + length bs\<rparr>)"
  using assms
proof (induction bs arbitrary: m)
  case (Cons b bs)
  let ?p = "usMasterRcvBufferPos m" and ?b = "ucMasterRcvBuf m"
  let ?m = "m\<lparr>ucMasterRcvBuf := ?b[?p := b], usMasterRcvBufferPos := ?p + 1\<rparr>"
  have "receive (b # bs) m = receive bs ?m"
    using Cons.prems by (cases m) (simp add: xMBMasterRTUReceiveFSM_def MB_SER_PDU_SIZE_MAX_def)
  moreover have "take (?p + 1) (?b[?p := b]) = take ?p ?b @ [b]"
    using Cons.prems by (simp add: take_Suc_conv_app_nth)
  ultimately show ?case using Cons.IH [of ?m] Cons.prems by simp
qed simp

definition received :: "byte list \<Rightarrow> mb_master \<Rightarrow> mb_master" where
  "received bs m = m\<lparr>eSndState := STATE_M_TX_IDLE, ucMasterRcvBuf := bs @ drop (length bs) (ucMasterRcvBuf m),
     usMasterRcvBufferPos := length bs, eMasterCurTimerMode := MB_TMODE_T35,
     xEventGroupMasterHdl := {EV_MASTER_FRAME_RECEIVED}\<rparr>"

lemma line_block:
  assumes "awaits addr n m" "4 < length bs" "length bs \<le> 256"
  shows "line_answer (Some bs) m = Some (received bs m)"
proof -
  obtain b bs' where bs: "bs = b # bs'" using assms(2) by (cases bs) auto
  let ?m = "m\<lparr>eSndState := STATE_M_TX_IDLE, ucMasterRcvBuf := (ucMasterRcvBuf m)[0 := b], usMasterRcvBufferPos := 1,
    eRcvState := STATE_M_RX_RCV, eMasterCurTimerMode := MB_TMODE_T35\<rparr>"
  have "receive bs m = receive bs' ?m" using assms by (simp add: bs awaits_def xMBMasterRTUReceiveFSM_def)
  moreover obtain x r where "ucMasterRcvBuf m = x # r" using assms(1) by (cases "ucMasterRcvBuf m") (auto simp: awaits_def)
  ultimately show ?thesis
    using assms receive_more [of ?m bs']
    by (simp add: bs line_answer_def vMBMasterPortSerialRxPoll_def MB_SERIAL_RESP_LEN_MIN_def MB_SERIAL_BUF_SIZE_def
        awaits_def xMBMasterRTUTimerExpired_def xMBMasterPortEventPost_def received_def)
qed

lemma line_silent:
  assumes "awaits addr n m" "case a of None \<Rightarrow> True | Some bs \<Rightarrow> length bs \<le> 4"
  shows "line_answer a m = Some (m\<lparr>eSndState := STATE_M_TX_IDLE, eMBMasterCurErrorType := EV_ERROR_RESPOND_TIMEOUT,
    xEventGroupMasterHdl := {EV_MASTER_ERROR_PROCESS}\<rparr>)"
  using assms
  by (auto simp: line_answer_def vMBMasterPortSerialRxPoll_def MB_SERIAL_RESP_LEN_MIN_def awaits_def
      xMBMasterRTUTimerExpired_def xMBMasterPortEventPost_def split: option.splits)

text \<open>An error ends the request and leaves the registers alone.\<close>

lemma run_error:
  assumes "xEventGroupMasterHdl m = {EV_MASTER_ERROR_PROCESS}" "\<not> bTxStateEnabled m"
  shows "master_runs others (Suc k) m = master_runs others k (poll_error_process (take_event EV_MASTER_ERROR_PROCESS m))"
  using assms by (simp add: runs_Suc MB_EVENT_POLL_MASK_def modbus_master_task_step_def eMBMasterPoll_def poll_error_process_def
      xMBMasterPortSerialTxPoll_def take_event_def vMBMasterRunResRelease_def xMBMasterPortEventPost_def)

lemma runs_stop: "xEventGroupMasterHdl m \<inter> MB_EVENT_POLL_MASK = {} \<Longrightarrow> master_runs others k m = Some m"
  by (cases k) (simp_all add: runs_Suc)

definition failing :: "eMBMasterErrorEventType \<Rightarrow> mb_master \<Rightarrow> bool" where
  "failing e m \<longleftrightarrow> xEventGroupMasterHdl m = {EV_MASTER_ERROR_PROCESS} \<and> eMBMasterCurErrorType m = e \<and>
     \<not> bTxStateEnabled m \<and> bRxStateEnabled m \<and> eRcvState m = STATE_M_RX_IDLE \<and> eSndState m = STATE_M_TX_IDLE \<and>
     length (ucMasterRcvBuf m) = 256 \<and> length (ucMasterSndBuf m) = 253"

lemma finish_error:
  assumes "failing e m"
  shows "\<exists>m'. (master_runs others (Suc k) m \<bind> eMBMasterWaitRequestFinish) = Some (case e of
      EV_ERROR_RESPOND_TIMEOUT \<Rightarrow> MB_MRE_TIMEDOUT | EV_ERROR_RECEIVE_DATA \<Rightarrow> MB_MRE_REV_DATA
    | EV_ERROR_EXECUTE_FUNCTION \<Rightarrow> MB_MRE_EXE_FUN, m') \<and> idle m' \<and> mbm_reg_buffer m' = mbm_reg_buffer m"
  using assms run_error [of m others k]
  by (cases e) (simp_all add: failing_def runs_stop eMBMasterWaitRequestFinish_def idle_def poll_error_process_def
      take_event_def vMBMasterRunResRelease_def xMBMasterPortEventPost_def MB_EVENT_POLL_MASK_def Let_def)

lemma request_unfold:
  assumes "idle m" "addr \<le> 247" "addr \<noteq> 0"
  shows "\<exists>m1. eMBMasterReqReadInputRegister others slave addr r n m =
      (line_answer (slave (request_frame addr r n)) m1 \<bind> master_runs others (Suc (Suc (Suc 0)))) \<bind> eMBMasterWaitRequestFinish \<and>
    awaits addr n m1 \<and> mbm_reg_buffer m1 = mbm_reg_buffer m \<and> mbm_reg_buffer_size m1 = mbm_reg_buffer_size m"
proof -
  obtain m0 m1 where m: "eMBMasterReqReadInputRegister_start addr r n m = Some (MB_MRE_NO_ERR, m0)"
    "master_runs others 3 m0 = Some m1" "awaits addr n m1" "line_out m1 = request_frame addr r n"
    "mbm_reg_buffer m1 = mbm_reg_buffer m" "mbm_reg_buffer_size m1 = mbm_reg_buffer_size m"
    using request_sent [OF assms] by blast
  then show ?thesis by (intro exI [of _ m1]) (simp add: eMBMasterReqReadInputRegister_def numeral_3_eq_3)
qed

text \<open>No answer, or one that is too short to be given to the receiver.\<close>

lemma request_silent:
  assumes "idle m" "addr \<le> 247" "addr \<noteq> 0"
    and "case slave (request_frame addr r n) of None \<Rightarrow> True | Some bs \<Rightarrow> length bs \<le> 4"
  shows "\<exists>m'. eMBMasterReqReadInputRegister others slave addr r n m = Some (MB_MRE_TIMEDOUT, m') \<and> idle m' \<and>
    mbm_reg_buffer m' = mbm_reg_buffer m"
proof -
  obtain m1 where m1: "eMBMasterReqReadInputRegister others slave addr r n m =
      (line_answer (slave (request_frame addr r n)) m1 \<bind> master_runs others (Suc (Suc (Suc 0)))) \<bind> eMBMasterWaitRequestFinish"
    "awaits addr n m1" "mbm_reg_buffer m1 = mbm_reg_buffer m" using request_unfold [OF assms(1-3)] by blast
  let ?m = "m1\<lparr>eSndState := STATE_M_TX_IDLE, eMBMasterCurErrorType := EV_ERROR_RESPOND_TIMEOUT,
    xEventGroupMasterHdl := {EV_MASTER_ERROR_PROCESS}\<rparr>"
  have "\<exists>m'. (master_runs others (Suc (Suc (Suc 0))) ?m \<bind> eMBMasterWaitRequestFinish) = Some (MB_MRE_TIMEDOUT, m') \<and> idle m' \<and>
      mbm_reg_buffer m' = mbm_reg_buffer m1"
    using finish_error [of EV_ERROR_RESPOND_TIMEOUT ?m others "Suc (Suc 0)"] m1(2) by (simp add: awaits_def failing_def)
  then show ?thesis using m1 line_silent [OF m1(2) assms(4)] by simp
qed

text \<open>The first step after a block has come.\<close>

lemma receive_step:
  assumes "awaits addr n m" "4 < length bs" "length bs < 256"
  shows "master_runs others (Suc k) (received bs m) = master_runs others k
    (if crc16 bs = 0 \<and> bs ! 0 = addr
     then (received bs m)\<lparr>ucRcvAddress := addr, usLength := length bs - 1 - 2, ucMBFrame := FrameReceived,
       xEventGroupMasterHdl := {EV_MASTER_EXECUTE}\<rparr>
     else (if crc16 bs = 0 then (received bs m)\<lparr>ucRcvAddress := bs ! 0, usLength := length bs - 1 - 2, ucMBFrame := FrameReceived\<rparr>
           else received bs m)\<lparr>eMBMasterCurErrorType := EV_ERROR_RECEIVE_DATA,
             xEventGroupMasterHdl := {EV_MASTER_ERROR_PROCESS}\<rparr>)"
proof -
  have "(bs @ x) ! 0 = bs ! 0" for x using assms(2) by (auto simp: nth_append)
  then show ?thesis using assms
    by (simp add: runs_Suc MB_EVENT_POLL_MASK_def modbus_master_task_step_def eMBMasterPoll_def poll_frame_received_def
        eMBMasterRTUReceive_def MB_SER_PDU_SIZE_MAX_def MB_RTU_SER_PDU_SIZE_MIN_def crc_agrees awaits_def received_def
        xMBMasterPortSerialTxPoll_def take_event_def xMBMasterPortEventPost_def)
qed

lemma request_rejected:
  assumes "idle m" "addr \<le> 247" "addr \<noteq> 0" "slave (request_frame addr r n) = Some bs" "4 < length bs" "length bs < 256"
    and "crc16 bs \<noteq> 0 \<or> bs ! 0 \<noteq> addr"
  shows "\<exists>m'. eMBMasterReqReadInputRegister others slave addr r n m = Some (MB_MRE_REV_DATA, m') \<and> idle m' \<and>
    mbm_reg_buffer m' = mbm_reg_buffer m"
proof -
  obtain m1 where m1: "eMBMasterReqReadInputRegister others slave addr r n m =
      (line_answer (slave (request_frame addr r n)) m1 \<bind> master_runs others (Suc (Suc (Suc 0)))) \<bind> eMBMasterWaitRequestFinish"
    "awaits addr n m1" "mbm_reg_buffer m1 = mbm_reg_buffer m" using request_unfold [OF assms(1-3)] by blast
  let ?m = "(if crc16 bs = 0 then (received bs m1)\<lparr>ucRcvAddress := bs ! 0, usLength := length bs - 1 - 2, ucMBFrame := FrameReceived\<rparr>
     else received bs m1)\<lparr>eMBMasterCurErrorType := EV_ERROR_RECEIVE_DATA, xEventGroupMasterHdl := {EV_MASTER_ERROR_PROCESS}\<rparr>"
  have "master_runs others (Suc (Suc (Suc 0))) (received bs m1) = master_runs others (Suc (Suc 0)) ?m"
    unfolding receive_step [OF m1(2) assms(5,6)] using assms(7) by (subst if_not_P) auto
  moreover have "failing EV_ERROR_RECEIVE_DATA ?m" "mbm_reg_buffer ?m = mbm_reg_buffer m1"
    using m1(2) assms(6) by (simp_all add: awaits_def received_def failing_def)
  then have "\<exists>m'. (master_runs others (Suc (Suc 0)) ?m \<bind> eMBMasterWaitRequestFinish) = Some (MB_MRE_REV_DATA, m') \<and> idle m' \<and>
      mbm_reg_buffer m' = mbm_reg_buffer m1"
    using finish_error [of EV_ERROR_RECEIVE_DATA ?m others "Suc 0"] by simp
  ultimately show ?thesis using m1 line_block [OF m1(2) assms(5)] assms(4,6) by (simp only: bind.simps less_imp_le)
qed

text \<open>A block of 256 bytes or more fails the assertion of \<^verbatim>\<open>eMBMasterRTUReceive\<close>.\<close>

lemma request_too_long:
  assumes "idle m" "addr \<le> 247" "addr \<noteq> 0" "slave (request_frame addr r n) = Some bs" "length bs = 256"
  shows "eMBMasterReqReadInputRegister others slave addr r n m = None"
proof -
  obtain m1 where m1: "eMBMasterReqReadInputRegister others slave addr r n m =
      (line_answer (slave (request_frame addr r n)) m1 \<bind> master_runs others (Suc (Suc (Suc 0)))) \<bind> eMBMasterWaitRequestFinish"
    "awaits addr n m1" using request_unfold [OF assms(1-3)] by blast
  have "master_runs others (Suc (Suc (Suc 0))) (received bs m1) = None"
    using assms(5) by (simp add: runs_Suc MB_EVENT_POLL_MASK_def modbus_master_task_step_def eMBMasterPoll_def poll_frame_received_def
        eMBMasterRTUReceive_def MB_SER_PDU_SIZE_MAX_def received_def take_event_def)
  then show ?thesis using m1 line_block [OF m1(2)] assms(4,5) by simp
qed

section \<open>The right answer\<close>

definition reg_bytes :: "16 word list \<Rightarrow> byte list" where
  "reg_bytes regs = concat (map (\<lambda>r. [ucast (drop_bit 8 r), ucast r]) regs)"

definition stored_bytes :: "16 word list \<Rightarrow> byte list" where
  "stored_bytes regs = concat (map (\<lambda>r. [ucast r, ucast (drop_bit 8 r)]) regs)"

definition reply_frame :: "byte \<Rightarrow> 16 word list \<Rightarrow> byte list" where
  "reply_frame addr regs = rtu_frame (addr # 4 # of_nat (2 * length regs) # reg_bytes regs)"

lemma length_reg_bytes: "length (reg_bytes regs) = 2 * length regs" "length (stored_bytes regs) = 2 * length regs"
  by (simp_all add: reg_bytes_def stored_bytes_def length_concat comp_def sum_list_triv)

lemma transfer_regs:
  "k + 2 * length regs \<le> length dst \<Longrightarrow> transfer (length regs) (reg_bytes regs @ rest) k dst =
     Some (take k dst @ stored_bytes regs @ drop (k + 2 * length regs) dst)"
proof (induction regs arbitrary: k dst)
  case (Cons r regs)
  let ?d = "dst[k := ucast r, k + 1 := ucast (drop_bit 8 r)]"
  have "take (k + 2) ?d = take k dst @ [ucast r, ucast (drop_bit 8 r)]"
    using Cons.prems by (simp add: take_Suc_conv_app_nth nth_list_update)
  then show ?case using Cons.IH [of "k + 2" ?d] Cons.prems
    by (simp add: reg_bytes_def stored_bytes_def)
qed (simp add: stored_bytes_def)

lemma execute_reply:
  assumes "awaits addr n m" "length regs = n" "1 \<le> n" "n \<le> 125" "mbm_reg_buffer_size m = n"
    and "2 * n \<le> length (mbm_reg_buffer m)" "bs = reply_frame addr regs"
  defines "mr \<equiv> (received bs m)\<lparr>ucRcvAddress := addr, usLength := length bs - 1 - 2, ucMBFrame := FrameReceived,
       xEventGroupMasterHdl := {}\<rparr>"
  shows "poll_execute others mr = Some (mr\<lparr>mbm_reg_buffer := stored_bytes regs @ drop (2 * n) (mbm_reg_buffer m),
    xEventGroupMasterHdl := {EV_MASTER_PROCESS_SUCCESS}, xSemaphorMasterHdl := True\<rparr>)"
proof -
  let ?rest = "crc_bytes (crc16 (addr # 4 # of_nat (2 * n) # reg_bytes regs)) @ drop (length bs) (ucMasterRcvBuf m)"
  have f: "frame_pdu mr = 4 # of_nat (2 * n) # reg_bytes regs @ ?rest" "4 \<le> usLength mr" "\<not> xFrameIsBroadcast mr"
    using assms length_reg_bytes by (simp_all add: frame_pdu_def mr_def received_def reply_frame_def rtu_frame_def awaits_def crc_bytes_def)
  have c: "be16 (drop 1 (ucMasterSndBuf mr) ! 3) (drop 1 (ucMasterSndBuf mr) ! 4) = n" "unat (2 * of_nat n :: byte) = 2 * n"
  proof -
    show "be16 (drop 1 (ucMasterSndBuf mr) ! 3) (drop 1 (ucMasterSndBuf mr) ! 4) = n"
      using assms(1,4) by (simp add: mr_def received_def awaits_def be16_def unat_of_nat)
    have "2 * of_nat n = (of_nat (2 * n) :: byte)" by simp
    then show "unat (2 * of_nat n :: byte) = 2 * n" using assms(4) by (simp only: unat_of_nat) simp
  qed
  have "mbm_reg_buffer_size mr = n" "mbm_reg_buffer mr = mbm_reg_buffer m"
    using assms(5) by (simp_all add: mr_def received_def)
  then have "eMBMasterFuncReadInputRegister mr =
      Some (MB_EX_NONE, mr\<lparr>mbm_reg_buffer := stored_bytes regs @ drop (2 * n) (mbm_reg_buffer m)\<rparr>)"
    using f c transfer_regs [of 0 regs "mbm_reg_buffer m" ?rest] assms(2,3,6)
    by (simp add: eMBMasterFuncReadInputRegister_def Let_def eMBRegInputCBSerialMaster_def)
  then show ?thesis using f
    by (simp add: poll_execute_def xMasterFuncHandlers_def MB_FUNC_READ_INPUT_REGISTER_def MB_FUNC_ERROR_def
        vMBMasterRunResRelease_def xMBMasterPortEventPost_def MB_EX_NONE_def) (simp add: mr_def)
qed

lemma request_accepted:
  assumes "idle m" "addr \<le> 247" "addr \<noteq> 0" "slave (request_frame addr r n) = Some (reply_frame addr regs)"
    and "length regs = n" "1 \<le> n" "n \<le> 125" "mbm_reg_buffer_size m = n" "2 * n \<le> length (mbm_reg_buffer m)"
  shows "\<exists>m'. eMBMasterReqReadInputRegister others slave addr r n m = Some (MB_MRE_NO_ERR, m') \<and> idle m' \<and>
    mbm_reg_buffer m' = stored_bytes regs @ drop (2 * n) (mbm_reg_buffer m)"
proof -
  let ?bs = "reply_frame addr regs"
  obtain m1 where m1: "eMBMasterReqReadInputRegister others slave addr r n m =
      (line_answer (slave (request_frame addr r n)) m1 \<bind> master_runs others (Suc (Suc (Suc 0)))) \<bind> eMBMasterWaitRequestFinish"
    "awaits addr n m1" "mbm_reg_buffer m1 = mbm_reg_buffer m" "mbm_reg_buffer_size m1 = mbm_reg_buffer_size m"
    using request_unfold [OF assms(1-3)] by blast
  have l: "4 < length ?bs" "length ?bs < 256" "crc16 ?bs = 0" "?bs ! 0 = addr"
    using assms(5-7) length_reg_bytes [of regs] crc16_appended [of "addr # 4 # of_nat (2 * length regs) # reg_bytes regs"]
    by (simp_all add: reply_frame_def rtu_frame_def crc_bytes_def)
  let ?r = "(received ?bs m1)\<lparr>ucRcvAddress := addr, usLength := length ?bs - 1 - 2, ucMBFrame := FrameReceived,
       xEventGroupMasterHdl := {}\<rparr>"
  let ?d = "?r\<lparr>mbm_reg_buffer := stored_bytes regs @ drop (2 * n) (mbm_reg_buffer m1),
    xEventGroupMasterHdl := {EV_MASTER_PROCESS_SUCCESS}, xSemaphorMasterHdl := True\<rparr>"
  have "poll_execute others ?r = Some ?d"
    by (rule execute_reply [OF m1(2) assms(5-7)]) (use assms m1 in simp_all)
  moreover have "\<not> bTxStateEnabled m1" using m1(2) by (simp add: awaits_def)
  ultimately have "master_runs others (Suc (Suc 0)) (?r\<lparr>xEventGroupMasterHdl := {EV_MASTER_EXECUTE}\<rparr>) = Some ?d"
    by (simp add: runs_Suc MB_EVENT_POLL_MASK_def modbus_master_task_step_def eMBMasterPoll_def
        xMBMasterPortSerialTxPoll_def take_event_def received_def)
  then have "line_answer (Some ?bs) m1 \<bind> master_runs others (Suc (Suc (Suc 0))) = Some ?d"
    using line_block [OF m1(2) l(1)] l(2,3,4) receive_step [OF m1(2) l(1,2), of others "Suc (Suc 0)"] by simp
  moreover have "idle (?d\<lparr>xEventGroupMasterHdl := {}\<rparr>)" using m1(2) l(2) by (simp add: idle_def received_def awaits_def)
  ultimately show ?thesis using m1 assms(4)
    by (simp add: eMBMasterWaitRequestFinish_def Let_def)
qed

text \<open>A damaged copy of a frame.\<close>

definition damaged :: "byte list \<Rightarrow> byte list \<Rightarrow> bool" where
  "damaged bs bs' \<longleftrightarrow> (\<exists>i < length bs. \<exists>b. b \<noteq> bs ! i \<and> bs' = bs[i := b])"

lemma damaged_crc: "damaged (rtu_frame bs) bs' \<Longrightarrow> length bs' = length bs + 2 \<and> crc16 bs' \<noteq> 0"
proof -
  assume "damaged (rtu_frame bs) bs'"
  then obtain i b where i: "i < length (rtu_frame bs)" "b \<noteq> rtu_frame bs ! i" "bs' = (rtu_frame bs)[i := b]"
    by (auto simp: damaged_def)
  then have "bs' = take i (rtu_frame bs) @ b # drop (Suc i) (rtu_frame bs)" by (simp add: upd_conv_take_nth_drop)
  moreover have "rtu_frame bs = take i (rtu_frame bs) @ rtu_frame bs ! i # drop (Suc i) (rtu_frame bs)"
    using i(1) by (simp add: id_take_nth_drop)
  moreover have "crc16 (rtu_frame bs) = 0" by (simp add: rtu_frame_def crc16_appended)
  ultimately have "crc16 bs' \<noteq> 0" using crc16_damaged [OF i(2)] by metis
  then show ?thesis using i(3) by (simp add: rtu_frame_def crc_bytes_def)
qed

end
