(* ===== verification/Modbus_Master.thy ===== *)
theory Modbus_Master
  imports Modbus_Rtu
begin

text \<open>
  The controller interface over the master, \<^verbatim>\<open>mbc_serial_master.c\<close>: a table describes the
  parameters of the devices on the line, and a parameter is read by its name. What the line does is in
  \<open>modbus_env\<close>: the answer to the \<open>k\<close>-th request, which may depend on the bytes of the request; the functions and
  requests of the stack that no parameter of this program uses are arguments there too.
\<close>

section \<open>Types\<close>

datatype mb_param_type_t = MB_PARAM_HOLDING | MB_PARAM_INPUT | MB_PARAM_COIL | MB_PARAM_DISCRETE | MB_PARAM_COUNT | MB_PARAM_UNKNOWN

datatype mb_descr_type_t = PARAM_TYPE_U8 | PARAM_TYPE_U16 | PARAM_TYPE_U32 | PARAM_TYPE_FLOAT | PARAM_TYPE_ASCII

datatype mb_param_mode_t = MB_PARAM_READ | MB_PARAM_WRITE

record mb_parameter_opt_t =
  opt1 :: int
  opt2 :: int
  opt3 :: int

record mb_parameter_descriptor_t =
  cid :: nat
  param_key :: string
  param_units :: string
  mb_slave_addr :: byte
  mb_param_type :: mb_param_type_t
  mb_reg_start :: nat
  mb_size :: nat
  param_offset :: nat
  param_type :: mb_descr_type_t
  param_size :: nat
  param_opts :: mb_parameter_opt_t
  access :: nat

record mb_param_request_t =
  slave_addr :: byte
  command :: nat
  reg_start :: nat
  reg_size :: nat

record modbus_env =
  me_answers :: "nat \<Rightarrow> byte list \<Rightarrow> answer"
  me_handlers :: "byte \<Rightarrow> function_handler option"
  me_requests :: "nat \<Rightarrow> mb_param_request_t \<Rightarrow> mb_master \<Rightarrow> (eMBMasterReqErrCode \<times> mb_master) option"

record mbc_master =
  mbc_stack :: mb_master
  mbc_requests :: nat
  mbm_param_descriptor_table :: "mb_parameter_descriptor_t list option"

definition ESP_ERR_NOT_SUPPORTED :: esp_err_t where "ESP_ERR_NOT_SUPPORTED = ESP_ERR_OTHER 0x106"
definition ESP_ERR_TIMEOUT :: esp_err_t where "ESP_ERR_TIMEOUT = ESP_ERR_OTHER 0x107"
definition ESP_ERR_INVALID_RESPONSE :: esp_err_t where "ESP_ERR_INVALID_RESPONSE = ESP_ERR_OTHER 0x108"

lemmas mb_errors = ESP_ERR_NOT_SUPPORTED_def ESP_ERR_TIMEOUT_def ESP_ERR_INVALID_RESPONSE_def

definition PARAM_MAX_SIZE :: nat where "PARAM_MAX_SIZE = 0x19"

section \<open>The table\<close>

fun check_descriptors :: "nat \<Rightarrow> mb_parameter_descriptor_t list \<Rightarrow> bool" where
  "check_descriptors counter [] = True"
| "check_descriptors counter (d # ds) = (cid d = counter \<and> 0 < mb_size d \<and> check_descriptors (Suc counter) ds)"

definition mbc_serial_master_set_descriptor ::
    "mb_parameter_descriptor_t list option \<Rightarrow> mbc_master \<Rightarrow> esp_err_t \<times> mbc_master" where
  "mbc_serial_master_set_descriptor descriptor s =
     (case descriptor of
        None \<Rightarrow> (ESP_ERR_INVALID_ARG, s)
      | Some ds \<Rightarrow>
          if \<not> 1 \<le> length ds then (ESP_ERR_INVALID_ARG, s)
          else if \<not> check_descriptors 0 ds then (ESP_ERR_INVALID_ARG, s)
          else (ESP_OK, s\<lparr>mbm_param_descriptor_table := Some ds\<rparr>))"

definition mbc_serial_master_get_cid_info :: "nat \<Rightarrow> mbc_master \<Rightarrow> esp_err_t \<times> mb_parameter_descriptor_t option" where
  "mbc_serial_master_get_cid_info i s =
     (case mbm_param_descriptor_table s of
        None \<Rightarrow> (ESP_ERR_INVALID_ARG, None)
      | Some ds \<Rightarrow> if i < length ds then (ESP_OK, Some (ds ! i)) else (ESP_ERR_NOT_FOUND, None))"

definition mbc_serial_master_get_command :: "mb_param_type_t \<Rightarrow> mb_param_mode_t \<Rightarrow> nat" where
  "mbc_serial_master_get_command ty mode =
     (case ty of
        MB_PARAM_HOLDING \<Rightarrow> if mode = MB_PARAM_WRITE then 16 else 3
      | MB_PARAM_INPUT \<Rightarrow> 4
      | MB_PARAM_COIL \<Rightarrow> if mode = MB_PARAM_WRITE then 15 else 1
      | MB_PARAM_DISCRETE \<Rightarrow> if mode \<noteq> MB_PARAM_WRITE then 2 else 0
      | _ \<Rightarrow> 0)"

text \<open>The first entry with the name: the code compares the lengths and then the bytes. A missing table fails an assertion.\<close>

definition mbc_serial_master_set_request ::
    "string \<Rightarrow> mb_param_mode_t \<Rightarrow> mbc_master \<Rightarrow>
       (esp_err_t \<times> (mb_param_request_t \<times> mb_parameter_descriptor_t) option) option" where
  "mbc_serial_master_set_request name mode s =
     (case mbm_param_descriptor_table s of
        None \<Rightarrow> None
      | Some ds \<Rightarrow>
          Some (case find (\<lambda>d. c_str (param_key d) = c_str name) ds of
             None \<Rightarrow> (ESP_ERR_NOT_FOUND, None)
           | Some d \<Rightarrow>
               let com = mbc_serial_master_get_command (mb_param_type d) mode
               in if \<not> 0 < com then (ESP_ERR_INVALID_ARG, None)
                  else (ESP_OK, Some (\<lparr>slave_addr = mb_slave_addr d, command = com, reg_start = mb_reg_start d,
                                       reg_size = mb_size d\<rparr>, d))))"

section \<open>Requests\<close>

definition request_error :: "eMBMasterReqErrCode \<Rightarrow> esp_err_t" where
  "request_error mb_error =
     (case mb_error of
        MB_MRE_NO_ERR \<Rightarrow> ESP_OK
      | MB_MRE_NO_REG \<Rightarrow> ESP_ERR_NOT_SUPPORTED
      | MB_MRE_TIMEDOUT \<Rightarrow> ESP_ERR_TIMEOUT
      | MB_MRE_EXE_FUN \<Rightarrow> ESP_ERR_INVALID_RESPONSE
      | MB_MRE_REV_DATA \<Rightarrow> ESP_ERR_INVALID_RESPONSE
      | MB_MRE_MASTER_BUSY \<Rightarrow> ESP_ERR_INVALID_STATE
      | _ \<Rightarrow> ESP_FAIL)"

text \<open>The result has what the request left in the buffer of the caller.\<close>

definition mbc_serial_master_send_request ::
    "modbus_env \<Rightarrow> mb_param_request_t \<Rightarrow> byte list \<Rightarrow> mbc_master \<Rightarrow> (esp_err_t \<times> byte list \<times> mbc_master) option" where
  "mbc_serial_master_send_request env request data s =
     (let m = (mbc_stack s)\<lparr>mbm_reg_buffer := data, mbm_reg_buffer_size := reg_size request\<rparr>
      in do {
           (mb_error, m) \<leftarrow>
             (if command request = 4
              then eMBMasterReqReadInputRegister (me_handlers env) (me_answers env (mbc_requests s))
                     (slave_addr request) (reg_start request) (reg_size request) m
              else if command request \<in> {1, 2, 3, 5, 6, 15, 16, 23} then me_requests env (mbc_requests s) request m
              else Some (MB_MRE_NO_REG, m));
           Some (request_error mb_error, mbm_reg_buffer m,
             s\<lparr>mbc_stack := m, mbc_requests := mbc_requests s + 1\<rparr>)
         })"

text \<open>The value goes to the variable of the caller, given by its bytes; \<open>None\<close> when it does not fit.\<close>

definition overwrite :: "nat \<Rightarrow> byte list \<Rightarrow> byte list \<Rightarrow> byte list option" where
  "overwrite k src dest = (if k \<le> length src \<and> k \<le> length dest then Some (take k src @ drop k dest) else None)"

definition mbc_serial_master_set_param_data ::
    "byte list \<Rightarrow> byte list \<Rightarrow> mb_descr_type_t \<Rightarrow> nat \<Rightarrow> (esp_err_t \<times> byte list) option" where
  "mbc_serial_master_set_param_data dest src ty n =
     map_option (Pair ESP_OK)
       (case ty of
          PARAM_TYPE_U8 \<Rightarrow> overwrite 1 src dest
        | PARAM_TYPE_U16 \<Rightarrow> overwrite 2 src dest
        | PARAM_TYPE_U32 \<Rightarrow> overwrite 4 src dest
        | PARAM_TYPE_FLOAT \<Rightarrow> overwrite 4 src dest
        | PARAM_TYPE_ASCII \<Rightarrow> overwrite n src dest)"

definition mbc_serial_master_get_parameter ::
    "modbus_env \<Rightarrow> nat \<Rightarrow> string \<Rightarrow> byte list \<Rightarrow> mbc_master \<Rightarrow> (esp_err_t \<times> byte list \<times> mbc_master) option" where
  "mbc_serial_master_get_parameter env i name value s =
     do {
       (error, found) \<leftarrow> mbc_serial_master_set_request name MB_PARAM_READ s;
       case found of
         None \<Rightarrow> Some (error, value, s)
       | Some (request, reg_info) \<Rightarrow>
           if error = ESP_OK \<and> i = cid reg_info then
             do {
               (error, param_buffer, s) \<leftarrow> mbc_serial_master_send_request env request (replicate PARAM_MAX_SIZE 0) s;
               if error = ESP_OK then
                 do {
                   (error, value) \<leftarrow> mbc_serial_master_set_param_data value param_buffer (param_type reg_info) (param_size reg_info);
                   Some (if error \<noteq> ESP_OK then ESP_ERR_INVALID_STATE else error, value, s)
                 }
               else Some (error, value, s)
             }
           else Some (error, value, s)
     }"

end
