(* ===== verification/App_Modbus.thy ===== *)
theory App_Modbus
  imports Modbus_Master Device_View
begin

text \<open>
  \<^verbatim>\<open>main/app_modbus.c\<close> and \<^verbatim>\<open>modbus_params.c\<close>: a task reads thirteen values of an energy meter over
  the Modbus line, each with up to ten tries, and reports all of them as one event. \<^verbatim>\<open>app_main.c\<close>
  starts the component only when \<^verbatim>\<open>ENABLE_MODBUS\<close> is defined. The four storage structures are
  packed, hence byte arrays; \<open>None\<close> is a failed assertion or an access outside an object.
\<close>

section \<open>Parameters\<close>

definition device_parameter :: "nat \<Rightarrow> string \<Rightarrow> string \<Rightarrow> nat \<Rightarrow> mb_parameter_descriptor_t" where
  "device_parameter i key units start =
     \<lparr>cid = i, param_key = key, param_units = units, mb_slave_addr = 2, mb_param_type = MB_PARAM_INPUT,
      mb_reg_start = start, mb_size = 2, param_offset = 0 + 1, param_type = PARAM_TYPE_FLOAT, param_size = 4,
      param_opts = \<lparr>opt1 = -10, opt2 = 10, opt3 = 1\<rparr>, access = 22\<rparr>"

definition device_parameters :: "mb_parameter_descriptor_t list" where
  "device_parameters =
     [device_parameter 0 ''V1'' ''Volts'' 0, device_parameter 1 ''V2'' ''Volts'' 2, device_parameter 2 ''V3'' ''Volts'' 4,
      device_parameter 3 ''I1'' ''Ampe'' 16, device_parameter 4 ''I2'' ''Ampe'' 18, device_parameter 5 ''I3'' ''Ampe'' 20,
      device_parameter 6 ''P1'' ''KWatt'' 24, device_parameter 7 ''P2'' ''KWatt'' 26, device_parameter 8 ''P3'' ''KWatt'' 28,
      device_parameter 9 ''PF1'' ''cosW'' 48, device_parameter 10 ''PF2'' ''cosW'' 50, device_parameter 11 ''PF3'' ''cosW'' 52,
      device_parameter 12 ''Power'' ''KWh'' 58]"

definition num_device_parameters :: nat where
  "num_device_parameters = length device_parameters"

record modbus_params =
  holding_reg_params :: "byte list"
  input_reg_params :: "byte list"
  coil_reg_params :: "byte list"
  discrete_reg_params :: "byte list"

definition zero_params :: modbus_params where
  "zero_params = \<lparr>holding_reg_params = replicate 16 0, input_reg_params = replicate 16 0,
     coil_reg_params = replicate 2 0, discrete_reg_params = replicate 2 0\<rparr>"

record app_modbus_t =
  mb_running :: bool
  mb_update_interval_ms :: int
  mb_port_num :: int
  mb_tx_pin :: int
  mb_rx_pin :: int
  mb_rst_pin :: int
  mb_baudrate :: int
  mb_callback :: bool
  phase_data :: phases_data_t

record app_modbus_config_t =
  mc_update_interval_ms :: int
  mc_port_num :: int
  mc_tx_pin :: int
  mc_rx_pin :: int
  mc_rst_pin :: int
  mc_baudrate :: int
  mc_callback :: bool

text \<open>The object behind the handle, the storage, the bus, and the variables of the task.\<close>

record modbus_state =
  mb_handle :: app_modbus_t
  mb_params :: modbus_params
  mb_bus :: mbc_master
  mb_err :: esp_err_t
  mb_value :: "byte list"
  mb_descriptor :: "mb_parameter_descriptor_t option"

text \<open>A pointer into the storage is an area and an offset; the null pointer is \<open>None\<close>.\<close>

definition master_get_param_data :: "mb_parameter_descriptor_t \<Rightarrow> (mb_param_type_t \<times> nat) option option" where
  "master_get_param_data d =
     (if param_offset d \<noteq> 0 then
        Some (if mb_param_type d \<in> {MB_PARAM_HOLDING, MB_PARAM_INPUT, MB_PARAM_COIL, MB_PARAM_DISCRETE}
              then Some (mb_param_type d, param_offset d - 1) else None)
      else None)"

definition store_bytes :: "nat \<Rightarrow> byte list \<Rightarrow> byte list \<Rightarrow> byte list option" where
  "store_bytes off bs area =
     (if off + length bs \<le> length area then Some (take off area @ bs @ drop (off + length bs) area) else None)"

definition store_float :: "mb_param_type_t \<times> nat \<Rightarrow> byte list \<Rightarrow> modbus_params \<Rightarrow> modbus_params option" where
  "store_float = (\<lambda>(ty, off) bs ps.
     (case ty of
        MB_PARAM_HOLDING \<Rightarrow> map_option (\<lambda>a. ps\<lparr>holding_reg_params := a\<rparr>) (store_bytes off bs (holding_reg_params ps))
      | MB_PARAM_INPUT \<Rightarrow> map_option (\<lambda>a. ps\<lparr>input_reg_params := a\<rparr>) (store_bytes off bs (input_reg_params ps))
      | MB_PARAM_COIL \<Rightarrow> map_option (\<lambda>a. ps\<lparr>coil_reg_params := a\<rparr>) (store_bytes off bs (coil_reg_params ps))
      | MB_PARAM_DISCRETE \<Rightarrow> map_option (\<lambda>a. ps\<lparr>discrete_reg_params := a\<rparr>) (store_bytes off bs (discrete_reg_params ps))
      | _ \<Rightarrow> None))"

text \<open>The bits of a \<^verbatim>\<open>float\<close> from its four bytes.\<close>

definition float_bits :: "byte list \<Rightarrow> 32 word" where
  "float_bits bs = ucast (bs ! 0) OR push_bit 8 (ucast (bs ! 1)) OR push_bit 16 (ucast (bs ! 2)) OR push_bit 24 (ucast (bs ! 3))"

definition set_phases_data :: "nat \<Rightarrow> 32 word \<Rightarrow> phases_data_t \<Rightarrow> phases_data_t" where
  "set_phases_data i x d =
     (if i = 0 then d\<lparr>ph_u1 := x\<rparr> else if i = 1 then d\<lparr>ph_u2 := x\<rparr> else if i = 2 then d\<lparr>ph_u3 := x\<rparr>
      else if i = 3 then d\<lparr>ph_i1 := x\<rparr> else if i = 4 then d\<lparr>ph_i2 := x\<rparr> else if i = 5 then d\<lparr>ph_i3 := x\<rparr>
      else if i = 6 then d\<lparr>ph_p1 := x\<rparr> else if i = 7 then d\<lparr>ph_p2 := x\<rparr> else if i = 8 then d\<lparr>ph_p3 := x\<rparr>
      else if i = 9 then d\<lparr>ph_phy1 := x\<rparr> else if i = 10 then d\<lparr>ph_phy2 := x\<rparr> else if i = 11 then d\<lparr>ph_phy3 := x\<rparr>
      else if i = 12 then d\<lparr>ph_power := x\<rparr> else d)"

section \<open>Connecting\<close>

text \<open>A tick is ten milliseconds; the division is on unsigned numbers.\<close>

definition portTICK_RATE_MS :: int where
  "portTICK_RATE_MS = 10"

definition ticks_of_ms :: "int \<Rightarrow> int" where
  "ticks_of_ms ms = uint (word_of_int ms :: 32 word) div portTICK_RATE_MS"

definition vTaskDelay :: "int \<Rightarrow> 'a platform_scheme \<Rightarrow> 'a platform_scheme" where
  "vTaskDelay ticks w = vTaskDelay_ms (ticks * portTICK_RATE_MS) w"

text \<open>The pause between two tries is no tick at all.\<close>

lemma poll_pause [simp]: "vTaskDelay (ticks_of_ms 5) w = w"
  by (simp add: vTaskDelay_def ticks_of_ms_def portTICK_RATE_MS_def vTaskDelay_ms_def)

text \<open>The results of the calls that can fail, by the call.\<close>

datatype modbus_call = MbcMasterInit | MbcMasterSetup | MbcMasterStart | UartSetMode

definition modbus_init ::
    "(modbus_call \<Rightarrow> esp_err_t) \<Rightarrow> modbus_state \<Rightarrow> 'a platform_scheme \<Rightarrow> esp_err_t \<times> modbus_state \<times> 'a platform_scheme" where
  "modbus_init api s w =
     (if api MbcMasterInit \<noteq> ESP_OK then (ESP_ERR_INVALID_STATE, s, w)
      else if api MbcMasterSetup \<noteq> ESP_OK then (ESP_ERR_INVALID_STATE, s, w)
      else if api MbcMasterStart \<noteq> ESP_OK then (ESP_ERR_INVALID_STATE, s, w)
      else
        let bus = mb_bus s;
            s = s\<lparr>mb_bus := bus\<lparr>mbc_stack := vMBMasterRunResRelease (eMBMasterRTUStart (mbc_stack bus))\<rparr>\<rparr>
        in if api UartSetMode \<noteq> ESP_OK then (ESP_ERR_INVALID_STATE, s, w)
           else case mbc_serial_master_set_descriptor (Some device_parameters) (mb_bus s) of (err, bus) \<Rightarrow>
             (if err \<noteq> ESP_OK then ESP_ERR_INVALID_STATE else ESP_OK, s\<lparr>mb_bus := bus\<rparr>, vTaskDelay 5 w))"

text \<open>The attempts until the first success; \<open>None\<close> when there is none among them. The variables of the task are
  initialised after it.\<close>

fun modbus_connect ::
    "(modbus_call \<Rightarrow> esp_err_t) list \<Rightarrow> modbus_state \<Rightarrow> 'a platform_scheme \<Rightarrow> (modbus_state \<times> 'a platform_scheme) option" where
  "modbus_connect [] s w = None"
| "modbus_connect (api # apis) s w =
     (case modbus_init api s w of (err, s, w) \<Rightarrow>
        if err \<noteq> ESP_OK then modbus_connect apis s (vTaskDelay (ticks_of_ms 5000) w)
        else Some (s\<lparr>mb_err := ESP_OK, mb_value := replicate 4 0, mb_descriptor := None\<rparr>, vTaskDelay (ticks_of_ms 500) w))"

section \<open>Reading\<close>

text \<open>One try; the result says whether the value has been read.\<close>

definition modbus_try ::
    "modbus_env \<Rightarrow> nat \<Rightarrow> modbus_state \<Rightarrow> 'a platform_scheme \<Rightarrow> (bool \<times> modbus_state \<times> 'a platform_scheme) option" where
  "modbus_try env i s w =
     (case mbc_serial_master_get_cid_info i (mb_bus s) of (err, found) \<Rightarrow>
        let s = s\<lparr>mb_err := err, mb_descriptor := (case found of None \<Rightarrow> mb_descriptor s | Some d \<Rightarrow> Some d)\<rparr>
        in if err = ESP_ERR_NOT_FOUND then Some (False, s, w)
           else case mb_descriptor s of
             None \<Rightarrow> Some (False, s, w)
           | Some d \<Rightarrow> do {
               temp_data_ptr \<leftarrow> master_get_param_data d;
               case temp_data_ptr of
                 None \<Rightarrow> Some (False, s, w)
               | Some p \<Rightarrow> do {
                   (err, value, bus) \<leftarrow> mbc_serial_master_get_parameter env i (param_key d) (mb_value s) (mb_bus s);
                   s \<leftarrow> Some (s\<lparr>mb_err := err, mb_value := value, mb_bus := bus\<rparr>);
                   if err = ESP_OK then do {
                     ps \<leftarrow> store_float p value (mb_params s);
                     s \<leftarrow> Some (s\<lparr>mb_params := ps\<rparr>);
                     Some (if mb_param_type d \<in> {MB_PARAM_HOLDING, MB_PARAM_INPUT}
                           then (True, s\<lparr>mb_handle := (mb_handle s)\<lparr>phase_data :=
                                   set_phases_data (cid d) (float_bits value) (phase_data (mb_handle s))\<rparr>\<rparr>, vTaskDelay (ticks_of_ms 5) w)
                           else (False, s, vTaskDelay (ticks_of_ms 5) w))
                   } else Some (False, s, vTaskDelay (ticks_of_ms 5) w)
                 }
             })"

fun modbus_tries ::
    "modbus_env \<Rightarrow> nat \<Rightarrow> nat \<Rightarrow> modbus_state \<Rightarrow> 'a platform_scheme \<Rightarrow> (modbus_state \<times> 'a platform_scheme) option" where
  "modbus_tries env i 0 s w = Some (s, w)"
| "modbus_tries env i (Suc n) s w =
     (case modbus_try env i s w of
        None \<Rightarrow> None
      | Some (pass, s, w) \<Rightarrow> if pass then Some (s, w) else modbus_tries env i n s w)"

fun modbus_read ::
    "modbus_env \<Rightarrow> nat list \<Rightarrow> modbus_state \<Rightarrow> 'a platform_scheme \<Rightarrow> (modbus_state \<times> 'a platform_scheme) option" where
  "modbus_read env [] s w = Some (s, w)"
| "modbus_read env (i # is) s w =
     (if mb_err s = ESP_ERR_NOT_FOUND then Some (s, w)
      else do { (s, w) \<leftarrow> modbus_tries env i 10 s w; modbus_read env is s w })"

definition modbus_event :: "phases_data_t \<Rightarrow> cb_event" where
  "modbus_event d = \<lparr>ev_id = APP_MODBUS_EVENT_DATA, ev_data = Some (CbPhases d), ev_len = sizeof_phases_data_t\<rparr>"

text \<open>A round of the task. When the loop ends, the task function returns, which the operating system answers by aborting.\<close>

definition modbus_task_step ::
    "('a platform_scheme \<Rightarrow> cb_event \<Rightarrow> 'a platform_scheme option) \<Rightarrow> modbus_env \<Rightarrow> modbus_state \<Rightarrow>
       'a platform_scheme \<Rightarrow> (modbus_state \<times> 'a platform_scheme) option" where
  "modbus_task_step cb env s w =
     (if mb_running (mb_handle s) then do {
        (s, w) \<leftarrow> modbus_read env [0..<num_device_parameters] s w;
        w \<leftarrow> (if mb_callback (mb_handle s) then cb w (modbus_event (phase_data (mb_handle s))) else Some w);
        Some (s, vTaskDelay (ticks_of_ms (mb_update_interval_ms (mb_handle s))) w)
      } else None)"

section \<open>Interface\<close>

definition app_modbus_init :: "app_modbus_t \<Rightarrow> app_modbus_config_t option \<Rightarrow> app_modbus_t option" where
  "app_modbus_init junk config =
     (case config of
        None \<Rightarrow> None
      | Some c \<Rightarrow> Some (junk\<lparr>mb_running := False, mb_port_num := mc_port_num c, mb_baudrate := mc_baudrate c,
          mb_tx_pin := mc_tx_pin c, mb_rx_pin := mc_rx_pin c, mb_rst_pin := mc_rst_pin c,
          mb_update_interval_ms := mc_update_interval_ms c, mb_callback := mc_callback c, phase_data := zero_phases\<rparr>))"

text \<open>The flag is the result of \<^verbatim>\<open>xTaskCreate\<close>.\<close>

definition app_modbus_start :: "bool \<Rightarrow> app_modbus_t \<Rightarrow> esp_err_t \<times> app_modbus_t" where
  "app_modbus_start created h = (if created then ESP_OK else ESP_FAIL, h\<lparr>mb_running := True\<rparr>)"

text \<open>The configuration in \<^verbatim>\<open>app_main.c\<close>; the reset pin is not named there, hence zero.\<close>

definition modbus_config :: app_modbus_config_t where
  "modbus_config = \<lparr>mc_update_interval_ms = 60000, mc_port_num = 0, mc_tx_pin = 3, mc_rx_pin = 1, mc_rst_pin = 0,
     mc_baudrate = 9600, mc_callback = True\<rparr>"

section \<open>What a round reports\<close>

text \<open>A meter on the line whose input registers hold \<open>meter\<close>: whatever answer comes to a request is the right
  one or a copy with a byte damaged, and among ten requests at least one gets the right answer.\<close>

definition right_reply :: "(nat \<Rightarrow> 16 word) \<Rightarrow> nat \<Rightarrow> byte list" where
  "right_reply meter r = reply_frame 2 [meter r, meter (r + 1)]"

definition meter_honest :: "(nat \<Rightarrow> 16 word) \<Rightarrow> modbus_env \<Rightarrow> bool" where
  "meter_honest meter env \<longleftrightarrow> (\<forall>k r bs. me_answers env k (request_frame 2 r 2) = Some bs \<longrightarrow>
     bs = right_reply meter r \<or> damaged (right_reply meter r) bs)"

definition answered :: "(nat \<Rightarrow> 16 word) \<Rightarrow> modbus_env \<Rightarrow> nat \<Rightarrow> bool" where
  "answered meter env k \<longleftrightarrow> (\<forall>r. me_answers env k (request_frame 2 r 2) = Some (right_reply meter r))"

definition meter_responsive :: "(nat \<Rightarrow> 16 word) \<Rightarrow> modbus_env \<Rightarrow> bool" where
  "meter_responsive meter env \<longleftrightarrow> (\<forall>k. \<exists>j < 10. answered meter env (k + j))"

definition bus_ready :: "mbc_master \<Rightarrow> bool" where
  "bus_ready s \<longleftrightarrow> idle (mbc_stack s) \<and> mbm_param_descriptor_table s = Some device_parameters"

definition entry_ok :: "nat \<Rightarrow> bool" where
  "entry_ok i \<longleftrightarrow> (let d = device_parameters ! i in cid d = i \<and> mb_slave_addr d = 2 \<and> mb_size d = 2 \<and>
     mb_param_type d = MB_PARAM_INPUT \<and> param_type d = PARAM_TYPE_FLOAT \<and> param_offset d = 1 \<and>
     find (\<lambda>e. c_str (param_key e) = c_str (param_key d)) device_parameters = Some d)"

lemma entries_ok: "list_all entry_ok [0..<num_device_parameters]"
  by code_simp

lemma parameter_entry: "i < num_device_parameters \<Longrightarrow> entry_ok i"
  using entries_ok by (simp add: list_all_iff)

abbreviation reg_of :: "nat \<Rightarrow> nat" where
  "reg_of i \<equiv> mb_reg_start (device_parameters ! i)"

definition reading :: "(nat \<Rightarrow> 16 word) \<Rightarrow> nat \<Rightarrow> byte list" where
  "reading meter r = stored_bytes [meter r, meter (r + 1)]"

lemma get_parameter_entry:
  assumes "bus_ready s" "i < num_device_parameters"
  shows "mbc_serial_master_get_parameter env i (param_key (device_parameters ! i)) value s =
    do {
      (error, param_buffer, s) \<leftarrow> mbc_serial_master_send_request env
        \<lparr>slave_addr = 2, command = 4, reg_start = reg_of i, reg_size = 2\<rparr> (replicate PARAM_MAX_SIZE 0) s;
      if error = ESP_OK then do { v \<leftarrow> overwrite 4 param_buffer value; Some (ESP_OK, v, s) } else Some (error, value, s)
    }"
  using assms parameter_entry [OF assms(2)]
  by (auto simp: entry_ok_def Let_def mbc_serial_master_get_parameter_def mbc_serial_master_set_request_def bus_ready_def
      mbc_serial_master_get_command_def mbc_serial_master_set_param_data_def Option.map_conv_bind_option
      intro!: arg_cong [where f = "Option.bind _"])

lemma length_reading: "length (reading meter r) = 4"
  by (simp add: reading_def length_reg_bytes)

lemma send_right:
  assumes "bus_ready s" "me_answers env (mbc_requests s) (request_frame 2 r 2) = Some (right_reply meter r)" "req = \<lparr>slave_addr = 2, command = 4, reg_start = r, reg_size = 2\<rparr>"
  shows "\<exists>s' rest. mbc_serial_master_send_request env req (replicate PARAM_MAX_SIZE 0) s = Some (ESP_OK, reading meter r @ rest, s') \<and>
    bus_ready s' \<and> mbc_requests s' = Suc (mbc_requests s)"
proof -
  let ?m = "(mbc_stack s)\<lparr>mbm_reg_buffer := replicate PARAM_MAX_SIZE 0, mbm_reg_buffer_size := 2\<rparr>"
  have "idle ?m" using assms(1) by (simp add: bus_ready_def idle_def)
  moreover have "me_answers env (mbc_requests s) (request_frame 2 r 2) = Some (reply_frame 2 [meter r, meter (r + 1)])"
    using assms(2) by (simp add: right_reply_def)
  ultimately obtain m' where "eMBMasterReqReadInputRegister (me_handlers env) (me_answers env (mbc_requests s)) 2 r 2 ?m =
      Some (MB_MRE_NO_ERR, m')" "idle m'" "mbm_reg_buffer m' = stored_bytes [meter r, meter (r + 1)] @ drop 4 (mbm_reg_buffer ?m)"
    using request_accepted [of ?m 2 "me_answers env (mbc_requests s)" r 2 "[meter r, meter (r + 1)]" "me_handlers env"]
    by (auto simp: PARAM_MAX_SIZE_def)
  then show ?thesis using assms(1,3)
    by (simp add: mbc_serial_master_send_request_def request_error_def reading_def bus_ready_def)
qed

lemma send_wrong:
  assumes "bus_ready s" "req = \<lparr>slave_addr = 2, command = 4, reg_start = r, reg_size = 2\<rparr>"
    and "\<And>bs. me_answers env (mbc_requests s) (request_frame 2 r 2) = Some bs \<Longrightarrow> damaged (right_reply meter r) bs"
  shows "\<exists>e buf s'. mbc_serial_master_send_request env req data s = Some (e, buf, s') \<and> e \<noteq> ESP_OK \<and> e \<noteq> ESP_ERR_NOT_FOUND \<and>
    bus_ready s' \<and> mbc_requests s' = Suc (mbc_requests s)"
proof -
  let ?m = "(mbc_stack s)\<lparr>mbm_reg_buffer := data, mbm_reg_buffer_size := 2\<rparr>"
  let ?a = "me_answers env (mbc_requests s)"
  have i: "idle ?m" using assms(1) by (simp add: bus_ready_def idle_def)
  have "\<exists>e m'. eMBMasterReqReadInputRegister (me_handlers env) ?a 2 r 2 ?m = Some (e, m') \<and> idle m' \<and>
      e \<in> {MB_MRE_TIMEDOUT, MB_MRE_REV_DATA}"
  proof (cases "?a (request_frame 2 r 2)")
    case None
    then show ?thesis using request_silent [OF i, of 2 ?a r 2 "me_handlers env"] by auto
  next
    case (Some bs)
    then have "length bs = 9 \<and> crc16 bs \<noteq> 0"
      using damaged_crc [of "2 # 4 # 4 # reg_bytes [meter r, meter (r + 1)]" bs] assms(3)
      by (simp add: right_reply_def reply_frame_def length_reg_bytes)
    then show ?thesis using request_rejected [OF i, of 2 ?a r 2 bs "me_handlers env"] Some by auto
  qed
  then show ?thesis using assms(1,2)
    by (auto simp: mbc_serial_master_send_request_def request_error_def bus_ready_def mb_errors)
qed

definition modbus_ready :: "modbus_state \<Rightarrow> bool" where
  "modbus_ready s \<longleftrightarrow> bus_ready (mb_bus s) \<and> length (mb_value s) = 4 \<and> length (input_reg_params (mb_params s)) = 16 \<and>
     mb_err s \<noteq> ESP_ERR_NOT_FOUND"

abbreviation put_reading :: "(nat \<Rightarrow> 16 word) \<Rightarrow> nat \<Rightarrow> phases_data_t \<Rightarrow> phases_data_t" where
  "put_reading meter i \<equiv> set_phases_data i (float_bits (reading meter (reg_of i)))"

lemma try_unfold:
  assumes "modbus_ready s" "i < num_device_parameters"
    and "mbc_serial_master_get_parameter env i (param_key (device_parameters ! i)) (mb_value s) (mb_bus s) = Some (e, v, bus)"
    and "length v = 4"
  shows "\<exists>s'. modbus_try env i s w = Some (e = ESP_OK, s', w) \<and> mb_bus s' = bus \<and> mb_err s' = e \<and> mb_value s' = v \<and>
    length (input_reg_params (mb_params s')) = 16 \<and>
    mb_handle s' = (if e = ESP_OK then (mb_handle s)\<lparr>phase_data := set_phases_data i (float_bits v) (phase_data (mb_handle s))\<rparr>
      else mb_handle s)"
  using assms parameter_entry [OF assms(2)]
  by (simp add: entry_ok_def Let_def modbus_try_def modbus_ready_def bus_ready_def mbc_serial_master_get_cid_info_def
      master_get_param_data_def num_device_parameters_def store_float_def store_bytes_def)

lemma try_right:
  assumes "modbus_ready s" "i < num_device_parameters"
    and "me_answers env (mbc_requests (mb_bus s)) (request_frame 2 (reg_of i) 2) = Some (right_reply meter (reg_of i))"
  shows "\<exists>s'. modbus_try env i s w = Some (True, s', w) \<and> modbus_ready s' \<and>
    mb_handle s' = (mb_handle s)\<lparr>phase_data := put_reading meter i (phase_data (mb_handle s))\<rparr>"
proof -
  have b: "bus_ready (mb_bus s)" "length (mb_value s) = 4" using assms(1) by (simp_all add: modbus_ready_def)
  obtain s' rest where s': "mbc_serial_master_send_request env
      \<lparr>slave_addr = 2, command = 4, reg_start = reg_of i, reg_size = 2\<rparr> (replicate PARAM_MAX_SIZE 0) (mb_bus s) =
      Some (ESP_OK, reading meter (reg_of i) @ rest, s')" "bus_ready s'"
    using send_right [OF b(1) assms(3)] by blast
  have "mbc_serial_master_get_parameter env i (param_key (device_parameters ! i)) (mb_value s) (mb_bus s) =
      Some (ESP_OK, reading meter (reg_of i), s')"
    unfolding get_parameter_entry [OF b(1) assms(2)] using s'(1) b(2) by (simp add: overwrite_def length_reading)
  from try_unfold [OF assms(1,2) this length_reading, of w] s'(2) show ?thesis
    by (auto simp: modbus_ready_def length_reading)
qed

lemma try_wrong:
  assumes "modbus_ready s" "i < num_device_parameters"
    and "\<And>bs. me_answers env (mbc_requests (mb_bus s)) (request_frame 2 (reg_of i) 2) = Some bs \<Longrightarrow>
      damaged (right_reply meter (reg_of i)) bs"
  shows "\<exists>s'. modbus_try env i s w = Some (False, s', w) \<and> modbus_ready s' \<and> mb_handle s' = mb_handle s \<and>
    mbc_requests (mb_bus s') = Suc (mbc_requests (mb_bus s))"
proof -
  have b: "bus_ready (mb_bus s)" "length (mb_value s) = 4" using assms(1) by (simp_all add: modbus_ready_def)
  obtain e buf s' where s': "mbc_serial_master_send_request env
      \<lparr>slave_addr = 2, command = 4, reg_start = reg_of i, reg_size = 2\<rparr> (replicate PARAM_MAX_SIZE 0) (mb_bus s) =
      Some (e, buf, s')" "e \<noteq> ESP_OK" "e \<noteq> ESP_ERR_NOT_FOUND" "bus_ready s'" "mbc_requests s' = Suc (mbc_requests (mb_bus s))"
    using send_wrong [OF b(1) refl assms(3)] by blast
  have "mbc_serial_master_get_parameter env i (param_key (device_parameters ! i)) (mb_value s) (mb_bus s) = Some (e, mb_value s, s')"
    unfolding get_parameter_entry [OF b(1) assms(2)] using s'(1,2) by simp
  from try_unfold [OF assms(1,2) this b(2), of w] s' b(2) show ?thesis by (auto simp: modbus_ready_def)
qed

text \<open>Two registers are one \<^verbatim>\<open>float\<close>, the first one the lower half.\<close>

definition float_reg :: "(nat \<Rightarrow> 16 word) \<Rightarrow> nat \<Rightarrow> 32 word" where
  "float_reg meter r = push_bit 16 (ucast (meter (r + 1))) OR ucast (meter r)"

lemma float_reading: "float_bits (reading meter r) = float_reg meter r"
proof (rule bit_word_eqI)
  fix n
  assume "n < LENGTH(32)"
  then consider "n < 8" | "8 \<le> n" "n < 16" | "16 \<le> n" "n < 24" | "24 \<le> n" "n < 32" by fastforce
  then show "bit (float_bits (reading meter r)) n = bit (float_reg meter r) n"
    by cases (auto simp: float_bits_def reading_def stored_bytes_def float_reg_def bit_simps dest: bit_imp_le_length)
qed

definition meter_phases :: "(nat \<Rightarrow> 16 word) \<Rightarrow> phases_data_t" where
  "meter_phases meter =
     (let x = float_reg meter
      in \<lparr>ph_p1 = x 24, ph_p2 = x 26, ph_p3 = x 28, ph_u1 = x 0, ph_u2 = x 2, ph_u3 = x 4, ph_i1 = x 16, ph_i2 = x 18,
          ph_i3 = x 20, ph_phy1 = x 48, ph_phy2 = x 50, ph_phy3 = x 52, ph_power = x 58\<rparr>)"

lemma all_readings: "fold (put_reading meter) [0..<num_device_parameters] d = meter_phases meter"
proof -
  have u: "[0..<num_device_parameters] = [0, 1, 2, 3, 4, 5, 6, 7, 8, 9, 10, 11, 12]"
    by (simp add: num_device_parameters_def device_parameters_def upt_rec)
  have r: "map reg_of [0, 1, 2, 3, 4, 5, 6, 7, 8, 9, 10, 11, 12] = [0, 2, 4, 16, 18, 20, 24, 26, 28, 48, 50, 52, 58]"
    by (simp add: device_parameters_def device_parameter_def)
  show ?thesis using r unfolding u float_reading
    by (simp only: fold_simps float_reading list.map list.inject) (simp add: set_phases_data_def meter_phases_def Let_def)
qed

lemma meter_event:
  fixes w :: "'a gps_world_scheme"
  assumes "nextion_handle w = Some n" "websocket_handle w = Some h" "is_logged h" "\<And>k. rb_res w k"
  shows "\<exists>w'. event_callback w (modbus_event d) = Some w' \<and> nextion_handle w' = Some (n\<lparr>nx_phases_data := d\<rparr>) \<and>
    websocket_handle w' = Some (h\<lparr>tx_rb := tx_rb h @ [main_message__pack (meter_message (device_id h) d)]\<rparr>)"
proof -
  have "event_callback w (modbus_event d) = event_callback_body event_callback w (modbus_event d)"
    using event_callback_unfold by metis
  then show ?thesis using assms
    by (simp add: event_callback_body_def modbus_event_def event_ids app_nextion_set_phase_data_def
        app_nextion_set_console_def set_nextion_def app_websocket_update_meter_data_def update_meter_data_def
        tx_enqueue_def rb_next_def set_websocket_def send_command_def uart_write_bytes_def Let_def)
qed

text \<open>The state after the connection.\<close>

lemma table_ok: "mbc_serial_master_set_descriptor (Some device_parameters) b =
    (ESP_OK, b\<lparr>mbm_param_descriptor_table := Some device_parameters\<rparr>)"
  by (simp add: mbc_serial_master_set_descriptor_def device_parameters_def device_parameter_def)

definition stack_fresh :: "mb_master \<Rightarrow> bool" where
  "stack_fresh m \<longleftrightarrow> eSndState m = STATE_M_TX_IDLE \<and> xEventGroupMasterHdl m = {} \<and>
     length (ucMasterRcvBuf m) = 256 \<and> length (ucMasterSndBuf m) = 253"

lemma init_fresh:
  assumes "stack_fresh (mbc_stack (mb_bus s))"
  shows "\<exists>s' w'. modbus_init api s w = (if \<forall>c. api c = ESP_OK then ESP_OK else ESP_ERR_INVALID_STATE, s', w') \<and>
    stack_fresh (mbc_stack (mb_bus s')) \<and> ((\<forall>c. api c = ESP_OK) \<longrightarrow> bus_ready (mb_bus s')) \<and>
    mb_handle s' = mb_handle s \<and> mb_params s' = mb_params s"
proof -
  have "(\<forall>c. api c = ESP_OK) \<longleftrightarrow> api MbcMasterInit = ESP_OK \<and> api MbcMasterSetup = ESP_OK \<and> api MbcMasterStart = ESP_OK \<and>
      api UartSetMode = ESP_OK" by (metis modbus_call.exhaust)
  then show ?thesis using assms
    by (auto simp: modbus_init_def Let_def table_ok stack_fresh_def bus_ready_def idle_def vMBMasterRunResRelease_def
        eMBMasterRTUStart_def vMBMasterPortSerialEnable_def)
qed

lemma connect_ready:
  assumes "stack_fresh (mbc_stack (mb_bus s))" "length (input_reg_params (mb_params s)) = 16"
    and "\<exists>api \<in> set apis. \<forall>c. api c = ESP_OK"
  shows "\<exists>s' w'. modbus_connect apis s w = Some (s', w') \<and> modbus_ready s' \<and> mb_handle s' = mb_handle s"
  using assms
proof (induction apis arbitrary: s w)
  case (Cons api apis)
  obtain s1 w1 where s1: "modbus_init api s w = (if \<forall>c. api c = ESP_OK then ESP_OK else ESP_ERR_INVALID_STATE, s1, w1)"
    "stack_fresh (mbc_stack (mb_bus s1))" "(\<forall>c. api c = ESP_OK) \<longrightarrow> bus_ready (mb_bus s1)"
    "mb_handle s1 = mb_handle s" "mb_params s1 = mb_params s"
    using init_fresh [OF Cons.prems(1), of api w] by auto
  show ?case
  proof (cases "\<forall>c. api c = ESP_OK")
    case True
    then show ?thesis using s1 Cons.prems(2) by (simp add: modbus_ready_def)
  next
    case False
    then have "\<exists>api \<in> set apis. \<forall>c. api c = ESP_OK" using Cons.prems(3) by auto
    then show ?thesis using False s1 Cons.IH [OF s1(2), of "vTaskDelay (ticks_of_ms 5000) w1"] Cons.prems(2) by auto
  qed
qed simp

lemma meter_event_total: "\<exists>w'. event_callback w (modbus_event d) = Some w'"
proof -
  have "event_callback w (modbus_event d) = event_callback_body event_callback w (modbus_event d)"
    using event_callback_unfold by metis
  then show ?thesis using phase_data_total [of "Some d" w]
    by (auto simp: event_callback_body_def modbus_event_def event_ids Let_def)
qed

text \<open>The tries for one value: the first answer that is right gives it; when there is none, the old value stays.\<close>

lemma tries_any:
  assumes "modbus_ready s" "i < num_device_parameters" "meter_honest meter env"
  shows "\<exists>s' p. modbus_tries env i n s w = Some (s', w) \<and> modbus_ready s' \<and>
    mb_handle s' = (mb_handle s)\<lparr>phase_data := (if p then put_reading meter i else id) (phase_data (mb_handle s))\<rparr> \<and>
    ((\<exists>j < n. answered meter env (mbc_requests (mb_bus s) + j)) \<longrightarrow> p)"
  using assms
proof (induction n arbitrary: s w)
  case 0
  then show ?case by (intro exI [of _ s] exI [of _ False]) simp
next
  case (Suc n)
  let ?k = "mbc_requests (mb_bus s)"
  show ?case
  proof (cases "me_answers env ?k (request_frame 2 (reg_of i) 2) = Some (right_reply meter (reg_of i))")
    case True
    then obtain s' where "modbus_try env i s w = Some (True, s', w)" "modbus_ready s'"
      "mb_handle s' = (mb_handle s)\<lparr>phase_data := put_reading meter i (phase_data (mb_handle s))\<rparr>"
      using try_right [OF Suc.prems(1,2), of env meter w] by blast
    then show ?thesis by (intro exI [of _ s'] exI [of _ True]) simp
  next
    case False
    then have "damaged (right_reply meter (reg_of i)) bs" if "me_answers env ?k (request_frame 2 (reg_of i) 2) = Some bs" for bs
      using that Suc.prems(3) unfolding meter_honest_def by metis
    then obtain s1 where s1: "modbus_try env i s w = Some (False, s1, w)" "modbus_ready s1"
      "mb_handle s1 = mb_handle s" "mbc_requests (mb_bus s1) = Suc ?k"
      using try_wrong [OF Suc.prems(1,2), of env meter w] by blast
    have n: "\<not> answered meter env ?k" using False by (auto simp: answered_def)
    obtain s' p where s': "modbus_tries env i n s1 w = Some (s', w)"
      "modbus_ready s'"
      "mb_handle s' = (mb_handle s1)\<lparr>phase_data := (if p then put_reading meter i else id) (phase_data (mb_handle s1))\<rparr>"
      "(\<exists>j < n. answered meter env (mbc_requests (mb_bus s1) + j)) \<longrightarrow> p"
      using Suc.IH [OF s1(2) Suc.prems(2,3), of w] by blast
    have p: "p" if a: "\<exists>j < Suc n. answered meter env (?k + j)"
    proof -
      obtain j where j: "j < Suc n" "answered meter env (?k + j)" using a by blast
      then obtain j' where "j = Suc j'" using n by (cases j) simp_all
      then show p using j s'(4) s1(4) by auto
    qed
    have "modbus_tries env i (Suc n) s w = Some (s', w)"
      using s1(1) s'(1) by simp
    then show ?thesis using s'(2,3) s1(3) p by (intro exI [of _ s'] exI [of _ p]) simp
  qed
qed

lemma read_any:
  assumes "modbus_ready s" "meter_honest meter env" "\<forall>i \<in> set is. i < num_device_parameters"
  shows "\<exists>s' js. modbus_read env is s w = Some (s', w) \<and> modbus_ready s' \<and> set js \<subseteq> set is \<and>
    mb_handle s' = (mb_handle s)\<lparr>phase_data := fold (put_reading meter) js (phase_data (mb_handle s))\<rparr> \<and>
    (meter_responsive meter env \<longrightarrow> js = is)"
  using assms(1,3)
proof (induction "is" arbitrary: s w)
  case Nil
  then show ?case by simp
next
  case (Cons i "is")
  obtain s1 p where s1: "modbus_tries env i 10 s w = Some (s1, w)" "modbus_ready s1"
    "mb_handle s1 = (mb_handle s)\<lparr>phase_data := (if p then put_reading meter i else id) (phase_data (mb_handle s))\<rparr>"
    "(\<exists>j < 10. answered meter env (mbc_requests (mb_bus s) + j)) \<longrightarrow> p"
    using tries_any [OF Cons.prems(1) _ assms(2), of i 10 w] Cons.prems(2) by auto
  obtain s2 js where s2: "modbus_read env is s1 w = Some (s2, w)" "modbus_ready s2"
    "set js \<subseteq> set is" "mb_handle s2 = (mb_handle s1)\<lparr>phase_data := fold (put_reading meter) js (phase_data (mb_handle s1))\<rparr>"
    "meter_responsive meter env \<longrightarrow> js = is"
    using Cons.IH [OF s1(2), of w] Cons.prems(2) by auto
  have "mb_err s \<noteq> ESP_ERR_NOT_FOUND" using Cons.prems(1) by (simp add: modbus_ready_def)
  moreover have "meter_responsive meter env \<longrightarrow> p" using s1(4) by (simp add: meter_responsive_def)
  ultimately show ?case using s1(1,3) s2
    by (intro exI [of _ s2] exI [of _ "if p then i # js else js"]) auto
qed



text \<open>A meter whose register \<open>r\<close> holds \<open>r\<close> and that answers every other request.\<close>

definition sample_meter :: "nat \<Rightarrow> 16 word" where
  "sample_meter r = of_nat r"

definition sample_line :: modbus_env where
  "sample_line = \<lparr>me_answers = (\<lambda>k f. if even k then None
       else Some (right_reply sample_meter (256 * unat (f ! 2) + unat (f ! 3)))),
     me_handlers = (\<lambda>_. None), me_requests = (\<lambda>_ _ _. None)\<rparr>"

lemma sample_address:
  "of_nat (256 * unat (of_nat (r div 256) :: byte) + unat (of_nat r :: byte)) = (of_nat r :: 16 word)"
proof -
  have "256 * (r div 256 mod 256) + r mod 256 = r mod 65536" by (simp add: mod_mult2_eq [of r 256 256, simplified])
  then have "256 * unat (of_nat (r div 256) :: byte) + unat (of_nat r :: byte) = r mod 65536" by (simp add: unat_of_nat)
  moreover have "of_nat (r mod 65536) = (of_nat r :: 16 word)" by (simp add: word_of_nat_eq_iff take_bit_eq_mod)
  ultimately show ?thesis by (simp only:)
qed

lemma sample_reply:
  "right_reply sample_meter (256 * unat (request_frame 2 r 2 ! 2) + unat (request_frame 2 r 2 ! 3)) = right_reply sample_meter r"
  using sample_address [of r] by (simp add: right_reply_def sample_meter_def request_frame_def rtu_frame_def)

lemma sample_line_meter: "meter_honest sample_meter sample_line" "meter_responsive sample_meter sample_line"
proof -
  show "meter_honest sample_meter sample_line"
    by (simp add: meter_honest_def sample_line_def sample_reply split: if_splits)
  have "\<exists>j < 10. odd (k + j)" for k :: nat by (rule exI [of _ "if even k then 1 else 0"]) simp
  then show "meter_responsive sample_meter sample_line"
    by (simp add: meter_responsive_def answered_def sample_line_def sample_reply)
qed

definition sample_stack :: mb_master where
  "sample_stack = \<lparr>eRcvState = STATE_M_RX_INIT, eSndState = STATE_M_TX_IDLE, ucMasterRcvBuf = replicate 256 0,
     usMasterRcvBufferPos = 0, ucMasterSndBuf = replicate 253 0, usMasterSendPDULength = 0, pucMasterSndBufferCur = 0,
     usMasterSndBufferCount = 0, ucMBMasterDestAddress = 0, eMBMasterCurErrorType = EV_ERROR_RESPOND_TIMEOUT,
     eMasterCurTimerMode = MB_TMODE_T35, xFrameIsBroadcast = False, ucMBFrame = FrameNull, ucRcvAddress = 0, usLength = 0,
     bTxStateEnabled = False, bRxStateEnabled = False, xEventGroupMasterHdl = {}, xSemaphorMasterHdl = False,
     mbm_reg_buffer = [], mbm_reg_buffer_size = 0, line_out = []\<rparr>"

definition sample_modbus :: modbus_state where
  "sample_modbus = \<lparr>mb_handle = \<lparr>mb_running = True, mb_update_interval_ms = 60000, mb_port_num = 0, mb_tx_pin = 3,
       mb_rx_pin = 1, mb_rst_pin = 0, mb_baudrate = 9600, mb_callback = True, phase_data = zero_phases\<rparr>,
     mb_params = zero_params,
     mb_bus = \<lparr>mbc_stack = sample_stack, mbc_requests = 0, mbm_param_descriptor_table = None\<rparr>,
     mb_err = ESP_OK, mb_value = [], mb_descriptor = None\<rparr>"

lemma sample_started:
  "map_option (app_modbus_start True) (app_modbus_init junk (Some modbus_config)) = Some (ESP_OK, mb_handle sample_modbus)"
  by (simp add: app_modbus_init_def app_modbus_start_def modbus_config_def sample_modbus_def)

lemma sample_connects:
  "\<exists>s w'. modbus_connect [\<lambda>_. ESP_FAIL, \<lambda>_. ESP_OK] sample_modbus w = Some (s, w') \<and> modbus_ready s \<and>
     mb_handle s = mb_handle sample_modbus"
proof -
  have "stack_fresh (mbc_stack (mb_bus sample_modbus))" "length (input_reg_params (mb_params sample_modbus)) = 16"
    by (simp_all add: sample_modbus_def sample_stack_def stack_fresh_def zero_params_def)
  from connect_ready [OF this, of "[\<lambda>_. ESP_FAIL, \<lambda>_. ESP_OK]" w] show ?thesis by simp
qed


text \<open>A line on which every frame arrives damaged: nothing is stored.\<close>

definition damaged_line :: modbus_env where
  "damaged_line = sample_line\<lparr>me_answers := (\<lambda>k f. map_option (\<lambda>bs. bs[3 := bs ! 3 XOR 1]) (me_answers sample_line k f))\<rparr>"

lemma damaged_line_meter: "meter_honest sample_meter damaged_line"
proof -
  have "damaged (right_reply sample_meter r) ((right_reply sample_meter r)[3 := right_reply sample_meter r ! 3 XOR 1])" for r
  proof -
    have "3 < length (right_reply sample_meter r)"
      by (simp add: right_reply_def reply_frame_def rtu_frame_def length_reg_bytes)
    moreover have "b XOR 1 \<noteq> b" for b :: byte
      using xor_cancel [of b b 1] by (metis bit_0 bit_1_0 bit_xor_iff)
    ultimately show ?thesis unfolding damaged_def by blast
  qed
  then show ?thesis by (auto simp: meter_honest_def damaged_line_def sample_line_def sample_reply split: if_splits)
qed


end
