(* ===== verification/Sw_Serial.thy ===== *)
theory Sw_Serial
  imports Prelude
begin

text \<open>
  \<^verbatim>\<open>main/include/sw_serial.h\<close>: a serial port made of two pins. The sender sets the pin and waits for a bit time by
  polling the cycle counter; the receiver is an interrupt handler that samples the pin in the same way and puts the byte
  into a ring buffer. Time is counted in processor cycles. What a poll costs is an argument: \<open>gap k\<close> cycles pass
  between the \<open>k\<close>-th reading of the counter and the next; all other instructions count as part of it. \<open>None\<close> is a
  division by zero or a wait that never ends.
\<close>

section \<open>The port\<close>

record SwSerial =
  rxPin :: int
  txPin :: int
  buffSize :: nat
  bitTime :: "32 word"
  rx_start_time :: "32 word"
  rx_end_time :: "32 word"
  invert :: bool
  overflow :: bool
  inPos :: nat
  outPos :: nat
  sw_buffer :: "byte list"

text \<open>The calls to the pin driver.\<close>

datatype gpio_call =
    PadSelect int
  | SetInput int
  | SetOutput int
  | SetLevel int bool
  | IntrType int bool
  | InstallIsrService
  | HandlerAdd int
  | HandlerRemove int
  | UninstallIsrService

text \<open>The two results of \<^verbatim>\<open>malloc\<close>: the object with what it happens to hold, and the block for the buffer.\<close>

definition sw_new ::
    "SwSerial option \<Rightarrow> (nat \<Rightarrow> byte list option) \<Rightarrow> int \<Rightarrow> int \<Rightarrow> bool \<Rightarrow> int \<Rightarrow> SwSerial option \<times> gpio_call list" where
  "sw_new mem block Tx Rx Inverse n =
     (case mem of
        None \<Rightarrow> (None, [])
      | Some tmp \<Rightarrow>
          let tmp = tmp\<lparr>invert := Inverse, overflow := False, inPos := 0, outPos := 0, buffSize := nat (n mod 2 ^ 32)\<rparr>
          in case block (buffSize tmp) of
               None \<Rightarrow> (None, [])
             | Some bs \<Rightarrow> (Some (tmp\<lparr>sw_buffer := bs, rxPin := Rx, txPin := Tx\<rparr>),
                 [PadSelect Rx, SetInput Rx, PadSelect Tx, SetOutput Tx, SetLevel Tx (\<not> Inverse)]))"

text \<open>The blocks that are given back, in order; the buffer of a port that exists is not null.\<close>

datatype sw_block = BufferBlock | PortBlock

definition sw_del :: "SwSerial \<Rightarrow> sw_block list" where
  "sw_del self = [BufferBlock, PortBlock]"

text \<open>The positions are 32-bit numbers; the buffer size is the divisor.\<close>

definition next_pos :: "nat \<Rightarrow> SwSerial \<Rightarrow> nat" where
  "next_pos i self = (i + 1) mod 2 ^ 32 mod buffSize self"

definition rx_store :: "byte \<Rightarrow> SwSerial \<Rightarrow> SwSerial option" where
  "rx_store rec self =
     (if buffSize self = 0 \<or> \<not> inPos self < length (sw_buffer self) then None
      else
        let n = next_pos (inPos self) self
        in Some (if n \<noteq> outPos self
                 then self\<lparr>sw_buffer := (sw_buffer self)[inPos self := if invert self then NOT rec else rec], inPos := n\<rparr>
                 else self\<lparr>overflow := True\<rparr>))"

definition sw_read :: "SwSerial \<Rightarrow> (int \<times> SwSerial) option" where
  "sw_read self =
     (if inPos self \<noteq> outPos self then
        if buffSize self = 0 \<or> \<not> outPos self < length (sw_buffer self) then None
        else Some (uint (sw_buffer self ! outPos self), self\<lparr>outPos := next_pos (outPos self) self\<rparr>)
      else Some (-1, self))"

definition sw_peek :: "SwSerial \<Rightarrow> int option" where
  "sw_peek self =
     (if inPos self \<noteq> outPos self then
        if outPos self < length (sw_buffer self) then Some (uint (sw_buffer self ! outPos self)) else None
      else Some (-1))"

text \<open>The difference is computed on unsigned numbers and stored in a signed one.\<close>

definition sw_any :: "SwSerial \<Rightarrow> int" where
  "sw_any self =
     (let avail = sint (of_nat (inPos self) - of_nat (outPos self) :: 32 word)
      in if avail < 0 then sint (word_of_int avail + of_nat (buffSize self) :: 32 word) else avail)"

definition sw_flush :: "SwSerial \<Rightarrow> SwSerial" where
  "sw_flush self = self\<lparr>inPos := 0, outPos := 0, overflow := False\<rparr>"

definition sw_overflow :: "SwSerial \<Rightarrow> bool" where
  "sw_overflow self = overflow self"

section \<open>Time\<close>

record cpu =
  cycles :: nat
  polls :: nat

definition getCycleCount :: "(nat \<Rightarrow> nat) \<Rightarrow> cpu \<Rightarrow> 32 word \<times> cpu" where
  "getCycleCount gap c = (of_nat (cycles c), c\<lparr>cycles := cycles c + gap (polls c), polls := polls c + 1\<rparr>)"

partial_function (option) wait_loop :: "(nat \<Rightarrow> nat) \<Rightarrow> 32 word \<Rightarrow> 32 word \<Rightarrow> cpu \<Rightarrow> cpu option" where
  "wait_loop gap start wait c =
     (case getCycleCount gap c of (now, c) \<Rightarrow> if now - start < wait then wait_loop gap start wait c else Some c)"

definition WaitBitTime :: "(nat \<Rightarrow> nat) \<Rightarrow> 32 word \<Rightarrow> cpu \<Rightarrow> cpu option" where
  "WaitBitTime gap wait c = (case getCycleCount gap c of (start, c) \<Rightarrow> wait_loop gap start wait c)"

section \<open>Sending and receiving\<close>

text \<open>A byte as it goes over the line.\<close>

definition line_byte :: "SwSerial \<Rightarrow> byte \<Rightarrow> byte" where
  "line_byte self b = (if invert self then NOT b else b)"

text \<open>Sending gives the levels set on the pin with the time of each.\<close>

fun tx_bits :: "(nat \<Rightarrow> nat) \<Rightarrow> 32 word \<Rightarrow> nat \<Rightarrow> byte \<Rightarrow> cpu \<Rightarrow> ((nat \<times> bool) list \<times> cpu) option" where
  "tx_bits gap bt 0 b c = Some ([], c)"
| "tx_bits gap bt (Suc n) b c =
     do {
       c' \<leftarrow> WaitBitTime gap bt c;
       (es, c') \<leftarrow> tx_bits gap bt n (drop_bit 1 b) c';
       Some ((cycles c, b AND 1 \<noteq> 0) # es, c')
     }"

definition sw_write :: "(nat \<Rightarrow> nat) \<Rightarrow> SwSerial \<Rightarrow> byte \<Rightarrow> cpu \<Rightarrow> ((nat \<times> bool) list \<times> cpu) option" where
  "sw_write gap self b c =
     do {
       b \<leftarrow> Some (line_byte self b);
       c1 \<leftarrow> WaitBitTime gap (bitTime self) c;
       (es, c2) \<leftarrow> tx_bits gap (bitTime self) 8 b c1;
       c3 \<leftarrow> WaitBitTime gap (bitTime self) c2;
       Some ([(cycles c, True), (cycles c, False)] @ es @ [(cycles c2, True)], c3)
     }"

text \<open>The level of a pin at a time, from the levels set on it before.\<close>

definition pin_level :: "(nat \<times> bool) list \<Rightarrow> nat \<Rightarrow> bool" where
  "pin_level es t = fold (\<lambda>(s, l) level. if s \<le> t then l else level) es True"

fun rx_bits :: "(nat \<Rightarrow> nat) \<Rightarrow> (nat \<Rightarrow> bool) \<Rightarrow> 32 word \<Rightarrow> nat \<Rightarrow> byte \<Rightarrow> cpu \<Rightarrow> (byte \<times> cpu) option" where
  "rx_bits gap line bt 0 rec c = Some (rec, c)"
| "rx_bits gap line bt (Suc n) rec c =
     do {
       c \<leftarrow> WaitBitTime gap bt c;
       rx_bits gap line bt n (if line (cycles c) then drop_bit 1 rec OR 0x80 else drop_bit 1 rec) c
     }"

definition sw_rx_handler :: "(nat \<Rightarrow> nat) \<Rightarrow> (nat \<Rightarrow> bool) \<Rightarrow> SwSerial \<Rightarrow> cpu \<Rightarrow> (SwSerial \<times> cpu) option" where
  "sw_rx_handler gap line self c =
     do {
       c \<leftarrow> WaitBitTime gap (rx_start_time self) c;
       if \<not> line (cycles c) then do {
         (rec, c) \<leftarrow> rx_bits gap line (bitTime self) 8 0 c;
         c \<leftarrow> WaitBitTime gap (rx_end_time self) c;
         self \<leftarrow> (if line (cycles c) then rx_store rec self else Some self);
         Some (self, c)
       } else Some (self, c)
     }"

text \<open>The first argument is the result of adding or removing the handler.\<close>

definition sw_enableRx :: "esp_err_t \<Rightarrow> SwSerial \<Rightarrow> bool \<Rightarrow> esp_err_t \<times> gpio_call list" where
  "sw_enableRx error self State =
     (error, if State then [IntrType (rxPin self) (invert self), InstallIsrService, HandlerAdd (rxPin self)]
             else [HandlerRemove (rxPin self), UninstallIsrService])"

definition rx_times :: "32 word \<Rightarrow> SwSerial \<Rightarrow> SwSerial" where
  "rx_times baudRate self =
     (if baudRate = 115200
      then self\<lparr>rx_start_time := bitTime self div 256, rx_end_time := bitTime self * 127 div 256\<rparr>
      else self\<lparr>rx_start_time := bitTime self div 9, rx_end_time := bitTime self * 8 div 9\<rparr>)"

definition sw_open ::
    "(nat \<Rightarrow> nat) \<Rightarrow> 32 word \<Rightarrow> esp_err_t \<Rightarrow> 32 word \<Rightarrow> SwSerial \<Rightarrow> cpu \<Rightarrow>
       (esp_err_t \<times> SwSerial \<times> (nat \<times> bool) list \<times> gpio_call list \<times> cpu) option" where
  "sw_open gap cpu_freq error baudRate self c =
     (if baudRate = 0 then None
      else
        let self = rx_times baudRate (self\<lparr>bitTime := cpu_freq div baudRate\<rparr>)
        in do {
             (es, c) \<leftarrow> sw_write gap self 0x00 c;
             (error, calls) \<leftarrow> Some (sw_enableRx error self True);
             Some (error, self, es, calls, c)
           })"

definition sw_stop :: "esp_err_t \<Rightarrow> SwSerial \<Rightarrow> esp_err_t \<times> gpio_call list" where
  "sw_stop error self = sw_enableRx error self False"

section \<open>The ring buffer is a bounded queue\<close>

text \<open>What a bounded queue does, by a sequence of operations on a list.\<close>

datatype 'a queue_op = Put 'a | Get | Peek | Count | Flush

fun spec_op :: "('a \<Rightarrow> int) \<Rightarrow> nat \<Rightarrow> 'a queue_op \<Rightarrow> 'a list \<Rightarrow> int list \<times> 'a list" where
  "spec_op val cap (Put x) q = ([], if length q < cap then q @ [x] else q)"
| "spec_op val cap Get q = (case q of [] \<Rightarrow> ([-1], []) | x # q \<Rightarrow> ([val x], q))"
| "spec_op val cap Peek q = (case q of [] \<Rightarrow> ([-1], []) | x # _ \<Rightarrow> ([val x], q))"
| "spec_op val cap Count q = ([int (length q)], q)"
| "spec_op val cap Flush q = ([], [])"

fun spec_ops :: "('a \<Rightarrow> int) \<Rightarrow> nat \<Rightarrow> 'a queue_op list \<Rightarrow> 'a list \<Rightarrow> int list \<times> 'a list" where
  "spec_ops val cap [] q = ([], q)"
| "spec_ops val cap (a # as) q =
     (let (out, q) = spec_op val cap a q; (outs, q) = spec_ops val cap as q in (out @ outs, q))"

text \<open>The same sequence on an implementation.\<close>

fun run_ops :: "('a queue_op \<Rightarrow> 's \<Rightarrow> (int list \<times> 's) option) \<Rightarrow> 'a queue_op list \<Rightarrow> 's \<Rightarrow> (int list \<times> 's) option" where
  "run_ops step [] s = Some ([], s)"
| "run_ops step (a # as) s =
     do { (out, s) \<leftarrow> step a s; (outs, s) \<leftarrow> run_ops step as s; Some (out @ outs, s) }"

locale bounded_queue =
  fixes queue :: "'s \<Rightarrow> 'a list"
    and ok :: "'s \<Rightarrow> bool"
    and cap :: "'s \<Rightarrow> nat"
    and val :: "'a \<Rightarrow> int"
    and step :: "'a queue_op \<Rightarrow> 's \<Rightarrow> (int list \<times> 's) option"
  assumes step_simulates: "ok s \<Longrightarrow>
    \<exists>s'. step a s = Some (fst (spec_op val (cap s) a (queue s)), s') \<and> ok s' \<and> cap s' = cap s \<and>
      queue s' = snd (spec_op val (cap s) a (queue s))"
    and queue_fits: "ok s \<Longrightarrow> length (queue s) \<le> cap s"
begin

lemma run_simulates:
  "ok s \<Longrightarrow> \<exists>s'. run_ops step as s = Some (fst (spec_ops val (cap s) as (queue s)), s') \<and> ok s' \<and> cap s' = cap s \<and>
     queue s' = snd (spec_ops val (cap s) as (queue s)) \<and> length (queue s') \<le> cap s"
proof (induction as arbitrary: s)
  case Nil
  then show ?case using queue_fits [of s] by simp
next
  case (Cons a as)
  obtain s1 where s1: "step a s = Some (fst (spec_op val (cap s) a (queue s)), s1)" "ok s1" "cap s1 = cap s"
    "queue s1 = snd (spec_op val (cap s) a (queue s))" using step_simulates [OF Cons.prems, of a] by blast
  then show ?case using Cons.IH [OF s1(2)] by (auto simp: Let_def split_beta)
qed

end

text \<open>The operations of the port; a byte that is put is one that arrives on the line.\<close>

definition sw_step :: "byte queue_op \<Rightarrow> SwSerial \<Rightarrow> (int list \<times> SwSerial) option" where
  "sw_step a self =
     (case a of
        Put b \<Rightarrow> map_option (Pair []) (rx_store (line_byte self b) self)
      | Get \<Rightarrow> map_option (\<lambda>(x, self). ([x], self)) (sw_read self)
      | Peek \<Rightarrow> map_option (\<lambda>x. ([x], self)) (sw_peek self)
      | Count \<Rightarrow> Some ([sw_any self], self)
      | Flush \<Rightarrow> Some ([], sw_flush self))"

definition sw_inv :: "SwSerial \<Rightarrow> bool" where
  "sw_inv s \<longleftrightarrow> 0 < buffSize s \<and> buffSize s < 2 ^ 31 \<and> length (sw_buffer s) = buffSize s \<and>
     inPos s < buffSize s \<and> outPos s < buffSize s"

definition sw_count :: "SwSerial \<Rightarrow> nat" where
  "sw_count s = (if outPos s \<le> inPos s then inPos s - outPos s else inPos s + buffSize s - outPos s)"

definition sw_queue :: "SwSerial \<Rightarrow> byte list" where
  "sw_queue s = map (\<lambda>i. sw_buffer s ! ((outPos s + i) mod buffSize s)) [0..<sw_count s]"

lemma next_pos_less: "sw_inv s \<Longrightarrow> i < buffSize s \<Longrightarrow> next_pos i s = (if i + 1 = buffSize s then 0 else i + 1)"
  by (auto simp: next_pos_def sw_inv_def)

lemma mod_wrap: "a < n \<Longrightarrow> i < n \<Longrightarrow> (a + i) mod n = (if a + i < n then a + i else a + i - n)" for n :: nat
  by (simp add: mod_if)

lemma sw_count_less: "sw_inv s \<Longrightarrow> sw_count s < buffSize s"
  by (auto simp: sw_count_def sw_inv_def)

lemma length_sw_queue [simp]: "length (sw_queue s) = sw_count s"
  by (simp add: sw_queue_def)

lemma sw_queue_nth: "sw_inv s \<Longrightarrow> i < sw_count s \<Longrightarrow> sw_queue s ! i =
    sw_buffer s ! (if outPos s + i < buffSize s then outPos s + i else outPos s + i - buffSize s)"
  using sw_count_less [of s] by (auto simp: sw_queue_def mod_wrap sw_inv_def)

lemma put_queue:
  assumes "sw_inv s"
  shows "\<exists>s'. rx_store (line_byte s b) s = Some s' \<and> sw_inv s' \<and> buffSize s' = buffSize s \<and>
    sw_queue s' = (if sw_count s < buffSize s - 1 then sw_queue s @ [b] else sw_queue s) \<and>
    overflow s' = (overflow s \<or> \<not> sw_count s < buffSize s - 1)"
proof (cases "next_pos (inPos s) s = outPos s")
  case True
  then have "\<not> sw_count s < buffSize s - 1"
    using assms by (auto simp: next_pos_less sw_inv_def sw_count_def split: if_splits)
  moreover have "sw_inv (s\<lparr>overflow := True\<rparr>)" "sw_queue (s\<lparr>overflow := True\<rparr>) = sw_queue s"
    using assms by (simp_all add: sw_inv_def sw_queue_def sw_count_def)
  ultimately show ?thesis using True assms by (simp add: rx_store_def Let_def sw_inv_def)
next
  case False
  let ?s = "s\<lparr>sw_buffer := (sw_buffer s)[inPos s := b], inPos := next_pos (inPos s) s\<rparr>"
  have st: "rx_store (line_byte s b) s = Some ?s"
    using False assms by (simp add: rx_store_def Let_def sw_inv_def line_byte_def)
  have inv: "sw_inv ?s" using assms next_pos_less [OF assms, of "inPos s"] by (auto simp: sw_inv_def)
  have c: "sw_count s < buffSize s - 1" "sw_count ?s = Suc (sw_count s)"
    using False assms next_pos_less [OF assms, of "inPos s"] by (auto simp: sw_inv_def sw_count_def split: if_splits)
  have "sw_queue ?s = sw_queue s @ [b]"
  proof (rule nth_equalityI)
    fix i
    assume "i < length (sw_queue ?s)"
    then show "sw_queue ?s ! i = (sw_queue s @ [b]) ! i"
      using c assms sw_queue_nth [OF inv, of i] sw_queue_nth [OF assms, of i]
      by (auto simp: nth_append nth_list_update sw_inv_def sw_count_def split: if_splits)
  qed (simp add: c)
  then show ?thesis using st inv c(1) by simp
qed

lemma get_queue:
  assumes "sw_inv s"
  shows "\<exists>s'. sw_read s = Some (case sw_queue s of [] \<Rightarrow> -1 | b # _ \<Rightarrow> uint b, s') \<and> sw_inv s' \<and> buffSize s' = buffSize s \<and>
    sw_queue s' = tl (sw_queue s)"
proof (cases "inPos s = outPos s")
  case True
  then show ?thesis using assms by (simp add: sw_read_def sw_queue_def sw_count_def)
next
  case False
  let ?s = "s\<lparr>outPos := next_pos (outPos s) s\<rparr>"
  have inv: "sw_inv ?s" using assms next_pos_less [OF assms, of "outPos s"] by (auto simp: sw_inv_def)
  have c: "sw_count s = Suc (sw_count ?s)"
    using False assms next_pos_less [OF assms, of "outPos s"] by (auto simp: sw_inv_def sw_count_def split: if_splits)
  then obtain b q where q: "sw_queue s = b # q" by (metis length_sw_queue length_Suc_conv)
  have b: "b = sw_buffer s ! outPos s"
    using sw_queue_nth [OF assms, of 0] c q assms by (simp add: sw_inv_def)
  have "sw_queue ?s = tl (sw_queue s)"
  proof (rule nth_equalityI)
    fix i
    assume i: "i < length (sw_queue ?s)"
    then have "i < buffSize s" "Suc (outPos s) = buffSize s \<Longrightarrow> Suc (outPos s + i) - buffSize s = i"
      using sw_count_less [OF inv] by simp_all
    then show "sw_queue ?s ! i = tl (sw_queue s) ! i"
      using i c assms next_pos_less [OF assms, of "outPos s"] sw_queue_nth [OF inv, of i] sw_queue_nth [OF assms, of "Suc i"]
      by (auto simp: nth_tl sw_inv_def split: if_splits)
  qed (simp add: c)
  moreover have "sw_read s = Some (uint b, ?s)" using False assms b by (auto simp: sw_read_def sw_inv_def)
  ultimately show ?thesis using inv q by simp
qed

lemma peek_queue: "sw_inv s \<Longrightarrow> sw_peek s = Some (case sw_queue s of [] \<Rightarrow> -1 | b # _ \<Rightarrow> uint b)"
  using sw_queue_nth [of s 0] length_sw_queue [of s]
  by (cases "sw_queue s") (auto simp: sw_peek_def sw_inv_def sw_count_def split: if_splits)

lemma any_queue:
  assumes "sw_inv s"
  shows "sw_any s = int (sw_count s)"
proof -
  let ?d = "int (inPos s) - int (outPos s)"
  have r: "sint (word_of_int x :: 32 word) = x" if "- (2 ^ 31) \<le> x" "x < 2 ^ 31" for x
    using that by (simp add: signed_of_int signed_take_bit_int_eq_self)
  have "(of_nat (inPos s) - of_nat (outPos s) :: 32 word) = word_of_int ?d" by simp
  moreover have "sint (word_of_int ?d :: 32 word) = ?d" using assms by (intro r) (auto simp: sw_inv_def)
  moreover have "word_of_int ?d + of_nat (buffSize s) = (word_of_int (?d + int (buffSize s)) :: 32 word)" by simp
  moreover have "sint (word_of_int (?d + int (buffSize s)) :: 32 word) = ?d + int (buffSize s)" if "?d < 0"
    using assms that by (intro r) (auto simp: sw_inv_def)
  ultimately have "sw_any s = (if ?d < 0 then ?d + int (buffSize s) else ?d)"
    unfolding sw_any_def Let_def by (simp only: split: if_split) simp
  then show ?thesis using assms by (auto simp: sw_count_def sw_inv_def)
qed

interpretation sw: bounded_queue sw_queue sw_inv "\<lambda>s. buffSize s - 1" uint sw_step
proof
  fix s a
  assume i: "sw_inv s"
  show "\<exists>s'. sw_step a s = Some (fst (spec_op uint (buffSize s - 1) a (sw_queue s)), s') \<and> sw_inv s' \<and>
      buffSize s' - 1 = buffSize s - 1 \<and> sw_queue s' = snd (spec_op uint (buffSize s - 1) a (sw_queue s))"
  proof (cases a)
    case (Put b)
    then show ?thesis using put_queue [OF i, of b] by (auto simp: sw_step_def)
  next
    case Get
    then show ?thesis using get_queue [OF i] by (auto simp: sw_step_def split: list.splits)
  next
    case Flush
    then show ?thesis using i by (simp add: sw_step_def sw_flush_def sw_inv_def sw_queue_def sw_count_def)
  qed (use i in \<open>simp_all add: sw_step_def peek_queue any_queue split: list.splits\<close>)
next
  fix s
  assume "sw_inv s"
  then show "length (sw_queue s) \<le> buffSize s - 1" using sw_count_less [of s] by simp
qed

section \<open>Timing\<close>

text \<open>A poll takes at least one cycle and at most \<open>g\<close>. A wait then ends, also when the counter overflows during it, and
  takes at most two polls longer than asked for.\<close>

abbreviation paced :: "(nat \<Rightarrow> nat) \<Rightarrow> nat \<Rightarrow> bool" where
  "paced gap g \<equiv> \<forall>k. 1 \<le> gap k \<and> gap k \<le> g"

lemma wait_loop_ends:
  assumes "paced gap g" "unat wait + g < 2 ^ 32"
  shows "e \<le> unat wait + g \<Longrightarrow> cycles c = s + e \<Longrightarrow>
    \<exists>c'. wait_loop gap (of_nat s) wait c = Some c' \<and> s + unat wait < cycles c' \<and> cycles c' \<le> s + unat wait + 2 * g"
proof (induction "unat wait - e" arbitrary: c e rule: less_induct)
  case less
  let ?c = "c\<lparr>cycles := cycles c + gap (polls c), polls := polls c + 1\<rparr>"
  have g: "1 \<le> gap (polls c)" "gap (polls c) \<le> g" using assms(1) by auto
  have "of_nat (cycles c) - of_nat s = (of_nat e :: 32 word)" using less.prems(2) by simp
  moreover have "(of_nat e :: 32 word) < wait \<longleftrightarrow> e < unat wait"
    using less.prems(1) assms(2) by (simp add: word_less_nat_alt unat_of_nat)
  ultimately have u: "wait_loop gap (of_nat s) wait c =
      (if e < unat wait then wait_loop gap (of_nat s) wait ?c else Some ?c)"
    by (subst wait_loop.simps) (simp add: getCycleCount_def)
  show ?case
  proof (cases "e < unat wait")
    case True
    have "cycles ?c = s + (e + gap (polls c))" "e + gap (polls c) \<le> unat wait + g" "unat wait - (e + gap (polls c)) < unat wait - e"
      using True less.prems(2) g by auto
    then show ?thesis using u True less.hyps [of "e + gap (polls c)" ?c] by auto
  next
    case False
    then show ?thesis using u g less.prems by auto
  qed
qed

lemma wait_ends:
  assumes "paced gap g" "unat wait + g < 2 ^ 32"
  shows "\<exists>c'. WaitBitTime gap wait c = Some c' \<and> cycles c + unat wait < cycles c' \<and> cycles c' \<le> cycles c + unat wait + 2 * g"
proof -
  have "gap (polls c) \<le> unat wait + g" using assms(1) by (simp add: trans_le_add2)
  from wait_loop_ends [OF assms this, of "c\<lparr>cycles := cycles c + gap (polls c), polls := polls c + 1\<rparr>" "cycles c"]
  show ?thesis by (simp add: WaitBitTime_def getCycleCount_def)
qed

text \<open>The times of successive waits.\<close>

definition ticks :: "nat \<Rightarrow> nat \<Rightarrow> nat \<Rightarrow> nat \<Rightarrow> (nat \<Rightarrow> nat) \<Rightarrow> bool" where
  "ticks bt g n t f \<longleftrightarrow> f 0 = t \<and> (\<forall>i < n. f i + bt < f (Suc i) \<and> f (Suc i) \<le> f i + bt + 2 * g)"

lemma ticks_bounds:
  assumes "ticks bt g n t f"
  shows "i \<le> n \<Longrightarrow> t + i * bt \<le> f i \<and> f i \<le> t + i * bt + i * (2 * g)"
proof (induction i)
  case (Suc i)
  then have "f i + bt < f (Suc i)" "f (Suc i) \<le> f i + bt + 2 * g" using assms by (simp_all add: ticks_def)
  then show ?case using Suc by simp
qed (use assms in \<open>simp add: ticks_def\<close>)

lemma ticks_Suc: "t + bt < t' \<Longrightarrow> t' \<le> t + bt + 2 * g \<Longrightarrow> ticks bt g n t' f \<Longrightarrow> ticks bt g (Suc n) t (case_nat t f)"
  by (auto simp: ticks_def split: nat.splits)

lemma tx_bits_ticks:
  assumes "paced gap g" "unat bt + g < 2 ^ 32"
  shows "\<exists>f c'. tx_bits gap bt n b c = Some (map (\<lambda>i. (f i, bit b i)) [0..<n], c') \<and> ticks (unat bt) g n (cycles c) f \<and>
    cycles c' = f n"
proof (induction n arbitrary: b c)
  case 0
  then show ?case by (auto simp: ticks_def)
next
  case (Suc n)
  obtain c1 where c1: "WaitBitTime gap bt c = Some c1" "cycles c + unat bt < cycles c1" "cycles c1 \<le> cycles c + unat bt + 2 * g"
    using wait_ends [OF assms] by blast
  obtain f c' where f: "tx_bits gap bt n (drop_bit 1 b) c1 = Some (map (\<lambda>i. (f i, bit (drop_bit 1 b) i)) [0..<n], c')"
    "ticks (unat bt) g n (cycles c1) f" "cycles c' = f n" using Suc.IH by blast
  have "map (\<lambda>i. (case_nat (cycles c) f i, bit b i)) [0..<Suc n] =
      (cycles c, bit b 0) # map (\<lambda>i. (f i, bit (drop_bit 1 b) i)) [0..<n]"
    by (simp add: upt_conv_Cons map_Suc_upt [symmetric] comp_def bit_drop_bit_eq del: upt_Suc)
  moreover have "(b AND 1 \<noteq> 0) = bit b 0" using and_exp_eq_0_iff_not_bit [of b 0] by simp
  ultimately show ?case using c1 f ticks_Suc [OF c1(2,3) f(2)]
    by (intro exI [of _ "case_nat (cycles c) f"] exI [of _ c']) simp
qed

lemma rx_bits_ticks:
  assumes "paced gap g" "unat bt + g < 2 ^ 32"
  shows "n \<le> 8 \<Longrightarrow> \<exists>rec' r c'. rx_bits gap line bt n rec c = Some (rec', c') \<and> ticks (unat bt) g n (cycles c) r \<and>
    cycles c' = r n \<and> (\<forall>i < 8. bit rec' i = (if i + n < 8 then bit rec (i + n) else line (r (Suc (i + n - 8)))))"
proof (induction n arbitrary: rec c)
  case 0
  then show ?case by (auto simp: ticks_def)
next
  case (Suc n)
  obtain c1 where c1: "WaitBitTime gap bt c = Some c1" "cycles c + unat bt < cycles c1" "cycles c1 \<le> cycles c + unat bt + 2 * g"
    using wait_ends [OF assms] by blast
  let ?rec = "if line (cycles c1) then drop_bit 1 rec OR 0x80 else drop_bit 1 rec"
  obtain rec' r c' where r: "rx_bits gap line bt n ?rec c1 = Some (rec', c')" "ticks (unat bt) g n (cycles c1) r" "cycles c' = r n"
    "\<forall>i < 8. bit rec' i = (if i + n < 8 then bit ?rec (i + n) else line (r (Suc (i + n - 8))))"
    using Suc.IH [of ?rec c1] Suc.prems by auto
  have "(0x80 :: byte) = 2 ^ 7" by simp
  then have m: "bit (0x80 :: byte) j \<longleftrightarrow> j = 7" for j by (simp only: bit_exp_iff) auto
  have "\<not> bit rec 8" using bit_imp_le_length [of rec 8] by auto
  then have b: "bit ?rec j = (if j < 7 then bit rec (Suc j) else line (cycles c1))" if "j < 8" for j
    using that less_Suc_eq [of j 7] m [of j] by (cases "j = 7") (simp_all add: bit_or_iff bit_drop_bit_eq)
  have "\<forall>i < 8. bit rec' i = (if i + Suc n < 8 then bit rec (i + Suc n) else line (case_nat (cycles c) r (Suc (i + Suc n - 8))))"
  proof (intro allI impI)
    fix i :: nat
    assume i: "i < 8"
    consider "i + n < 7" | "i + n = 7" | "8 \<le> i + n" by linarith
    then show "bit rec' i = (if i + Suc n < 8 then bit rec (i + Suc n) else line (case_nat (cycles c) r (Suc (i + Suc n - 8))))"
    proof cases
      case 1
      then show ?thesis using r(4) i b [of "i + n"] by simp
    next
      case 2
      then show ?thesis using r(2,4) i b [of "i + n"] by (simp add: ticks_def)
    next
      case 3
      then have "i + Suc n - 8 = Suc (i + n - 8)" by simp
      then show ?thesis using 3 r(4) i by simp
    qed
  qed
  then show ?case using c1 r(1,3) ticks_Suc [OF c1(2,3) r(2)]
    by (intro exI [of _ rec'] exI [of _ "case_nat (cycles c) r"] exI [of _ c']) simp
qed

lemma ticks_mono: "ticks bt g n t f \<Longrightarrow> i \<le> j \<Longrightarrow> j \<le> n \<Longrightarrow> f i \<le> f j"
proof (induction j)
  case (Suc j)
  have "f j + bt < f (Suc j)" using Suc.prems by (simp add: ticks_def)
  then show ?case using Suc by (cases "i = Suc j") auto
qed simp

lemma pin_level_at:
  assumes "s \<le> t" "\<forall>e \<in> set vs. t < fst e"
  shows "pin_level (us @ (s, l) # vs) t = l"
proof -
  have "\<forall>e \<in> set vs. t < fst e \<Longrightarrow> fold (\<lambda>(s, l) level. if s \<le> t then l else level) vs x = x" for x
    by (induction vs) auto
  then show ?thesis using assms by (simp add: pin_level_def)
qed

text \<open>What is on the line while a byte is sent: the start bit, the eight bits and the stop bit.\<close>

lemma write_wave:
  assumes "paced gap g" "unat (bitTime self) + g < 2 ^ 32"
  shows "\<exists>es c' f. sw_write gap self b c = Some (es, c') \<and> ticks (unat (bitTime self)) g 9 (cycles c) f \<and>
    (\<forall>t. cycles c \<le> t \<longrightarrow> t < f 1 \<longrightarrow> \<not> pin_level es t) \<and>
    (\<forall>i < 8. \<forall>t. f (Suc i) \<le> t \<longrightarrow> t < f (Suc (Suc i)) \<longrightarrow> pin_level es t = bit (line_byte self b) i) \<and>
    (\<forall>t. f 9 \<le> t \<longrightarrow> pin_level es t)"
proof -
  let ?bt = "bitTime self"
  obtain c1 where c1: "WaitBitTime gap ?bt c = Some c1" "cycles c + unat ?bt < cycles c1" "cycles c1 \<le> cycles c + unat ?bt + 2 * g"
    using wait_ends [OF assms] by blast
  obtain f c2 where f: "tx_bits gap ?bt 8 (line_byte self b) c1 = Some (map (\<lambda>i. (f i, bit (line_byte self b) i)) [0..<8], c2)"
    "ticks (unat ?bt) g 8 (cycles c1) f" "cycles c2 = f 8" using tx_bits_ticks [OF assms] by blast
  obtain c3 where c3: "WaitBitTime gap ?bt c2 = Some c3" using wait_ends [OF assms] by blast
  let ?bits = "\<lambda>i j. map (\<lambda>i. (f i, bit (line_byte self b) i)) [i..<j]"
  let ?es = "[(cycles c, True), (cycles c, False)] @ ?bits 0 8 @ [(f 8, True)]"
  have w: "sw_write gap self b c = Some (?es, c3)" using c1 f c3 by (simp add: sw_write_def)
  have late: "\<forall>e \<in> set (?bits i 8 @ [(f 8, True)]). f i \<le> fst e" if "i \<le> 8" for i
    using that ticks_mono [OF f(2)] by auto
  have l0: "\<not> pin_level ?es t" if "cycles c \<le> t" "t < f 0" for t
    using pin_level_at [of "cycles c" t "?bits 0 8 @ [(f 8, True)]" "[(cycles c, True)]" False] late [of 0] that by force
  have li: "pin_level ?es t = bit (line_byte self b) i" if i: "i < 8" "f i \<le> t" "t < f (Suc i)" for i t
  proof -
    have "[0..<8] = [0..<i] @ [i..<8]" using upt_add_eq_append [of 0 i "8 - i"] i(1) by simp
    then have "[0..<8] = [0..<i] @ i # [Suc i..<8]" using upt_conv_Cons [OF i(1)] by simp
    then have e: "?es = ([(cycles c, True), (cycles c, False)] @ ?bits 0 i) @ (f i, bit (line_byte self b) i) # ?bits (Suc i) 8 @ [(f 8, True)]"
      by (simp only: map_append list.map append_assoc append_Cons)
    have "\<forall>e \<in> set (?bits (Suc i) 8 @ [(f 8, True)]). t < fst e"
      by (intro ballI less_le_trans [OF i(3)]) (rule bspec [OF late [OF Suc_leI [OF i(1)]]])
    then show ?thesis unfolding e by (rule pin_level_at [OF i(2)])
  qed
  have l8: "pin_level ?es t" if "f 8 \<le> t" for t
    using pin_level_at [of "f 8" t "[]" "[(cycles c, True), (cycles c, False)] @ ?bits 0 8" True] that by simp
  have "ticks (unat ?bt) g (Suc 8) (cycles c) (case_nat (cycles c) f)" by (rule ticks_Suc [OF c1(2,3) f(2)])
  then have tk: "ticks (unat ?bt) g 9 (cycles c) (case_nat (cycles c) f)" by simp
  have n: "case_nat (cycles c) f 1 = f 0" "case_nat (cycles c) f 9 = f 8" "case_nat (cycles c) f (Suc i) = f i" for i
    by simp_all
  show ?thesis
    by (rule exI [of _ ?es], rule exI [of _ c3], rule exI [of _ "case_nat (cycles c) f"], unfold n)
      (intro conjI allI impI w tk l0 li l8)
qed

text \<open>When the handler may start: \<open>lat\<close> cycles after the edge of the start bit. The stop bit must have begun when the handler
  looks for it, and no bit may have ended when it is sampled.\<close>

definition timing_ok :: "nat \<Rightarrow> nat \<Rightarrow> SwSerial \<Rightarrow> bool" where
  "timing_ok g lat s \<longleftrightarrow> unat (bitTime s) + g < 2 ^ 32 \<and> unat (rx_end_time s) \<le> unat (bitTime s) \<and>
     lat + unat (rx_start_time s) + 18 * g \<le> unat (bitTime s) \<and>
     unat (bitTime s) + 18 * g \<le> lat + unat (rx_start_time s) + unat (rx_end_time s)"

lemma frame_sampled:
  assumes "paced gap g" "timing_ok g lat s" "cycles cr = t0 + lat" "ticks (unat (bitTime s)) g 9 t0 f"
    and "\<And>t. t0 \<le> t \<Longrightarrow> t < f 1 \<Longrightarrow> \<not> line t"
    and "\<And>i t. i < 8 \<Longrightarrow> f (Suc i) \<le> t \<Longrightarrow> t < f (Suc (Suc i)) \<Longrightarrow> line t = bit (b :: byte) i"
    and "\<And>t. f 9 \<le> t \<Longrightarrow> line t"
  shows "\<exists>cr'. sw_rx_handler gap line s cr = map_option (\<lambda>s. (s, cr')) (rx_store b s)"
proof -
  let ?bt = "unat (bitTime s)"
  note tm = assms(2) [unfolded timing_ok_def]
  have wb: "?bt + g < 2 ^ 32" "unat (rx_start_time s) + g < 2 ^ 32" "unat (rx_end_time s) + g < 2 ^ 32" using tm by auto
  obtain c1 where c1: "WaitBitTime gap (rx_start_time s) cr = Some c1" "cycles cr + unat (rx_start_time s) < cycles c1"
    "cycles c1 \<le> cycles cr + unat (rx_start_time s) + 2 * g" using wait_ends [OF assms(1) wb(2)] by blast
  obtain rec r c2 where r: "rx_bits gap line (bitTime s) 8 0 c1 = Some (rec, c2)" "ticks ?bt g 8 (cycles c1) r" "cycles c2 = r 8"
    "\<forall>i < 8. bit rec i = line (r (Suc i))" using rx_bits_ticks [OF assms(1) wb(1), of 8 line 0 c1] by auto
  obtain c3 where c3: "WaitBitTime gap (rx_end_time s) c2 = Some c3" "cycles c2 + unat (rx_end_time s) < cycles c3"
    using wait_ends [OF assms(1) wb(3)] by blast
  have up: "t0 + Suc i * ?bt < f (Suc i)" if "i < 9" for i
  proof -
    have "t0 + i * ?bt \<le> f i" "f i + ?bt < f (Suc i)" using ticks_bounds [OF assms(4), of i] assms(4) that by (auto simp: ticks_def)
    then show ?thesis by simp
  qed
  have "\<not> line (cycles c1)" using assms(5) [of "cycles c1"] c1(2,3) assms(3) tm up [of 0] by simp
  moreover have "rec = b"
  proof (rule bit_word_eqI)
    fix i
    assume "i < LENGTH(8)"
    then have i: "i < 8" by simp
    then have g: "Suc i * (2 * g) \<le> 16 * g" by simp
    have f: "f (Suc i) \<le> t0 + Suc i * ?bt + Suc i * (2 * g)" using ticks_bounds [OF assms(4), of "Suc i"] i by simp
    have s: "cycles c1 + Suc i * ?bt \<le> r (Suc i)" "r (Suc i) \<le> cycles c1 + Suc i * ?bt + Suc i * (2 * g)"
      using ticks_bounds [OF r(2), of "Suc i"] i by simp_all
    have "f (Suc i) \<le> r (Suc i)" using f s(1) g c1(2) assms(3) tm by linarith
    moreover have "r (Suc i) \<le> t0 + Suc i * ?bt + ?bt" using s(2) g c1(3) assms(3) tm by linarith
    then have "r (Suc i) < f (Suc (Suc i))" using up [of "Suc i"] i by simp
    ultimately show "bit rec i = bit b i" using r(4) i assms(6) [OF i, of "r (Suc i)"] by simp
  qed
  moreover have "line (cycles c3)"
  proof (rule assms(7))
    have "f 9 \<le> t0 + 9 * ?bt + 18 * g" using ticks_bounds [OF assms(4), of 9] by simp
    moreover have "cycles c1 + 8 * ?bt \<le> cycles c2" using ticks_bounds [OF r(2), of 8] r(3) by simp
    ultimately show "f 9 \<le> cycles c3" using c3(2) c1(2) assms(3) tm by linarith
  qed
  ultimately have "sw_rx_handler gap line s cr = map_option (\<lambda>s. (s, c3)) (rx_store b s)"
    using c1(1) r(1) c3(1) by (simp add: sw_rx_handler_def) (cases "rx_store b s"; simp)
  then show ?thesis by blast
qed

text \<open>A handler that starts too early looks for the stop bit while the last data bit is still on the line: then every
  byte whose last bit is zero on the line is dropped without a trace.\<close>

lemma early_stop_lost:
  assumes "paced gap_t g" "paced gap_r g" "bitTime tx = bitTime rx" "cycles cr = cycles ct + lat" "unat (bitTime rx) + g < 2 ^ 32"
    and "lat + unat (rx_start_time rx) + unat (rx_end_time rx) + 20 * g \<le> unat (bitTime rx)"
    and "16 * g \<le> lat + unat (rx_start_time rx) + unat (rx_end_time rx)" "\<not> bit (line_byte tx b) 7"
  shows "\<exists>es ct' cr'. sw_write gap_t tx b ct = Some (es, ct') \<and> sw_rx_handler gap_r (pin_level es) rx cr = Some (rx, cr')"
proof -
  let ?bt = "unat (bitTime rx)"
  from write_wave [OF assms(1), of tx b ct] assms(3,5) obtain es ct' f where w: "sw_write gap_t tx b ct = Some (es, ct')"
    "ticks ?bt g 9 (cycles ct) f"
    "\<forall>i < 8. \<forall>t. f (Suc i) \<le> t \<longrightarrow> t < f (Suc (Suc i)) \<longrightarrow> pin_level es t = bit (line_byte tx b) i" by auto
  have wb: "unat (rx_start_time rx) + g < 2 ^ 32" "unat (rx_end_time rx) + g < 2 ^ 32" using assms(5,6) by auto
  obtain c1 where c1: "WaitBitTime gap_r (rx_start_time rx) cr = Some c1" "cycles cr + unat (rx_start_time rx) < cycles c1"
    "cycles c1 \<le> cycles cr + unat (rx_start_time rx) + 2 * g" using wait_ends [OF assms(2) wb(1)] by blast
  obtain rec r c2 where r: "rx_bits gap_r (pin_level es) (bitTime rx) 8 0 c1 = Some (rec, c2)" "ticks ?bt g 8 (cycles c1) r"
    "cycles c2 = r 8" using rx_bits_ticks [OF assms(2,5), of 8 "pin_level es" 0 c1] by auto
  obtain c3 where c3: "WaitBitTime gap_r (rx_end_time rx) c2 = Some c3" "cycles c2 + unat (rx_end_time rx) < cycles c3"
    "cycles c3 \<le> cycles c2 + unat (rx_end_time rx) + 2 * g" using wait_ends [OF assms(2) wb(2)] by blast
  have "cycles c1 + 8 * ?bt \<le> cycles c2" "cycles c2 \<le> cycles c1 + 8 * ?bt + 16 * g" "f 8 \<le> cycles ct + 8 * ?bt + 16 * g"
    "cycles ct + 8 * ?bt \<le> f 8" using ticks_bounds [OF r(2), of 8] ticks_bounds [OF w(2), of 8] r(3) by simp_all
  moreover have "f 8 + ?bt < f (Suc 8)" using w(2) unfolding ticks_def by (elim conjE allE [of _ 8]) simp
  ultimately have "f 8 \<le> cycles c3" "cycles c3 < f (Suc 8)" using c1(2,3) c3(2,3) assms(4,6,7) by linarith+
  moreover have "(8 :: nat) = Suc 7" by simp
  ultimately have "\<not> pin_level es (cycles c3)" using w(3) assms(8) by (metis lessI)
  then show ?thesis using w(1) c1(1) r(1) c3(1) by (simp add: sw_rx_handler_def)
qed

text \<open>A new port is an empty queue.\<close>

lemma sw_new_ok:
  assumes "block (nat n) = Some bs" "length bs = nat n" "0 < n" "n < 2 ^ 31"
  shows "\<exists>s calls. sw_new (Some junk) block Tx Rx Inverse n = (Some s, calls) \<and> sw_inv s \<and> sw_queue s = [] \<and> \<not> sw_overflow s"
  using assms by (simp add: sw_new_def Let_def sw_inv_def sw_queue_def sw_count_def sw_overflow_def)

lemma sw_open_ok:
  assumes "sw_inv s" "sw_open gap freq error baud s c = Some (e, s', es, calls, c')"
  shows "sw_inv s' \<and> sw_queue s' = sw_queue s"
proof -
  let ?s = "rx_times baud (s\<lparr>bitTime := freq div baud\<rparr>)"
  have "s' = ?s" using assms(2) by (auto simp: sw_open_def sw_enableRx_def Let_def split: if_splits bind_splits)
  moreover have "sw_inv ?s \<and> sw_queue ?s = sw_queue s"
    using assms(1) by (simp add: rx_times_def sw_inv_def sw_queue_def sw_count_def)
  ultimately show ?thesis by simp
qed

section \<open>What it shows\<close>

text \<open>C40. The ring buffer is a bounded queue: every sequence of arriving bytes, reads, peeks, counts and flushes gives
  exactly the results it gives on a list that holds at most one byte less than the buffer has.\<close>

theorem sw_ring_is_queue:
  assumes "sw_inv s"
  shows "\<exists>s'. run_ops sw_step ops s = Some (fst (spec_ops uint (buffSize s - 1) ops (sw_queue s)), s') \<and> sw_inv s' \<and>
    sw_queue s' = snd (spec_ops uint (buffSize s - 1) ops (sw_queue s)) \<and> length (sw_queue s') < buffSize s"
proof -
  have "0 < buffSize s" using assms by (simp add: sw_inv_def)
  then show ?thesis using sw.run_simulates [OF assms, of ops] by auto
qed

text \<open>C39. A byte sent with \<^verbatim>\<open>sw_write\<close> is the byte the interrupt handler of the other side stores, or the
  overflow is recorded when its buffer is full, for every course of the polls on both sides and across overflows of the
  cycle counter, when the handler starts within the window \<open>timing_ok\<close>; both loops of waits end.\<close>

theorem sw_byte_arrives:
  assumes "paced gap_t g" "paced gap_r g" "bitTime tx = bitTime rx" "invert tx = invert rx" "sw_inv rx"
    and "timing_ok g lat rx" "cycles cr = cycles ct + lat"
  shows "\<exists>es ct' rx' cr'. sw_write gap_t tx b ct = Some (es, ct') \<and>
    sw_rx_handler gap_r (pin_level es) rx cr = Some (rx', cr') \<and> sw_inv rx' \<and>
    sw_queue rx' = (if length (sw_queue rx) < buffSize rx - 1 then sw_queue rx @ [b] else sw_queue rx) \<and>
    overflow rx' = (overflow rx \<or> \<not> length (sw_queue rx) < buffSize rx - 1)"
proof -
  have "unat (bitTime tx) + g < 2 ^ 32" using assms(3,6) by (simp add: timing_ok_def)
  from write_wave [OF assms(1) this, of b ct] obtain es ct' f where w: "sw_write gap_t tx b ct = Some (es, ct')"
    "ticks (unat (bitTime rx)) g 9 (cycles ct) f" "\<forall>t. cycles ct \<le> t \<longrightarrow> t < f 1 \<longrightarrow> \<not> pin_level es t"
    "\<forall>i < 8. \<forall>t. f (Suc i) \<le> t \<longrightarrow> t < f (Suc (Suc i)) \<longrightarrow> pin_level es t = bit (line_byte tx b) i"
    "\<forall>t. f 9 \<le> t \<longrightarrow> pin_level es t" unfolding assms(3) by blast
  have "line_byte tx b = line_byte rx b" using assms(4) by (simp add: line_byte_def)
  then obtain cr' where "sw_rx_handler gap_r (pin_level es) rx cr = map_option (\<lambda>s. (s, cr')) (rx_store (line_byte rx b) rx)"
    using frame_sampled [OF assms(2,6,7) w(2), of "pin_level es" "line_byte rx b"] w(3-5) by auto
  moreover obtain rx' where "rx_store (line_byte rx b) rx = Some rx'" "sw_inv rx'"
    "sw_queue rx' = (if sw_count rx < buffSize rx - 1 then sw_queue rx @ [b] else sw_queue rx)"
    "overflow rx' = (overflow rx \<or> \<not> sw_count rx < buffSize rx - 1)" using put_queue [OF assms(5), of b] by blast
  ultimately show ?thesis using w(1) by simp
qed

text \<open>Two ports at 9600 baud on processors of 160 MHz, polls of 20 to 30 cycles, and a handler that starts 600 cycles after
  the edge.\<close>

definition sample_port :: SwSerial where
  "sample_port = rx_times 9600 \<lparr>rxPin = 4, txPin = 5, buffSize = 4, bitTime = 160000000 div 9600, rx_start_time = 0,
     rx_end_time = 0, invert = False, overflow = False, inPos = 2, outPos = 3, sw_buffer = [1, 2, 3, 4]\<rparr>"

lemma sample_port_ok: "sw_inv sample_port" "timing_ok 30 600 sample_port" "sw_queue (sample_port\<lparr>outPos := 0\<rparr>) = [1, 2]"
  by (simp_all add: sample_port_def rx_times_def sw_inv_def timing_ok_def sw_queue_def sw_count_def unat_div upt_rec)

theorem sw_ring_is_queue_witness:
  "\<exists>s'. run_ops sw_step [Get, Put 7, Put 8, Count, Get, Get, Get, Peek] (sample_port\<lparr>outPos := 0\<rparr>) =
     Some ([1, 3, 2, 7, 8, -1], s') \<and> sw_queue s' = []"
proof -
  have "sw_inv (sample_port\<lparr>outPos := 0\<rparr>)" "buffSize (sample_port\<lparr>outPos := 0\<rparr>) = 4"
    using sample_port_ok(1) by (simp_all add: sw_inv_def sample_port_def rx_times_def)
  then show ?thesis
    using sw_ring_is_queue [of "sample_port\<lparr>outPos := 0\<rparr>" "[Get, Put 7, Put 8, Count, Get, Get, Get, Peek]"]
    by (auto simp: sample_port_ok(3) simp del: run_ops.simps)
qed

theorem sw_byte_arrives_witness:
  "\<exists>es ct' rx' cr'. sw_write (\<lambda>k. 20 + k mod 10) sample_port 0x41 \<lparr>cycles = 4294960000, polls = 0\<rparr> = Some (es, ct') \<and>
     sw_rx_handler (\<lambda>k. 30) (pin_level es) (sample_port\<lparr>outPos := 0\<rparr>) \<lparr>cycles = 4294960600, polls = 0\<rparr> = Some (rx', cr') \<and>
     sw_queue rx' = [1, 2, 0x41]"
proof -
  have p: "\<forall>k. 1 \<le> 20 + k mod 10 \<and> 20 + k mod 10 \<le> (30 :: nat)" "\<forall>k :: nat. 1 \<le> (30 :: nat) \<and> (30 :: nat) \<le> 30"
    by (auto intro: order_trans [OF add_left_mono [OF less_imp_le [OF mod_less_divisor]]])
  have t: "timing_ok 30 600 (sample_port\<lparr>outPos := 0\<rparr>)" "sw_inv (sample_port\<lparr>outPos := 0\<rparr>)"
    "buffSize (sample_port\<lparr>outPos := 0\<rparr>) = 4" "invert sample_port = invert (sample_port\<lparr>outPos := 0\<rparr>)"
    "bitTime sample_port = bitTime (sample_port\<lparr>outPos := 0\<rparr>)"
    using sample_port_ok(1,2) by (simp_all add: timing_ok_def sw_inv_def sample_port_def rx_times_def)
  show ?thesis
    using sw_byte_arrives [OF p t(5,4,2,1), of "\<lparr>cycles = 4294960600, polls = 0\<rparr>" "\<lparr>cycles = 4294960000, polls = 0\<rparr>" "0x41"]
    by (auto simp: sample_port_ok(3) t(3))
qed

end
