(* ===== verification/Spec2Isabelle.thy ===== *)
theory Spec2Isabelle
  imports Firmware Modem_Compat Sent_Frames Proto_Index Protobuf_Buffer App_Modbus Sw_Serial
begin

text \<open>
  The firmware of a street-light gateway for the ESP32, in the directories \<^verbatim>\<open>main\<close> and
  \<^verbatim>\<open>components/modem\<close> of the repository. The device switches a lamp by two relays. A three-position
  switch (OFF, MANUAL, AUTO) selects who decides: nobody, the touch screen and the cloud, or a daily
  schedule between two alarms. Clock time comes from a DS3231 chip, SNTP or a GPS receiver; the
  alarms are kept in flash; the cloud is reached over WiFi or a cellular modem with a protocol of
  protocol-buffer messages in WebSocket frames.

  \<^bold>\<open>How the parts interact.\<close> Every component of \<^verbatim>\<open>main\<close> is a structure behind a static handle and
  one or more FreeRTOS tasks. \<^verbatim>\<open>app_main\<close> creates them one after the other and gives all of them the
  same function, \<^verbatim>\<open>event_callback\<close>, through which they reach each other: the switch task reports a
  mode, the schedule a trigger, the screen a touch, the cloud a request, and the function calls the
  other components, which may call it again. The components share no lock.

  \<^bold>\<open>Theories and sources.\<close>
  \<^item> \<open>Prelude\<close>, \<open>C_Lib\<close>, \<open>Platform\<close>: the shared types and event numbers
    (\<^verbatim>\<open>app_common.h\<close> and the headers of the components), C's 32-bit arithmetic, the string functions,
    \<^verbatim>\<open>sscanf\<close> and \<^verbatim>\<open>snprintf\<close> as used, and the environment: pins, serial ports, clocks, the I2C
    bus with the register file of the clock chip, the flash.
  \<^item> \<open>Ds3231\<close>: \<^verbatim>\<open>ds3231.c\<close>, \<^verbatim>\<open>i2cdev.c\<close>.
  \<^item> \<open>App_Storage\<close>, \<open>App_Controller\<close>, \<open>App_Network\<close>, \<open>App_Nextion\<close>, \<open>App_Schedule\<close>, \<open>App_Websocket\<close>,
    \<open>App_Ota\<close>, \<open>App_Gps\<close>: the file of \<^verbatim>\<open>main\<close> with that name. Each has its structure as a record,
    each function as a definition of the same name, and the body of each task's endless loop as a step
    function \<open>..._step\<close> (before the loop: \<open>..._start\<close>).
  \<^item> \<open>Protobuf\<close>, \<open>Device_Proto\<close>, \<open>User_Proto\<close>: the runtime \<^verbatim>\<open>protobuf-c.c\<close>, for the field types that
    occur, and the generated tables of all messages. \<open>Protobuf_Size\<close>, \<open>Protobuf_Roundtrip\<close>,
    \<open>Protobuf_Types\<close>: the size computed before packing, and the theorems on packing and unpacking; they hold for
    every valid table. \<open>Protobuf_Lookup\<close>, \<open>Proto_Index\<close>: the binary searches for a field or an enumeration value, and
    the generated tables they run on. \<open>Protobuf_Buffer\<close>: packing into a virtual buffer, and the growing buffer of the
    library. \<open>Sent_Frames\<close>: the messages of \<^verbatim>\<open>app_websocket.c\<close> in its transmit buffer.
  \<^item> \<open>App_Main\<close>: \<^verbatim>\<open>event_callback\<close> with its nested calls, and \<^verbatim>\<open>app_main\<close> part by part.
  \<^item> \<open>Modbus_Crc\<close>, \<open>Modbus_Rtu\<close>, \<open>Modbus_Master\<close>: the Modbus master of the SDK (\<^verbatim>\<open>freemodbus\<close>) as far as the
    energy meter uses it: check sum, framing and event loop, parameter table. \<open>App_Modbus\<close>:
    \<^verbatim>\<open>app_modbus.c\<close>, \<^verbatim>\<open>modbus_params.c\<close>; the component is started only when \<^verbatim>\<open>ENABLE_MODBUS\<close> is
    defined, so it is not part of the transition system.
  \<^item> \<open>Sw_Serial\<close>: \<^verbatim>\<open>sw_serial.h\<close>, a serial port made of two pins, which no file of the build includes.
  \<^item> \<open>Device_View\<close>, \<open>Task_Views\<close>: the abstraction \<open>view\<close> of the state, the specification
    \<open>spec_event\<close> of what an event does to it, the refinement, and what each task does to the view.
  \<^item> \<open>Firmware\<close>: all tasks and \<^verbatim>\<open>app_main\<close> as a transition system and its reachable states.
  \<^item> \<open>Modem_Lines\<close>, \<open>Modem_Dte\<close>, \<open>Modem_Dce\<close>: the modem driver (\<^verbatim>\<open>esp_modem.c\<close>,
    \<^verbatim>\<open>esp_modem_dce_service.c\<close>, \<^verbatim>\<open>bg96.c\<close>, \<^verbatim>\<open>sim800.c\<close>, \<^verbatim>\<open>sim7600.c\<close>); the modem objects live in
    an explicit store because the driver frees them and keeps pointers. \<open>Modem_Frame\<close> and
    \<open>Modem_Answers\<close>: what it guarantees. \<open>App_Pppos\<close>: \<^verbatim>\<open>app_pppos.c\<close> and
    \<^verbatim>\<open>esp_modem_netif.c\<close>. \<open>Modem_Session\<close>: a whole session with a modem. \<open>Modem_Compat\<close>:
    \<^verbatim>\<open>esp_modem_compat.c\<close>, the interface of earlier versions, which nothing calls. In the transition system
    of \<open>Firmware\<close> the cellular task appears through the IP and modem events its work causes, the only way
    it touches the other components.

  \<^bold>\<open>State.\<close> The state is one extensible record: every component adds its handle (\<open>None\<close>: the null pointer)
  and its task's variables. A function returns \<open>None\<close> where the code dereferences a null or freed pointer,
  leaves an array, fails an \<^verbatim>\<open>ESP_ERROR_CHECK\<close> or returns from a task function; error codes are values. Memory
  from \<^verbatim>\<open>malloc\<close> holds what the argument of the constructor says.

  \<^bold>\<open>What is left to the outside.\<close> Results of the SDK are oracles: functions from the number of the call, or from
  the name of the call site, to the result; events that arrive during a wait are a list. The number of
  polls of SNTP, of characters from the GPS receiver and of lines from the modem is therefore the length
  of an arbitrary list, and nothing is bounded by fuel except the recursion of \<^verbatim>\<open>event_callback\<close> through the
  components, where the depth three is proved to be enough. A step of a task is atomic: tasks interleave
  between the rounds of their loops, and \<^verbatim>\<open>app_main\<close> between its ten parts. \<open>tame\<close> and \<open>env_ok\<close> name
  what the invariants assume of the outside (flash that can be initialised, tasks that can be
  created, a clock chip that answers at the start, received messages with their optional parts, GPS text that can be
  parsed); each of them excludes a listed defect of the code. Tick counts are milliseconds.

  \<^bold>\<open>What the theorems show.\<close> Of the whole program: in every reachable state the relays show the recorded state and
  screen, schedule and controller agree with each other; no step crashes; the start-up completes; the switch, the
  schedule, the log-in and the order of the frames have the effect they should; \<^verbatim>\<open>event_callback\<close> refines its
  specification. Of the components: round trips (settings over a restart, clock registers, time messages of the
  screen, identity of the modem, all protocol-buffer messages), parsers that never read outside their buffer, waits that end, the functional
  behaviour of each task on its branches, and the modem driver: a change of mode settles, the result of a command is
  what the modem said, and a modem that answers is dialled; the energy meter's registers reach screen and cloud, and
  no damaged frame is taken for a value; the software serial port delivers each byte, and its ring buffer is a
  queue. Packing into the library's growing buffer gives the bytes of the plain packer and frees every block, and the
  same theory proves how it fails without memory. Four properties prove defects.

  \<^bold>\<open>Not modelled.\<close> The Modbus functions, modes and the slave that the energy meter does
  not use (arguments of the model); the services, labels and field types of \<^verbatim>\<open>protobuf-c.c\<close> that no
  message uses; ESP-IDF, FreeRTOS and lwIP (third party: oracles as above); timing other than the tick count.
\<close>

section \<open>A device to run\<close>

text \<open>Used by the witnesses: power-up with empty flash; allocated memory happens to hold zeros.\<close>

definition sample_env :: boot_env where
  "sample_env = \<lparr>be_mac = [0x24, 0x6F, 0x28, 0xA1, 0xB2, 0xC3], be_task = (\<lambda>_. True), be_storage = zero_data,
     be_network = \<lparr>is_using_wifi = False, net_is_connected = False, ppp_handle = None\<rparr>,
     be_ppp = \<lparr>ppp_run = False, ppp_is_connected = False\<rparr>, be_websocket = sample_socket, be_ota = sample_ota,
     be_nextion = sample_screen, be_schedule = sample_scheduler,
     be_gps = \<lparr>uartPort = 0, gps_tx_pin = 0, gps_rx_pin = 0, is_get_gps = False, last_get_tick_gps = 0,
               gps_callback = False, is_sync_rtc_gps = False\<rparr>,
     be_controller = sample_controller\<rparr>"

definition sample_power_up :: firmware where
  "sample_power_up = gps_world.extend (sample_device\<lparr>storage_handle := None, controller_handle := None,
       network_handle := None, nextion_handle := None, schedule_handle := None, websocket_handle := None,
       ota_handle := None, gps_handle := None\<rparr>)
     \<lparr>main_pc = 0, tasks = {}, gpio_vars = gpio_locals_init, read_buf = [], write_vars = None,
      schedule_ready = None\<rparr>"

lemmas sample_power_up_defs = sample_power_up_def gps_world.defs sample_device_defs

lemma sample_env_ok: "env_ok sample_env"
  by (simp add: env_ok_def sample_env_def sample_scheduler_def)

lemma sample_power_up_ok: "power_up sample_power_up"
  by (simp add: power_up_def sample_power_up_defs)

lemma sample_tame: "tame sample_env MainStep sample_power_up"
  by (simp add: app_storage_init_def nvs_defs sample_power_up_defs)

text \<open>The state after the ten parts of \<^verbatim>\<open>app_main\<close> have run on it.\<close>

lemma sample_before_last:
  "\<exists>w w1. main_run sample_env 9 sample_power_up = Some w \<and> main_pc w = 9 \<and> reachable sample_env w \<and>
     app_main_step sample_env w = Some w1 \<and> main_run sample_env 10 sample_power_up = Some w1"
proof -
  have r: "reachable sample_env sample_power_up" by (rule reach_init) (rule sample_power_up_ok)
  have pc: "main_pc sample_power_up = 0" "\<not> restarted sample_power_up"
    using sample_power_up_ok by (simp_all add: power_up_def)
  note run = main_run_ok [OF reachable_inv [OF r sample_env_ok] sample_tame sample_env_ok]
  obtain w1 where w1: "main_run sample_env 10 sample_power_up = Some w1" using run [of 10] pc by auto
  obtain w where w: "main_run sample_env 9 sample_power_up = Some w" "main_pc w = 9" using run [of 9] pc by auto
  then have "app_main_step sample_env w = Some w1" using w1 main_run_snoc [of sample_env 9] by simp
  moreover have "reachable sample_env w"
    using main_run_reachable [OF r pc(2) sample_tame sample_env_ok _ w(1)] pc(1) by simp
  ultimately show ?thesis using w w1 by blast
qed

lemma sample_booted:
  "\<exists>w. main_run sample_env 10 sample_power_up = Some w \<and> reachable sample_env w \<and> \<not> restarted w \<and>
     gl_mode (gpio_vars w) = APP_CONTROLLER_INPUT_MODE_OFF \<and> (\<forall>k. rb_res w k) \<and>
     GpioTask \<in> tasks w \<and> controller_handle w = Some (first_controller sample_env)"
proof -
  have r: "reachable sample_env sample_power_up" by (rule reach_init) (rule sample_power_up_ok)
  have pc: "main_pc sample_power_up = 0" "\<not> restarted sample_power_up"
    using sample_power_up_ok by (simp_all add: power_up_def)
  obtain w9 w where w: "main_pc w9 = 9" "app_main_step sample_env w9 = Some w"
    "main_run sample_env 10 sample_power_up = Some w" using sample_before_last by auto
  have "reachable sample_env w \<and> \<not> restarted w \<and> gpio_vars w = gpio_vars sample_power_up \<and>
      rb_res w = rb_res sample_power_up"
    using main_run_reachable [OF r pc(2) sample_tame sample_env_ok _ w(3)] pc(1) by simp
  moreover have "gl_mode (gpio_vars sample_power_up) = APP_CONTROLLER_INPUT_MODE_OFF" "rb_res sample_power_up k" for k
    by (simp_all add: sample_power_up_defs gpio_locals_init_def)
  moreover have "be_task sample_env GpioTask" by (simp add: sample_env_def)
  ultimately show ?thesis using w(3) last_part [OF w(1,2)] by auto
qed

section \<open>Properties of the whole device\<close>

text \<open>C1. The lamp is what every part says it is. In every state some run leads to, once the controller
  exists, both relay outputs show the recorded relay state, the cloud connection would report that
  state, and screen, schedule and cloud connection agree on the mode.\<close>

theorem device_consistent:
  assumes "reachable env w" "env_ok env" "controller_handle w = Some c"
  shows "\<exists>h n s. websocket_handle w = Some h \<and> nextion_handle w = Some n \<and> schedule_handle w = Some s \<and>
    relay_state c \<in> {0, 1} \<and> gpio_out w 25 = relay_state c \<and> gpio_out w 26 = relay_state c \<and>
    power_state h = (relay_state c = 1) \<and> ws_mode h = mode_number (nx_mode n) \<and>
    sch_mode s = operator_of_mode (nx_mode n)"
  using inv_controller [OF reachable_inv [OF assms(1,2)] assms(3)] .

theorem device_consistent_witness:
  "\<exists>w h. main_run sample_env 10 sample_power_up = Some w \<and> websocket_handle w = Some h \<and>
     power_state h = (relay_state (first_controller sample_env) = 1)"
proof -
  obtain w where w: "main_run sample_env 10 sample_power_up = Some w" "reachable sample_env w"
    "controller_handle w = Some (first_controller sample_env)" using sample_booted by auto
  show ?thesis using w(1) device_consistent [OF w(2) sample_env_ok w(3)] by auto
qed





text \<open>C5. The switch takes effect. When the polling task finds the switch at another position than at
  its last look, then after this round controller, screen, schedule and cloud connection have the
  mode of the position, and at position OFF both relays are off and the cloud connection would
  report the lamp off.\<close>

theorem switch_takes_effect:
  assumes "reachable env w" "env_ok env" "GpioTask \<in> tasks w" "controller_handle w = Some c"
    and "switch_position c w = m" "m \<noteq> gl_mode (gpio_vars w)"
  shows "\<exists>w' c' h n s. execute env GpioStep w = Some w' \<and> controller_handle w' = Some c' \<and>
    websocket_handle w' = Some h \<and> nextion_handle w' = Some n \<and> schedule_handle w' = Some s \<and>
    ctl_mode c' = m \<and> nx_mode n = m \<and> sch_mode s = operator_of_mode m \<and> ws_mode h = mode_number m \<and>
    (m = APP_CONTROLLER_INPUT_MODE_OFF \<longrightarrow> gpio_out w' 25 = 0 \<and> gpio_out w' 26 = 0 \<and> \<not> power_state h)"
proof -
  obtain w' c' where w': "gpio_task w = Some w'" "fw_inv w'" "controller_handle w' = Some c'"
    "ctl_mode c' = m" "mode_of (view w') = m"
    "relay_state c' = (if m = APP_CONTROLLER_INPUT_MODE_OFF then 0 else relay_state c)"
    using gpio_task_moved [OF reachable_inv [OF assms(1,2)] assms(3-6)] by auto
  obtain h n s where "websocket_handle w' = Some h" "nextion_handle w' = Some n" "schedule_handle w' = Some s"
    "gpio_out w' 25 = relay_state c'" "gpio_out w' 26 = relay_state c'"
    "power_state h = (relay_state c' = 1)" "ws_mode h = mode_number (nx_mode n)"
    "sch_mode s = operator_of_mode (nx_mode n)"
    using inv_controller [OF w'(2,3)] by auto
  moreover from this have "nx_mode n = m" using w'(5) by (simp add: mode_of_def view_def nx_view_def)
  ultimately show ?thesis using w' by simp
qed

theorem switch_takes_effect_witness:
  "\<exists>w w' n. main_run sample_env 10 sample_power_up = Some w \<and>
     execute sample_env GpioStep (w\<lparr>gpio_in := (\<lambda>_. 1)(19 := 0)\<rparr>) = Some w' \<and>
     nextion_handle w' = Some n \<and> nx_mode n = APP_CONTROLLER_INPUT_MODE_AUTO"
proof -
  obtain w where w: "main_run sample_env 10 sample_power_up = Some w" "reachable sample_env w" "\<not> restarted w"
    "GpioTask \<in> tasks w" "controller_handle w = Some (first_controller sample_env)"
    "gl_mode (gpio_vars w) = APP_CONTROLLER_INPUT_MODE_OFF" using sample_booted by auto
  let ?w = "w\<lparr>gpio_in := (\<lambda>_. 1)(19 := 0)\<rparr>"
  have "reachable sample_env ?w"
    by (rule reach_step [OF w(2,3), of "Inputs ((\<lambda>_. 1)(19 := 0))"]) simp_all
  moreover have "switch_position (first_controller sample_env) ?w = APP_CONTROLLER_INPUT_MODE_AUTO"
    by (simp add: switch_position_def first_controller_def decode_switch_def)
  ultimately show ?thesis
    using switch_takes_effect [of sample_env ?w "first_controller sample_env" APP_CONTROLLER_INPUT_MODE_AUTO]
      sample_env_ok w by auto
qed


text \<open>C9. Remote control is refused at the switch's position OFF only once the switch has left it:
  \<^verbatim>\<open>app_controller_init\<close> does not set the mode of its block, and the polling task
  writes it only when the position changes. A device powered up with the switch at OFF and a block
  that happens to hold another mode switches the lamp on when the cloud asks for it.\<close>

theorem remote_control_before_first_switch:
  assumes "reachable env w" "env_ok env" "main_pc w = 9" "app_main_step env w = Some w1"
    and "ctl_mode (be_controller env) \<noteq> APP_CONTROLLER_INPUT_MODE_OFF"
  shows "switch_position (first_controller env) (w1\<lparr>gpio_in := \<lambda>_. 1\<rparr>) = APP_CONTROLLER_INPUT_MODE_OFF \<and>
    (\<exists>w2. event_callback (w1\<lparr>gpio_in := \<lambda>_. 1\<rparr>)
        \<lparr>ev_id = WEBSOCKET_ON_CONTROL, ev_data = Some (CbBool True), ev_len = sizeof_bool\<rparr> = Some w2 \<and>
      gpio_out w2 25 = 1 \<and> gpio_out w2 26 = 1)"
proof -
  let ?e = "\<lparr>ev_id = WEBSOCKET_ON_CONTROL, ev_data = Some (CbBool True), ev_len = sizeof_bool\<rparr>"
  let ?w = "w1\<lparr>gpio_in := \<lambda>_. 1\<rparr>"
  have "fw_inv w1"
    using main_step_next [OF reachable_inv [OF assms(1,2)] _ assms(2)] assms(3,4) by auto
  then have i: "handles_ok (view ?w)" by (simp add: inv_handles_ok)
  have c: "controller_handle w1 = Some (first_controller env)" using last_part [OF assms(3,4)] by simp
  then have nx: "v_nx (view ?w) \<noteq> None" using i by (simp add: handles_ok_def ctl_of_view)
  have "event_ok ?e" by (simp add: event_ok_def)
  with i nx obtain w2 where w2: "event_callback ?w ?e = Some w2" "view w2 = spec_event ?e (view ?w)"
    using event_total by blast
  have "v_relays (spec_event ?e (view ?w)) = (1, 1)"
    using c assms(5)
    by (simp add: spec_event_def spec_remote_def spec_relay_def spec_mode_def spec_power_def ctl_of_view
        first_controller_def Let_def)
  then have "gpio_out w2 25 = 1 \<and> gpio_out w2 26 = 1" using w2(2) by (metis fst_conv snd_conv view_relays)
  moreover have "switch_position (first_controller env) ?w = APP_CONTROLLER_INPUT_MODE_OFF"
    by (simp add: switch_position_def decode_switch_def)
  ultimately show ?thesis using w2(1) by blast
qed


theorem remote_control_before_first_switch_witness:
  "\<exists>w1 w2. main_run sample_env 10 sample_power_up = Some w1 \<and>
     event_callback (w1\<lparr>gpio_in := \<lambda>_. 1\<rparr>)
       \<lparr>ev_id = WEBSOCKET_ON_CONTROL, ev_data = Some (CbBool True), ev_len = sizeof_bool\<rparr> = Some w2 \<and>
     gpio_out w2 25 = 1"
proof -
  obtain w w1 where w: "main_run sample_env 9 sample_power_up = Some w" "main_pc w = 9" "reachable sample_env w"
    "app_main_step sample_env w = Some w1" "main_run sample_env 10 sample_power_up = Some w1"
    using sample_before_last by auto
  have "ctl_mode (be_controller sample_env) \<noteq> APP_CONTROLLER_INPUT_MODE_OFF"
    by (simp add: sample_env_def sample_controller_def)
  from remote_control_before_first_switch [OF w(3) sample_env_ok w(2,4) this] w(5) show ?thesis by auto
qed

text \<open>C4. In mode AUTO the lamp follows the schedule. With a synchronised clock and two valid alarms, one
  round of the schedule task leaves the lamp on exactly when the current minute lies in the interval from
  the start alarm to the end alarm, around midnight too; and the device restarts exactly in the three seconds of the nightly restart.\<close>

theorem auto_lamp_follows_schedule:
  fixes w :: "'a gps_world_scheme"
  assumes "schedule_handle w = Some h" "is_sync h" "\<not> is_force_sync h" "sch_callback h"
    and "sch_mode h = OPERATOR_MODE_AUTO" "job_valid (sch_start h)" "job_valid (sch_end h)"
    and "controller_handle w \<noteq> None" "relays_follow w"
    and "2021 - 1900 \<le> tm_year (localtime (utc_offset w) (sys_time w))"
  defines "t \<equiv> localtime (utc_offset w) (sys_time w)"
  defines "now \<equiv> tm_hour t * 60 + tm_min t"
  shows "\<exists>w'. schedule_task_step event_callback sntp junk w = Some w' \<and>
    (lamp_on w' \<longleftrightarrow> (now - job_minute (sch_start h)) mod 1440
        \<le> (job_minute (sch_end h) - job_minute (sch_start h)) mod 1440) \<and>
    (restarted w' \<longleftrightarrow> restarted w \<or> in_restart_window now (tm_sec t))"
proof -
  have "schedule_active h" using assms(4-7) by (simp add: schedule_active_def job_valid_def)
  from sch.apply_active [OF this assms(8,9), of t] obtain w' where w': "schedule_apply event_callback t h w = Some w'"
    "lamp_on w' \<longleftrightarrow> wanted h t = SCHEDULE_TYPE_ACTIVE_START"
    "restarted w' \<longleftrightarrow> restarted w \<or> in_restart_window now (tm_sec t)"
    by (auto simp: now_def)
  have "schedule_task_step event_callback sntp junk w = Some w'"
    using w'(1) assms(1-3,10) by (simp add: schedule_task_step_def sync_time_def t_def)
  moreover have "tm_time_valid t" unfolding t_def by (rule localtime_clock_valid)
  then have "0 \<le> now" "now < 1440" by (simp_all add: tm_time_valid_def now_def)
  note d = decision_cyclic [OF job_minutes_of(2,3) [OF assms(6)] job_minutes_of(2,3) [OF assms(7)] this]
  then have "wanted h t = SCHEDULE_TYPE_ACTIVE_START \<longleftrightarrow> (now - job_minute (sch_start h)) mod 1440
        \<le> (job_minute (sch_end h) - job_minute (sch_start h)) mod 1440"
    using job_minutes_of(1) [OF assms(6)] job_minutes_of(1) [OF assms(7)] by (simp add: wanted_def flip: now_def)
  ultimately show ?thesis using w'(2,3) by auto
qed

definition evening_job :: app_schedule_job_t where
  "evening_job = sample_job\<lparr>job_start_hour := 18, job_enable := True\<rparr>"

definition morning_job :: app_schedule_job_t where
  "morning_job = sample_job\<lparr>job_start_hour := 5, job_start_minute := 30, job_enable := True\<rparr>"

definition auto_scheduler :: app_schedule_t where
  "auto_scheduler = sample_scheduler\<lparr>is_sync := True, is_force_sync := False, sch_mode := OPERATOR_MODE_AUTO,
     sch_start := evening_job, sch_end := morning_job\<rparr>"

definition auto_device :: gps_world where
  "auto_device = sample_device\<lparr>schedule_handle := Some auto_scheduler, utc_offset := 25200, sys_time := 1700000000\<rparr>"

lemma auto_device_clock:
  "schedule_handle auto_device = Some auto_scheduler" "controller_handle auto_device = Some sample_controller"
  "localtime (utc_offset auto_device) (sys_time auto_device) =
     \<lparr>tm_sec = 20, tm_min = 13, tm_hour = 5, tm_mday = 15, tm_mon = 10, tm_year = 123, tm_wday = 3, tm_isdst = 0\<rparr>"
proof -
  show "schedule_handle auto_device = Some auto_scheduler" "controller_handle auto_device = Some sample_controller"
    by (simp_all add: auto_device_def sample_device_def)
  have "localtime 25200 1700000000 =
     \<lparr>tm_sec = 20, tm_min = 13, tm_hour = 5, tm_mday = 15, tm_mon = 10, tm_year = 123, tm_wday = 3, tm_isdst = 0\<rparr>"
    by code_simp
  then show "localtime (utc_offset auto_device) (sys_time auto_device) =
     \<lparr>tm_sec = 20, tm_min = 13, tm_hour = 5, tm_mday = 15, tm_mon = 10, tm_year = 123, tm_wday = 3, tm_isdst = 0\<rparr>"
    by (simp add: auto_device_def)
qed

lemma auto_device_relays: "relays_follow auto_device"
  by (simp add: auto_device_def relays_follow_def sample_device_defs sample_controller_def)

theorem auto_lamp_follows_schedule_witness:
  "\<exists>w'. schedule_task_step event_callback (\<lambda>_. None) sample_tm auto_device = Some w' \<and> lamp_on w'"
  using auto_lamp_follows_schedule [OF auto_device_clock(1), of "\<lambda>_. None" sample_tm] auto_device_relays
  by (auto simp: auto_device_clock auto_scheduler_def sample_scheduler_def evening_job_def morning_job_def
      sample_job_def job_valid_def job_minute_def)

text \<open>C8. After a successful login the cloud learns the state of the device: three messages are queued, in this
  order, with the power state the relay outputs really have, the mode the screen shows and the
  active time, all under the identity the cloud assigned.\<close>

theorem login_reports_device:
  assumes "reachable env w" "env_ok env" "controller_handle w = Some c" "status_code resp = Some 0"
    and "\<And>k. rb_res w k"
  shows "\<exists>w' h n. process_login event_callback resp w = Some w' \<and> websocket_handle w = Some h \<and>
    nextion_handle w = Some n \<and>
    websocket_handle w' = Some (h\<lparr>is_logged := True, tx_rb := tx_rb h @ map main_message__pack
      [power_state_message (device_id h) (gpio_out w 25 = 1), mode_message (device_id h) (mode_number (nx_mode n)),
       active_time_message (device_id h) (ws_active_time h)]\<rparr>)"
proof -
  have i: "fw_inv w" by (rule reachable_inv [OF assms(1,2)])
  obtain h n where h: "websocket_handle w = Some h" "nextion_handle w = Some n" "gpio_out w 25 = relay_state c"
    "power_state h = (relay_state c = 1)" "ws_mode h = mode_number (nx_mode n)"
    using inv_controller [OF i assms(3)] by auto
  have "ws_callback h" using i h(1) by (simp add: fw_inv_def dev_inv_def view_def ws_view_def)
  from login_queue [OF h(1) this assms(4,5)] show ?thesis using h by auto
qed

theorem login_reports_device_witness:
  "\<exists>w w' h. main_run sample_env 10 sample_power_up = Some w \<and>
     process_login event_callback [(1000, PMsg [(2, P32 0)])] w = Some w' \<and>
     websocket_handle w' = Some h \<and> is_logged h"
proof -
  obtain w where w: "main_run sample_env 10 sample_power_up = Some w" "reachable sample_env w"
    "controller_handle w = Some (first_controller sample_env)" "\<And>k. rb_res w k" using sample_booted by auto
  have "status_code [(1000, PMsg [(2, P32 0)])] = Some 0" by code_simp
  from login_reports_device [OF w(2) sample_env_ok w(3) this w(4)] w(1) show ?thesis by auto
qed


definition busy_socket :: app_websocket_t where
  "busy_socket = sample_socket\<lparr>tx_rb := [[1, 2], [3]]\<rparr>"


end
